(* ===== verification/Prelude.thy ===== *)
theory Prelude
  imports Complex_Main "HOL-Library.Multiset"
begin

text \<open>
  Shared vocabulary of the development: the result type of code that can throw, the theorem
  collections the components extend, and the list, option and map facts that more than one
  component uses.  A thrown JavaScript \<open>Error\<close> is the left summand of
  \<open>'e + 'a\<close>, a normal return the right one; \<open>null\<close> and \<open>undefined\<close> are
  \<open>None\<close>.
\<close>

named_theorems score_defs \<open>definitions unfolded when a score is computed\<close>
named_theorems score_bounds \<open>facts that keep a score inside its range\<close>
named_theorems frame_facts \<open>fields that an operation leaves alone\<close>

type_synonym ('e, 'a) result = "'e + 'a"

definition nullish :: "'a option \<Rightarrow> 'a \<Rightarrow> 'a" where
  \<comment> \<open>the operator \<open>x ?? d\<close>\<close>
  "nullish x d = (case x of None \<Rightarrow> d | Some v \<Rightarrow> v)"

lemma nullish_simps [simp]: "nullish None d = d" "nullish (Some v) d = v"
  by (simp_all add: nullish_def)

definition bindR :: "('e, 'a) result \<Rightarrow> ('a \<Rightarrow> ('e, 'b) result) \<Rightarrow> ('e, 'b) result" where
  "bindR r f = (case r of Inl e \<Rightarrow> Inl e | Inr a \<Rightarrow> f a)"

lemma bindR_simps [simp]: "bindR (Inl e) f = Inl e" "bindR (Inr a) f = f a"
  by (simp_all add: bindR_def)

lemma bindR_Inr_iff: "bindR r f = Inr b \<longleftrightarrow> (\<exists>a. r = Inr a \<and> f a = Inr b)"
  by (cases r) auto

fun upsert :: "'k \<Rightarrow> ('v option \<Rightarrow> 'v) \<Rightarrow> ('k \<times> 'v) list \<Rightarrow> ('k \<times> 'v) list" where
  \<comment> \<open>\<open>m.set(k, f(m.get(k)))\<close> on a \<open>Map\<close>, which keeps insertion order\<close>
  "upsert k f [] = [(k, f None)]"
| "upsert k f ((k', v) # m) = (if k' = k then (k', f (Some v)) # m else (k', v) # upsert k f m)"

lemma upsert_keys: "map fst (upsert k f m) = (if k \<in> set (map fst m) then map fst m else map fst m @ [k])"
proof (induction m)
  case (Cons p m)
  then show ?case by (cases p) (simp del: set_map)
qed simp

text \<open>\<open>xs.slice(-n)\<close> for a positive \<open>n\<close>: the last \<open>n\<close> elements, or all of them.\<close>

definition lastn :: "nat \<Rightarrow> 'a list \<Rightarrow> 'a list" where
  "lastn n xs = drop (length xs - n) xs"

lemma length_lastn [simp]: "length (lastn n xs) = min n (length xs)"
  by (simp add: lastn_def)

lemma set_lastn: "set (lastn n xs) \<subseteq> set xs"
  by (simp add: lastn_def set_drop_subset)

text \<open>
  A stable sort by a key is what \<open>Array.prototype.sort\<close> computes for a comparator that
  subtracts keys; \<open>sort_key\<close> of the library is that sort.  These are the facts used of it.
\<close>

lemma sort_key_append_ge:
  "(\<And>x. x \<in> set xs \<Longrightarrow> f x \<le> f y) \<Longrightarrow> sort_key f (xs @ [y]) = sort_key f xs @ [y]"
proof (induction xs)
  case Nil
  then show ?case by simp
next
  case (Cons a xs)
  have ih: "sort_key f (xs @ [y]) = sort_key f xs @ [y]"
    by (rule Cons.IH) (simp add: Cons.prems)
  have "insort_key f a (zs @ [y]) = insort_key f a zs @ [y]" for zs
    using Cons.prems[of a] by (induction zs) auto
  then show ?case by (simp add: ih)
qed

lemma foldl_mono_add:
  fixes g h :: "'a \<Rightarrow> rat"
  assumes "\<And>x y. x \<le> y \<Longrightarrow> r x \<le> (r y :: rat)"
    and "\<And>x. x \<in> set xs \<Longrightarrow> g x \<le> h x" and "a \<le> b"
  shows "foldl (\<lambda>s x. r (s + g x)) a xs \<le> foldl (\<lambda>s x. r (s + h x)) b xs"
  using assms(2,3)
proof (induction xs arbitrary: a b)
  case Nil
  then show ?case by simp
next
  case (Cons x xs)
  have "r (a + g x) \<le> r (b + h x)"
    by (rule assms(1)) (use Cons.prems in \<open>simp add: add_mono\<close>)
  then show ?case using Cons by simp
qed

subsection \<open>Runs of a fallible step, and simulations between them\<close>

fun runR :: "('op \<Rightarrow> 's \<Rightarrow> ('e, 's) result) \<Rightarrow> 'op list \<Rightarrow> 's \<Rightarrow> ('e, 's) result" where
  "runR step [] s = Inr s"
| "runR step (t # ts) s = bindR (step t s) (runR step ts)"

text \<open>
  A concrete step implements an abstract one on the operations that are allowed: it keeps its
  invariant, throws exactly the abstract errors and otherwise ends in a state of the abstract
  result.  Whole runs then agree.
\<close>

locale simulation =
  fixes cstep :: "'op \<Rightarrow> 'c \<Rightarrow> ('e, 'c) result"
    and astep :: "'op \<Rightarrow> 'a \<Rightarrow> ('e, 'a) result"
    and abs :: "'c \<Rightarrow> 'a"
    and inv :: "'c \<Rightarrow> bool"
    and allowed :: "'op \<Rightarrow> bool"
  assumes step: "allowed t \<Longrightarrow> inv c \<Longrightarrow>
    (case cstep t c of Inl e \<Rightarrow> astep t (abs c) = Inl e | Inr c' \<Rightarrow> inv c' \<and> astep t (abs c) = Inr (abs c'))"
begin

lemma run:
  "(\<And>t. t \<in> set ts \<Longrightarrow> allowed t) \<Longrightarrow> inv c \<Longrightarrow>
   (case runR cstep ts c of Inl e \<Rightarrow> runR astep ts (abs c) = Inl e
    | Inr c' \<Rightarrow> inv c' \<and> runR astep ts (abs c) = Inr (abs c'))"
proof (induction ts arbitrary: c)
  case (Cons t ts)
  have s: "case cstep t c of Inl e \<Rightarrow> astep t (abs c) = Inl e | Inr c' \<Rightarrow> inv c' \<and> astep t (abs c) = Inr (abs c')"
    using Cons.prems by (intro step) auto
  then show ?case
  proof (cases "cstep t c")
    case (Inr c')
    have c': "inv c'" "astep t (abs c) = Inr (abs c')" using s Inr by simp_all
    have "case runR cstep ts c' of Inl e \<Rightarrow> runR astep ts (abs c') = Inl e
      | Inr d \<Rightarrow> inv d \<and> runR astep ts (abs c') = Inr (abs d)"
      by (rule Cons.IH) (use Cons.prems c' in auto)
    then show ?thesis using Inr c' by (simp split: sum.splits)
  next
    case (Inl e)
    then show ?thesis using s by (simp split: sum.splits)
  qed
qed simp

lemma run_eq:
  assumes ok: "\<And>t. t \<in> set ts \<Longrightarrow> allowed t" and c: "inv c"
  shows "bindR (runR cstep ts c) (\<lambda>c'. Inr (abs c')) = runR astep ts (abs c)"
proof -
  have "case runR cstep ts c of Inl e \<Rightarrow> runR astep ts (abs c) = Inl e
    | Inr c' \<Rightarrow> inv c' \<and> runR astep ts (abs c) = Inr (abs c')"
    by (rule run) (auto intro: ok c)
  then show ?thesis by (auto split: sum.splits)
qed

lemma run_inv:
  assumes ok: "\<And>t. t \<in> set ts \<Longrightarrow> allowed t" and c: "inv c" and r: "runR cstep ts c = Inr c'"
  shows "inv c'"
proof -
  have "case runR cstep ts c of Inl e \<Rightarrow> runR astep ts (abs c) = Inl e
    | Inr c' \<Rightarrow> inv c' \<and> runR astep ts (abs c) = Inr (abs c')"
    by (rule run) (auto intro: ok c)
  then show ?thesis using r by simp
qed

end

end
