(* ===== verification/Numbers.thy ===== *)
theory Numbers
  imports Prelude
begin

text \<open>
  JavaScript's \<open>number\<close>.  A finite number of the program is a rational; an arithmetic
  operation computes the exact result and rounds it to 53 significant bits, ties to even
  (\<open>f64\<close>).  The exponent range is unbounded: overflow to infinity and the subnormal range
  are not modelled, and code that tests for \<open>NaN\<close> or infinity gets its own constructor where
  it is modelled.  Every arithmetic definition of the development takes the rounding as its
  first argument \<open>R\<close>: at \<open>R = f64\<close> it is the code, and at \<open>R = (\<lambda>x. x)\<close> the
  exact arithmetic the code approximates.  The locale \<open>rounding\<close> states what the proofs use
  of a rounding, and both are interpretations of it.
\<close>

type_synonym num = rat

subsection \<open>Rounding to an integer\<close>

definition rne :: "rat \<Rightarrow> int" where
  \<comment> \<open>nearest integer, ties to even\<close>
  "rne z = (let f = \<lfloor>z\<rfloor>; d = z - of_int f
            in if d < 1/2 \<or> (d = 1/2 \<and> even f) then f else f + 1)"

lemma rne_of_int [simp]: "rne (of_int n) = n"
  by (simp add: rne_def)

lemma rne_bounds: "\<lfloor>z\<rfloor> \<le> rne z \<and> rne z \<le> \<lfloor>z\<rfloor> + 1"
  by (simp add: rne_def Let_def)

lemma rne_mono: assumes "x \<le> y" shows "rne x \<le> rne y"
proof (cases "\<lfloor>x\<rfloor> = \<lfloor>y\<rfloor>")
  case True
  then show ?thesis using assms by (auto simp: rne_def Let_def)
next
  case False
  with assms have "\<lfloor>x\<rfloor> + 1 \<le> \<lfloor>y\<rfloor>" using floor_mono[OF assms] by linarith
  then show ?thesis using rne_bounds[of x] rne_bounds[of y] by linarith
qed

lemma rne_uminus: "rne (- z) = - rne z"
proof (cases "z = of_int \<lfloor>z\<rfloor>")
  case True
  then show ?thesis by (metis of_int_minus rne_of_int)
next
  case False
  then have "of_int \<lfloor>z\<rfloor> < z" using of_int_floor_le[of z] by linarith
  moreover have "z < of_int \<lfloor>z\<rfloor> + 1" by linarith
  ultimately have fl: "\<lfloor>- z\<rfloor> = - \<lfloor>z\<rfloor> - 1" by (intro floor_unique) auto
  define d where "d = z - of_int \<lfloor>z\<rfloor>"
  have d': "- z - of_int (- \<lfloor>z\<rfloor> - 1) = 1 - d" by (simp add: d_def)
  have "even (- \<lfloor>z\<rfloor> - 1) \<longleftrightarrow> odd \<lfloor>z\<rfloor>" by simp
  then show ?thesis
    unfolding rne_def Let_def fl d' d_def[symmetric] by auto
qed

subsection \<open>Binary exponent\<close>

fun blen :: "int \<Rightarrow> int" where
  \<comment> \<open>number of binary digits\<close>
  "blen n = (if n \<le> 0 then 0 else 1 + blen (n div 2))"

declare blen.simps [simp del]

lemma blen_bounds: "0 < n \<Longrightarrow> 2 ^ nat (blen n - 1) \<le> n \<and> n < 2 ^ nat (blen n) \<and> 0 < blen n"
proof (induction n rule: blen.induct)
  case (1 n)
  show ?case
  proof (cases "n div 2 \<le> 0")
    case True
    with "1.prems" have "n = 1" by arith
    then show ?thesis by (simp add: blen.simps)
  next
    case False
    with 1 have IH: "2 ^ nat (blen (n div 2) - 1) \<le> n div 2" "n div 2 < 2 ^ nat (blen (n div 2))"
      "0 < blen (n div 2)" by auto
    have b: "blen n = 1 + blen (n div 2)" using "1.prems" by (simp add: blen.simps[of n])
    from IH obtain k where k: "blen (n div 2) = 1 + int k" by (metis add.commute zless_iff_Suc_zadd of_nat_Suc add_0)
    have e: "nat (blen n - 1) = Suc k" "nat (blen n) = Suc (Suc k)" "nat (blen (n div 2) - 1) = k"
      "nat (blen (n div 2)) = Suc k" using b k by simp_all
    show ?thesis using IH b unfolding e by auto
  qed
qed

definition ilog2 :: "rat \<Rightarrow> int" where
  \<comment> \<open>the exponent of the leading binary digit of a positive rational\<close>
  "ilog2 x = (let pq = quotient_of x; k = blen (fst pq) - blen (snd pq)
              in if 2 powi k \<le> x then k else k - 1)"

lemma ilog2_bounds:
  assumes "0 < x" shows "2 powi ilog2 x \<le> x \<and> x < 2 powi (ilog2 x + 1)"
proof -
  obtain p q where pq: "quotient_of x = (p, q)" by force
  have q: "0 < q" using quotient_of_denom_pos[OF pq] .
  have x: "x = of_int p / of_int q" using quotient_of_div[OF pq] .
  with assms q have p: "0 < p" by (simp add: zero_less_divide_iff)
  define a b where "a = blen p" and "b = blen q"
  have ab: "2 ^ nat (a - 1) \<le> p" "p < 2 ^ nat a" "0 < a" "2 ^ nat (b - 1) \<le> q" "q < 2 ^ nat b" "0 < b"
    using blen_bounds[of p] blen_bounds[of q] p q by (auto simp: a_def b_def)
  have pw: "0 \<le> j \<Longrightarrow> (2::rat) powi j = of_int (2 ^ nat j)" for j by (simp add: power_int_def)
  have le: "0 \<le> j \<Longrightarrow> 2 ^ nat j \<le> m \<Longrightarrow> (2::rat) powi j \<le> of_int m" for j m
    by (simp only: pw of_int_le_iff)
  have less: "0 \<le> j \<Longrightarrow> m < 2 ^ nat j \<Longrightarrow> of_int m < (2::rat) powi j" for j m
    by (simp only: pw of_int_less_iff)
  have P: "2 powi (a - 1) \<le> (of_int p :: rat)" "(of_int p :: rat) < 2 powi a"
    using ab(1-3) by (auto intro: le less)
  have Q: "2 powi (b - 1) \<le> (of_int q :: rat)" "(of_int q :: rat) < 2 powi b"
    using ab(4-6) by (auto intro: le less)
  define k where "k = a - b"
  have up: "x < 2 powi (k + 1)"
  proof -
    have "x < 2 powi a / of_int q" using P(2) q by (simp add: x divide_strict_right_mono)
    also have "\<dots> \<le> 2 powi a / 2 powi (b - 1)"
      using Q(1) q by (intro divide_left_mono) (auto intro: mult_pos_pos zero_less_power_int)
    also have "\<dots> = 2 powi (k + 1)" by (simp add: k_def power_int_diff power_int_add)
    finally show ?thesis .
  qed
  have lo: "2 powi (k - 1) \<le> x"
  proof -
    have "(2::rat) powi (k - 1) = 2 powi (a - 1) / 2 powi b"
      by (simp add: k_def power_int_diff)
    also have "\<dots> \<le> of_int p / 2 powi b" using P(1) by (intro divide_right_mono) auto
    also have "\<dots> \<le> of_int p / of_int q"
      using Q(2) q p by (intro divide_left_mono) (auto intro: mult_pos_pos zero_less_power_int)
    finally show ?thesis by (simp add: x)
  qed
  have "ilog2 x = (if 2 powi k \<le> x then k else k - 1)"
    by (simp add: ilog2_def pq Let_def k_def a_def b_def)
  then show ?thesis using up lo by (auto simp: not_le)
qed

lemma ilog2_mono:
  assumes "0 < x" "x \<le> y" shows "ilog2 x \<le> ilog2 y"
proof (rule ccontr)
  assume "\<not> ?thesis"
  then have "ilog2 y + 1 \<le> ilog2 x" by simp
  then have "(2::rat) powi (ilog2 y + 1) \<le> 2 powi ilog2 x" by (intro power_int_increasing) auto
  with ilog2_bounds[of x] ilog2_bounds[of y] assms show False by fastforce
qed


subsection \<open>Rounding to binary64 precision\<close>

definition ulp64 :: "rat \<Rightarrow> int" where
  \<comment> \<open>exponent of the last of the 53 significant bits of a nonzero number\<close>
  "ulp64 x = ilog2 \<bar>x\<bar> - 52"

definition f64 :: "rat \<Rightarrow> rat" where
  "f64 x = (if x = 0 then 0 else of_int (rne (x / 2 powi ulp64 x)) * 2 powi ulp64 x)"

lemma f64_0 [simp]: "f64 0 = 0"
  by (simp add: f64_def)

lemma f64_uminus: "f64 (- x) = - f64 x"
  by (simp add: f64_def ulp64_def rne_uminus)

text \<open>
  For kernel evaluation the rounding is computed on the integers of the fraction; matching on the
  pair keeps it folded until the number is known.
\<close>

fun pow2 :: "int \<Rightarrow> int" where
  "pow2 k = (if k \<le> 0 then 1 else let h = pow2 (k div 2) in if even k then h * h else 2 * (h * h))"
declare pow2.simps [simp del]

lemma pow2_eq: "0 \<le> k \<Longrightarrow> pow2 k = 2 ^ nat k"
proof (induction k rule: pow2.induct)
  case (1 k)
  show ?case
  proof (cases "k = 0")
    case False
    with 1 have k: "0 < k" by simp
    define h where "h = nat (k div 2)"
    have IH: "pow2 (k div 2) = 2 ^ h" using 1 k by (simp add: h_def)
    show ?thesis
    proof (cases "even k")
      case True
      then have "nat k = h + h" using k by (auto simp: h_def nat_add_distrib[symmetric])
      then show ?thesis using True k by (simp add: pow2.simps[of k] IH Let_def power_add)
    next
      case False
      then have "k = 1 + (k div 2 + k div 2)" by presburger
      then have "nat k = Suc (h + h)" using k by (simp add: h_def)
      then show ?thesis using False k by (simp add: pow2.simps[of k] IH Let_def power_add)
    qed
  qed (simp add: pow2.simps)
qed

lemma pow2_powi: "0 \<le> k \<Longrightarrow> (2::rat) powi k = of_int (pow2 k)"
  by (simp add: pow2_eq power_int_def)

definition scale2 :: "int \<Rightarrow> int \<Rightarrow> int \<Rightarrow> int \<times> int" where
  "scale2 p q u = (if u \<ge> 0 then (p, q * pow2 u) else (p * pow2 (- u), q))"

lemma scale2: "of_int (fst (scale2 p q u)) / of_int (snd (scale2 p q u)) = (of_int p / of_int q) / (2 powi u :: rat)"
proof (cases "0 \<le> u")
  case False
  have "(2::rat) powi u = inverse (2 powi (- u))" by (simp add: power_int_minus)
  then show ?thesis using False pow2_powi[of "-u"] by (simp add: scale2_def field_simps)
qed (simp add: scale2_def pow2_powi)

lemma scale2_pos: "0 < q \<Longrightarrow> 0 < snd (scale2 p q u)"
  by (simp add: scale2_def pow2_eq)

definition ilog2_ii :: "int \<Rightarrow> int \<Rightarrow> int" where
  "ilog2_ii p q = (let k = blen p - blen q; st = scale2 p q k in if snd st \<le> fst st then k else k - 1)"

definition rne_ii :: "int \<times> int \<Rightarrow> int" where
  "rne_ii st = (let f = fst st div snd st; d = 2 * (fst st mod snd st) in if d < snd st \<or> (d = snd st \<and> even f) then f else f + 1)"

lemma rne_ii: "0 < snd st \<Longrightarrow> rne (of_int (fst st) / of_int (snd st)) = rne_ii st"
proof -
  assume p: "0 < snd st"
  define f where "f = fst st div snd st"
  have fl: "\<lfloor>of_int (fst st) / of_int (snd st) :: rat\<rfloor> = f" by (simp add: f_def floor_divide_of_int_eq)
  define m where "m = fst st mod snd st"
  have m: "fst st = f * snd st + m" by (simp add: f_def m_def)
  have d: "of_int (fst st) / of_int (snd st) - of_int f = (of_int m / of_int (snd st) :: rat)"
    using p by (simp add: m field_simps)
  have "of_int m / of_int (snd st) < (1/2 :: rat) \<longleftrightarrow> (of_int (2 * m) :: rat) < of_int (snd st)"
    using p by (simp add: field_simps)
  moreover have "of_int m / of_int (snd st) = (1/2 :: rat) \<longleftrightarrow> (of_int (2 * m) :: rat) = of_int (snd st)"
    using p by (auto simp: field_simps)
  ultimately show ?thesis
    unfolding rne_def Let_def fl d rne_ii_def f_def[symmetric] m_def[symmetric]
    by (simp only: of_int_less_iff of_int_eq_iff)
qed

definition f64_ii :: "int \<Rightarrow> int \<Rightarrow> rat" where
  "f64_ii p q = (let u = ilog2_ii p q - 52; m = rne_ii (scale2 p q u)
     in if u \<ge> 0 then of_int (m * pow2 u) else of_int m / of_int (pow2 (- u)))"

lemma f64_ii: assumes "0 < p" "0 < q" "x = of_int p / of_int q" "quotient_of x = (p, q)" shows "f64 x = f64_ii p q"
proof -
  have x: "0 < x" using assms by simp
  have il: "ilog2 x = ilog2_ii p q"
  proof -
    define k where "k = blen p - blen q"
    have "2 powi k \<le> x \<longleftrightarrow> 1 \<le> x / 2 powi k" by (simp add: pos_le_divide_eq)
    also have "\<dots> \<longleftrightarrow> (1::rat) \<le> of_int (fst (scale2 p q k)) / of_int (snd (scale2 p q k))"
      by (simp only: scale2 assms(3))
    also have "\<dots> \<longleftrightarrow> (of_int (snd (scale2 p q k)) :: rat) \<le> of_int (fst (scale2 p q k))"
      using scale2_pos[of q p k] assms by (simp add: pos_le_divide_eq)
    also have "\<dots> \<longleftrightarrow> snd (scale2 p q k) \<le> fst (scale2 p q k)" by (rule of_int_le_iff)
    finally show ?thesis by (simp add: ilog2_def ilog2_ii_def assms(4) Let_def k_def)
  qed
  define u where "u = ilog2_ii p q - 52"
  have u: "ulp64 x = u" using x by (simp add: ulp64_def il u_def)
  have r: "rne (x / 2 powi u) = rne_ii (scale2 p q u)"
    using rne_ii[OF scale2_pos[of q p u]] assms(2) by (simp only: scale2 assms(3))
  have "f64 x = of_int (rne_ii (scale2 p q u)) * 2 powi u" using x by (simp add: f64_def u r)
  also have "\<dots> = f64_ii p q"
  proof (cases "0 \<le> u")
    case False
    have "(2::rat) powi u = inverse (2 powi (- u))" by (simp add: power_int_minus)
    then show ?thesis using False pow2_powi[of "-u"] by (simp add: f64_ii_def Let_def u_def[symmetric] divide_inverse)
  qed (simp add: f64_ii_def Let_def u_def[symmetric] pow2_powi)
  finally show ?thesis .
qed

fun f64_pq :: "int \<times> int \<Rightarrow> rat" where
  "f64_pq (p, q) = (if p = 0 then 0 else if 0 < p then f64_ii p q else - f64_ii (- p) q)"

lemma f64_code [code]: "f64 x = f64_pq (quotient_of x)"
proof -
  obtain p q where pq: "quotient_of x = (p, q)" by force
  have x: "x = of_int p / of_int q" "0 < q"
    using pq quotient_of_div quotient_of_denom_pos by blast+
  consider "p = 0" | "0 < p" | "p < 0" by linarith
  then show ?thesis
  proof cases
    case 3
    then have "quotient_of (- x) = (- p, q)" by (simp add: rat_uminus_code pq)
    then have "f64 (- x) = f64_ii (- p) q" using 3 x by (intro f64_ii) auto
    then show ?thesis using 3 by (simp add: pq f64_uminus)
  qed (use x pq f64_ii[of p q x] in auto)
qed
lemma scaled_bounds:
  assumes "0 < x"
  shows "2 ^ 52 \<le> x / 2 powi ulp64 x \<and> x / 2 powi ulp64 x < 2 ^ 53"
proof -
  have e: "ulp64 x = ilog2 x - 52" using assms by (simp add: ulp64_def)
  have "(2::rat) powi ilog2 x = 2 ^ 52 * 2 powi ulp64 x"
    by (simp add: e power_int_diff)
  moreover have "(2::rat) powi (ilog2 x + 1) = 2 ^ 53 * 2 powi ulp64 x"
    by (simp add: e power_int_diff power_int_add)
  ultimately show ?thesis using ilog2_bounds[OF assms]
    by (simp add: pos_le_divide_eq pos_divide_less_eq)
qed

lemma rne_scaled_bounds:
  assumes "0 < x"
  shows "2 ^ 52 \<le> rne (x / 2 powi ulp64 x) \<and> rne (x / 2 powi ulp64 x) \<le> 2 ^ 53"
proof -
  have "rne (of_int (2 ^ 52)) \<le> rne (x / 2 powi ulp64 x)"
    by (rule rne_mono) (use scaled_bounds[OF assms] in simp)
  moreover have "rne (x / 2 powi ulp64 x) \<le> rne (of_int (2 ^ 53))"
    by (rule rne_mono) (use scaled_bounds[OF assms] in simp)
  ultimately show ?thesis by (simp only: rne_of_int)
qed

lemma f64_pos: "0 < x \<Longrightarrow> 0 < f64 x"
  using rne_scaled_bounds[of x] by (simp add: f64_def)

lemma f64_range:
  assumes "0 < x" shows "2 powi ilog2 x \<le> f64 x \<and> f64 x \<le> 2 powi (ilog2 x + 1)"
proof -
  have e: "ulp64 x = ilog2 x - 52" using assms by (simp add: ulp64_def)
  have l: "(2::rat) powi ilog2 x = of_int (2 ^ 52) * 2 powi ulp64 x"
    by (simp add: e power_int_diff)
  have u: "(2::rat) powi (ilog2 x + 1) = of_int (2 ^ 53) * 2 powi ulp64 x"
    by (simp add: e power_int_diff power_int_add)
  show ?thesis using assms rne_scaled_bounds[OF assms]
    unfolding l u f64_def by (auto intro!: mult_right_mono simp del: of_int_power simp: of_int_le_iff)
qed

lemma f64_mono_pos:
  assumes "0 < x" "x \<le> y" shows "f64 x \<le> f64 y"
proof (cases "ilog2 x = ilog2 y")
  case True
  then have e: "ulp64 x = ulp64 y" using assms by (simp add: ulp64_def)
  have "rne (x / 2 powi ulp64 y) \<le> rne (y / 2 powi ulp64 y)"
    by (rule rne_mono) (simp add: assms divide_right_mono)
  then show ?thesis using assms by (simp add: f64_def e mult_right_mono)
next
  case False
  with ilog2_mono[OF assms] have "ilog2 x + 1 \<le> ilog2 y" by simp
  then have "(2::rat) powi (ilog2 x + 1) \<le> 2 powi ilog2 y" by (intro power_int_increasing) auto
  with f64_range[of x] f64_range[of y] assms show ?thesis by fastforce
qed

lemma f64_mono: assumes "x \<le> y" shows "f64 x \<le> f64 y"
proof -
  consider "0 < x" | "x \<le> 0" "0 \<le> y" | "y < 0" using assms by linarith
  then show ?thesis
  proof cases
    case 1
    then show ?thesis using assms f64_mono_pos by simp
  next
    case 2
    then have "f64 x \<le> 0" using f64_pos[of "- x"] by (cases "x = 0") (auto simp: f64_uminus)
    moreover have "0 \<le> f64 y" using 2 f64_pos[of y] by (cases "y = 0") auto
    ultimately show ?thesis by simp
  next
    case 3
    then have "f64 (- y) \<le> f64 (- x)" using assms by (intro f64_mono_pos) auto
    then show ?thesis by (simp add: f64_uminus)
  qed
qed

lemma f64_fix_pos:
  assumes m: "0 < m" "m \<le> 2 ^ 53"
  shows "f64 (of_int m * 2 powi e) = of_int m * 2 powi e"
proof -
  define x where "x = (of_int m * 2 powi e :: rat)"
  have pos: "0 < x" using m by (simp add: x_def)
  have up: "x \<le> 2 powi (e + 53)"
  proof -
    have "(of_int m :: rat) \<le> of_int (2 ^ 53)" using m by (simp only: of_int_le_iff)
    then show ?thesis by (simp add: x_def power_int_add mult_right_mono mult.commute)
  qed
  have "(2::rat) powi ilog2 x \<le> 2 powi (e + 53)" using up ilog2_bounds[OF pos] by linarith
  then have l: "ilog2 x \<le> e + 53"
    using power_int_strict_increasing[of "e + 53" "ilog2 x" "2::rat"] by (meson not_le one_less_numeral_iff semiring_norm(76))
  have int: "\<exists>n. x / 2 powi ulp64 x = of_int n"
  proof (cases "ilog2 x \<le> e + 52")
    case True
    then have "ulp64 x \<le> e" using pos by (simp add: ulp64_def)
    define u where "u = ulp64 x"
    have "(2::rat) powi e / 2 powi u = 2 ^ nat (e - u)"
    proof -
      have "(2::rat) powi e / 2 powi u = 2 powi (e - u)" by (simp add: power_int_diff)
      also have "\<dots> = 2 ^ nat (e - u)" using \<open>ulp64 x \<le> e\<close> by (simp add: u_def power_int_def)
      finally show ?thesis .
    qed
    then have "x / 2 powi u = of_int (m * 2 ^ nat (e - u))"
      unfolding x_def by (metis of_int_mult of_int_numeral of_int_power times_divide_eq_right)
    then have "x / 2 powi ulp64 x = of_int (m * 2 ^ nat (e - u))" by (simp add: u_def)
    then show ?thesis by blast
  next
    case False
    with l have i: "ilog2 x = e + 53" by simp
    with up ilog2_bounds[OF pos] have "x = 2 powi (e + 53)" by simp
    then have "x / 2 powi ulp64 x = of_int (2 ^ 52)"
      using i pos by (simp add: ulp64_def power_int_diff[symmetric])
    then show ?thesis by blast
  qed
  then obtain n where n: "x / 2 powi ulp64 x = of_int n" by blast
  then have "f64 x = of_int n * 2 powi ulp64 x" using pos by (simp add: f64_def)
  also have "\<dots> = x" by (simp flip: n)
  finally show ?thesis by (simp add: x_def)
qed

lemma f64_fix:
  assumes "\<bar>m\<bar> \<le> 2 ^ 53" shows "f64 (of_int m * 2 powi e) = of_int m * 2 powi e"
proof -
  consider "m = 0" | "0 < m" | "0 < - m" by linarith
  then show ?thesis
  proof cases
    case 3
    then have "f64 (of_int (- m) * 2 powi e) = of_int (- m) * 2 powi e"
      using assms by (intro f64_fix_pos) auto
    then show ?thesis using f64_uminus[of "of_int m * 2 powi e"] by simp
  qed (use assms f64_fix_pos in auto)
qed

lemma f64_of_int: "\<bar>n\<bar> \<le> 2 ^ 53 \<Longrightarrow> f64 (of_int n) = of_int n"
  using f64_fix[of n 0] by simp

lemma f64_idem: "f64 (f64 x) = f64 x"
proof (cases "x = 0")
  case False
  have "\<bar>rne (x / 2 powi ulp64 x)\<bar> \<le> 2 ^ 53"
  proof (cases "0 < x")
    case True
    then show ?thesis using rne_scaled_bounds[of x] by simp
  next
    case False
    with \<open>x \<noteq> 0\<close> have "0 < - x" by simp
    then have "rne (- x / 2 powi ulp64 x) \<le> 2 ^ 53 \<and> 0 \<le> rne (- x / 2 powi ulp64 x)"
      using rne_scaled_bounds[of "- x"] by (simp add: ulp64_def)
    then show ?thesis using rne_uminus[of "x / 2 powi ulp64 x"] by simp
  qed
  then show ?thesis using \<open>x \<noteq> 0\<close> by (simp add: f64_def[of x] f64_fix)
qed simp


lemma rne_err: "\<bar>of_int (rne z) - z\<bar> \<le> 1/2"
proof -
  have "of_int \<lfloor>z\<rfloor> \<le> z" "z < of_int \<lfloor>z\<rfloor> + 1" by linarith+
  then show ?thesis by (auto simp: rne_def Let_def abs_le_iff)
qed

lemma f64_err: "\<bar>f64 x - x\<bar> \<le> \<bar>x\<bar> / 2 ^ 53"
proof (cases "x = 0")
  case False
  define u where "u = (2::rat) powi ulp64 x"
  have u: "0 < u" by (simp add: u_def)
  have "f64 x - x = (of_int (rne (x / u)) - x / u) * u"
    using False u by (simp add: f64_def u_def[symmetric] left_diff_distrib)
  then have "\<bar>f64 x - x\<bar> = \<bar>of_int (rne (x / u)) - x / u\<bar> * u" using u by (simp add: abs_mult)
  also have "\<dots> \<le> 1/2 * u" using rne_err[of "x / u"] u by (intro mult_right_mono) auto
  finally have e: "\<bar>f64 x - x\<bar> \<le> u / 2" by simp
  have "ulp64 \<bar>x\<bar> = ulp64 x" by (simp add: ulp64_def)
  then have "2 ^ 52 \<le> \<bar>x\<bar> / u" using scaled_bounds[of "\<bar>x\<bar>"] False by (simp add: u_def)
  then have "2 ^ 52 * u \<le> \<bar>x\<bar>" using u by (simp add: pos_le_divide_eq)
  then show ?thesis using e by simp
qed simp

definition rsum :: "(num \<Rightarrow> num) \<Rightarrow> ('a \<Rightarrow> num) \<Rightarrow> 'a list \<Rightarrow> num" where
  \<comment> \<open>\<open>xs.reduce((s, x) => s + f(x), 0)\<close>\<close>
  "rsum R f xs = foldl (\<lambda>s x. R (s + f x)) 0 xs"

subsection \<open>The contract of a rounding\<close>

text \<open>
  What the components rely on: monotonicity, 53-bit multiples of a power of two being numbers,
  symmetry, a relative error of at most \<open>2^-53\<close>, and that a positive result does not
  become zero.  The client lemmas that follow are proved from
  these laws alone, so they hold both for the machine arithmetic and for the exact one.
\<close>

locale rounding =
  fixes R :: "rat \<Rightarrow> rat"
  assumes mono: "x \<le> y \<Longrightarrow> R x \<le> R y"
    and fix_dyadic: "\<bar>m\<bar> \<le> 2 ^ 53 \<Longrightarrow> R (of_int m * 2 powi e) = of_int m * 2 powi e"
    and minus: "R (- x) = - R x"
    and pos: "0 < x \<Longrightarrow> 0 < R x"
    and idem: "R (R x) = R x"
    and err: "\<bar>R x - x\<bar> \<le> \<bar>x\<bar> / 2 ^ 53"
begin

lemma fix_int: "\<bar>n\<bar> \<le> 2 ^ 53 \<Longrightarrow> R (of_int n) = of_int n"
  using fix_dyadic[of n 0] by simp

lemma fix_half: "\<bar>n\<bar> \<le> 2 ^ 53 \<Longrightarrow> R (of_int n / 2) = of_int n / 2"
  using fix_dyadic[of n "-1"] by simp

lemma fix_quarter: "\<bar>n\<bar> \<le> 2 ^ 53 \<Longrightarrow> R (of_int n / 4) = of_int n / 4"
  using fix_dyadic[of n "-2"] by (simp add: power_int_def power2_eq_square)

lemma zero: "R 0 = 0"
  using fix_int[of 0] by simp

lemma one: "R 1 = 1"
  using fix_int[of 1] by simp

lemma fix_num: "(numeral n :: int) \<le> 2 ^ 53 \<Longrightarrow> R (numeral n) = numeral n"
  using fix_int[of "numeral n"] by simp

lemma nonneg: "0 \<le> x \<Longrightarrow> 0 \<le> R x"
  using mono[of 0 x] by (simp add: zero)

lemma nonpos: "x \<le> 0 \<Longrightarrow> R x \<le> 0"
  using mono[of x 0] by (simp add: zero)

lemma pos_iff: "0 < R x \<longleftrightarrow> 0 < x"
  using pos[of x] nonpos[of x] by linarith

lemma zero_iff: "R x = 0 \<longleftrightarrow> x = 0"
  using pos_iff[of x] pos_iff[of "- x"] by (auto simp: minus zero)

lemma le_one: "x \<le> 1 \<Longrightarrow> R x \<le> 1"
  using mono[of x 1] by (simp add: one)

lemma le_num: "x \<le> numeral n \<Longrightarrow> (numeral n :: int) \<le> 2 ^ 53 \<Longrightarrow> R x \<le> numeral n"
  using mono[of x "numeral n"] by (simp add: fix_num)

lemma ge_num: "numeral n \<le> x \<Longrightarrow> (numeral n :: int) \<le> 2 ^ 53 \<Longrightarrow> numeral n \<le> R x"
  using mono[of "numeral n" x] by (simp add: fix_num)

text \<open>
  The rounded quotient of an ordered pair of rounded differences: the ratio that every linear
  interpolation of the program multiplies by.
\<close>

lemma ratio_unit:
  assumes "a \<le> g" "g \<le> b" "a < b"
  shows "0 \<le> R (R (g - a) / R (b - a)) \<and> R (R (g - a) / R (b - a)) \<le> 1"
proof -
  have d: "0 < R (b - a)" using assms by (intro pos) simp
  have n: "0 \<le> R (g - a)" using assms by (intro nonneg) simp
  have "R (g - a) \<le> R (b - a)" using assms by (intro mono) simp
  then show ?thesis using d n by (auto intro!: nonneg le_one)
qed

text \<open>Interpolation between two integer scores stays between them.\<close>

lemma interp_between:
  assumes t: "0 \<le> t" "t \<le> 1" and lohi: "lo \<le> hi" "\<bar>lo\<bar> \<le> 2 ^ 53" "\<bar>hi\<bar> \<le> 2 ^ 53" "hi - lo \<le> 2 ^ 53"
  shows "of_int lo \<le> R (of_int lo + R (R (of_int hi - of_int lo) * t)) \<and>
         R (of_int lo + R (R (of_int hi - of_int lo) * t)) \<le> of_int hi"
proof -
  have D: "R (of_int hi - of_int lo) = of_int (hi - lo)"
    using fix_int[of "hi - lo"] lohi by simp
  have p: "0 \<le> R (of_int (hi - lo) * t)" using t lohi by (intro nonneg) simp
  have "of_int (hi - lo) * t \<le> of_int (hi - lo)"
    using t lohi by (simp add: mult_left_le)
  then have q: "R (of_int (hi - lo) * t) \<le> of_int (hi - lo)"
    using mono[of "of_int (hi - lo) * t" "of_int (hi - lo)"] fix_int[of "hi - lo"] lohi by simp
  have "R (of_int lo) \<le> R (of_int lo + R (of_int (hi - lo) * t))" using p by (intro mono) simp
  moreover have "R (of_int lo + R (of_int (hi - lo) * t)) \<le> R (of_int hi)" using q by (intro mono) simp
  ultimately show ?thesis using lohi fix_int[of lo] fix_int[of hi] unfolding D by simp
qed

lemma sum_nonneg:
  "0 \<le> a \<Longrightarrow> (\<And>x. x \<in> set xs \<Longrightarrow> 0 \<le> g x) \<Longrightarrow> 0 \<le> foldl (\<lambda>s x. R (s + g x)) a xs"
proof (induction xs arbitrary: a)
  case (Cons x xs)
  have "0 \<le> R (a + g x)" using Cons.prems by (intro nonneg) simp
  then show ?case using Cons by simp
qed simp

lemma sum_mono:
  "a \<le> b \<Longrightarrow> (\<And>x. x \<in> set xs \<Longrightarrow> g x \<le> h x) \<Longrightarrow>
   foldl (\<lambda>s x. R (s + g x)) a xs \<le> foldl (\<lambda>s x. R (s + h x)) b xs"
  using foldl_mono_add[of R xs g h a b] mono by blast

text \<open>A rounded sum of \<open>n\<close> terms of at most the integer \<open>c\<close> each is at most \<open>n * c\<close>.\<close>

lemma sum_le_int:
  "(\<And>x. x \<in> set xs \<Longrightarrow> g x \<le> of_int c) \<Longrightarrow> s \<le> of_int k \<Longrightarrow> 0 \<le> c \<Longrightarrow> 0 \<le> k \<Longrightarrow>
   k + int (length xs) * c \<le> 2 ^ 53 \<Longrightarrow>
   foldl (\<lambda>s x. R (s + g x)) s xs \<le> of_int (k + int (length xs) * c)"
proof (induction xs arbitrary: s k)
  case (Cons x xs)
  have c: "0 \<le> int (length xs) * c" using Cons.prems by simp
  have le: "k + c \<le> 2 ^ 53" using Cons.prems(5) c by (simp add: distrib_right)
  have "R (s + g x) \<le> R (of_int (k + c))" using Cons.prems(1)[of x] Cons.prems(2) by (intro mono) simp
  then have "R (s + g x) \<le> of_int (k + c)" using Cons.prems le fix_int[of "k + c"] by simp
  then have "foldl (\<lambda>s x. R (s + g x)) (R (s + g x)) xs \<le> of_int (k + c + int (length xs) * c)"
    using Cons.prems by (intro Cons.IH) (simp_all add: algebra_simps)
  then show ?case by (simp add: algebra_simps)
qed simp

lemma rsum_Nil [simp]: "rsum R f [] = 0"
  by (simp add: rsum_def)

lemma rsum_snoc: "rsum R f (xs @ [x]) = R (rsum R f xs + f x)"
  by (simp add: rsum_def)

lemma rsum_nonneg: "(\<And>x. x \<in> set xs \<Longrightarrow> 0 \<le> f x) \<Longrightarrow> 0 \<le> rsum R f xs"
  unfolding rsum_def by (rule sum_nonneg) auto

lemma rsum_rounded: "R (rsum R f xs) = rsum R f xs"
  by (cases xs rule: rev_cases) (simp_all add: rsum_snoc idem zero)

lemma rsum_filter: "rsum R f (filter P xs) = rsum R (\<lambda>x. if P x then f x else 0) xs"
  by (induction xs rule: rev_induct) (simp_all add: rsum_snoc rsum_rounded)

lemma rsum_mono: "(\<And>x. x \<in> set xs \<Longrightarrow> f x \<le> g x) \<Longrightarrow> rsum R f xs \<le> rsum R g xs"
  unfolding rsum_def by (rule sum_mono) auto

lemma rsum_pos: "x \<in> set xs \<Longrightarrow> 0 < f x \<Longrightarrow> (\<And>y. y \<in> set xs \<Longrightarrow> 0 \<le> f y) \<Longrightarrow> 0 < rsum R f xs"
proof (induction xs rule: rev_induct)
  case (snoc y ys)
  have "0 \<le> rsum R f ys" by (rule rsum_nonneg) (use snoc.prems in auto)
  moreover have "0 < rsum R f ys \<or> 0 < f y" using snoc by auto
  moreover have "0 \<le> f y" using snoc.prems by simp
  ultimately have "0 < rsum R f ys + f y" by linarith
  then show ?case by (simp add: rsum_snoc pos)
qed simp

lemma rsum_zero: "(\<And>x. x \<in> set xs \<Longrightarrow> f x = 0) \<Longrightarrow> rsum R f xs = 0"
  by (induction xs rule: rev_induct) (simp_all add: rsum_snoc zero)

lemma rsum_pos_iff: "(\<And>y. y \<in> set xs \<Longrightarrow> 0 \<le> f y) \<Longrightarrow> 0 < rsum R f xs \<longleftrightarrow> (\<exists>x \<in> set xs. 0 < f x)"
  using rsum_pos[of _ xs f] rsum_zero[of xs f] by (metis less_irrefl order_le_less)

lemma err_up: "0 \<le> x \<Longrightarrow> R x \<le> (1 + 1 / 2 ^ 53) * x"
  using err[of x] abs_ge_self[of "R x - x"] by (simp add: distrib_right)

lemma err_down: "0 \<le> x \<Longrightarrow> (1 - 1 / 2 ^ 53) * x \<le> R x"
  using err[of x] abs_ge_minus_self[of "R x - x"] by (simp add: left_diff_distrib)

end

interpretation f64: rounding f64
  by unfold_locales (fact f64_mono f64_fix f64_uminus f64_pos f64_idem f64_err)+

interpretation exact: rounding "\<lambda>x. x"
  by unfold_locales auto

subsection \<open>Functions of \<open>Math\<close>\<close>

definition js_round :: "rat \<Rightarrow> int" where
  \<comment> \<open>\<open>Math.round\<close>: nearest integer, ties towards plus infinity\<close>
  "js_round x = \<lfloor>x + 1/2\<rfloor>"

lemma js_round_near: "x - 1/2 < of_int (js_round x) \<and> of_int (js_round x) \<le> x + 1/2"
  unfolding js_round_def by linarith

fun isqrt :: "int \<Rightarrow> int" where
  "isqrt n = (if n \<le> 0 then 0 else
     let r = 2 * isqrt (n div 4) in if (r + 1) * (r + 1) \<le> n then r + 1 else r)"

declare isqrt.simps [simp del]

lemma isqrt_spec: "0 \<le> n \<Longrightarrow> 0 \<le> isqrt n \<and> isqrt n * isqrt n \<le> n \<and> n < (isqrt n + 1) * (isqrt n + 1)"
proof (induction n rule: isqrt.induct)
  case (1 n)
  show ?case
  proof (cases "n \<le> 0")
    case True
    then show ?thesis using "1.prems" by (simp add: isqrt.simps)
  next
    case False
    define q where "q = isqrt (n div 4)"
    have IH: "0 \<le> q" "q * q \<le> n div 4" "n div 4 < (q + 1) * (q + 1)"
      using "1.IH"[OF False] False by (auto simp: q_def)
    have s: "isqrt n = (if (2 * q + 1) * (2 * q + 1) \<le> n then 2 * q + 1 else 2 * q)"
      using False by (simp add: isqrt.simps[of n] q_def Let_def)
    have lo: "2 * q * (2 * q) \<le> n" using IH(2) by linarith
    have "n < 4 * ((q + 1) * (q + 1))" using IH(3) by linarith
    then have hi: "n < (2 * q + 1 + 1) * (2 * q + 1 + 1)" by (simp add: algebra_simps)
    show ?thesis using lo hi IH(1) by (simp add: s)
  qed
qed

definition js_sqrt :: "rat \<Rightarrow> rat" where
  \<comment> \<open>\<open>Math.sqrt\<close> of a non-negative number: the root is truncated at least two bits below the
      last significant one, a half stands for a nonzero rest, and the result is rounded once\<close>
  "js_sqrt x = (if x \<le> 0 then 0 else
     let k = nat (max 0 ((112 - ilog2 x) div 2)); z = x * 4 ^ k; s = isqrt \<lfloor>z\<rfloor>;
         v = (if of_int (s * s) = z then of_int s else of_int s + 1/2)
     in f64 (v / 2 ^ k))"

lemma js_sqrt_0 [simp]: "js_sqrt 0 = 0"
  by (simp add: js_sqrt_def)

lemma js_sqrt_pos: assumes "0 < x" shows "0 < js_sqrt x"
proof -
  define k where "k = nat (max 0 ((112 - ilog2 x) div 2))"
  define z where "z = x * 4 ^ k"
  define s where "s = isqrt \<lfloor>z\<rfloor>"
  have z: "0 < z" using assms by (simp add: z_def)
  have "0 < (if of_int (s * s) = z then of_int s else of_int s + 1/2 :: rat)"
    using z isqrt_spec[of "\<lfloor>z\<rfloor>"] by (cases "s = 0") (auto simp: s_def)
  then have "0 < f64 ((if of_int (s * s) = z then of_int s else of_int s + 1/2) / 2 ^ k)"
    by (intro f64.pos divide_pos_pos) auto
  then show ?thesis using assms
    unfolding js_sqrt_def Let_def k_def[symmetric] z_def[symmetric] s_def[symmetric]
    by (simp only: not_le[symmetric] if_False simp_thms)
qed

lemma js_sqrt_nonneg: "0 \<le> js_sqrt x"
  using js_sqrt_pos[of x] by (cases "0 < x") (auto simp: js_sqrt_def)

lemma js_sqrt_eq_0_iff: "0 \<le> x \<Longrightarrow> js_sqrt x = 0 \<longleftrightarrow> x = 0"
  using js_sqrt_pos[of x] by (cases "x = 0") auto

end
