(* ===== verification/Text.thy ===== *)
theory Text
  imports Numbers
begin

text \<open>
  The string functions of JavaScript that the parsers of the program use, on strings of Latin-1
  characters: white space, trimming, splitting and the conversion \<open>Number(s)\<close>.
\<close>

definition ws_char :: "char \<Rightarrow> bool" where
  \<comment> \<open>white space and line terminators, \<open>\s\<close>\<close>
  "ws_char c \<longleftrightarrow> of_char c \<in> {9, 10, 11, 12, 13, 32, 160 :: nat}"

definition digit_char :: "char \<Rightarrow> bool" where
  "digit_char c \<longleftrightarrow> 48 \<le> (of_char c :: nat) \<and> (of_char c :: nat) \<le> 57"

definition digits_value :: "string \<Rightarrow> num" where
  "digits_value ds = foldl (\<lambda>v c. 10 * v + (of_nat (of_char c) - 48)) 0 ds"

definition trim :: "string \<Rightarrow> string" where
  "trim s = rev (dropWhile ws_char (rev (dropWhile ws_char s)))"

fun split_on :: "char \<Rightarrow> string \<Rightarrow> string list" where
  \<comment> \<open>\<open>s.split(c)\<close>\<close>
  "split_on c [] = [[]]"
| "split_on c (d # s) =
    (if d = c then [] # split_on c s
     else case split_on c s of [] \<Rightarrow> [[d]] | w # ws \<Rightarrow> (d # w) # ws)"

function words :: "string \<Rightarrow> string list" where
  \<comment> \<open>\<open>s.split(/\s+/)\<close> of a trimmed string\<close>
  "words s = (let w = takeWhile (\<lambda>c. \<not> ws_char c) s; r = dropWhile (\<lambda>c. \<not> ws_char c) s
     in if r = [] then [w] else w # words (dropWhile ws_char r))"
  by auto
termination
proof (relation "measure length")
  fix s w r :: string
  assume r: "r = dropWhile (\<lambda>c. \<not> ws_char c) s" "r \<noteq> []"
  have "length (dropWhile ws_char r) < length r"
  proof -
    have "ws_char (hd r)" using hd_dropWhile[of "\<lambda>c. \<not> ws_char c" s] r by simp
    then show ?thesis using r(2) by (cases r) (simp_all add: length_dropWhile_le le_imp_less_Suc)
  qed
  moreover have "length r \<le> length s" using r by (simp add: length_dropWhile_le)
  ultimately show "(dropWhile ws_char r, s) \<in> measure length" by simp
qed simp

declare words.simps [simp del]

subsection \<open>\<open>Number(s)\<close>\<close>

definition hex_value :: "char \<Rightarrow> num option" where
  "hex_value c = (let n = (of_char c :: nat) in
     if 48 \<le> n \<and> n \<le> 57 then Some (of_nat (n - 48))
     else if 97 \<le> n \<and> n \<le> 102 then Some (of_nat (n - 87))
     else if 65 \<le> n \<and> n \<le> 70 then Some (of_nat (n - 55)) else None)"

fun radix_value :: "num \<Rightarrow> num \<Rightarrow> string \<Rightarrow> num option" where
  "radix_value b v [] = Some v"
| "radix_value b v (c # s) =
    (case hex_value c of None \<Rightarrow> None | Some d \<Rightarrow> if d < b then radix_value b (b * v + d) s else None)"

definition exponent :: "string \<Rightarrow> int option" where
  \<comment> \<open>what may follow the digits: nothing, or an exponent part\<close>
  "exponent s = (case s of [] \<Rightarrow> Some 0
     | c # r \<Rightarrow> if c \<noteq> CHR ''e'' \<and> c \<noteq> CHR ''E'' then None
        else (let (neg, ds) = (case r of [] \<Rightarrow> (False, []) | d # r' \<Rightarrow>
                if d = CHR ''-'' then (True, r') else if d = CHR ''+'' then (False, r') else (False, r))
              in if ds = [] \<or> \<not> list_all digit_char ds then None
                 else Some ((if neg then - 1 else 1) * \<lfloor>digits_value ds\<rfloor>)))"

definition unsigned_decimal :: "string \<Rightarrow> num option" where
  "unsigned_decimal s =
    (let ds = takeWhile digit_char s; r = dropWhile digit_char s;
         (fs, r') = (case r of [] \<Rightarrow> ([], []) | c # t \<Rightarrow>
            if c = CHR ''.'' then (takeWhile digit_char t, dropWhile digit_char t) else ([], r))
     in if ds = [] \<and> fs = [] then None
        else map_option (\<lambda>e. (digits_value ds + digits_value fs / 10 ^ length fs) * 10 powi e) (exponent r'))"

definition jsNumber :: "string \<Rightarrow> num option" where
  \<comment> \<open>the finite number, or \<open>None\<close> for \<open>NaN\<close> and the infinities\<close>
  "jsNumber s0 = (let s = trim s0;
     v = (case s of [] \<Rightarrow> Some 0
       | c # r \<Rightarrow>
         if c = CHR ''-'' then map_option uminus (unsigned_decimal r)
         else if c = CHR ''+'' then unsigned_decimal r
         else (case r of x # ds \<Rightarrow>
             if c = CHR ''0'' \<and> x \<in> {CHR ''x'', CHR ''X''} then (if ds = [] then None else radix_value 16 0 ds)
             else if c = CHR ''0'' \<and> x \<in> {CHR ''o'', CHR ''O''} then (if ds = [] then None else radix_value 8 0 ds)
             else if c = CHR ''0'' \<and> x \<in> {CHR ''b'', CHR ''B''} then (if ds = [] then None else radix_value 2 0 ds)
             else unsigned_decimal s
           | [] \<Rightarrow> unsigned_decimal s))
     in case v of None \<Rightarrow> None | Some x \<Rightarrow> if \<bar>f64 x\<bar> < of_int (pow2 1024) then Some (f64 x) else None)"

definition jsInteger :: "string \<Rightarrow> int option" where
  \<comment> \<open>the value where \<open>Number.isInteger(Number(s))\<close>\<close>
  "jsInteger s = (case jsNumber s of None \<Rightarrow> None | Some x \<Rightarrow> if x = of_int \<lfloor>x\<rfloor> then Some \<lfloor>x\<rfloor> else None)"

end
