(* ===== verification/Calendar.thy ===== *)
theory Calendar
  imports Prelude
begin

text \<open>
  JavaScript's \<open>Date\<close> in UTC.  An instant is an integer number of milliseconds since 1970; the
  proleptic Gregorian calendar is computed from the day number with integer division, which rounds
  down, as the language's own algorithms do.  \<open>make_day\<close> accepts an overflowing day of the month and
  carries it, as \<open>Date.UTC\<close> and the setters do.
\<close>

type_synonym instant = int

definition DAY_MS :: int where "DAY_MS = 86400000"
definition MINUTE_MS :: int where "MINUTE_MS = 60000"

definition day_of :: "instant \<Rightarrow> int" where
  "day_of t = t div DAY_MS"

definition days_from_civil :: "int \<Rightarrow> int \<Rightarrow> int \<Rightarrow> int" where
  \<comment> \<open>day number of a year, a month 1 to 12 and a day of the month\<close>
  "days_from_civil y m d =
    (let y' = (if m \<le> 2 then y - 1 else y); era = y' div 400; yoe = y' - era * 400;
         mp = (if m > 2 then m - 3 else m + 9); doy = (153 * mp + 2) div 5 + d - 1;
         doe = yoe * 365 + yoe div 4 - yoe div 100 + doy
     in era * 146097 + doe - 719468)"

definition year_of_era :: "int \<Rightarrow> int \<times> int" where
  \<comment> \<open>year and day of the year, from March, of a day of a 400-year era: centuries, then leap cycles,
      then years; the last of each has one day more\<close>
  "year_of_era doe =
    (let c = min 3 (doe div 36524); r = doe - c * 36524; q = r div 1461; s = r - q * 1461; a = min 3 (s div 365)
     in (100 * c + 4 * q + a, s - 365 * a))"

definition civil_from_days :: "int \<Rightarrow> int \<times> int \<times> int" where
  "civil_from_days z0 =
    (let z = z0 + 719468; era = z div 146097; doe = z - era * 146097; (yoe, doy) = year_of_era doe;
         mp = (5 * doy + 2) div 153; d = doy - (153 * mp + 2) div 5 + 1;
         m = (if mp < 10 then mp + 3 else mp - 9)
     in (yoe + era * 400 + (if m \<le> 2 then 1 else 0), m, d))"

definition utcFullYear :: "instant \<Rightarrow> int" where "utcFullYear t = fst (civil_from_days (day_of t))"
definition utcMonth :: "instant \<Rightarrow> int" where
  \<comment> \<open>\<open>getUTCMonth\<close> counts from 0\<close>
  "utcMonth t = fst (snd (civil_from_days (day_of t))) - 1"
definition utcDate :: "instant \<Rightarrow> int" where "utcDate t = snd (snd (civil_from_days (day_of t)))"
definition utcDay :: "instant \<Rightarrow> int" where "utcDay t = (day_of t + 4) mod 7"
definition utcHours :: "instant \<Rightarrow> int" where "utcHours t = t mod DAY_MS div 3600000"
definition utcMinutes :: "instant \<Rightarrow> int" where "utcMinutes t = t mod 3600000 div MINUTE_MS"

definition setUTCFullYear :: "instant \<Rightarrow> int \<Rightarrow> instant" where
  \<comment> \<open>same month, day of month and time of day; 29 February carries into March\<close>
  "setUTCFullYear t y = days_from_civil y (utcMonth t + 1) (utcDate t) * DAY_MS + t mod DAY_MS"

lemma civil_examples:
  "civil_from_days 0 = (1970, 1, 1)" "civil_from_days 11016 = (2000, 2, 29)"
  "civil_from_days (days_from_civil 2026 3 31) = (2026, 3, 31)" "days_from_civil 2025 2 29 = days_from_civil 2025 3 1"
  by code_simp+

subsection \<open>Correctness of the calendar\<close>

lemma capped_div:
  assumes "0 \<le> x" "x \<le> 4 * d" "0 < (d :: int)"
  shows "0 \<le> min 3 (x div d) \<and> min 3 (x div d) \<le> 3 \<and> 0 \<le> x - min 3 (x div d) * d \<and> x - min 3 (x div d) * d \<le> d"
proof (cases "x div d \<le> 3")
  case True
  have "x - x div d * d = x mod d" by (simp add: minus_div_mult_eq_mod)
  then show ?thesis using True assms by (simp add: pos_imp_zdiv_nonneg_iff min_def order_less_imp_le)
next
  case False
  then have "4 * d \<le> x div d * d" using assms by simp
  also have "\<dots> \<le> x" using assms div_mult_mod_eq[of x d] pos_mod_sign[of d x] by linarith
  finally show ?thesis using False assms by (simp add: min_def)
qed

lemma year_of_era:
  assumes "0 \<le> doe" "doe < 146097" "year_of_era doe = (y, n)"
  shows "0 \<le> y \<and> y \<le> 399 \<and> 0 \<le> n \<and> n \<le> 365 \<and> y * 365 + y div 4 - y div 100 + n = doe"
proof -
  define c where "c = min 3 (doe div 36524)"
  define r where "r = doe - c * 36524"
  define q where "q = r div 1461"
  define s where "s = r - q * 1461"
  define a where "a = min 3 (s div 365)"
  have cr: "0 \<le> c \<and> c \<le> 3 \<and> 0 \<le> r \<and> r \<le> 36524"
    unfolding c_def r_def by (rule capped_div) (use assms in simp_all)
  then have c: "0 \<le> c" "c \<le> 3" and r: "0 \<le> r" "r \<le> 36524" by simp_all
  have q: "0 \<le> q" "q \<le> 24" using r unfolding q_def by linarith+
  have s: "0 \<le> s" "s \<le> 1460" unfolding s_def q_def by linarith+
  have "0 \<le> a \<and> a \<le> 3 \<and> 0 \<le> s - a * 365 \<and> s - a * 365 \<le> 365"
    unfolding a_def by (rule capped_div) (use s in simp_all)
  then have a: "0 \<le> a" "a \<le> 3" and n: "0 \<le> s - 365 * a" "s - 365 * a \<le> 365" by simp_all
  have y: "y = 100 * c + 4 * q + a" "n = s - 365 * a"
    using assms(3) by (auto simp: year_of_era_def Let_def c_def r_def q_def s_def a_def)
  have "y div 4 = 25 * c + q" "y div 100 = c" using a q by (simp_all add: y(1))
  then show ?thesis using y c q a n unfolding s_def r_def by simp
qed

lemma month_part:
  assumes "0 \<le> n" "n \<le> (365 :: int)"
  shows "0 \<le> (5 * n + 2) div 153 \<and> (5 * n + 2) div 153 \<le> 11 \<and>
    1 \<le> n - (153 * ((5 * n + 2) div 153) + 2) div 5 + 1 \<and> n - (153 * ((5 * n + 2) div 153) + 2) div 5 + 1 \<le> 31"
proof -
  define k where "k = (5 * n + 2) div 153"
  have k: "153 * k \<le> 5 * n + 2" "5 * n + 2 < 153 * k + 153" unfolding k_def by linarith+
  have "5 * ((153 * k + 2) div 5) \<le> 153 * k + 2" "153 * k + 2 < 5 * ((153 * k + 2) div 5) + 5" by linarith+
  then have "1 \<le> n - (153 * k + 2) div 5 + 1" "n - (153 * k + 2) div 5 + 1 \<le> 31" using k by linarith+
  moreover have "0 \<le> k" "k \<le> 11" using k assms by linarith+
  ultimately show ?thesis by (simp add: k_def)
qed

lemma civil_roundtrip:
  assumes "civil_from_days z = (y, m, d)"
  shows "days_from_civil y m d = z \<and> 1 \<le> m \<and> m \<le> 12 \<and> 1 \<le> d \<and> d \<le> 31"
proof -
  define era where "era = (z + 719468) div 146097"
  define doe where "doe = z + 719468 - era * 146097"
  have doe: "0 \<le> doe" "doe < 146097" unfolding doe_def era_def by linarith+
  obtain yoe n where yn: "year_of_era doe = (yoe, n)" by force
  define k where "k = (5 * n + 2) div 153"
  note e = year_of_era[OF doe yn]
  have mp: "0 \<le> k \<and> k \<le> 11 \<and> 1 \<le> n - (153 * k + 2) div 5 + 1 \<and> n - (153 * k + 2) div 5 + 1 \<le> 31"
    unfolding k_def using e by (intro month_part) simp_all
  have ymd: "d = n - (153 * k + 2) div 5 + 1" "m = (if k < 10 then k + 3 else k - 9)"
    "y = yoe + era * 400 + (if m \<le> 2 then 1 else 0)"
    using assms by (auto simp: civil_from_days_def Let_def era_def[symmetric] doe_def[symmetric] yn k_def)
  have y': "(if m \<le> 2 then y - 1 else y) = yoe + era * 400" "(if m > 2 then m - 3 else m + 9) = k"
    using ymd mp by auto
  have era': "(yoe + era * 400) div 400 = era" using e by simp
  have "days_from_civil y m d = era * 146097 + doe - 719468"
    unfolding days_from_civil_def Let_def y' era' using e ymd(1) by simp
  then show ?thesis using ymd mp by (auto simp: doe_def)
qed

lemma utc_ranges: "0 \<le> utcMonth t" "utcMonth t \<le> 11" "1 \<le> utcDate t" "utcDate t \<le> 31"
  "0 \<le> utcDay t" "utcDay t \<le> 6" "0 \<le> utcHours t" "utcHours t \<le> 23" "0 \<le> utcMinutes t" "utcMinutes t \<le> 59"
proof -
  obtain y m d where c: "civil_from_days (day_of t) = (y, m, d)" by (metis prod_cases3)
  then show "0 \<le> utcMonth t" "utcMonth t \<le> 11" "1 \<le> utcDate t" "utcDate t \<le> 31"
    using civil_roundtrip[OF c] by (simp_all add: utcMonth_def utcDate_def)
  have "0 \<le> t mod DAY_MS" "t mod DAY_MS < 86400000" "0 \<le> t mod 3600000" "t mod 3600000 < 3600000"
    by (simp_all add: DAY_MS_def)
  then show "0 \<le> utcHours t" "utcHours t \<le> 23" "0 \<le> utcMinutes t" "utcMinutes t \<le> 59"
    unfolding utcHours_def utcMinutes_def MINUTE_MS_def by linarith+
  show "0 \<le> utcDay t" "utcDay t \<le> 6" using pos_mod_bound[of 7 "day_of t + 4"] by (auto simp: utcDay_def)
qed

definition days_before_march :: "int \<Rightarrow> int" where
  "days_before_march y = (let era = y div 400; yoe = y - era * 400 in era * 146097 + (yoe * 365 + yoe div 4 - yoe div 100))"

lemma days_before_march_less: "days_before_march (y - 1) < days_before_march y"
proof (cases "y mod 400 = 0")
  case True
  then have "(y - 1) div 400 = y div 400 - 1" "y = y div 400 * 400" by (auto elim!: dvdE)
  then show ?thesis by (simp add: days_before_march_def Let_def)
next
  case False
  have "(y - 1) div 400 = (y mod 400 - 1 + y div 400 * 400) div 400" using div_mult_mod_eq[of y 400] by (simp add: algebra_simps)
  also have "\<dots> = y div 400 + (y mod 400 - 1) div 400" by simp
  also have "(y mod 400 - 1) div 400 = 0"
    using False pos_mod_bound[of 400 y] pos_mod_sign[of 400 y] by (intro div_pos_pos_trivial) linarith+
  finally have e: "(y - 1) div 400 = y div 400" by simp
  define k where "k = y - y div 400 * 400"
  have k: "y - 1 - y div 400 * 400 = k - 1" by (simp add: k_def)
  have "(k - 1) * 365 + (k - 1) div 4 - (k - 1) div 100 < k * 365 + k div 4 - k div 100"
    using zdiv_mono1[of "k - 1" k 4] zdiv_mono1[of k "k - 1 + 100" 100] by simp
  then show ?thesis unfolding days_before_march_def Let_def e k k_def[symmetric] by linarith
qed

lemma days_from_civil_eq: "days_from_civil y m d =
  days_before_march (if m \<le> 2 then y - 1 else y) + ((153 * (if m > 2 then m - 3 else m + 9) + 2) div 5 + d - 1 - 719468)"
  by (simp add: days_from_civil_def days_before_march_def Let_def)

lemma days_from_civil_year_less: "days_from_civil (y - 1) m d < days_from_civil y m d"
  using days_before_march_less[of y] days_before_march_less[of "y - 1"] by (simp add: days_from_civil_eq)

lemma year_before: "setUTCFullYear t (utcFullYear t - 1) < t"
proof -
  obtain y m d where c: "civil_from_days (day_of t) = (y, m, d)" by (metis prod_cases3)
  then have "days_from_civil (y - 1) m d < day_of t"
    using days_from_civil_year_less[of y m d] civil_roundtrip[OF c] by simp
  then have "days_from_civil (y - 1) m d * DAY_MS + t mod DAY_MS < day_of t * DAY_MS + t mod DAY_MS" by (simp add: DAY_MS_def)
  then show ?thesis using c div_mult_mod_eq[of t DAY_MS]
    by (simp add: setUTCFullYear_def utcFullYear_def utcMonth_def utcDate_def day_of_def)
qed

end
