(* ===== verification/Lenses.thy ===== *)
theory Lenses
  imports Numbers
begin

text \<open>
  The three-lens scoring machinery of \<open>src/scoring/lenses\<close>: a metric value against absolute
  bars (Lens 1, \<open>lens-bars.ts\<close>), against its peers or its own history through a z-score
  (Lenses 2 and 3, \<open>lens-zscore.ts\<close>), and the mean of the lenses that are available
  (\<open>composite.ts\<close>).  The human-readable \<open>reasonText\<close> of a result is a rendering of its
  other fields and is left out.
\<close>

subsection \<open>Shared types and fixed mechanics (\<open>types.ts\<close>)\<close>

datatype direction = Higher_better | Lower_better

datatype band = Excellent | Good | Acceptable | Concerning | Distress

datatype lens_fallback = FB_none | L2_to_l1 | L3_insufficient_history

datatype lift_rule = Rule_5_3_1 | Rule_5_4_1

fun BAR_SCORE :: "band \<Rightarrow> int" where
  "BAR_SCORE Excellent = 90"
| "BAR_SCORE Good = 75"
| "BAR_SCORE Acceptable = 60"
| "BAR_SCORE Concerning = 40"
| "BAR_SCORE Distress = 20"

definition Z_ANCHOR_DEFAULT :: int where [score_defs]: "Z_ANCHOR_DEFAULT = 60"
definition Z_ANCHOR_LIFTED :: int where [score_defs]: "Z_ANCHOR_LIFTED = 75"
definition Z_PLUS2_SCORE :: num where [score_defs]: "Z_PLUS2_SCORE = 90"
definition Z_MINUS2_SCORE :: num where [score_defs]: "Z_MINUS2_SCORE = 30"
definition Z_INNER_HALF :: num where [score_defs]: "Z_INNER_HALF = 2"
definition Z_SAT_RATE :: num where [score_defs]: "Z_SAT_RATE = 5"
definition L1_SAT_RATE :: num where [score_defs]: "L1_SAT_RATE = 10"
definition SCORE_MIN :: num where [score_defs]: "SCORE_MIN = 0"
definition SCORE_MAX :: num where [score_defs]: "SCORE_MAX = 100"

definition clampScore :: "num \<Rightarrow> num" where
  "clampScore x = min SCORE_MAX (max SCORE_MIN x)"

lemma clampScore_range [score_bounds]: "0 \<le> clampScore x \<and> clampScore x \<le> 100"
  by (simp add: clampScore_def score_defs)

lemma clampScore_mono: "x \<le> y \<Longrightarrow> clampScore x \<le> clampScore y"
  by (auto simp: clampScore_def)

subsection \<open>Lens 1: absolute bars (\<open>lens-bars.ts\<close>)\<close>

record absolute_bars =
  excellent :: num
  good :: num
  acceptable :: num
  concerning :: num
  distress :: num

datatype l1_guard = Non_monotonic_bars | Collapsed_saturation_scale | Degenerate_all_bars_equal

datatype bar_set = Standard | Sscu

record lens1_result =
  l1r_score :: num
  l1r_band :: band
  l1r_saturated :: bool
  l1r_guard :: "l1_guard option"
  l1r_barSetUsed :: bar_set

definition toG :: "num \<Rightarrow> direction \<Rightarrow> num" where
  "toG value dir = (if dir = Higher_better then value else - value)"

fun firstNonZero :: "num list \<Rightarrow> nat list \<Rightarrow> num option" where
  "firstNonZero widths [] = None"
| "firstNonZero widths (i # order) =
     (if 0 < widths ! i then Some (widths ! i) else firstNonZero widths order)"

text \<open>One interior segment: the linear interpolation between two adjacent bars.\<close>

definition segment :: "(num \<Rightarrow> num) \<Rightarrow> band \<Rightarrow> band \<Rightarrow> num \<Rightarrow> num \<Rightarrow> num \<Rightarrow> num" where
  "segment R lo hi g gLo gHi =
     R (of_int (BAR_SCORE lo) +
        R (R (of_int (BAR_SCORE hi) - of_int (BAR_SCORE lo)) * R (R (g - gLo) / R (gHi - gLo))))"

definition set_guard :: "l1_guard \<Rightarrow> l1_guard option \<Rightarrow> l1_guard option" where
  \<comment> \<open>\<open>if (guard === null) guard = x\<close>\<close>
  "set_guard x guard = (case guard of None \<Rightarrow> Some x | Some y \<Rightarrow> Some y)"

definition computeLens1 :: "(num \<Rightarrow> num) \<Rightarrow> num \<Rightarrow> absolute_bars \<Rightarrow> direction \<Rightarrow> lens1_result" where
  "computeLens1 R value bars dir =
    (let g = toG value dir;
         gE = toG (excellent bars) dir; gG = toG (good bars) dir; gA = toG (acceptable bars) dir;
         gC = toG (concerning bars) dir; gD = toG (distress bars) dir;
         widths = [R (gE - gG), R (gG - gA), R (gA - gC), R (gC - gD)];
         guard = (if list_ex (\<lambda>w. w < 0) widths then Some Non_monotonic_bars else None);
         topScaleRaw = widths ! 0; botScaleRaw = widths ! 3;
         topScale = (if 0 < topScaleRaw then Some topScaleRaw else firstNonZero widths [1, 2, 3]);
         botScale = (if 0 < botScaleRaw then Some botScaleRaw else firstNonZero widths [2, 1, 0]);
         res = (\<lambda>score band saturated guard. \<lparr>l1r_score = score, l1r_band = band,
                  l1r_saturated = saturated, l1r_guard = guard, l1r_barSetUsed = Standard\<rparr>)
     in if gE \<le> g then
          (if g = gE then res (of_int (BAR_SCORE Excellent)) Excellent False guard
           else (case topScale of
                   Some t \<Rightarrow> res (clampScore (R (of_int (BAR_SCORE Excellent) + R (L1_SAT_RATE * R (R (g - gE) / t)))))
                               Excellent True
                               (if topScaleRaw = 0 then set_guard Collapsed_saturation_scale guard else guard)
                 | None \<Rightarrow> res (of_int (BAR_SCORE Excellent)) Excellent False (set_guard Degenerate_all_bars_equal guard)))
        else if gG \<le> g then res (segment R Good Excellent g gG gE) Good False guard
        else if gA \<le> g then res (segment R Acceptable Good g gA gG) Acceptable False guard
        else if gC \<le> g then res (segment R Concerning Acceptable g gC gA) Concerning False guard
        else if gD \<le> g then res (segment R Distress Concerning g gD gC) Distress False guard
        else (case botScale of
                Some t \<Rightarrow> res (clampScore (R (of_int (BAR_SCORE Distress) - R (L1_SAT_RATE * R (R (gD - g) / t)))))
                            Distress True
                            (if botScaleRaw = 0 then set_guard Collapsed_saturation_scale guard else guard)
              | None \<Rightarrow> res (of_int (BAR_SCORE Distress)) Distress False (set_guard Degenerate_all_bars_equal guard)))"

record three_anchor_bars =
  ta_distress :: num
  ta_good :: num
  ta_excellent :: num

record stock_override =
  so_bars :: three_anchor_bars
  so_scope :: "string list"

definition toLowerCase :: "char \<Rightarrow> char" where
  \<comment> \<open>on ASCII letters; the symbols compared here are ASCII\<close>
  "toLowerCase c = (let n = of_char c :: nat in if 65 \<le> n \<and> n \<le> 90 then char_of (n + 32) else c)"

definition is_az09 :: "char \<Rightarrow> bool" where
  "is_az09 c = (let n = of_char c :: nat in (97 \<le> n \<and> n \<le> 122) \<or> (48 \<le> n \<and> n \<le> 57))"

definition norm_stock :: "string \<Rightarrow> string" where
  "norm_stock s = filter is_az09 (map toLowerCase s)"

definition inScope :: "string \<Rightarrow> string list \<Rightarrow> bool" where
  "inScope stock scope = list_ex (\<lambda>x. norm_stock x = norm_stock stock) scope"

definition bandFromScore :: "num \<Rightarrow> band" where
  "bandFromScore score =
     (if of_int (BAR_SCORE Excellent) \<le> score then Excellent
      else if of_int (BAR_SCORE Good) \<le> score then Good
      else if of_int (BAR_SCORE Acceptable) \<le> score then Acceptable
      else if of_int (BAR_SCORE Concerning) \<le> score then Concerning
      else Distress)"

definition computeLens1ThreeAnchor ::
  "(num \<Rightarrow> num) \<Rightarrow> num \<Rightarrow> three_anchor_bars \<Rightarrow> direction \<Rightarrow> lens1_result" where
  "computeLens1ThreeAnchor R value bars dir =
    (let g = toG value dir;
         gE = toG (ta_excellent bars) dir; gG = toG (ta_good bars) dir; gD = toG (ta_distress bars) dir;
         wTop = R (gE - gG); wBot = R (gG - gD);
         guard = (if wTop < 0 \<or> wBot < 0 then Some Non_monotonic_bars else None);
         up = (\<lambda>t. clampScore (R (of_int (BAR_SCORE Excellent) + R (L1_SAT_RATE * R (R (g - gE) / t)))));
         down = (\<lambda>t. clampScore (R (of_int (BAR_SCORE Distress) - R (L1_SAT_RATE * R (R (gD - g) / t)))));
         (score, saturated, guard') =
           (if gE \<le> g then
              (if g = gE then (of_int (BAR_SCORE Excellent), False, guard)
               else if 0 < wTop then (up wTop, True, guard)
               else if 0 < wBot then (up wBot, True, set_guard Collapsed_saturation_scale guard)
               else (of_int (BAR_SCORE Excellent), False, set_guard Degenerate_all_bars_equal guard))
            else if gG \<le> g then (segment R Good Excellent g gG gE, False, guard)
            else if gD \<le> g then (segment R Distress Good g gD gG, False, guard)
            else if 0 < wBot then (down wBot, True, guard)
            else if 0 < wTop then (down wTop, True, set_guard Collapsed_saturation_scale guard)
            else (of_int (BAR_SCORE Distress), False, set_guard Degenerate_all_bars_equal guard))
     in \<lparr>l1r_score = score, l1r_band = bandFromScore score, l1r_saturated = saturated,
         l1r_guard = guard', l1r_barSetUsed = Sscu\<rparr>)"

definition scoreL1 ::
  "(num \<Rightarrow> num) \<Rightarrow> num \<Rightarrow> absolute_bars \<Rightarrow> direction \<Rightarrow> string option \<Rightarrow> stock_override option \<Rightarrow> lens1_result" where
  "scoreL1 R value bars dir stock override =
    (case override of
       Some ov \<Rightarrow> (case stock of
          Some s \<Rightarrow> if s \<noteq> [] \<and> inScope s (so_scope ov)
                    then computeLens1ThreeAnchor R value (so_bars ov) dir
                    else computeLens1 R value bars dir
        | None \<Rightarrow> computeLens1 R value bars dir)
     | None \<Rightarrow> computeLens1 R value bars dir)"

subsection \<open>Lenses 2 and 3: z-scores (\<open>lens-zscore.ts\<close>)\<close>

definition zToScore :: "(num \<Rightarrow> num) \<Rightarrow> num \<Rightarrow> num \<Rightarrow> num" where
  "zToScore R z anchor =
    (if Z_INNER_HALF \<le> z then clampScore (R (Z_PLUS2_SCORE + R (Z_SAT_RATE * R (z - Z_INNER_HALF))))
     else if z \<le> - Z_INNER_HALF then clampScore (R (Z_MINUS2_SCORE + R (Z_SAT_RATE * R (z + Z_INNER_HALF))))
     else if 0 \<le> z then R (anchor + R (R (R (Z_PLUS2_SCORE - anchor) / Z_INNER_HALF) * z))
     else R (anchor + R (R (R (anchor - Z_MINUS2_SCORE) / Z_INNER_HALF) * z)))"

definition orient :: "num \<Rightarrow> direction \<Rightarrow> num" where
  "orient z dir = (if dir = Higher_better then z else - z)"

datatype z_guard = Std_dev_zero | Insufficient_n

record zlens_result =
  z_available :: bool
  z_score :: "num option"
  z_z :: "num option"
  z_anchorApplied :: int
  z_anchorLiftFired :: bool
  z_guard :: "z_guard option"

record lens2_input =
  l2i_value :: num
  l2i_peerMean :: num
  l2i_peerStdDev :: num
  l2i_direction :: direction
  l2i_anchorLifted :: bool

definition anchorOf :: "bool \<Rightarrow> int" where
  "anchorOf lifted = (if lifted then Z_ANCHOR_LIFTED else Z_ANCHOR_DEFAULT)"

definition computeLens2 :: "(num \<Rightarrow> num) \<Rightarrow> lens2_input \<Rightarrow> zlens_result" where
  "computeLens2 R i =
    (let anchorApplied = anchorOf (l2i_anchorLifted i)
     in if l2i_peerStdDev i = 0
        then \<lparr>z_available = True, z_score = Some (of_int anchorApplied), z_z = None,
              z_anchorApplied = anchorApplied, z_anchorLiftFired = l2i_anchorLifted i, z_guard = Some Std_dev_zero\<rparr>
        else (let z = R (R (l2i_value i - l2i_peerMean i) / l2i_peerStdDev i)
              in \<lparr>z_available = True, z_score = Some (zToScore R (orient z (l2i_direction i)) (of_int anchorApplied)),
                  z_z = Some z, z_anchorApplied = anchorApplied,
                  z_anchorLiftFired = l2i_anchorLifted i, z_guard = None\<rparr>))"

record lens3_input =
  l3i_value :: num
  l3i_ownHistMean :: num
  l3i_ownHistStdDev :: num
  l3i_windowN :: nat
  l3i_minEffectiveN :: nat
  l3i_direction :: direction
  l3i_anchorLifted :: bool

definition computeLens3 :: "(num \<Rightarrow> num) \<Rightarrow> lens3_input \<Rightarrow> zlens_result" where
  "computeLens3 R i =
    (let anchorApplied = anchorOf (l3i_anchorLifted i)
     in if l3i_windowN i < l3i_minEffectiveN i
        then \<lparr>z_available = False, z_score = None, z_z = None, z_anchorApplied = anchorApplied,
              z_anchorLiftFired = l3i_anchorLifted i, z_guard = Some Insufficient_n\<rparr>
        else if l3i_ownHistStdDev i = 0
        then \<lparr>z_available = True, z_score = Some (of_int anchorApplied), z_z = None,
              z_anchorApplied = anchorApplied, z_anchorLiftFired = l3i_anchorLifted i, z_guard = Some Std_dev_zero\<rparr>
        else (let z = R (R (l3i_value i - l3i_ownHistMean i) / l3i_ownHistStdDev i)
              in \<lparr>z_available = True, z_score = Some (zToScore R (orient z (l3i_direction i)) (of_int anchorApplied)),
                  z_z = Some z, z_anchorApplied = anchorApplied,
                  z_anchorLiftFired = l3i_anchorLifted i, z_guard = None\<rparr>))"

subsection \<open>The metric composite (\<open>composite.ts\<close>)\<close>

record metric_composite =
  mc_metricScore :: num
  mc_l1Available :: bool
  mc_l2Available :: bool
  mc_l3Available :: bool
  mc_lensesUsed :: nat
  mc_fallback :: lens_fallback
  mc_l1MissingAnomaly :: bool

definition zlens_present :: "zlens_result option \<Rightarrow> num list" where
  \<comment> \<open>the score pushed for a z-lens that is present, available and scored\<close>
  "zlens_present l = (case l of None \<Rightarrow> []
     | Some r \<Rightarrow> if z_available r then (case z_score r of None \<Rightarrow> [] | Some s \<Rightarrow> [s]) else [])"

definition zlens_available :: "zlens_result option \<Rightarrow> bool" where
  "zlens_available l = (case l of None \<Rightarrow> False | Some r \<Rightarrow> z_available r)"

definition combineLenses ::
  "(num \<Rightarrow> num) \<Rightarrow> lens1_result option \<Rightarrow> zlens_result option \<Rightarrow> zlens_result option \<Rightarrow> metric_composite" where
  "combineLenses R l1 l2 l3 =
    (let l1Available = (l1 \<noteq> None);
         l2Available = zlens_available l2; l3Available = zlens_available l3;
         present = (case l1 of None \<Rightarrow> [] | Some r \<Rightarrow> [l1r_score r]) @ zlens_present l2 @ zlens_present l3;
         lensesUsed = length present;
         metricScore = (if 0 < lensesUsed then R (foldl (\<lambda>a b. R (a + b)) 0 present / of_nat lensesUsed) else 0);
         fallback = (if l1Available \<and> l2Available \<and> l3Available then FB_none
                     else if l1Available \<and> l2Available \<and> \<not> l3Available then L3_insufficient_history
                     else L2_to_l1)
     in \<lparr>mc_metricScore = metricScore, mc_l1Available = l1Available, mc_l2Available = l2Available,
         mc_l3Available = l3Available, mc_lensesUsed = lensesUsed, mc_fallback = fallback,
         mc_l1MissingAnomaly = \<not> l1Available\<rparr>)"


subsection \<open>Lens 1: the score curve\<close>

text \<open>The score of a band lies between its own anchor and the next one up.\<close>

fun band_floor :: "band \<Rightarrow> int" where
  "band_floor Distress = 0"
| "band_floor b = BAR_SCORE b"

fun band_ceil :: "band \<Rightarrow> int" where
  "band_ceil Excellent = 100"
| "band_ceil Good = 90"
| "band_ceil Acceptable = 75"
| "band_ceil Concerning = 60"
| "band_ceil Distress = 40"

text \<open>The score part of \<open>computeLens1\<close>, on oriented values.\<close>

definition saturate_up :: "(num \<Rightarrow> num) \<Rightarrow> num \<Rightarrow> num \<Rightarrow> num option \<Rightarrow> num" where
  "saturate_up R g gE scale = (if g = gE then 90 else case scale of None \<Rightarrow> 90
     | Some t \<Rightarrow> clampScore (R (90 + R (L1_SAT_RATE * R (R (g - gE) / t)))))"

definition saturate_down :: "(num \<Rightarrow> num) \<Rightarrow> num \<Rightarrow> num \<Rightarrow> num option \<Rightarrow> num" where
  "saturate_down R g gD scale = (case scale of None \<Rightarrow> 20
     | Some t \<Rightarrow> clampScore (R (20 - R (L1_SAT_RATE * R (R (gD - g) / t)))))"

definition top_scale :: "num list \<Rightarrow> num option" where
  "top_scale w = (if 0 < w ! 0 then Some (w ! 0) else firstNonZero w [1, 2, 3])"

definition bot_scale :: "num list \<Rightarrow> num option" where
  "bot_scale w = (if 0 < w ! 3 then Some (w ! 3) else firstNonZero w [2, 1, 0])"

definition lens1_curve :: "(num \<Rightarrow> num) \<Rightarrow> num \<Rightarrow> num \<Rightarrow> num \<Rightarrow> num \<Rightarrow> num \<Rightarrow> num \<Rightarrow> num list \<Rightarrow> num" where
  "lens1_curve R g gE gG gA gC gD w =
    (if gE \<le> g then saturate_up R g gE (top_scale w)
     else if gG \<le> g then segment R Good Excellent g gG gE
     else if gA \<le> g then segment R Acceptable Good g gA gG
     else if gC \<le> g then segment R Concerning Acceptable g gC gA
     else if gD \<le> g then segment R Distress Concerning g gD gC
     else saturate_down R g gD (bot_scale w))"

definition bar_widths :: "(num \<Rightarrow> num) \<Rightarrow> absolute_bars \<Rightarrow> direction \<Rightarrow> num list" where
  "bar_widths R b d = [R (toG (excellent b) d - toG (good b) d), R (toG (good b) d - toG (acceptable b) d),
     R (toG (acceptable b) d - toG (concerning b) d), R (toG (concerning b) d - toG (distress b) d)]"

lemma computeLens1_score:
  "l1r_score (computeLens1 R v b d) =
     lens1_curve R (toG v d) (toG (excellent b) d) (toG (good b) d) (toG (acceptable b) d)
       (toG (concerning b) d) (toG (distress b) d) (bar_widths R b d)"
  unfolding computeLens1_def lens1_curve_def Let_def bar_widths_def[symmetric]
    top_scale_def[symmetric] bot_scale_def[symmetric]
  by (auto simp: saturate_up_def saturate_down_def split: option.split)

definition lens1_band :: "num \<Rightarrow> num \<Rightarrow> num \<Rightarrow> num \<Rightarrow> num \<Rightarrow> band" where
  "lens1_band g gE gG gA gC =
    (if gE \<le> g then Excellent else if gG \<le> g then Good else if gA \<le> g then Acceptable
     else if gC \<le> g then Concerning else Distress)"

lemma computeLens1_band:
  "l1r_band (computeLens1 R v b d) =
     lens1_band (toG v d) (toG (excellent b) d) (toG (good b) d) (toG (acceptable b) d) (toG (concerning b) d)"
  unfolding computeLens1_def lens1_band_def Let_def by (auto split: option.split)

lemma computeLens1_barSet [simp]: "l1r_barSetUsed (computeLens1 R v b d) = Standard"
  unfolding computeLens1_def Let_def by (auto split: option.split)

lemma BAR_SCORE_range: "20 \<le> BAR_SCORE b \<and> BAR_SCORE b \<le> 90"
  by (cases b) auto

context rounding begin

lemma segment_between:
  assumes "gLo \<le> g" "g < gHi" "BAR_SCORE lo \<le> BAR_SCORE hi"
  shows "of_int (BAR_SCORE lo) \<le> segment R lo hi g gLo gHi \<and>
         segment R lo hi g gLo gHi \<le> of_int (BAR_SCORE hi)"
  unfolding segment_def
  by (rule interp_between)
    (use assms ratio_unit[of gLo g gHi] BAR_SCORE_range[of lo] BAR_SCORE_range[of hi] in auto)

lemma segment_mono:
  assumes "gLo \<le> g" "g \<le> g'" "g' < gHi" "BAR_SCORE lo \<le> BAR_SCORE hi"
  shows "segment R lo hi g gLo gHi \<le> segment R lo hi g' gLo gHi"
proof -
  have D: "0 < R (gHi - gLo)" using assms by (intro pos) simp
  have "R (of_int (BAR_SCORE hi) - of_int (BAR_SCORE lo)) \<ge> 0" using assms by (intro nonneg) simp
  then show ?thesis unfolding segment_def
    by (intro mono add_left_mono mult_left_mono divide_right_mono) (use assms D in auto)
qed

lemma segment_at_bar:
  "segment R lo hi gLo gLo gHi = of_int (BAR_SCORE lo)"
  using fix_int[of "BAR_SCORE lo"] BAR_SCORE_range[of lo] by (simp add: segment_def zero)

lemma saturate_up_range:
  assumes "gE \<le> g" "\<And>t. s = Some t \<Longrightarrow> 0 < t"
  shows "90 \<le> saturate_up R g gE s \<and> saturate_up R g gE s \<le> 100"
proof (cases s)
  case (Some t)
  have "0 \<le> R (L1_SAT_RATE * R (R (g - gE) / t))"
    using assms Some by (intro nonneg mult_nonneg_nonneg divide_nonneg_nonneg) (auto simp: score_defs less_imp_le)
  then have "90 \<le> R (90 + R (L1_SAT_RATE * R (R (g - gE) / t)))" by (intro ge_num) auto
  then show ?thesis using Some clampScore_range
    by (auto simp: saturate_up_def clampScore_def score_defs)
qed (simp add: saturate_up_def)

lemma saturate_up_mono:
  assumes "gE \<le> g" "g \<le> g'" "\<And>t. s = Some t \<Longrightarrow> 0 < t"
  shows "saturate_up R g gE s \<le> saturate_up R g' gE s"
proof (cases "s = None \<or> g = gE")
  case True
  then show ?thesis using saturate_up_range[of gE g' s] assms by (auto simp: saturate_up_def)
next
  case False
  then obtain t where t: "s = Some t" "0 < t" "g \<noteq> gE" "g' \<noteq> gE" using assms by auto
  show ?thesis using t assms
    by (auto simp: saturate_up_def score_defs intro!: clampScore_mono mono divide_right_mono)
qed

lemma saturate_down_range:
  assumes "g \<le> gD" "\<And>t. s = Some t \<Longrightarrow> 0 < t"
  shows "0 \<le> saturate_down R g gD s \<and> saturate_down R g gD s \<le> 20"
proof (cases s)
  case (Some t)
  have "0 \<le> R (L1_SAT_RATE * R (R (gD - g) / t))"
    using assms Some by (intro nonneg mult_nonneg_nonneg divide_nonneg_nonneg) (auto simp: score_defs less_imp_le)
  then have "R (20 - R (L1_SAT_RATE * R (R (gD - g) / t))) \<le> 20" by (intro le_num) auto
  then show ?thesis using Some
    by (auto simp: saturate_down_def clampScore_def score_defs)
qed (simp add: saturate_down_def)

lemma saturate_down_mono:
  assumes "g \<le> g'" "\<And>t. s = Some t \<Longrightarrow> 0 < t"
  shows "saturate_down R g gD s \<le> saturate_down R g' gD s"
  using assms
  by (auto simp: saturate_down_def score_defs split: option.split
      intro!: clampScore_mono mono diff_left_mono divide_right_mono)

lemma firstNonZero_pos: "firstNonZero w is = Some t \<Longrightarrow> 0 < t"
  by (induction w "is" rule: firstNonZero.induct) (auto split: if_splits)

lemma top_scale_pos: "top_scale w = Some t \<Longrightarrow> 0 < t"
  by (auto simp: top_scale_def firstNonZero_pos split: if_splits)

lemma bot_scale_pos: "bot_scale w = Some t \<Longrightarrow> 0 < t"
  by (auto simp: bot_scale_def firstNonZero_pos split: if_splits)

lemma lens1_curve_in_band:
  "of_int (band_floor (lens1_band g gE gG gA gC)) \<le> lens1_curve R g gE gG gA gC gD w \<and>
   lens1_curve R g gE gG gA gC gD w \<le> of_int (band_ceil (lens1_band g gE gG gA gC))"
proof -
  consider "gE \<le> g" | "g < gE" "gG \<le> g" | "g < gE" "g < gG" "gA \<le> g" | "g < gE" "g < gG" "g < gA" "gC \<le> g"
    | "g < gE" "g < gG" "g < gA" "g < gC" "gD \<le> g" | "g < gE" "g < gG" "g < gA" "g < gC" "g < gD"
    by linarith
  then show ?thesis
  proof cases
    case 1
    then show ?thesis using saturate_up_range[of gE g "top_scale w"] top_scale_pos
      by (simp add: lens1_curve_def lens1_band_def)
  next
    case 2
    then show ?thesis using segment_between[of gG g gE Good Excellent] by (simp add: lens1_curve_def lens1_band_def)
  next
    case 3
    then show ?thesis using segment_between[of gA g gG Acceptable Good] by (simp add: lens1_curve_def lens1_band_def)
  next
    case 4
    then show ?thesis using segment_between[of gC g gA Concerning Acceptable] by (simp add: lens1_curve_def lens1_band_def)
  next
    case 5
    then show ?thesis using segment_between[of gD g gC Distress Concerning] by (auto simp: lens1_curve_def lens1_band_def)
  next
    case 6
    then show ?thesis using saturate_down_range[of g gD "bot_scale w"] bot_scale_pos
      by (auto simp: lens1_curve_def lens1_band_def)
  qed
qed

lemma lens1_curve_mono:
  assumes "gG \<le> gE" "gA \<le> gG" "gC \<le> gA" "gD \<le> gC" and le: "g \<le> g'"
  shows "lens1_curve R g gE gG gA gC gD w \<le> lens1_curve R g' gE gG gA gC gD w"
proof -
  have up: "gE \<le> x \<Longrightarrow> 90 \<le> saturate_up R x gE (top_scale w)" for x
    using saturate_up_range top_scale_pos by blast
  have down: "x \<le> gD \<Longrightarrow> saturate_down R x gD (bot_scale w) \<le> 20" for x
    using saturate_down_range bot_scale_pos by blast
  have b1: "gG \<le> x \<Longrightarrow> x < gE \<Longrightarrow> 75 \<le> segment R Good Excellent x gG gE \<and> segment R Good Excellent x gG gE \<le> 90" for x
    using segment_between[of gG x gE Good Excellent] by simp
  have b2: "gA \<le> x \<Longrightarrow> x < gG \<Longrightarrow> 60 \<le> segment R Acceptable Good x gA gG \<and> segment R Acceptable Good x gA gG \<le> 75" for x
    using segment_between[of gA x gG Acceptable Good] by simp
  have b3: "gC \<le> x \<Longrightarrow> x < gA \<Longrightarrow> 40 \<le> segment R Concerning Acceptable x gC gA \<and> segment R Concerning Acceptable x gC gA \<le> 60" for x
    using segment_between[of gC x gA Concerning Acceptable] by simp
  have b4: "gD \<le> x \<Longrightarrow> x < gC \<Longrightarrow> 20 \<le> segment R Distress Concerning x gD gC \<and> segment R Distress Concerning x gD gC \<le> 40" for x
    using segment_between[of gD x gC Distress Concerning] by simp
  note edges = up[of g] up[of g'] down[of g] down[of g'] b1[of g] b1[of g'] b2[of g] b2[of g']
    b3[of g] b3[of g'] b4[of g] b4[of g']
  consider "gE \<le> g" | "gG \<le> g" "g' < gE" | "gA \<le> g" "g' < gG" | "gC \<le> g" "g' < gA"
    | "gD \<le> g" "g' < gC" | "g' < gD" | "g < gE" "gE \<le> g'" | "g < gG" "gG \<le> g'" | "g < gA" "gA \<le> g'"
    | "g < gC" "gC \<le> g'" | "g < gD" "gD \<le> g'"
    by linarith
  then show ?thesis
  proof cases
    case 1 then show ?thesis using assms saturate_up_mono[of gE g g'] top_scale_pos by (simp add: lens1_curve_def)
  next
    case 2 then show ?thesis using assms segment_mono[of gG g g' gE Good Excellent] by (simp add: lens1_curve_def)
  next
    case 3 then show ?thesis using assms segment_mono[of gA g g' gG Acceptable Good] by (simp add: lens1_curve_def)
  next
    case 4 then show ?thesis using assms segment_mono[of gC g g' gA Concerning Acceptable] by (simp add: lens1_curve_def)
  next
    case 5 then show ?thesis using assms segment_mono[of gD g g' gC Distress Concerning] by (simp add: lens1_curve_def)
  next
    case 6 then show ?thesis using assms saturate_down_mono[of g g'] bot_scale_pos by (simp add: lens1_curve_def)
  qed (use assms edges in \<open>auto simp: lens1_curve_def\<close>)
qed

end


subsection \<open>The three-anchor override\<close>

definition anchor3_curve :: "(num \<Rightarrow> num) \<Rightarrow> num \<Rightarrow> num \<Rightarrow> num \<Rightarrow> num \<Rightarrow> num \<Rightarrow> num \<Rightarrow> num" where
  "anchor3_curve R g gE gG gD wTop wBot =
    (let pick = (\<lambda>a b. if 0 < a then Some a else if 0 < b then Some b else None :: num option)
     in if gE \<le> g then saturate_up R g gE (pick wTop wBot)
        else if gG \<le> g then segment R Good Excellent g gG gE
        else if gD \<le> g then segment R Distress Good g gD gG
        else saturate_down R g gD (pick wBot wTop))"

lemma computeLens1ThreeAnchor_score:
  "l1r_score (computeLens1ThreeAnchor R v b d) =
     anchor3_curve R (toG v d) (toG (ta_excellent b) d) (toG (ta_good b) d) (toG (ta_distress b) d)
       (R (toG (ta_excellent b) d - toG (ta_good b) d)) (R (toG (ta_good b) d - toG (ta_distress b) d))"
  unfolding computeLens1ThreeAnchor_def anchor3_curve_def Let_def
  by (simp add: saturate_up_def saturate_down_def)

lemma computeLens1ThreeAnchor_band:
  "l1r_band (computeLens1ThreeAnchor R v b d) = bandFromScore (l1r_score (computeLens1ThreeAnchor R v b d))"
  unfolding computeLens1ThreeAnchor_def Let_def by (simp split: prod.split)

lemma bandFromScore_in_band:
  "0 \<le> s \<Longrightarrow> s \<le> 100 \<Longrightarrow>
   of_int (band_floor (bandFromScore s)) \<le> s \<and> s \<le> of_int (band_ceil (bandFromScore s))"
  by (auto simp: bandFromScore_def)

context rounding begin

lemma anchor3_range: "0 \<le> anchor3_curve R g gE gG gD wT wB \<and> anchor3_curve R g gE gG gD wT wB \<le> 100"
proof -
  have u: "gE \<le> g \<Longrightarrow> 90 \<le> saturate_up R g gE (if 0 < a then Some a else if 0 < b then Some b else None) \<and>
     saturate_up R g gE (if 0 < a then Some a else if 0 < b then Some b else None) \<le> 100" for a b
    by (rule saturate_up_range) (auto split: if_splits)
  have d: "g \<le> gD \<Longrightarrow> 0 \<le> saturate_down R g gD (if 0 < a then Some a else if 0 < b then Some b else None) \<and>
     saturate_down R g gD (if 0 < a then Some a else if 0 < b then Some b else None) \<le> 20" for a b
    by (rule saturate_down_range) (auto split: if_splits)
  consider "gE \<le> g" | "g < gE" "gG \<le> g" | "g < gE" "g < gG" "gD \<le> g" | "g < gE" "g < gG" "g < gD" by linarith
  then show ?thesis
  proof cases
    case 1 then show ?thesis using u[of wT wB] by (simp add: anchor3_curve_def Let_def)
  next
    case 2 then show ?thesis using segment_between[of gG g gE Good Excellent] by (simp add: anchor3_curve_def)
  next
    case 3 then show ?thesis using segment_between[of gD g gG Distress Good] by (simp add: anchor3_curve_def)
  next
    case 4 then show ?thesis using d[of wB wT] by (simp add: anchor3_curve_def Let_def)
  qed
qed

end

lemma scoreL1_cases:
  "scoreL1 R v b d st ov = computeLens1 R v b d \<or>
   (\<exists>o' s. ov = Some o' \<and> st = Some s \<and> inScope s (so_scope o') \<and>
     scoreL1 R v b d st ov = computeLens1ThreeAnchor R v (so_bars o') d)"
  by (auto simp: scoreL1_def split: option.split)

context rounding begin

lemma scoreL1_in_band:
  "of_int (band_floor (l1r_band (scoreL1 R v b d st ov))) \<le> l1r_score (scoreL1 R v b d st ov) \<and>
   l1r_score (scoreL1 R v b d st ov) \<le> of_int (band_ceil (l1r_band (scoreL1 R v b d st ov)))"
proof -
  have one: "of_int (band_floor (l1r_band r)) \<le> l1r_score r \<and> l1r_score r \<le> of_int (band_ceil (l1r_band r))"
    if "r = computeLens1 R v b d" for r
    unfolding that computeLens1_score computeLens1_band by (rule lens1_curve_in_band)
  have three: "of_int (band_floor (l1r_band r)) \<le> l1r_score r \<and> l1r_score r \<le> of_int (band_ceil (l1r_band r))"
    if "r = computeLens1ThreeAnchor R v b' d" for r b'
    unfolding that computeLens1ThreeAnchor_band
    by (rule bandFromScore_in_band) (use anchor3_range in \<open>auto simp: computeLens1ThreeAnchor_score\<close>)
  from scoreL1_cases[of R v b d st ov] show ?thesis using one three by metis
qed

lemma scoreL1_range: "0 \<le> l1r_score (scoreL1 R v b d st ov) \<and> l1r_score (scoreL1 R v b d st ov) \<le> 100"
proof -
  have "0 \<le> band_floor x \<and> band_ceil x \<le> 100" for x by (cases x) auto
  then show ?thesis using scoreL1_in_band[of v b d st ov]
    by (meson of_int_0_le_iff of_int_le_numeral_iff order_trans)
qed

end

subsection \<open>The z-score curve\<close>

lemma anchorOf_simps [simp]: "anchorOf True = 75" "anchorOf False = 60"
  by (simp_all add: anchorOf_def score_defs)

definition legal_anchor :: "num \<Rightarrow> bool" where
  "legal_anchor a \<longleftrightarrow> a = 60 \<or> a = 75"

lemma legal_anchorOf [simp]: "legal_anchor (of_int (anchorOf l))"
  by (cases l) (auto simp: legal_anchor_def)

context rounding begin

text \<open>Both inner slopes are dyadic, so they are computed without rounding.\<close>

lemma slopes:
  assumes "legal_anchor a"
  shows "R (R (90 - a) / 2) = (90 - a) / 2 \<and> R (R (a - 30) / 2) = (a - 30) / 2"
proof -
  have "R 15 = 15" "R 30 = 30" "R 45 = 45" "R (15/2) = 15/2" "R (45/2) = 45/2"
    using fix_int[of 15] fix_int[of 30] fix_int[of 45] fix_half[of 15] fix_half[of 45] by simp_all
  then show ?thesis using assms by (auto simp: legal_anchor_def)
qed

lemma z_inner_up:
  assumes "legal_anchor a" "0 \<le> z" "z < 2"
  shows "zToScore R z a = R (a + R ((90 - a) / 2 * z)) \<and> a \<le> zToScore R z a \<and> zToScore R z a \<le> 90"
proof -
  have eq: "zToScore R z a = R (a + R ((90 - a) / 2 * z))"
    using assms(2,3) by (simp add: zToScore_def score_defs slopes[OF assms(1)])
  have Ra: "R a = a" using assms(1) fix_int[of 60] fix_int[of 75] by (auto simp: legal_anchor_def)
  have a90: "a \<le> 90" using assms(1) by (auto simp: legal_anchor_def)
  have "0 \<le> R ((90 - a) / 2 * z)" using assms a90 by (intro nonneg) auto
  then have "R a \<le> R (a + R ((90 - a) / 2 * z))" by (intro mono) simp
  moreover have "R ((90 - a) / 2 * z) \<le> 90 - a"
  proof -
    have "(90 - a) / 2 * z \<le> (90 - a) / 2 * 2" using assms a90 by (intro mult_left_mono) auto
    then have "R ((90 - a) / 2 * z) \<le> R (90 - a)" by (intro mono) simp
    then show ?thesis using assms(1) fix_int[of 30] fix_int[of 15] by (auto simp: legal_anchor_def)
  qed
  then have "R (a + R ((90 - a) / 2 * z)) \<le> R 90" by (intro mono) simp
  ultimately show ?thesis using eq Ra fix_int[of 90] by simp
qed

lemma z_inner_down:
  assumes "legal_anchor a" "- 2 < z" "z < 0"
  shows "zToScore R z a = R (a + R ((a - 30) / 2 * z)) \<and> 30 \<le> zToScore R z a \<and> zToScore R z a \<le> a"
proof -
  have eq: "zToScore R z a = R (a + R ((a - 30) / 2 * z))"
    using assms(2,3) by (simp add: zToScore_def score_defs slopes[OF assms(1)])
  have Ra: "R a = a" using assms(1) fix_int[of 60] fix_int[of 75] by (auto simp: legal_anchor_def)
  have a30: "30 \<le> a" using assms(1) by (auto simp: legal_anchor_def)
  have "R ((a - 30) / 2 * z) \<le> 0" using assms a30 by (intro nonpos mult_nonneg_nonpos) auto
  then have "R (a + R ((a - 30) / 2 * z)) \<le> R a" by (intro mono) simp
  moreover have "30 - a \<le> R ((a - 30) / 2 * z)"
  proof -
    have "30 - a \<le> (a - 30) / 2 * z" using assms by (auto simp: legal_anchor_def)
    then have "R (30 - a) \<le> R ((a - 30) / 2 * z)" by (rule mono)
    then show ?thesis using assms(1) fix_int[of "-30"] fix_int[of "-45"] by (auto simp: legal_anchor_def)
  qed
  then have "R 30 \<le> R (a + R ((a - 30) / 2 * z))" by (intro mono) simp
  ultimately show ?thesis using eq Ra fix_int[of 30] by simp
qed

lemma z_outer_up:
  assumes "2 \<le> z"
  shows "zToScore R z a = clampScore (R (90 + R (5 * R (z - 2)))) \<and> 90 \<le> zToScore R z a \<and> zToScore R z a \<le> 100"
proof -
  have eq: "zToScore R z a = clampScore (R (90 + R (5 * R (z - 2))))"
    using assms by (simp add: zToScore_def score_defs)
  have "0 \<le> R (5 * R (z - 2))" using assms by (intro nonneg mult_nonneg_nonneg) (auto intro: nonneg)
  then have "90 \<le> R (90 + R (5 * R (z - 2)))" by (intro ge_num) auto
  then show ?thesis using eq by (auto simp: clampScore_def score_defs)
qed

lemma z_outer_down:
  assumes "z \<le> - 2"
  shows "zToScore R z a = clampScore (R (30 + R (5 * R (z + 2)))) \<and> 0 \<le> zToScore R z a \<and> zToScore R z a \<le> 30"
proof -
  have eq: "zToScore R z a = clampScore (R (30 + R (5 * R (z + 2))))"
    using assms by (simp add: zToScore_def score_defs)
  have "R (5 * R (z + 2)) \<le> 0" using assms by (intro nonpos mult_nonneg_nonpos) (auto intro: nonpos)
  then have "R (30 + R (5 * R (z + 2))) \<le> 30" by (intro le_num) auto
  then show ?thesis using eq by (auto simp: clampScore_def score_defs)
qed

lemma zToScore_range:
  assumes "legal_anchor a" shows "0 \<le> zToScore R z a \<and> zToScore R z a \<le> 100"
proof -
  have a: "60 \<le> a" "a \<le> 75" using assms by (auto simp: legal_anchor_def)
  consider "2 \<le> z" | "z \<le> - 2" | "0 \<le> z" "z < 2" | "- 2 < z" "z < 0" by linarith
  then show ?thesis
    using z_outer_up[of z a] z_outer_down[of z a] z_inner_up[OF assms, of z] z_inner_down[OF assms, of z] a
    by cases auto
qed

lemma zToScore_mono:
  assumes a: "legal_anchor a" and le: "z \<le> z'" shows "zToScore R z a \<le> zToScore R z' a"
proof -
  have ra: "60 \<le> a" "a \<le> 75" using a by (auto simp: legal_anchor_def)
  note pieces = z_outer_up z_outer_down z_inner_up[OF a] z_inner_down[OF a]
  consider "2 \<le> z" | "z' \<le> - 2" | "0 \<le> z" "z' < 2" | "- 2 < z" "z' < 0"
    | "z < 2" "2 \<le> z'" | "z < 0" "0 \<le> z'" "z' < 2" | "z \<le> - 2" "- 2 < z'" "z' < 0" using le by linarith
  then show ?thesis
  proof cases
    case 1
    then show ?thesis using le pieces(1)[of z a] pieces(1)[of z' a] by (simp add: clampScore_mono mono)
  next
    case 2
    then show ?thesis using le pieces(2)[of z a] pieces(2)[of z' a] by (simp add: clampScore_mono mono)
  next
    case 3
    have "R (a + R ((90 - a) / 2 * z)) \<le> R (a + R ((90 - a) / 2 * z'))"
      using ra le by (intro mono add_left_mono mult_left_mono) auto
    then show ?thesis using 3 le pieces(3)[of z] pieces(3)[of z'] by simp
  next
    case 4
    have "R (a + R ((a - 30) / 2 * z)) \<le> R (a + R ((a - 30) / 2 * z'))"
      using ra le by (intro mono add_left_mono mult_left_mono) auto
    then show ?thesis using 4 le pieces(4)[of z] pieces(4)[of z'] by simp
  next
    case 5
    have "zToScore R z a \<le> 90" using 5 pieces(2)[of z a] pieces(3)[of z] pieces(4)[of z] ra
      by (cases "z \<le> - 2"; cases "0 \<le> z") auto
    then show ?thesis using 5 pieces(1)[of z' a] by simp
  next
    case 6
    have "zToScore R z a \<le> a" using 6 pieces(2)[of z a] pieces(4)[of z] ra by (cases "z \<le> - 2") auto
    then show ?thesis using 6 pieces(3)[of z'] by simp
  next
    case 7
    then show ?thesis using pieces(2)[of z a] pieces(4)[of z'] by simp
  qed
qed

end

subsection \<open>Results of the lenses and their mean\<close>

definition zlens_ok :: "zlens_result \<Rightarrow> bool" where
  \<comment> \<open>what every z-lens result satisfies: a score exactly when available, in range\<close>
  "zlens_ok r \<longleftrightarrow> (z_available r \<longleftrightarrow> z_score r \<noteq> None) \<and>
     (\<forall>s. z_score r = Some s \<longrightarrow> 0 \<le> s \<and> s \<le> 100)"

lemma zlens_present_ok:
  assumes "\<And>r. l = Some r \<Longrightarrow> zlens_ok r" "s \<in> set (zlens_present l)"
  shows "0 \<le> s \<and> s \<le> 100"
proof (cases l)
  case (Some r)
  then show ?thesis using assms(1)[of r] assms(2)
    by (cases "z_score r") (auto simp: zlens_present_def zlens_ok_def split: if_splits)
qed (use assms in \<open>simp add: zlens_present_def\<close>)

lemma zlens_present_length: "length (zlens_present l) \<le> 1"
  by (auto simp: zlens_present_def split: option.split)

context rounding begin

lemma anchorOf_range: "0 \<le> anchorOf l \<and> anchorOf l \<le> 100"
  by (cases l) auto

lemma computeLens2_ok: "zlens_ok (computeLens2 R i) \<and> z_available (computeLens2 R i)"
  using zToScore_range[OF legal_anchorOf] anchorOf_range
  by (simp add: computeLens2_def zlens_ok_def Let_def)

lemma computeLens3_ok: "zlens_ok (computeLens3 R i)"
  using zToScore_range[OF legal_anchorOf] anchorOf_range
  by (simp add: computeLens3_def zlens_ok_def Let_def)

lemma mean_range:
  assumes "\<And>s. s \<in> set xs \<Longrightarrow> 0 \<le> s \<and> s \<le> 100" "length xs \<le> 1000" "xs \<noteq> []"
  shows "0 \<le> R (foldl (\<lambda>a b. R (a + b)) 0 xs / of_nat (length xs)) \<and>
         R (foldl (\<lambda>a b. R (a + b)) 0 xs / of_nat (length xs)) \<le> 100"
proof -
  have n: "0 < length xs" using assms(3) by simp
  have lo: "0 \<le> foldl (\<lambda>a b. R (a + b)) 0 xs" using sum_nonneg[of 0 xs "\<lambda>x. x"] assms(1) by simp
  have "foldl (\<lambda>a b. R (a + b)) 0 xs \<le> of_int (0 + int (length xs) * 100)"
    by (rule sum_le_int) (use assms in auto)
  then have "foldl (\<lambda>a b. R (a + b)) 0 xs / of_nat (length xs) \<le> 100"
    using n by (simp add: pos_divide_le_eq mult.commute)
  then have "R (foldl (\<lambda>a b. R (a + b)) 0 xs / of_nat (length xs)) \<le> 100" by (rule le_num) simp
  then show ?thesis using lo by (auto intro!: nonneg)
qed

lemma combineLenses_range:
  assumes "\<And>r. l1 = Some r \<Longrightarrow> 0 \<le> l1r_score r \<and> l1r_score r \<le> 100"
    and "\<And>r. l2 = Some r \<Longrightarrow> zlens_ok r" and "\<And>r. l3 = Some r \<Longrightarrow> zlens_ok r"
  shows "0 \<le> mc_metricScore (combineLenses R l1 l2 l3) \<and> mc_metricScore (combineLenses R l1 l2 l3) \<le> 100"
proof -
  define xs where "xs = (case l1 of None \<Rightarrow> [] | Some r \<Rightarrow> [l1r_score r]) @ zlens_present l2 @ zlens_present l3"
  have "s \<in> set xs \<Longrightarrow> 0 \<le> s \<and> s \<le> 100" for s
    using assms zlens_present_ok[of l2 s] zlens_present_ok[of l3 s]
    by (auto simp: xs_def split: option.splits)
  moreover have "length xs \<le> 3"
    using zlens_present_length[of l2] zlens_present_length[of l3] by (auto simp: xs_def split: option.split)
  ultimately have "xs \<noteq> [] \<Longrightarrow> ?thesis" using mean_range[of xs] by (simp add: combineLenses_def xs_def[symmetric] Let_def)
  moreover have "xs = [] \<Longrightarrow> ?thesis" by (simp add: combineLenses_def xs_def[symmetric] Let_def)
  ultimately show ?thesis by blast
qed

end

subsection \<open>Properties\<close>

text \<open>In machine arithmetic, the absolute score of every value under every bar set (the
  standard five bars or the three-anchor override, ordered or not) lies in the interval of the band
  reported with it, and so in the range 0 to 100.\<close>

theorem lens1_in_its_band:
  "of_int (band_floor (l1r_band (scoreL1 f64 v b d st ov))) \<le> l1r_score (scoreL1 f64 v b d st ov) \<and>
   l1r_score (scoreL1 f64 v b d st ov) \<le> of_int (band_ceil (l1r_band (scoreL1 f64 v b d st ov))) \<and>
   0 \<le> l1r_score (scoreL1 f64 v b d st ov) \<and> l1r_score (scoreL1 f64 v b d st ov) \<le> 100"
  using f64.scoreL1_in_band f64.scoreL1_range by blast

text \<open>C21. With bars in order, a better raw value never gets a lower absolute score in machine
  arithmetic, over the whole range: saturation zones, segments and the cut points between them.\<close>

theorem lens1_monotone:
  assumes "toG (good b) d \<le> toG (excellent b) d" "toG (acceptable b) d \<le> toG (good b) d"
    and "toG (concerning b) d \<le> toG (acceptable b) d" "toG (distress b) d \<le> toG (concerning b) d"
    and "toG v d \<le> toG v' d"
  shows "l1r_score (computeLens1 f64 v b d) \<le> l1r_score (computeLens1 f64 v' b d)"
  unfolding computeLens1_score by (rule f64.lens1_curve_mono[OF assms])

theorem lens1_monotone_witness:
  "l1r_score (computeLens1 f64 3 \<lparr>excellent = 1/2, good = 1, acceptable = 2, concerning = 4, distress = 6\<rparr> Lower_better) \<le>
   l1r_score (computeLens1 f64 (7/4) \<lparr>excellent = 1/2, good = 1, acceptable = 2, concerning = 4, distress = 6\<rparr> Lower_better)"
  by (rule lens1_monotone) (simp_all add: toG_def)

text \<open>The z-score curve in machine arithmetic: for both anchors the program applies it
  stays in 0 to 100, never falls when the z-score rises, and goes through the anchor at 0, 90 at two
  standard deviations above and 30 at two below.\<close>

theorem z_curve:
  assumes "z \<le> z'"
  shows "0 \<le> zToScore f64 z (of_int (anchorOf l)) \<and> zToScore f64 z (of_int (anchorOf l)) \<le> zToScore f64 z' (of_int (anchorOf l)) \<and>
    zToScore f64 z' (of_int (anchorOf l)) \<le> 100 \<and> zToScore f64 0 (of_int (anchorOf l)) = of_int (anchorOf l) \<and>
    zToScore f64 2 (of_int (anchorOf l)) = 90 \<and> zToScore f64 (- 2) (of_int (anchorOf l)) = 30"
proof -
  have i: "f64 60 = 60" "f64 75 = 75" "f64 90 = 90" "f64 30 = 30" by (simp_all add: f64.fix_num)
  have "zToScore f64 0 (of_int (anchorOf l)) = of_int (anchorOf l)"
    by (cases l) (simp_all add: zToScore_def score_defs i)
  moreover have "zToScore f64 2 (of_int (anchorOf l)) = 90" "zToScore f64 (- 2) (of_int (anchorOf l)) = 30"
    by (simp_all add: zToScore_def score_defs i clampScore_def)
  ultimately show ?thesis
    using f64.zToScore_range[OF legal_anchorOf, of z l] f64.zToScore_range[OF legal_anchorOf, of z' l]
      f64.zToScore_mono[OF legal_anchorOf assms, of l] by blast
qed

theorem z_curve_witness:
  "zToScore f64 (1/3) (of_int (anchorOf True)) \<le> zToScore f64 (7/3) (of_int (anchorOf True))"
  using z_curve[of "1/3" "7/3" True] by simp

end
