(* ===== verification/LabelMap.thy ===== *)
theory LabelMap
  imports Lenses
begin

text \<open>
  The metric registry and the label resolver of \<open>src/scoring/bars-loader/label-map.ts\<close>, with
  the unit-match guard of \<open>src/scoring/metric-scoring/unit-guard.ts\<close>.  Strings are lists of
  Latin-1 code units; the section sign is \<open>CHR 0xA7\<close>.  The regular expressions of
  \<open>normalizeLabel\<close> are written as the scans they denote.  The explanatory
  \<open>vytalBasis\<close> texts of the registry are not part of the model.
\<close>

subsection \<open>The registry\<close>

datatype engine_unit = U_percent | U_ratio | U_x | U_days | U_years

datatype live_unit = Live engine_unit | Live_na

datatype label_pillar = P_foundation | P_momentum

datatype industry = Non_financial | Banking

record canonical_metric =
  cm_key :: string
  cm_label :: string
  cm_unit :: engine_unit
  cm_direction :: direction
  cm_pillar :: label_pillar
  cm_industry :: industry

definition canon :: "string \<Rightarrow> string \<Rightarrow> engine_unit \<Rightarrow> direction \<Rightarrow> label_pillar \<Rightarrow> industry \<Rightarrow> canonical_metric" where
  "canon key label unit dir pillar industry =
     \<lparr>cm_key = key, cm_label = label, cm_unit = unit, cm_direction = dir, cm_pillar = pillar, cm_industry = industry\<rparr>"

definition CANONICAL_METRICS :: "canonical_metric list" where
  "CANONICAL_METRICS = [
  canon ''F1'' ''ROCE'' U_percent Higher_better P_foundation Non_financial,
  canon ''F2'' ''ROE'' U_percent Higher_better P_foundation Non_financial,
  canon ''F3'' ''Cash Conversion'' U_ratio Higher_better P_foundation Non_financial,
  canon ''F4'' ''Debt/Equity'' U_ratio Lower_better P_foundation Non_financial,
  canon ''F5'' ''Interest Coverage'' U_x Higher_better P_foundation Non_financial,
  canon ''F6'' ''Receivables Days'' U_days Lower_better P_foundation Non_financial,
  canon ''F7'' ''Asset Turnover'' U_x Higher_better P_foundation Non_financial,
  canon ''F8'' ''FCF/PAT (4y avg)'' U_ratio Higher_better P_foundation Non_financial,
  canon ''F9'' ''OCF Consistency'' U_percent Higher_better P_foundation Non_financial,
  canon ''F10'' ''Revenue 3y CAGR'' U_percent Higher_better P_foundation Non_financial,
  canon ''F1_OPM'' ''Operating Margin (PG8)'' U_percent Higher_better P_foundation Non_financial,
  canon ''M1'' ''TTM Operating Margin'' U_percent Higher_better P_momentum Non_financial,
  canon ''M2'' ''TTM Net Margin'' U_percent Higher_better P_momentum Non_financial,
  canon ''M3'' ''Revenue YoY (TTM)'' U_percent Higher_better P_momentum Non_financial,
  canon ''M4'' ''Net Profit YoY (TTM)'' U_percent Higher_better P_momentum Non_financial,
  canon ''M5'' ''TTM Interest Coverage'' U_x Higher_better P_momentum Non_financial,
  canon ''M1_OPM_TTM'' ''TTM Operating Margin (PG8)'' U_percent Higher_better P_momentum Non_financial,
  canon ''M5_OPSHARE'' ''TTM Operating Share of PBT'' U_percent Higher_better P_momentum Non_financial,
  canon ''Tier1'' ''Tier-1 Capital'' U_percent Higher_better P_foundation Banking,
  canon ''GNPA'' ''Gross NPA'' U_percent Lower_better P_foundation Banking,
  canon ''NNPA'' ''Net NPA'' U_percent Lower_better P_foundation Banking,
  canon ''PCR'' ''Provision Coverage Ratio'' U_percent Higher_better P_foundation Banking,
  canon ''ROA'' ''Return on Assets'' U_percent Higher_better P_foundation Banking,
  canon ''CI'' ''Cost-to-Income'' U_percent Lower_better P_foundation Banking,
  canon ''CASA'' ''CASA Ratio'' U_percent Higher_better P_foundation Banking,
  canon ''NIM'' ''Net Interest Margin (TTM)'' U_percent Higher_better P_momentum Banking,
  canon ''PPOP'' ''Pre-Provision Operating Profit YoY'' U_percent Higher_better P_momentum Banking,
  canon ''NII'' ''Net Interest Income YoY'' U_percent Higher_better P_momentum Banking,
  canon ''NPyoy'' ''Net Profit YoY'' U_percent Higher_better P_momentum Banking,
  canon ''GNPAttm'' ''Gross NPA (TTM)'' U_percent Lower_better P_momentum Banking]"

definition REGISTRY :: "string \<Rightarrow> canonical_metric option" where
  \<comment> \<open>\<open>new Map(...)\<close>: the last entry of a key wins\<close>
  "REGISTRY key = find (\<lambda>m. cm_key m = key) (rev CANONICAL_METRICS)"

definition canonicalMetric :: "string \<Rightarrow> canonical_metric option" where
  "canonicalMetric key = REGISTRY key"

datatype label_error = Unknown_metric_key string | Unit_mismatch string live_unit engine_unit

definition expectedUnit :: "string \<Rightarrow> (label_error, engine_unit) result" where
  "expectedUnit key = (case REGISTRY key of None \<Rightarrow> Inl (Unknown_metric_key key) | Some m \<Rightarrow> Inr (cm_unit m))"

definition expectedDirection :: "string \<Rightarrow> direction option" where
  "expectedDirection key = map_option cm_direction (REGISTRY key)"

definition JSON_UNIT_TO_ENGINE :: "(string \<times> engine_unit) list" where
  "JSON_UNIT_TO_ENGINE = [(''percent'', U_percent), (''ratio'', U_ratio), (''times'', U_x),
     (''days'', U_days), (''years'', U_years)]"

definition toEngineUnit :: "string \<Rightarrow> engine_unit option" where
  "toEngineUnit jsonUnit = map_of JSON_UNIT_TO_ENGINE jsonUnit"

subsection \<open>The unit-match guard\<close>

definition assertUnitMatch :: "string \<Rightarrow> live_unit \<Rightarrow> engine_unit option \<Rightarrow> (label_error, engine_unit) result" where
  "assertUnitMatch key live barUnit =
    bindR (case barUnit of Some u \<Rightarrow> Inr u | None \<Rightarrow> expectedUnit key)
      (\<lambda>expected. if live = Live expected then Inr expected else Inl (Unit_mismatch key live expected))"

definition unitsMatch :: "string \<Rightarrow> live_unit \<Rightarrow> engine_unit option \<Rightarrow> bool" where
  "unitsMatch key live barUnit = (case assertUnitMatch key live barUnit of Inl _ \<Rightarrow> False | Inr _ \<Rightarrow> True)"

subsection \<open>Label normalisation\<close>

definition is_lower :: "char \<Rightarrow> bool" where
  "is_lower c = (let n = of_char c :: nat in 97 \<le> n \<and> n \<le> 122)"

definition is_digit :: "char \<Rightarrow> bool" where
  "is_digit c = (let n = of_char c :: nat in 48 \<le> n \<and> n \<le> 57)"

definition is_space :: "char \<Rightarrow> bool" where
  \<comment> \<open>\<open>\s\<close> on Latin-1\<close>
  "is_space c = (let n = of_char c :: nat in (9 \<le> n \<and> n \<le> 13) \<or> n = 32 \<or> n = 160)"

function strip_parens :: "string \<Rightarrow> string" where
  \<comment> \<open>\<open>.replace(/\([^)]*\)/g, " ")\<close>\<close>
  "strip_parens [] = []"
| "strip_parens (c # cs) =
     (if c = CHR ''('' \<and> CHR '')'' \<in> set cs
      then CHR '' '' # strip_parens (tl (dropWhile (\<lambda>x. x \<noteq> CHR '')'') cs))
      else c # strip_parens cs)"
  by pat_completeness auto
termination
  by (relation "measure length") (auto simp: less_Suc_eq_le intro: order_trans[OF diff_le_self length_dropWhile_le])

function strip_sections :: "string \<Rightarrow> string" where
  \<comment> \<open>a section sign and the non-blank run after it become a blank\<close>
  "strip_sections [] = []"
| "strip_sections (c # cs) =
     (if c = CHR 0xA7 then CHR '' '' # strip_sections (dropWhile (\<lambda>x. \<not> is_space x) cs)
      else c # strip_sections cs)"
  by pat_completeness auto
termination
  by (relation "measure length") (auto simp: less_Suc_eq_le length_dropWhile_le)

function strip_versions :: "char option \<Rightarrow> string \<Rightarrow> string" where
  \<comment> \<open>\<open>.replace(/(?<![a-z])v\d[\d.]*/g, " ")\<close>; the first argument is the character before\<close>
  "strip_versions prev [] = []"
| "strip_versions prev (c # cs) =
     (if c = CHR ''v'' \<and> (case prev of None \<Rightarrow> True | Some p \<Rightarrow> \<not> is_lower p) \<and>
         (case cs of [] \<Rightarrow> False | d # _ \<Rightarrow> is_digit d)
      then CHR '' '' # strip_versions (Some (last (takeWhile (\<lambda>x. is_digit x \<or> x = CHR ''.'') cs)))
                        (dropWhile (\<lambda>x. is_digit x \<or> x = CHR ''.'') cs)
      else c # strip_versions (Some c) cs)"
  by pat_completeness auto
termination
  by (relation "measure (\<lambda>(p, s). length s)") (auto simp: less_Suc_eq_le length_dropWhile_le)

definition normalizeLabel :: "string \<Rightarrow> string" where
  "normalizeLabel label =
     filter is_az09 (strip_versions None (strip_sections (strip_parens (map toLowerCase label))))"

subsection \<open>The alias table and the resolver\<close>

definition LABEL_ALIASES_NF_foundation :: "(string \<times> string) list" where
  "LABEL_ALIASES_NF_foundation = [
   (''roce'', ''F1''), (''roe'', ''F2''), (''cashconv'', ''F3''), (''cashconversion'', ''F3''),
   (''cashconvpat'', ''F3''), (''cashconversionpat'', ''F3''), (''de'', ''F4''), (''deratio'', ''F4''),
   (''ic'', ''F5''), (''intcov'', ''F5''), (''interestcov'', ''F5''), (''interestcoverage'', ''F5''),
   (''recvd'', ''F6''), (''recvdays'', ''F6''), (''receivabledays'', ''F6''), (''receivablesdays'', ''F6''),
   (''asstt'', ''F7''), (''assetturn'', ''F7''), (''assetturnover'', ''F7''), (''fcfpat'', ''F8''),
   (''fcf4y'', ''F8''), (''fcfpat4y'', ''F8''), (''fcfpat4yavg'', ''F8''), (''ocfcons'', ''F9''),
   (''ocfconsist'', ''F9''), (''ocfconsistency'', ''F9''), (''rev3yc'', ''F10''), (''rev3ycagr'', ''F10''),
   (''revenue3ycagr'', ''F10''), (''3yrevcagr'', ''F10''), (''3yearrevenuecagr'', ''F10''), (''opm'', ''F1_OPM'')]"

definition LABEL_ALIASES_NF_momentum :: "(string \<times> string) list" where
  "LABEL_ALIASES_NF_momentum = [
   (''ttmopm'', ''M1''), (''ttmoperatingmargin'', ''M1''), (''opmttm'', ''M1_OPM_TTM''), (''ttmnpm'', ''M2''),
   (''ttmnetmargin'', ''M2''), (''ttmnetprofitmargin'', ''M2''), (''npmttm'', ''M2''), (''revyoy'', ''M3''),
   (''revyoyann'', ''M3''), (''revyoyttm'', ''M3''), (''revenueyoy'', ''M3''), (''npyoy'', ''M4''),
   (''npyoyann'', ''M4''), (''npyoyttm'', ''M4''), (''netprofityoy'', ''M4''), (''ttmic'', ''M5''),
   (''ttmintcov'', ''M5''), (''ttminterestcov'', ''M5''), (''ttminterestcoverage'', ''M5'')]"

definition LABEL_ALIASES_BK_foundation :: "(string \<times> string) list" where
  "LABEL_ALIASES_BK_foundation = [
   (''tier1'', ''Tier1''), (''gnpa'', ''GNPA''), (''nnpa'', ''NNPA''), (''pcr'', ''PCR''),
   (''roa'', ''ROA''), (''ci'', ''CI''), (''casa'', ''CASA'')]"

definition LABEL_ALIASES_BK_momentum :: "(string \<times> string) list" where
  "LABEL_ALIASES_BK_momentum = [
   (''nimttm'', ''NIM''), (''ppopyoy'', ''PPOP''), (''niiyoy'', ''NII''), (''npyoy'', ''NPyoy''),
   (''gnpattm'', ''GNPAttm'')]"

fun LABEL_ALIASES :: "industry \<Rightarrow> label_pillar \<Rightarrow> (string \<times> string) list" where
  "LABEL_ALIASES Non_financial P_foundation = LABEL_ALIASES_NF_foundation"
| "LABEL_ALIASES Non_financial P_momentum = LABEL_ALIASES_NF_momentum"
| "LABEL_ALIASES Banking P_foundation = LABEL_ALIASES_BK_foundation"
| "LABEL_ALIASES Banking P_momentum = LABEL_ALIASES_BK_momentum"

datatype resolve_failure = Unmapped_label | Registry_corruption

record label_resolution =
  lr_rawLabel :: string
  lr_normalized :: string
  lr_key :: "string option"
  lr_reason :: "resolve_failure option"

definition lr_ok :: "label_resolution \<Rightarrow> bool" where
  "lr_ok r \<longleftrightarrow> lr_reason r = None"

definition resolveMetricKey :: "industry \<Rightarrow> label_pillar \<Rightarrow> string \<Rightarrow> label_resolution" where
  "resolveMetricKey ind pillar rawLabel =
    (let normalized = normalizeLabel rawLabel in
     case map_of (LABEL_ALIASES ind pillar) normalized of
       None \<Rightarrow> \<lparr>lr_rawLabel = rawLabel, lr_normalized = normalized, lr_key = None, lr_reason = Some Unmapped_label\<rparr>
     | Some key \<Rightarrow>
         (case REGISTRY key of
            None \<Rightarrow> \<lparr>lr_rawLabel = rawLabel, lr_normalized = normalized, lr_key = Some key, lr_reason = Some Registry_corruption\<rparr>
          | Some cm \<Rightarrow>
              if cm_industry cm \<noteq> ind \<or> cm_pillar cm \<noteq> pillar
              then \<lparr>lr_rawLabel = rawLabel, lr_normalized = normalized, lr_key = Some key, lr_reason = Some Registry_corruption\<rparr>
              else \<lparr>lr_rawLabel = rawLabel, lr_normalized = normalized, lr_key = Some key, lr_reason = None\<rparr>))"

subsection \<open>The tables agree with each other\<close>

definition alias_row_ok :: "industry \<Rightarrow> label_pillar \<Rightarrow> string \<times> string \<Rightarrow> bool" where
  "alias_row_ok ind pillar row \<longleftrightarrow>
     normalizeLabel (fst row) = fst row \<and>
     (case REGISTRY (snd row) of None \<Rightarrow> False | Some cm \<Rightarrow> cm_industry cm = ind \<and> cm_pillar cm = pillar)"

lemma alias_rows_ok: "list_all (alias_row_ok ind pillar) (LABEL_ALIASES ind pillar)"
proof (cases ind; cases pillar)
  assume "ind = Non_financial" "pillar = P_foundation"
  then show ?thesis by (simp only: ) code_simp
next
  assume "ind = Non_financial" "pillar = P_momentum"
  then show ?thesis by (simp only: ) code_simp
next
  assume "ind = Banking" "pillar = P_foundation"
  then show ?thesis by (simp only: ) code_simp
next
  assume "ind = Banking" "pillar = P_momentum"
  then show ?thesis by (simp only: ) code_simp
qed

lemma alias_keys_distinct: "distinct (map fst (LABEL_ALIASES ind pillar))"
  by (cases ind; cases pillar; simp only:) code_simp+

lemma registry_keys_distinct: "distinct (map cm_key CANONICAL_METRICS)"
  by code_simp

lemma normalizeLabel_alphabet: "list_all is_az09 (normalizeLabel s)"
  by (simp add: normalizeLabel_def list_all_iff)

lemma normalize_examples:
  "normalizeLabel ''ROCE (%)'' = ''roce''"
  "normalizeLabel ''Rev3yCAGR'' = ''rev3ycagr''"
  "normalizeLabel ''F7 v5.1.2 D/E'' = ''f7de''"
  by code_simp+

end
