(* ===== verification/Metrics.thy ===== *)
theory Metrics
  imports LabelMap
begin

text \<open>
  The live values of the metrics of a non-financial company, computed from its filed line items:
  \<open>src/scoring/metrics/types.ts\<close>, \<open>foundation.ts\<close> (F1 to F10, F1_OPM and their rolling forms) and
  \<open>momentum.ts\<close> (M1 to M5, M5_OPSHARE).  A metric value keeps key, availability, value, unit, source, reason
  and flags; the label, the formula text and the \<open>inputs\<close> record document the number and are left out.
  \<open>Math.pow\<close> is the parameter \<open>mpow\<close>, whose result may be \<open>NaN\<close>.
\<close>

subsection \<open>Values and line items (\<open>types.ts\<close>)\<close>

datatype metric_source = Derived | Stored_column | No_source

datatype unavailable_reason = Standalone_absent | Missing_line_item | Insufficient_history | Divide_by_zero | Non_positive_base

datatype buyback_path = Financing_line | Equity_capital_change | Confirmed_zero | Indeterminate

datatype js_number = Fin num | NaN

datatype metric_flag =
    Stored_null string
  | Disagrees string num num num
  | Year_end_net_worth
  | Loss_year
  | No_financing_line
  | Buyback_indeterminate
  | Buyback_unquantifiable num
  | Year_skipped int
  | Cwip_absent int
  | Year_without_cash_or_profit int
  | Ratio_distorted int num
  | Years_absent "int list"
  | Only_usable nat
  | Count_based nat nat
  | True_cagr
  | Stored_opm
  | Rolling_numerator
  | Ebitda_based
  | Ttm_vs_ttm
  | Ebit_with_other_income
  | Replaces_coverage
  | Rolling_fallback bool
  | Dispatch_gap string
  | Implausible_at1 num num
  | Out_of_band string num
  | Diverges string num num
  | Used_supplementary
  | Neutral_sixty
  | Used_fallback "num option"
  | No_current_casa
  | Operator_verify
  | Annual_cohort
  | Annual_fallback
  | Quarter_level
  | Mean_of_four

record metric_value =
  mv_key :: string
  mv_available :: bool
  mv_value :: "js_number option"
  mv_unit :: live_unit
  mv_source :: metric_source
  mv_reason :: "unavailable_reason option"
  mv_flags :: "metric_flag list"

record foundation_annual =
  fa_fiscalYear :: string
  fa_fyOrdinal :: int
  fa_revenue :: "num option"
  fa_otherIncome :: "num option"
  fa_financeCosts :: "num option"
  fa_depreciation :: "num option"
  fa_profitBeforeTax :: "num option"
  fa_netProfit :: "num option"
  fa_equityShareCapital :: "num option"
  fa_otherEquity :: "num option"
  fa_totalEquity :: "num option"
  fa_borrowingsCurrent :: "num option"
  fa_borrowingsNoncurrent :: "num option"
  fa_totalAssets :: "num option"
  fa_tradeReceivablesCurrent :: "num option"
  fa_tradeReceivablesNoncurrent :: "num option"
  fa_propertyPlantAndEquipment :: "num option"
  fa_capitalWorkInProgress :: "num option"
  fa_cashFromOperating :: "num option"
  fa_faceValueShare :: "num option"
  fa_storedRoce :: "num option"
  fa_storedDebtToEquity :: "num option"
  fa_storedInterestCoverage :: "num option"
  fa_storedReceivablesDays :: "num option"
  fa_storedAssetTurnover :: "num option"
  fa_storedOperatingMargin :: "num option"

record momentum_quarter =
  mq_fiscalYear :: string
  mq_quarter :: string
  mq_qOrdinal :: int
  mq_revenue :: "num option"
  mq_otherIncome :: "num option"
  mq_interest :: "num option"
  mq_depreciation :: "num option"
  mq_profitBeforeTax :: "num option"
  mq_netProfit :: "num option"
  mq_operatingProfitStored :: "num option"

definition sumNonNull :: "(num \<Rightarrow> num) \<Rightarrow> num option list \<Rightarrow> num option" where
  "sumNonNull R xs = (let present = [x. Some x \<leftarrow> xs] in if present = [] then None else Some (rsum R (\<lambda>x. x) present))"

definition ebitFrom :: "(num \<Rightarrow> num) \<Rightarrow> num option \<Rightarrow> num option \<Rightarrow> num option" where
  "ebitFrom R pbt financeCosts = (case (pbt, financeCosts) of (Some p, Some f) \<Rightarrow> Some (R (p + f)) | _ \<Rightarrow> None)"

definition netWorthFrom :: "(num \<Rightarrow> num) \<Rightarrow> foundation_annual \<Rightarrow> num option" where
  "netWorthFrom R r = (case fa_totalEquity r of Some e \<Rightarrow> Some e
   | None \<Rightarrow> (case (fa_equityShareCapital r, fa_otherEquity r) of (Some c, Some e) \<Rightarrow> Some (R (c + e)) | _ \<Rightarrow> None))"

definition totalDebtFrom :: "(num \<Rightarrow> num) \<Rightarrow> foundation_annual \<Rightarrow> num option" where
  "totalDebtFrom R r = sumNonNull R [fa_borrowingsCurrent r, fa_borrowingsNoncurrent r]"

definition r2 :: "(num \<Rightarrow> num) \<Rightarrow> num \<Rightarrow> num" where
  "r2 R x = R (of_int (js_round (R (x * 10000))) / 10000)"

definition unavailable :: "string \<Rightarrow> live_unit \<Rightarrow> unavailable_reason \<Rightarrow> metric_value" where
  "unavailable key un reason = \<lparr>mv_key = key, mv_available = False, mv_value = None, mv_unit = un, mv_source = No_source,
     mv_reason = Some reason, mv_flags = []\<rparr>"

definition available :: "string \<Rightarrow> live_unit \<Rightarrow> metric_source \<Rightarrow> js_number \<Rightarrow> metric_flag list \<Rightarrow> metric_value" where
  "available key un src v flags = \<lparr>mv_key = key, mv_available = True, mv_value = Some v, mv_unit = un, mv_source = src,
     mv_reason = None, mv_flags = flags\<rparr>"

subsection \<open>Foundation metrics of a fiscal year (\<open>foundation.ts\<close>)\<close>

definition REL_TOL :: "(num \<Rightarrow> num) \<Rightarrow> num" where "REL_TOL R = R (1 / 100)"
definition ABS_TOL :: "(num \<Rightarrow> num) \<Rightarrow> num" where "ABS_TOL R = R (5 / 100)"

definition crossCheck :: "(num \<Rightarrow> num) \<Rightarrow> string \<Rightarrow> num \<Rightarrow> num option \<Rightarrow> metric_flag list" where
  \<comment> \<open>the flag it pushes\<close>
  "crossCheck R name derived stored = (case stored of None \<Rightarrow> [Stored_null name]
   | Some s \<Rightarrow> (let diff = \<bar>R (derived - s)\<bar>;
                    rel = (if R (1 / 10 ^ 9) < \<bar>s\<bar> then R (diff / \<bar>s\<bar>) else diff)
                in if ABS_TOL R < diff \<and> REL_TOL R < rel then [Disagrees name (r2 R s) (r2 R derived) (r2 R diff)] else []))"

definition f1Roce :: "(num \<Rightarrow> num) \<Rightarrow> foundation_annual \<Rightarrow> metric_value" where
  "f1Roce R r = (case ebitFrom R (fa_profitBeforeTax r) (fa_financeCosts r) of
     None \<Rightarrow> unavailable ''F1'' (Live U_percent) Missing_line_item
   | Some ebit \<Rightarrow> (case netWorthFrom R r of
       None \<Rightarrow> unavailable ''F1'' (Live U_percent) Missing_line_item
     | Some nw \<Rightarrow> (case totalDebtFrom R r of
         None \<Rightarrow> unavailable ''F1'' (Live U_percent) Missing_line_item
       | Some debt \<Rightarrow>
         (let capEmployed = R (nw + debt); v = R (R (ebit / capEmployed) * 100)
          in if capEmployed = 0 then unavailable ''F1'' (Live U_percent) Divide_by_zero
             else available ''F1'' (Live U_percent) Derived (Fin v) (crossCheck R ''roce'' v (fa_storedRoce r))))))"

definition f2Roe :: "(num \<Rightarrow> num) \<Rightarrow> foundation_annual \<Rightarrow> metric_value" where
  "f2Roe R r = (case (fa_netProfit r, netWorthFrom R r) of
     (Some np, Some nw) \<Rightarrow> if nw = 0 then unavailable ''F2'' (Live U_percent) Divide_by_zero
       else available ''F2'' (Live U_percent) Derived (Fin (R (R (np / nw) * 100))) [Year_end_net_worth]
   | _ \<Rightarrow> unavailable ''F2'' (Live U_percent) Missing_line_item)"

record buyback =
  bb_amount :: "num option"
  bb_path :: buyback_path
  bb_flags :: "metric_flag list"

definition inferBuyback :: "(num \<Rightarrow> num) \<Rightarrow> foundation_annual \<Rightarrow> foundation_annual option \<Rightarrow> num option \<Rightarrow> buyback" where
  "inferBuyback R cur prior periodAvgPrice =
    (case (fa_equityShareCapital cur, case prior of None \<Rightarrow> None | Some p \<Rightarrow> fa_equityShareCapital p) of
       (Some escNow, Some escBefore) \<Rightarrow>
         (let escDrop = R (escBefore - escNow)
          in if escDrop \<le> R (1 / 100) then \<lparr>bb_amount = Some 0, bb_path = Confirmed_zero, bb_flags = [No_financing_line]\<rparr>
             else (case (periodAvgPrice, fa_faceValueShare cur) of
                 (Some price, Some face) \<Rightarrow> if face = 0
                   then \<lparr>bb_amount = None, bb_path = Equity_capital_change,
                         bb_flags = [No_financing_line, Buyback_unquantifiable (r2 R escDrop)]\<rparr>
                   else \<lparr>bb_amount = Some (R (escDrop * R (price / face))), bb_path = Equity_capital_change,
                         bb_flags = [No_financing_line]\<rparr>
               | _ \<Rightarrow> \<lparr>bb_amount = None, bb_path = Equity_capital_change,
                         bb_flags = [No_financing_line, Buyback_unquantifiable (r2 R escDrop)]\<rparr>))
     | _ \<Rightarrow> \<lparr>bb_amount = None, bb_path = Indeterminate, bb_flags = [No_financing_line, Buyback_indeterminate]\<rparr>)"

definition f3CashConversion :: "(num \<Rightarrow> num) \<Rightarrow> foundation_annual \<Rightarrow> foundation_annual option \<Rightarrow> num option \<Rightarrow> metric_value" where
  "f3CashConversion R cur prior periodAvgPrice = (case (fa_cashFromOperating cur, fa_netProfit cur) of
     (Some ocf, Some pat) \<Rightarrow> if pat = 0 then unavailable ''F3'' (Live U_ratio) Divide_by_zero
       else (let bb = inferBuyback R cur prior periodAvgPrice
             in available ''F3'' (Live U_ratio) Derived (Fin (R (R (ocf + nullish (bb_amount bb) 0) / pat)))
                  (bb_flags bb @ (if pat < 0 then [Loss_year] else [])))
   | _ \<Rightarrow> unavailable ''F3'' (Live U_ratio) Missing_line_item)"

definition f4DebtEquity :: "(num \<Rightarrow> num) \<Rightarrow> foundation_annual \<Rightarrow> metric_value" where
  "f4DebtEquity R r = (case netWorthFrom R r of
     None \<Rightarrow> unavailable ''F4'' (Live U_ratio) Missing_line_item
   | Some nw \<Rightarrow> if nw = 0 then unavailable ''F4'' (Live U_ratio) Divide_by_zero
     else (case totalDebtFrom R r of
         None \<Rightarrow> unavailable ''F4'' (Live U_ratio) Missing_line_item
       | Some debt \<Rightarrow> (let v = R (debt / nw)
           in available ''F4'' (Live U_ratio) Derived (Fin v)
                (crossCheck R ''debtToEquity(%)'' (R (v * 100)) (fa_storedDebtToEquity r)))))"

definition f5InterestCoverage :: "(num \<Rightarrow> num) \<Rightarrow> foundation_annual \<Rightarrow> metric_value" where
  "f5InterestCoverage R r = (case (ebitFrom R (fa_profitBeforeTax r) (fa_financeCosts r), fa_financeCosts r) of
     (Some ebit, Some fc) \<Rightarrow> if fc \<le> 0 then unavailable ''F5'' (Live U_x) Divide_by_zero
       else (let v = R (ebit / fc)
             in available ''F5'' (Live U_x) Derived (Fin v) (crossCheck R ''interestCoverage'' v (fa_storedInterestCoverage r)))
   | _ \<Rightarrow> unavailable ''F5'' (Live U_x) Missing_line_item)"

definition f6ReceivablesDays :: "(num \<Rightarrow> num) \<Rightarrow> foundation_annual \<Rightarrow> metric_value" where
  "f6ReceivablesDays R r =
    (case (sumNonNull R [fa_tradeReceivablesCurrent r, fa_tradeReceivablesNoncurrent r], fa_revenue r) of
       (Some recv, Some rv) \<Rightarrow> if rv = 0 then unavailable ''F6'' (Live U_days) Divide_by_zero
         else (let v = R (R (recv / rv) * 365)
               in available ''F6'' (Live U_days) Derived (Fin v) (crossCheck R ''receivablesDays'' v (fa_storedReceivablesDays r)))
     | _ \<Rightarrow> unavailable ''F6'' (Live U_days) Missing_line_item)"

definition f7AssetTurnover :: "(num \<Rightarrow> num) \<Rightarrow> foundation_annual \<Rightarrow> metric_value" where
  "f7AssetTurnover R r = (case (fa_revenue r, fa_totalAssets r) of
     (Some rv, Some assets) \<Rightarrow> if assets = 0 then unavailable ''F7'' (Live U_x) Divide_by_zero
       else (let v = R (rv / assets)
             in available ''F7'' (Live U_x) Derived (Fin v) (crossCheck R ''assetTurnover'' v (fa_storedAssetTurnover r)))
   | _ \<Rightarrow> unavailable ''F7'' (Live U_x) Missing_line_item)"

definition byOrd :: "foundation_annual list \<Rightarrow> int \<Rightarrow> foundation_annual option" where
  \<comment> \<open>\<open>new Map(rows.map(...)).get(o)\<close>: the last row of an ordinal\<close>
  "byOrd rows o' = find (\<lambda>r. fa_fyOrdinal r = o') (rev rows)"

definition F8_WINDOW_YEARS :: nat where "F8_WINDOW_YEARS = 4"
definition F9_WINDOW_YEARS :: nat where "F9_WINDOW_YEARS = 5"
definition F10_CAGR_YEARS :: int where "F10_CAGR_YEARS = 3"

definition window_ordinals :: "nat \<Rightarrow> int \<Rightarrow> int list" where
  "window_ordinals n snapshotOrdinal = map (\<lambda>k. snapshotOrdinal - int k) [0 ..< n]"

record fcf_year =
  fy_flags :: "metric_flag list"
  fy_ratio :: "num option"
  fy_absent :: bool
  fy_noPrior :: bool

definition f8_year :: "(num \<Rightarrow> num) \<Rightarrow> foundation_annual list \<Rightarrow> int \<Rightarrow> fcf_year" where
  \<comment> \<open>one pass of the loop over the window\<close>
  "f8_year R rows ord = (case byOrd rows ord of
     None \<Rightarrow> \<lparr>fy_flags = [], fy_ratio = None, fy_absent = True, fy_noPrior = False\<rparr>
   | Some row \<Rightarrow> (let prior = byOrd rows (ord - 1) in
       case (fa_propertyPlantAndEquipment row, case prior of None \<Rightarrow> None | Some p \<Rightarrow> fa_propertyPlantAndEquipment p, fa_depreciation row) of
         (Some ppe, Some ppe', Some dep) \<Rightarrow>
           (let dNetBlock = R (ppe - ppe');
                cwip = (case (fa_capitalWorkInProgress row, case prior of None \<Rightarrow> None | Some p \<Rightarrow> fa_capitalWorkInProgress p) of
                          (Some c, Some c') \<Rightarrow> Some (R (c - c')) | _ \<Rightarrow> None);
                cwipFlag = (if cwip = None then [Cwip_absent ord] else []);
                capexProxy = R (R (dNetBlock + dep) + nullish cwip 0)
            in case (fa_cashFromOperating row, fa_netProfit row) of
                 (Some ocf, Some pat) \<Rightarrow> if pat = 0
                   then \<lparr>fy_flags = cwipFlag @ [Year_without_cash_or_profit ord], fy_ratio = None, fy_absent = False, fy_noPrior = False\<rparr>
                   else (let ratio = R (R (ocf - capexProxy) / pat)
                         in \<lparr>fy_flags = cwipFlag @ (if pat < 0 then [Ratio_distorted ord ratio] else []),
                             fy_ratio = Some ratio, fy_absent = False, fy_noPrior = False\<rparr>)
               | _ \<Rightarrow> \<lparr>fy_flags = cwipFlag @ [Year_without_cash_or_profit ord], fy_ratio = None, fy_absent = False, fy_noPrior = False\<rparr>)
       | _ \<Rightarrow> \<lparr>fy_flags = [Year_skipped ord], fy_ratio = None, fy_absent = False, fy_noPrior = (prior = None)\<rparr>))"

definition f8FcfPatAvg :: "(num \<Rightarrow> num) \<Rightarrow> foundation_annual list \<Rightarrow> int \<Rightarrow> metric_value" where
  "f8FcfPatAvg R rows snapshotOrdinal =
    (let ords = window_ordinals F8_WINDOW_YEARS snapshotOrdinal; years = map (f8_year R rows) ords;
         absentYears = filter (\<lambda>o'. fy_absent (f8_year R rows o')) ords;
         ratios = [x. Some x \<leftarrow> map fy_ratio years]; n = length ratios;
         flags = concat (map fy_flags years) @ (if absentYears \<noteq> [] then [Years_absent absentYears] else [])
     in if n = 0
        then unavailable ''F8'' (Live U_ratio)
               (if length absentYears = F8_WINDOW_YEARS \<or> list_ex fy_noPrior years then Standalone_absent else Missing_line_item)
        else available ''F8'' (Live U_ratio) Derived (Fin (R (rsum R (\<lambda>x. x) ratios / of_nat n)))
               (flags @ (if n < F8_WINDOW_YEARS then [Only_usable n] else [])))"

definition f9OcfConsistency :: "(num \<Rightarrow> num) \<Rightarrow> foundation_annual list \<Rightarrow> int \<Rightarrow> metric_value" where
  "f9OcfConsistency R rows snapshotOrdinal =
    (let ocf = (\<lambda>o'. case byOrd rows o' of None \<Rightarrow> None | Some r \<Rightarrow> fa_cashFromOperating r);
         ords = window_ordinals F9_WINDOW_YEARS snapshotOrdinal;
         flows = [x. Some x \<leftarrow> map ocf ords]; absentYears = filter (\<lambda>o'. ocf o' = None) ords;
         present = length flows; positive = length (filter (\<lambda>x. 0 < x) flows)
     in if present = 0 then unavailable ''F9'' (Live U_percent) Standalone_absent
        else available ''F9'' (Live U_percent) Derived (Fin (R (R (of_nat positive / of_nat present) * 100)))
               ((if absentYears \<noteq> [] then [Years_absent absentYears] else []) @ [Count_based positive present]))"

definition cagr :: "(num \<Rightarrow> num) \<Rightarrow> (num \<Rightarrow> num \<Rightarrow> js_number) \<Rightarrow> num \<Rightarrow> num \<Rightarrow> js_number" where
  \<comment> \<open>\<open>(Math.pow(end / begin, 1 / 3) - 1) * 100\<close>\<close>
  "cagr R mpow e b = (case mpow (R (e / b)) (R (1 / of_int F10_CAGR_YEARS)) of NaN \<Rightarrow> NaN
     | Fin p \<Rightarrow> Fin (R (R (p - 1) * 100)))"

definition f10Revenue3yCagr :: "(num \<Rightarrow> num) \<Rightarrow> (num \<Rightarrow> num \<Rightarrow> js_number) \<Rightarrow> foundation_annual list \<Rightarrow> int \<Rightarrow> metric_value" where
  "f10Revenue3yCagr R mpow rows snapshotOrdinal =
    (case (case byOrd rows snapshotOrdinal of None \<Rightarrow> None | Some r \<Rightarrow> fa_revenue r) of
       None \<Rightarrow> unavailable ''F10'' (Live U_percent) Missing_line_item
     | Some e \<Rightarrow> (case byOrd rows (snapshotOrdinal - F10_CAGR_YEARS) of
         None \<Rightarrow> unavailable ''F10'' (Live U_percent) Standalone_absent
       | Some begin_row \<Rightarrow> (case fa_revenue begin_row of
           None \<Rightarrow> unavailable ''F10'' (Live U_percent) Missing_line_item
         | Some b \<Rightarrow> if b \<le> 0 then unavailable ''F10'' (Live U_percent) Non_positive_base
             else available ''F10'' (Live U_percent) Derived (cagr R mpow e b) [True_cagr])))"

definition fOpmOperatingMargin :: "foundation_annual \<Rightarrow> metric_value" where
  "fOpmOperatingMargin r = (case fa_storedOperatingMargin r of
     None \<Rightarrow> unavailable ''F1_OPM'' (Live U_percent) Missing_line_item
   | Some om \<Rightarrow> available ''F1_OPM'' (Live U_percent) Stored_column (Fin om) [Stored_opm])"

subsection \<open>Rolling forms over the last quarters\<close>

fun ttm_from :: "(num \<Rightarrow> num) \<Rightarrow> ('q \<Rightarrow> num option) \<Rightarrow> num \<Rightarrow> 'q list \<Rightarrow> num option" where
  \<comment> \<open>the loop that adds a line item up and gives up on the first \<open>null\<close>\<close>
  "ttm_from R pick s [] = Some s"
| "ttm_from R pick s (q # qs) = (case pick q of None \<Rightarrow> None | Some v \<Rightarrow> ttm_from R pick (R (s + v)) qs)"

definition ttmSum :: "(num \<Rightarrow> num) \<Rightarrow> 'q list \<Rightarrow> ('q \<Rightarrow> num option) \<Rightarrow> num option" where
  "ttmSum R qs pick = ttm_from R pick 0 qs"

definition ttm4 :: "(num \<Rightarrow> num) \<Rightarrow> 'q list \<Rightarrow> ('q \<Rightarrow> num option) \<Rightarrow> num option" where
  "ttm4 R run pick = (if length run < 4 then None else ttmSum R (lastn 4 run) pick)"

definition ebit :: "(num \<Rightarrow> num) \<Rightarrow> momentum_quarter \<Rightarrow> num option" where
  "ebit R q = ebitFrom R (mq_profitBeforeTax q) (mq_interest q)"

definition ttmEbit :: "(num \<Rightarrow> num) \<Rightarrow> momentum_quarter list \<Rightarrow> num option" where
  "ttmEbit R run = ttm4 R run (ebit R)"

definition f1RoceTtm :: "(num \<Rightarrow> num) \<Rightarrow> foundation_annual \<Rightarrow> momentum_quarter list \<Rightarrow> metric_value" where
  "f1RoceTtm R r run = (case ttmEbit R run of
     None \<Rightarrow> unavailable ''F1'' (Live U_percent) Insufficient_history
   | Some e \<Rightarrow> (case (netWorthFrom R r, totalDebtFrom R r) of
       (Some nw, Some debt) \<Rightarrow> (let ce = R (nw + debt)
         in if ce = 0 then unavailable ''F1'' (Live U_percent) Divide_by_zero
            else available ''F1'' (Live U_percent) Derived (Fin (R (R (e / ce) * 100))) [Rolling_numerator])
     | _ \<Rightarrow> unavailable ''F1'' (Live U_percent) Missing_line_item))"

definition f2RoeTtm :: "(num \<Rightarrow> num) \<Rightarrow> foundation_annual \<Rightarrow> momentum_quarter list \<Rightarrow> metric_value" where
  "f2RoeTtm R r run = (case ttm4 R run mq_netProfit of
     None \<Rightarrow> unavailable ''F2'' (Live U_percent) Insufficient_history
   | Some p \<Rightarrow> (case netWorthFrom R r of
       None \<Rightarrow> unavailable ''F2'' (Live U_percent) Missing_line_item
     | Some nw \<Rightarrow> if nw = 0 then unavailable ''F2'' (Live U_percent) Divide_by_zero
         else available ''F2'' (Live U_percent) Derived (Fin (R (R (p / nw) * 100))) [Year_end_net_worth]))"

definition f5InterestCoverageTtm :: "(num \<Rightarrow> num) \<Rightarrow> foundation_annual \<Rightarrow> momentum_quarter list \<Rightarrow> metric_value" where
  "f5InterestCoverageTtm R r run = (case (ttmEbit R run, ttm4 R run mq_interest) of
     (Some e, Some f) \<Rightarrow> if f \<le> 0 then unavailable ''F5'' (Live U_x) Divide_by_zero
       else available ''F5'' (Live U_x) Derived (Fin (R (e / f))) [Rolling_numerator]
   | _ \<Rightarrow> unavailable ''F5'' (Live U_x) Insufficient_history)"

definition f6ReceivablesDaysTtm :: "(num \<Rightarrow> num) \<Rightarrow> foundation_annual \<Rightarrow> momentum_quarter list \<Rightarrow> metric_value" where
  "f6ReceivablesDaysTtm R r run = (case ttm4 R run mq_revenue of
     None \<Rightarrow> unavailable ''F6'' (Live U_days) Insufficient_history
   | Some rv \<Rightarrow> (case sumNonNull R [fa_tradeReceivablesCurrent r, fa_tradeReceivablesNoncurrent r] of
       None \<Rightarrow> unavailable ''F6'' (Live U_days) Missing_line_item
     | Some recv \<Rightarrow> if rv = 0 then unavailable ''F6'' (Live U_days) Divide_by_zero
         else available ''F6'' (Live U_days) Derived (Fin (R (R (recv / rv) * 365))) [Rolling_numerator]))"

definition f7AssetTurnoverTtm :: "(num \<Rightarrow> num) \<Rightarrow> foundation_annual \<Rightarrow> momentum_quarter list \<Rightarrow> metric_value" where
  "f7AssetTurnoverTtm R r run = (case ttm4 R run mq_revenue of
     None \<Rightarrow> unavailable ''F7'' (Live U_x) Insufficient_history
   | Some rv \<Rightarrow> (case fa_totalAssets r of
       None \<Rightarrow> unavailable ''F7'' (Live U_x) Missing_line_item
     | Some assets \<Rightarrow> if assets = 0 then unavailable ''F7'' (Live U_x) Divide_by_zero
         else available ''F7'' (Live U_x) Derived (Fin (R (rv / assets))) [Rolling_numerator]))"

definition F10_TTM_QUARTERS :: nat where "F10_TTM_QUARTERS = 16"

definition f10Revenue3yCagrTtm :: "(num \<Rightarrow> num) \<Rightarrow> (num \<Rightarrow> num \<Rightarrow> js_number) \<Rightarrow> foundation_annual \<Rightarrow> momentum_quarter list \<Rightarrow> metric_value" where
  "f10Revenue3yCagrTtm R mpow r run =
    (if length run < F10_TTM_QUARTERS then unavailable ''F10'' (Live U_percent) Insufficient_history
     else (case (ttm4 R run mq_revenue, ttm4 R (take (length run - 12) run) mq_revenue) of
         (Some now, Some past) \<Rightarrow> if past \<le> 0 then unavailable ''F10'' (Live U_percent) Non_positive_base
           else if now \<le> 0 then unavailable ''F10'' (Live U_percent) Non_positive_base
           else available ''F10'' (Live U_percent) Derived (cagr R mpow now past) [Ttm_vs_ttm]
       | _ \<Rightarrow> unavailable ''F10'' (Live U_percent) Missing_line_item))"

definition FOUNDATION_TTM :: "(num \<Rightarrow> num) \<Rightarrow> (num \<Rightarrow> num \<Rightarrow> js_number) \<Rightarrow> string \<Rightarrow>
    (foundation_annual \<Rightarrow> momentum_quarter list \<Rightarrow> metric_value) option" where
  "FOUNDATION_TTM R mpow = map_of [(''F1'', f1RoceTtm R), (''F2'', f2RoeTtm R), (''F5'', f5InterestCoverageTtm R),
     (''F6'', f6ReceivablesDaysTtm R), (''F7'', f7AssetTurnoverTtm R), (''F10'', f10Revenue3yCagrTtm R mpow)]"

record foundation_result =
  fr_snapshotFy :: string
  fr_metrics :: "metric_value list"

definition computeFoundation :: "(num \<Rightarrow> num) \<Rightarrow> (num \<Rightarrow> num \<Rightarrow> js_number) \<Rightarrow> foundation_annual list \<Rightarrow> num option \<Rightarrow> foundation_result option" where
  "computeFoundation R mpow rows periodAvgPrice =
    (if rows = [] then None
     else (let sorted = sort_key fa_fyOrdinal rows; snap = last sorted;
               prior = find (\<lambda>r. fa_fyOrdinal r = fa_fyOrdinal snap - 1) sorted; o' = fa_fyOrdinal snap
           in Some \<lparr>fr_snapshotFy = fa_fiscalYear snap,
                fr_metrics = [f1Roce R snap, f2Roe R snap, f3CashConversion R snap prior periodAvgPrice, f4DebtEquity R snap,
                  f5InterestCoverage R snap, f6ReceivablesDays R snap, f7AssetTurnover R snap, f8FcfPatAvg R sorted o',
                  f9OcfConsistency R sorted o', f10Revenue3yCagr R mpow sorted o']\<rparr>))"

subsection \<open>Momentum metrics (\<open>momentum.ts\<close>)\<close>

fun extend_run :: "('q \<Rightarrow> int) \<Rightarrow> 'q list \<Rightarrow> 'q list \<Rightarrow> 'q list" where
  \<comment> \<open>the backwards loop: the run so far and the earlier quarters, latest first\<close>
  "extend_run ord run [] = run"
| "extend_run ord run (q # qs) = (if ord q = ord (hd run) - 1 then extend_run ord (q # run) qs else run)"

definition consecutive_run :: "('q \<Rightarrow> int) \<Rightarrow> 'q list \<Rightarrow> 'q list" where
  "consecutive_run ord quarters = (case rev (sort_key ord quarters) of [] \<Rightarrow> [] | q # qs \<Rightarrow> extend_run ord [q] qs)"

definition consecutiveTail :: "momentum_quarter list \<Rightarrow> momentum_quarter list" where
  "consecutiveTail quarters = consecutive_run mq_qOrdinal quarters"

definition opEbitda :: "(num \<Rightarrow> num) \<Rightarrow> momentum_quarter \<Rightarrow> num option" where
  "opEbitda R q = (case (mq_profitBeforeTax q, mq_interest q, mq_depreciation q) of
     (Some p, Some i, Some d) \<Rightarrow> Some (R (R (p + i) + d)) | _ \<Rightarrow> None)"

definition m1TtmOpm :: "(num \<Rightarrow> num) \<Rightarrow> momentum_quarter list \<Rightarrow> metric_value" where
  "m1TtmOpm R run = (if length run < 4 then unavailable ''M1'' (Live U_percent) Insufficient_history
     else (let ttm = lastn 4 run in case (ttmSum R ttm (opEbitda R), ttmSum R ttm mq_revenue) of
         (Some op, Some rv) \<Rightarrow> if rv = 0 then unavailable ''M1'' (Live U_percent) Divide_by_zero
           else available ''M1'' (Live U_percent) Derived (Fin (R (R (op / rv) * 100))) [Ebitda_based]
       | _ \<Rightarrow> unavailable ''M1'' (Live U_percent) Missing_line_item))"

definition m2TtmNpm :: "(num \<Rightarrow> num) \<Rightarrow> momentum_quarter list \<Rightarrow> metric_value" where
  "m2TtmNpm R run = (if length run < 4 then unavailable ''M2'' (Live U_percent) Insufficient_history
     else (let ttm = lastn 4 run in case (ttmSum R ttm mq_netProfit, ttmSum R ttm mq_revenue) of
         (Some np, Some rv) \<Rightarrow> if rv = 0 then unavailable ''M2'' (Live U_percent) Divide_by_zero
           else available ''M2'' (Live U_percent) Derived (Fin (R (R (np / rv) * 100))) []
       | _ \<Rightarrow> unavailable ''M2'' (Live U_percent) Missing_line_item))"

definition yoy_ttm :: "(num \<Rightarrow> num) \<Rightarrow> string \<Rightarrow> (momentum_quarter \<Rightarrow> num option) \<Rightarrow> momentum_quarter list \<Rightarrow> metric_value" where
  \<comment> \<open>the common body of the two year-on-year metrics\<close>
  "yoy_ttm R key pick run = (if length run < 8 then unavailable key (Live U_percent) Insufficient_history
     else (let last8 = lastn 8 run in case (ttmSum R (drop 4 last8) pick, ttmSum R (take 4 last8) pick) of
         (Some now, Some prior) \<Rightarrow> if prior \<le> 0 then unavailable key (Live U_percent) Non_positive_base
           else available key (Live U_percent) Derived (Fin (R (R (R (now - prior) / prior) * 100))) [Ttm_vs_ttm]
       | _ \<Rightarrow> unavailable key (Live U_percent) Missing_line_item))"

definition m3RevenueYoyTtm :: "(num \<Rightarrow> num) \<Rightarrow> momentum_quarter list \<Rightarrow> metric_value" where
  "m3RevenueYoyTtm R = yoy_ttm R ''M3'' mq_revenue"

definition m4NetProfitYoyTtm :: "(num \<Rightarrow> num) \<Rightarrow> momentum_quarter list \<Rightarrow> metric_value" where
  "m4NetProfitYoyTtm R = yoy_ttm R ''M4'' mq_netProfit"

definition m5TtmInterestCoverage :: "(num \<Rightarrow> num) \<Rightarrow> momentum_quarter list \<Rightarrow> metric_value" where
  "m5TtmInterestCoverage R run = (if length run < 4 then unavailable ''M5'' (Live U_x) Insufficient_history
     else (let ttm = lastn 4 run in case (ttmSum R ttm (ebit R), ttmSum R ttm mq_interest) of
         (Some e, Some i) \<Rightarrow> if i \<le> 0 then unavailable ''M5'' (Live U_x) Divide_by_zero
           else available ''M5'' (Live U_x) Derived (Fin (R (e / i))) [Ebit_with_other_income]
       | _ \<Rightarrow> unavailable ''M5'' (Live U_x) Missing_line_item))"

definition m5TtmOperatingShareOfPbt :: "(num \<Rightarrow> num) \<Rightarrow> momentum_quarter list \<Rightarrow> metric_value" where
  "m5TtmOperatingShareOfPbt R run = (if length run < 4 then unavailable ''M5_OPSHARE'' (Live U_percent) Insufficient_history
     else (let ttm = lastn 4 run in case (ttmSum R ttm mq_profitBeforeTax, ttmSum R ttm mq_otherIncome) of
         (Some pbt, Some oi) \<Rightarrow> if pbt \<le> 0 then unavailable ''M5_OPSHARE'' (Live U_percent) Non_positive_base
           else available ''M5_OPSHARE'' (Live U_percent) Derived (Fin (R (R (R (pbt - oi) / pbt) * 100))) [Replaces_coverage]
       | _ \<Rightarrow> unavailable ''M5_OPSHARE'' (Live U_percent) Missing_line_item))"

record momentum_result =
  mr_snapshotQuarter :: string
  mr_consecutiveQuarters :: nat
  mr_metrics :: "metric_value list"

definition computeMomentum :: "(num \<Rightarrow> num) \<Rightarrow> momentum_quarter list \<Rightarrow> momentum_result option" where
  "computeMomentum R quarters = (if quarters = [] then None
     else (let run = consecutiveTail quarters; snap = last run
           in Some \<lparr>mr_snapshotQuarter = mq_fiscalYear snap @ mq_quarter snap, mr_consecutiveQuarters = length run,
                mr_metrics = [m1TtmOpm R run, m2TtmNpm R run, m3RevenueYoyTtm R run, m4NetProfitYoyTtm R run,
                  m5TtmInterestCoverage R run]\<rparr>))"

subsection \<open>The consecutive run\<close>

lemma extend_run_spec:
  assumes "run \<noteq> []" "map ord run = [ord (hd run)..m]" "sorted_wrt (>) (map ord qs)" "\<forall>q \<in> set qs. ord q < ord (hd run)"
  defines "r \<equiv> extend_run ord run qs"
  shows "r \<noteq> [] \<and> map ord r = [ord (hd r)..m] \<and> set r \<subseteq> set run \<union> set qs \<and> ord (hd r) \<le> ord (hd run) \<and>
    ord (hd r) - 1 \<notin> ord ` set qs"
  using assms(1-4) unfolding r_def
proof (induction qs arbitrary: run)
  case (Cons q qs)
  have run: "run = hd run # tl run" using Cons.prems(1) by simp
  show ?case
  proof (cases "ord q = ord (hd run) - 1")
    case True
    have "ord (hd run) \<le> m" using Cons.prems(1,2) by (metis Nil_is_map_conv upto_empty not_le)
    then have "map ord (q # run) = [ord (hd (q # run))..m]" using Cons.prems(2) True by (simp add: upto.simps[of "ord (hd run) - 1"])
    then have ih: "extend_run ord (q # run) qs \<noteq> [] \<and>
        map ord (extend_run ord (q # run) qs) = [ord (hd (extend_run ord (q # run) qs))..m] \<and>
        set (extend_run ord (q # run) qs) \<subseteq> set (q # run) \<union> set qs \<and>
        ord (hd (extend_run ord (q # run) qs)) \<le> ord (hd (q # run)) \<and>
        ord (hd (extend_run ord (q # run) qs)) - 1 \<notin> ord ` set qs"
      using Cons.prems(3) by (intro Cons.IH) auto
    then show ?thesis using True by auto
  next
    case False
    then have "ord q < ord (hd run) - 1" using Cons.prems(4) by fastforce
    then have "ord (hd run) - 1 \<notin> ord ` set (q # qs)" using Cons.prems(3) by fastforce
    then show ?thesis using False Cons.prems(1,2) by auto
  qed
qed simp

lemma consecutive_run_spec:
  assumes "qs \<noteq> []" "distinct (map ord qs)"
  defines "run \<equiv> consecutive_run ord qs" and "m \<equiv> Max (ord ` set qs)"
  shows "map ord run = [m - int (length run) + 1..m] \<and> run \<noteq> [] \<and> set run \<subseteq> set qs \<and> m - int (length run) \<notin> ord ` set qs"
proof -
  obtain q older where q: "rev (sort_key ord qs) = q # older"
    using assms(1) by (cases "rev (sort_key ord qs)") (simp_all, metis set_empty set_sort)
  have "sorted_wrt (<) (map ord (sort_key ord qs))"
    using assms(2) by (simp add: strict_sorted_iff distinct_map)
  then have "sorted_wrt (>) (map ord (rev (sort_key ord qs)))" by (simp add: sorted_wrt_rev rev_map[symmetric])
  then have s: "sorted_wrt (>) (map ord older)" "\<forall>p \<in> set older. ord p < ord q" unfolding q by auto
  have sets: "set qs = insert q (set older)" by (metis q set_rev set_sort list.simps(15))
  have m: "m = ord q" unfolding m_def sets using s(2) by (auto intro!: Max_eqI)
  have r: "run = extend_run ord [q] older" using q by (simp add: run_def consecutive_run_def)
  note sp = extend_run_spec[of "[q]" ord "ord q" older, folded r, simplified, OF s]
  have len: "int (length run) = m - ord (hd run) + 1"
  proof -
    have "length run = length [ord (hd run)..m]" using sp m by (metis length_map)
    then show ?thesis using sp m by simp
  qed
  then have "ord (hd run) = m - int (length run) + 1" by simp
  then show ?thesis using sp m sets by auto
qed

text \<open>C18. The run of quarters that all trailing metrics read: for rows with distinct quarters
  it is not empty, its quarters are consecutive and end at the latest one, all are rows of the
  company, and it cannot be extended, because the quarter before its first is missing.\<close>

theorem consecutive_tail:
  assumes "quarters \<noteq> []" "distinct (map mq_qOrdinal quarters)"
  shows "\<exists>m. m = Max (mq_qOrdinal ` set quarters) \<and>
    map mq_qOrdinal (consecutiveTail quarters) = [m - int (length (consecutiveTail quarters)) + 1..m] \<and>
    consecutiveTail quarters \<noteq> [] \<and> set (consecutiveTail quarters) \<subseteq> set quarters \<and>
    m - int (length (consecutiveTail quarters)) \<notin> mq_qOrdinal ` set quarters"
  using consecutive_run_spec[OF assms] unfolding consecutiveTail_def by simp

definition sample_quarter :: "int \<Rightarrow> num \<Rightarrow> momentum_quarter" where
  "sample_quarter n x = \<lparr>mq_fiscalYear = ''FY26'', mq_quarter = ''Q1'', mq_qOrdinal = n, mq_revenue = Some x, mq_otherIncome = Some 0,
     mq_interest = Some 1, mq_depreciation = Some 1, mq_profitBeforeTax = Some 5, mq_netProfit = Some 4,
     mq_operatingProfitStored = Some 6\<rparr>"

lemma consecutive_tail_witness:
  "map mq_qOrdinal (consecutiveTail [sample_quarter 7 1, sample_quarter 4 1, sample_quarter 6 1]) = [6..7]"
proof -
  have "length (consecutiveTail [sample_quarter 7 1, sample_quarter 4 1, sample_quarter 6 1]) = 2" by code_simp
  then show ?thesis
    using consecutive_tail[of "[sample_quarter 7 1, sample_quarter 4 1, sample_quarter 6 1]"] by (simp add: sample_quarter_def)
qed

lemma length_extend_run: "length (extend_run ord run qs) \<le> length run + length qs"
proof (induction qs arbitrary: run)
  case (Cons q qs)
  show ?case using Cons.IH[of "q # run"] by simp
qed simp

lemma length_consecutive_run: "length (consecutive_run ord qs) \<le> length qs"
proof (cases "rev (sort_key ord qs)")
  case (Cons q older)
  then have "length qs = Suc (length older)" by (metis length_Cons length_rev length_sort)
  then show ?thesis using Cons length_extend_run[of ord "[q]" older] by (simp add: consecutive_run_def)
qed (simp add: consecutive_run_def)

subsection \<open>A rate of growth of a negative revenue\<close>

text \<open>C19. The annual revenue growth F10 guards its base but not its end: with a positive base
  and a negative revenue in the snapshot year it is available with the value NaN, because Math.pow
  of a negative number is NaN. The rolling form takes the root of a positive quotient only.\<close>

theorem negative_revenue_is_nan:
  assumes "byOrd rows fy = Some e" "fa_revenue e = Some now" "now < 0" "byOrd rows (fy - 3) = Some b"
    "fa_revenue b = Some base" "0 < base" "\<And>x. x < 0 \<Longrightarrow> mpow x (f64 (1 / 3)) = NaN"
  shows "mv_available (f10Revenue3yCagr f64 mpow rows fy) \<and> mv_value (f10Revenue3yCagr f64 mpow rows fy) = Some NaN \<and>
    (mv_available (f10Revenue3yCagrTtm f64 mpow r run) \<longrightarrow>
      (\<exists>x y. 0 < x \<and> 0 < y \<and> mv_value (f10Revenue3yCagrTtm f64 mpow r run) = Some (cagr f64 mpow x y)))"
proof -
  have "now / base < 0" using assms(3,6) by (simp add: divide_less_0_iff)
  then have "f64 (now / base) < 0" using f64.pos[of "- (now / base)"] f64.minus[of "now / base"] by simp
  then have "cagr f64 mpow now base = NaN" using assms(7) by (simp add: cagr_def F10_CAGR_YEARS_def)
  then have "f10Revenue3yCagr f64 mpow rows fy = available ''F10'' (Live U_percent) Derived NaN [True_cagr]"
    using assms(1-6) by (simp add: f10Revenue3yCagr_def F10_CAGR_YEARS_def)
  moreover have "mv_available (f10Revenue3yCagrTtm f64 mpow r run) \<longrightarrow>
      (\<exists>x y. 0 < x \<and> 0 < y \<and> mv_value (f10Revenue3yCagrTtm f64 mpow r run) = Some (cagr f64 mpow x y))"
    by (auto simp: f10Revenue3yCagrTtm_def unavailable_def available_def not_le split: option.splits)
  ultimately show ?thesis by (simp add: available_def)
qed

definition sample_year :: "int \<Rightarrow> num \<Rightarrow> foundation_annual" where
  "sample_year fy x = \<lparr>fa_fiscalYear = ''FY'', fa_fyOrdinal = fy, fa_revenue = Some x, fa_otherIncome = None, fa_financeCosts = Some 4, fa_depreciation = Some 1,
     fa_profitBeforeTax = Some 20, fa_netProfit = Some 16, fa_equityShareCapital = Some 10, fa_otherEquity = Some 30,
     fa_totalEquity = None, fa_borrowingsCurrent = Some 8, fa_borrowingsNoncurrent = None, fa_totalAssets = Some 80,
     fa_tradeReceivablesCurrent = Some 5, fa_tradeReceivablesNoncurrent = None, fa_propertyPlantAndEquipment = Some 20,
     fa_capitalWorkInProgress = None, fa_cashFromOperating = Some 12, fa_faceValueShare = Some 10, fa_storedRoce = None,
     fa_storedDebtToEquity = None, fa_storedInterestCoverage = None, fa_storedReceivablesDays = None,
     fa_storedAssetTurnover = None, fa_storedOperatingMargin = None\<rparr>"

definition sample_pow :: "num \<Rightarrow> num \<Rightarrow> js_number" where
  "sample_pow x y = (if x < 0 then NaN else Fin 1)"

lemma negative_revenue_is_nan_witness:
  "mv_value (f10Revenue3yCagr f64 sample_pow [sample_year 23 100, sample_year 26 (- 5)] 26) = Some NaN"
  using negative_revenue_is_nan[of "[sample_year 23 100, sample_year 26 (- 5)]" 26 "sample_year 26 (- 5)" "- 5" "sample_year 23 100" 100 sample_pow]
  by (simp add: byOrd_def sample_year_def sample_pow_def)

subsection \<open>Rolling and annual forms at the end of a fiscal year\<close>

lemma ttm_from_add:
  "ttm_from (\<lambda>x. x) f s qs = Some a \<Longrightarrow> ttm_from (\<lambda>x. x) g t qs = Some b \<Longrightarrow>
    ttm_from (\<lambda>x. x) (\<lambda>q. ebitFrom (\<lambda>x. x) (f q) (g q)) (s + t) qs = Some (a + b)"
proof (induction qs arbitrary: s t)
  case (Cons q qs)
  obtain v w where v: "f q = Some v" "ttm_from (\<lambda>x. x) f (s + v) qs = Some a" "g q = Some w" "ttm_from (\<lambda>x. x) g (t + w) qs = Some b"
    using Cons.prems by (auto split: option.splits)
  have e: "s + v + (t + w) = s + t + (v + w)" by simp
  show ?case using Cons.IH[OF v(2,4)] v(1,3) unfolding e by (simp add: ebitFrom_def)
qed simp

definition year_end :: "foundation_annual \<Rightarrow> momentum_quarter list \<Rightarrow> bool" where
  \<comment> \<open>the last four quarters of the run add up to the fiscal year\<close>
  "year_end r run \<longleftrightarrow> (\<exists>p i n v. fa_profitBeforeTax r = Some p \<and> ttm4 (\<lambda>x. x) run mq_profitBeforeTax = Some p \<and>
     fa_financeCosts r = Some i \<and> ttm4 (\<lambda>x. x) run mq_interest = Some i \<and>
     fa_netProfit r = Some n \<and> ttm4 (\<lambda>x. x) run mq_netProfit = Some n \<and>
     fa_revenue r = Some v \<and> ttm4 (\<lambda>x. x) run mq_revenue = Some v)"

lemma rolling_agrees:
  assumes "year_end r run"
  shows "mv_value (f1RoceTtm (\<lambda>x. x) r run) = mv_value (f1Roce (\<lambda>x. x) r)"
    "mv_value (f2RoeTtm (\<lambda>x. x) r run) = mv_value (f2Roe (\<lambda>x. x) r)"
    "mv_value (f5InterestCoverageTtm (\<lambda>x. x) r run) = mv_value (f5InterestCoverage (\<lambda>x. x) r)"
    "mv_value (f6ReceivablesDaysTtm (\<lambda>x. x) r run) = mv_value (f6ReceivablesDays (\<lambda>x. x) r)"
    "mv_value (f7AssetTurnoverTtm (\<lambda>x. x) r run) = mv_value (f7AssetTurnover (\<lambda>x. x) r)"
proof -
  obtain p i n v where y: "fa_profitBeforeTax r = Some p" "ttm4 (\<lambda>x. x) run mq_profitBeforeTax = Some p"
     "fa_financeCosts r = Some i" "ttm4 (\<lambda>x. x) run mq_interest = Some i"
     "fa_netProfit r = Some n" "ttm4 (\<lambda>x. x) run mq_netProfit = Some n"
     "fa_revenue r = Some v" "ttm4 (\<lambda>x. x) run mq_revenue = Some v"
    using assms unfolding year_end_def by blast
  have "ttmEbit (\<lambda>x. x) run = Some (p + i)"
    using y(2,4) ttm_from_add[of mq_profitBeforeTax 0 "lastn 4 run" p mq_interest 0 i]
    by (auto simp: ttmEbit_def ttm4_def ttmSum_def ebit_def[abs_def] split: if_splits)
  moreover have "ebitFrom (\<lambda>x. x) (Some p) (Some i) = Some (p + i)" by (simp add: ebitFrom_def)
  ultimately show "mv_value (f1RoceTtm (\<lambda>x. x) r run) = mv_value (f1Roce (\<lambda>x. x) r)"
    "mv_value (f2RoeTtm (\<lambda>x. x) r run) = mv_value (f2Roe (\<lambda>x. x) r)"
    "mv_value (f5InterestCoverageTtm (\<lambda>x. x) r run) = mv_value (f5InterestCoverage (\<lambda>x. x) r)"
    "mv_value (f6ReceivablesDaysTtm (\<lambda>x. x) r run) = mv_value (f6ReceivablesDays (\<lambda>x. x) r)"
    "mv_value (f7AssetTurnoverTtm (\<lambda>x. x) r run) = mv_value (f7AssetTurnover (\<lambda>x. x) r)"
    using y
    by (simp_all add: f1RoceTtm_def f1Roce_def f2RoeTtm_def f2Roe_def f5InterestCoverageTtm_def f5InterestCoverage_def
        f6ReceivablesDaysTtm_def f6ReceivablesDays_def f7AssetTurnoverTtm_def f7AssetTurnover_def
        available_def unavailable_def Let_def split: option.splits)
qed

subsection \<open>Metric values are well-formed\<close>

definition value_ok :: "metric_value \<Rightarrow> bool" where
  \<comment> \<open>a value, a source and no reason when available; no value, no source otherwise\<close>
  "value_ok v \<longleftrightarrow> (if mv_available v then mv_value v \<noteq> None \<and> mv_source v \<noteq> No_source \<and> mv_reason v = None
     else mv_value v = None \<and> mv_source v = No_source)"

named_theorems metric_shape \<open>well-formedness of a metric value and its key\<close>

lemma value_ok_unavailable [metric_shape]: "value_ok (unavailable k u e)" "mv_key (unavailable k u e) = k"
  "mv_unit (unavailable k u e) = u" "\<not> mv_available (unavailable k u e)"
  by (simp_all add: value_ok_def unavailable_def)

lemma value_ok_available [metric_shape]: "src \<noteq> No_source \<Longrightarrow> value_ok (available k u src x fl)" "mv_key (available k u src x fl) = k"
  "mv_unit (available k u src x fl) = u" "mv_available (available k u src x fl)"
  by (simp_all add: value_ok_def available_def)

lemma value_ok_flags [metric_shape]: "value_ok (v\<lparr>mv_flags := fl\<rparr>) \<longleftrightarrow> value_ok v" "value_ok (v\<lparr>mv_key := k\<rparr>) \<longleftrightarrow> value_ok v"
  by (simp_all add: value_ok_def)

definition shaped :: "string \<Rightarrow> live_unit \<Rightarrow> metric_value \<Rightarrow> bool" where
  "shaped k u v \<longleftrightarrow> value_ok v \<and> mv_key v = k \<and> mv_unit v = u"

lemma shaped_foundation [metric_shape]:
  "shaped ''F1'' (Live U_percent) (f1Roce R r)" "shaped ''F2'' (Live U_percent) (f2Roe R r)"
  "shaped ''F3'' (Live U_ratio) (f3CashConversion R r pr price)" "shaped ''F4'' (Live U_ratio) (f4DebtEquity R r)"
  "shaped ''F5'' (Live U_x) (f5InterestCoverage R r)" "shaped ''F6'' (Live U_days) (f6ReceivablesDays R r)"
  "shaped ''F7'' (Live U_x) (f7AssetTurnover R r)" "shaped ''F8'' (Live U_ratio) (f8FcfPatAvg R rows fy)"
  "shaped ''F9'' (Live U_percent) (f9OcfConsistency R rows fy)" "shaped ''F10'' (Live U_percent) (f10Revenue3yCagr R mpow rows fy)"
  "shaped ''F1_OPM'' (Live U_percent) (fOpmOperatingMargin r)"
  by (simp_all add: shaped_def metric_shape f1Roce_def f2Roe_def f3CashConversion_def f4DebtEquity_def f5InterestCoverage_def
      f6ReceivablesDays_def f7AssetTurnover_def f8FcfPatAvg_def f9OcfConsistency_def f10Revenue3yCagr_def fOpmOperatingMargin_def
      Let_def split: option.split)

lemma shaped_rolling [metric_shape]:
  "shaped ''F1'' (Live U_percent) (f1RoceTtm R r run)" "shaped ''F2'' (Live U_percent) (f2RoeTtm R r run)"
  "shaped ''F5'' (Live U_x) (f5InterestCoverageTtm R r run)" "shaped ''F6'' (Live U_days) (f6ReceivablesDaysTtm R r run)"
  "shaped ''F7'' (Live U_x) (f7AssetTurnoverTtm R r run)" "shaped ''F10'' (Live U_percent) (f10Revenue3yCagrTtm R mpow r run)"
  by (simp_all add: shaped_def metric_shape f1RoceTtm_def f2RoeTtm_def f5InterestCoverageTtm_def f6ReceivablesDaysTtm_def
      f7AssetTurnoverTtm_def f10Revenue3yCagrTtm_def Let_def split: option.split)

lemma shaped_momentum [metric_shape]:
  "shaped ''M1'' (Live U_percent) (m1TtmOpm R run)" "shaped ''M2'' (Live U_percent) (m2TtmNpm R run)"
  "shaped ''M3'' (Live U_percent) (m3RevenueYoyTtm R run)" "shaped ''M4'' (Live U_percent) (m4NetProfitYoyTtm R run)"
  "shaped ''M5'' (Live U_x) (m5TtmInterestCoverage R run)" "shaped ''M5_OPSHARE'' (Live U_percent) (m5TtmOperatingShareOfPbt R run)"
  by (simp_all add: shaped_def metric_shape m1TtmOpm_def m2TtmNpm_def m3RevenueYoyTtm_def m4NetProfitYoyTtm_def yoy_ttm_def
      m5TtmInterestCoverage_def m5TtmOperatingShareOfPbt_def Let_def split: option.split)

end
