(* ===== verification/Banking.thy ===== *)
theory Banking
  imports Metrics Text
begin

text \<open>
  The live values of the metrics of a bank, \<open>src/scoring/metrics/banking-types.ts\<close> and \<open>banking.ts\<close>: the
  annual forms, the quarterly forms that fall back to them, the tables by key and the history of a key.
  As in \<open>Metrics\<close> labels, formula texts and inputs are left out, and so are the reasons why a quarterly
  form was not available.  The pairs of a \<open>Map\<close> are a list in insertion order.
\<close>

subsection \<open>Rows, bounds and supplementary figures (\<open>banking-types.ts\<close>)\<close>

record banking_annual =
  ba_fiscalYear :: string
  ba_fyOrdinal :: int
  ba_interestEarned :: "num option"
  ba_interestExpended :: "num option"
  ba_otherIncome :: "num option"
  ba_operatingExpenses :: "num option"
  ba_ppop :: "num option"
  ba_netProfit :: "num option"
  ba_advances :: "num option"
  ba_investments :: "num option"
  ba_cashAndBalancesWithRbi :: "num option"
  ba_balancesWithBanks :: "num option"
  ba_totalAssets :: "num option"
  ba_gnpaAbsolute :: "num option"
  ba_nnpaAbsolute :: "num option"
  ba_gnpaPct :: "num option"
  ba_nnpaPct :: "num option"
  ba_cet1Ratio :: "num option"
  ba_additionalTier1Ratio :: "num option"
  ba_roaDisclosed :: "num option"
  ba_storedPcr :: "num option"

record banking_quarter =
  bq_fiscalYear :: string
  bq_quarter :: string
  bq_qOrdinal :: int
  bq_interestEarned :: "num option"
  bq_interestExpended :: "num option"
  bq_ppop :: "num option"
  bq_netProfit :: "num option"
  bq_gnpaAbsolute :: "num option"
  bq_nnpaAbsolute :: "num option"
  bq_gnpaPct :: "num option"
  bq_nnpaPct :: "num option"
  bq_cet1Ratio :: "num option"
  bq_additionalTier1Ratio :: "num option"
  bq_roaQuarterly :: "num option"

record supplementary_point =
  sp_fiscalYear :: string
  sp_quarter :: "string option"
  sp_value :: "num option"
  sp_found :: bool
  sp_confidence :: "string option"

record banking_ctx =
  bc_annual :: "banking_annual list"
  bc_quarterly :: "banking_quarter list"
  bc_casa :: "(string \<times> supplementary_point) list"
  bc_tier1 :: "(string \<times> supplementary_point) list"

definition pctFromFraction :: "(num \<Rightarrow> num) \<Rightarrow> num option \<Rightarrow> num option" where
  "pctFromFraction R pct = map_option (\<lambda>f. R (f * 100)) pct"

record band =
  bd_lo :: num
  bd_hi :: num

definition BOUNDS_gnpa :: "(num \<Rightarrow> num) \<Rightarrow> band" where "BOUNDS_gnpa R = \<lparr>bd_lo = R (2 / 100), bd_hi = 40\<rparr>"
definition BOUNDS_nnpa :: band where "BOUNDS_nnpa = \<lparr>bd_lo = 0, bd_hi = 40\<rparr>"
definition BOUNDS_tier1 :: band where "BOUNDS_tier1 = \<lparr>bd_lo = 5, bd_hi = 25\<rparr>"
definition BOUNDS_roa :: band where "BOUNDS_roa = \<lparr>bd_lo = - 5, bd_hi = 5\<rparr>"
definition BOUNDS_ci :: band where "BOUNDS_ci = \<lparr>bd_lo = 20, bd_hi = 100\<rparr>"
definition BOUNDS_nim :: band where "BOUNDS_nim = \<lparr>bd_lo = 1 / 2, bd_hi = 10\<rparr>"

definition inBand :: "num \<Rightarrow> band \<Rightarrow> bool" where
  "inBand v b \<longleftrightarrow> bd_lo b \<le> v \<and> v \<le> bd_hi b"

definition digits_of :: "string \<Rightarrow> num" where
  \<comment> \<open>\<open>Number(s.replace(/\D/g, ""))\<close>\<close>
  "digits_of s = digits_value (filter digit_char s)"

definition usable :: "supplementary_point \<Rightarrow> bool" where
  "usable p \<longleftrightarrow> sp_found p \<and> sp_value p \<noteq> None"

definition latestSupplementary :: "(string \<times> supplementary_point) list \<Rightarrow> supplementary_point option" where
  "latestSupplementary m = (case map_of m ''LIVE'' of
     Some live \<Rightarrow> if usable live then Some live else find usable (map (\<lambda>k. the (map_of m k))
        (sort_key (\<lambda>k. - digits_of k) (filter (\<lambda>k. k \<noteq> ''LIVE'') (map fst m))))
   | None \<Rightarrow> find usable (map (\<lambda>k. the (map_of m k))
        (sort_key (\<lambda>k. - digits_of k) (filter (\<lambda>k. k \<noteq> ''LIVE'') (map fst m)))))"

definition periodOrdinal :: "string \<Rightarrow> string \<Rightarrow> num" where
  "periodOrdinal fiscalYear quarter = digits_of fiscalYear * 4 + (digits_of quarter - 1)"

datatype casa_tier = Quarter_tier | Legacy_live

fun best_quarter :: "(num \<times> supplementary_point) option \<Rightarrow> supplementary_point list \<Rightarrow> supplementary_point option" where
  \<comment> \<open>the loop over \<open>m.values()\<close>: the first point of the greatest period\<close>
  "best_quarter best [] = map_option snd best"
| "best_quarter best (p # ps) = (case sp_quarter p of None \<Rightarrow> best_quarter best ps
     | Some q \<Rightarrow> if usable p
         then (let ord = periodOrdinal (sp_fiscalYear p) q
               in best_quarter (case best of None \<Rightarrow> Some (ord, p) | Some (bestOrd, b) \<Rightarrow> if bestOrd < ord then Some (ord, p) else best) ps)
         else best_quarter best ps)"

definition resolveCasa :: "(string \<times> supplementary_point) list \<Rightarrow> (supplementary_point \<times> casa_tier) option" where
  "resolveCasa m = (case best_quarter None (map snd m) of
     Some p \<Rightarrow> Some (p, Quarter_tier)
   | None \<Rightarrow> (case map_of m ''LIVE'' of None \<Rightarrow> None
       | Some live \<Rightarrow> if sp_quarter live = None \<and> usable live then Some (live, Legacy_live) else None))"

definition bUnavailable :: "string \<Rightarrow> unavailable_reason \<Rightarrow> metric_flag list \<Rightarrow> metric_value" where
  "bUnavailable key reason flags = (unavailable key (Live U_percent) reason)\<lparr>mv_flags := flags\<rparr>"

definition mk :: "string \<Rightarrow> num \<Rightarrow> metric_flag list \<Rightarrow> metric_value" where
  "mk key v flags = available key (Live U_percent) Derived (Fin v) flags"

subsection \<open>Annual forms (\<open>banking.ts\<close>)\<close>

definition minus_of :: "(num \<Rightarrow> num) \<Rightarrow> num option \<Rightarrow> num option \<Rightarrow> num option" where
  "minus_of R x y = (case (x, y) of (Some a, Some b) \<Rightarrow> Some (R (a - b)) | _ \<Rightarrow> None)"

definition niiOf :: "(num \<Rightarrow> num) \<Rightarrow> banking_annual \<Rightarrow> num option" where
  "niiOf R a = minus_of R (ba_interestEarned a) (ba_interestExpended a)"

definition niiOfQ :: "(num \<Rightarrow> num) \<Rightarrow> banking_quarter \<Rightarrow> num option" where
  "niiOfQ R q = minus_of R (bq_interestEarned q) (bq_interestExpended q)"

definition earningAssets :: "(num \<Rightarrow> num) \<Rightarrow> banking_annual \<Rightarrow> num option" where
  "earningAssets R a = (case (ba_advances a, ba_investments a, ba_cashAndBalancesWithRbi a, ba_balancesWithBanks a) of
     (Some w, Some x, Some y, Some z) \<Rightarrow> Some (R (R (R (w + x) + y) + z)) | _ \<Rightarrow> None)"

definition last_of :: "'a list \<Rightarrow> 'a option" where
  "last_of xs = (if xs = [] then None else Some (last xs))"

definition latestAnnual :: "banking_ctx \<Rightarrow> banking_annual option" where
  "latestAnnual c = last_of (bc_annual c)"

definition priorAnnual :: "banking_ctx \<Rightarrow> banking_annual option" where
  "priorAnnual c = (if length (bc_annual c) < 2 then None
     else find (\<lambda>r. ba_fyOrdinal r = ba_fyOrdinal (last (bc_annual c)) - 1) (bc_annual c))"

definition latestQuarter :: "banking_ctx \<Rightarrow> banking_quarter option" where
  "latestQuarter c = last_of (bc_quarterly c)"

definition consecutiveQtrTail :: "banking_quarter list \<Rightarrow> banking_quarter list" where
  "consecutiveQtrTail qs = consecutive_run bq_qOrdinal qs"

definition tier1_level :: "(num \<Rightarrow> num) \<Rightarrow> num \<Rightarrow> num option \<Rightarrow> metric_flag list \<times> num" where
  \<comment> \<open>CET1 plus AT1 in percent; an AT1 that is not below CET1 is dropped\<close>
  "tier1_level R cet1Ratio at1Ratio = (let cet1 = R (cet1Ratio * 100); at1 = nullish (pctFromFraction R at1Ratio) 0
     in if cet1 \<le> at1 then ([Implausible_at1 (r2 R at1) (r2 R cet1)], R (cet1 + 0)) else ([], R (cet1 + at1)))"

definition tier1_xbrl :: "(num \<Rightarrow> num) \<Rightarrow> banking_annual option \<Rightarrow> metric_flag list \<times> num option" where
  "tier1_xbrl R a = (case a of None \<Rightarrow> ([], None) | Some r \<Rightarrow> (case ba_cet1Ratio r of None \<Rightarrow> ([], None)
     | Some ratio \<Rightarrow> (let (flags, s) = tier1_level R ratio (ba_additionalTier1Ratio r)
         in if inBand s BOUNDS_tier1 then (flags, Some s) else (flags @ [Out_of_band ''tier-1'' (r2 R s)], None))))"

definition f1Tier1 :: "(num \<Rightarrow> num) \<Rightarrow> banking_ctx \<Rightarrow> metric_value" where
  "f1Tier1 R c = (let a = latestAnnual c; (flags, xbrl) = tier1_xbrl R a;
       sameFy = (case a of None \<Rightarrow> None | Some r \<Rightarrow> map_of (bc_tier1 c) (ba_fiscalYear r))
     in case xbrl of
       Some x \<Rightarrow> available ''Tier1'' (Live U_percent) Derived (Fin x)
         (flags @ (case sameFy of None \<Rightarrow> [] | Some p \<Rightarrow> (case (sp_found p, sp_value p) of
            (True, Some v) \<Rightarrow> if 1 < \<bar>R (x - v)\<bar> then [Diverges ''BankSupp'' (r2 R x) (r2 R v)] else [] | _ \<Rightarrow> [])))
     | None \<Rightarrow> (case (case latestSupplementary (bc_tier1 c) of None \<Rightarrow> None | Some p \<Rightarrow> sp_value p) of
         Some v \<Rightarrow> available ''Tier1'' (Live U_percent) Stored_column (Fin v) (flags @ [Used_supplementary])
       | None \<Rightarrow> bUnavailable ''Tier1'' Missing_line_item (flags @ [Neutral_sixty])))"

definition gnpaFromAbsolutes :: "(num \<Rightarrow> num) \<Rightarrow> num option \<Rightarrow> num option \<Rightarrow> num option \<Rightarrow> num option" where
  "gnpaFromAbsolutes R gross net advances = (case (gross, net, advances) of
     (Some g, Some n, Some a) \<Rightarrow> (let denom = R (R (a + g) - n) in if denom \<le> 0 then None else Some (R (R (g / denom) * 100)))
   | _ \<Rightarrow> None)"

definition npa_choice :: "(num \<Rightarrow> num) \<Rightarrow> string \<Rightarrow> band \<Rightarrow> num option \<Rightarrow> num option \<Rightarrow> metric_value" where
  \<comment> \<open>the common body of GNPA and NNPA: the filed percentage in its band, else the derived one in its band\<close>
  "npa_choice R key b primary fallback =
    (let second = (case fallback of
         Some f \<Rightarrow> if inBand f b then mk key f [Used_fallback (map_option (r2 R) primary)] else bUnavailable key Missing_line_item []
       | None \<Rightarrow> bUnavailable key Missing_line_item [])
     in case primary of None \<Rightarrow> second
      | Some p \<Rightarrow> if inBand p b
          then mk key p (case fallback of None \<Rightarrow> []
                 | Some f \<Rightarrow> if 1 / 2 < \<bar>R (p - f)\<bar> then [Diverges ''derived'' (r2 R p) (r2 R f)] else [])
          else second)"

definition f2Gnpa :: "(num \<Rightarrow> num) \<Rightarrow> banking_ctx \<Rightarrow> metric_value" where
  "f2Gnpa R c = (case latestAnnual c of None \<Rightarrow> bUnavailable ''GNPA'' Standalone_absent []
   | Some a \<Rightarrow> npa_choice R ''GNPA'' (BOUNDS_gnpa R) (pctFromFraction R (ba_gnpaPct a))
       (gnpaFromAbsolutes R (ba_gnpaAbsolute a) (ba_nnpaAbsolute a) (ba_advances a)))"

definition f3Nnpa :: "(num \<Rightarrow> num) \<Rightarrow> banking_ctx \<Rightarrow> metric_value" where
  "f3Nnpa R c = (case latestAnnual c of None \<Rightarrow> bUnavailable ''NNPA'' Standalone_absent []
   | Some a \<Rightarrow> npa_choice R ''NNPA'' BOUNDS_nnpa (pctFromFraction R (ba_nnpaPct a))
       (case (ba_nnpaAbsolute a, ba_advances a) of
          (Some n, Some adv) \<Rightarrow> if 0 < adv then Some (R (R (n / adv) * 100)) else None | _ \<Rightarrow> None))"

definition f4Pcr :: "(num \<Rightarrow> num) \<Rightarrow> banking_ctx \<Rightarrow> metric_value" where
  "f4Pcr R c = (case latestAnnual c of None \<Rightarrow> bUnavailable ''PCR'' Standalone_absent []
   | Some a \<Rightarrow> (case (ba_gnpaAbsolute a, ba_nnpaAbsolute a) of
       (Some gross, Some net) \<Rightarrow> if gross = 0 then bUnavailable ''PCR'' Divide_by_zero []
         else (let v = R (R (R (gross - net) / gross) * 100)
               in if v < 0 \<or> 100 < v then bUnavailable ''PCR'' Missing_line_item []
                  else mk ''PCR'' v (case ba_storedPcr a of None \<Rightarrow> []
                         | Some s \<Rightarrow> (let storedPct = (if s \<le> 1 then R (s * 100) else s)
                             in if 5 < \<bar>R (storedPct - v)\<bar> then [Diverges ''headline'' (r2 R v) (r2 R storedPct)] else [])))
     | _ \<Rightarrow> bUnavailable ''PCR'' Missing_line_item []))"

definition band_flag :: "(num \<Rightarrow> num) \<Rightarrow> string \<Rightarrow> num \<Rightarrow> band \<Rightarrow> metric_flag list" where
  "band_flag R name v b = (if inBand v b then [] else [Out_of_band name (r2 R v)])"

definition f5Roa :: "(num \<Rightarrow> num) \<Rightarrow> banking_ctx \<Rightarrow> metric_value" where
  "f5Roa R c = (case latestAnnual c of None \<Rightarrow> bUnavailable ''ROA'' Standalone_absent []
   | Some a \<Rightarrow> (case (ba_netProfit a, ba_totalAssets a) of
       (Some np, Some assets) \<Rightarrow> if assets \<le> 0 then bUnavailable ''ROA'' Divide_by_zero []
         else (let v = R (R (np / assets) * 100)
               in mk ''ROA'' v ((case pctFromFraction R (ba_roaDisclosed a) of None \<Rightarrow> []
                     | Some disc \<Rightarrow> if R (3 / 10) < \<bar>R (disc - v)\<bar> then [Diverges ''disclosed'' (r2 R v) (r2 R disc)] else [])
                    @ band_flag R ''ROA'' v BOUNDS_roa))
     | _ \<Rightarrow> bUnavailable ''ROA'' Missing_line_item []))"

definition f6CostIncome :: "(num \<Rightarrow> num) \<Rightarrow> banking_ctx \<Rightarrow> metric_value" where
  "f6CostIncome R c = (case latestAnnual c of None \<Rightarrow> bUnavailable ''CI'' Standalone_absent []
   | Some a \<Rightarrow> (case (ba_operatingExpenses a, niiOf R a, ba_otherIncome a) of
       (Some opEx, Some nii, Some oth) \<Rightarrow> (let denom = R (nii + oth)
         in if denom \<le> 0 then bUnavailable ''CI'' Divide_by_zero []
            else (let v = R (R (opEx / denom) * 100) in mk ''CI'' v (band_flag R ''C/I'' v BOUNDS_ci)))
     | _ \<Rightarrow> bUnavailable ''CI'' Missing_line_item []))"

definition f7Casa :: "banking_ctx \<Rightarrow> metric_value" where
  "f7Casa c = (case resolveCasa (bc_casa c) of
     None \<Rightarrow> bUnavailable ''CASA'' Missing_line_item [No_current_casa]
   | Some (p, _) \<Rightarrow> available ''CASA'' (Live U_percent) Stored_column (Fin (nullish (sp_value p) 0))
       (if sp_confidence p = Some ''C'' then [Operator_verify] else []))"

definition m1NimTtm :: "(num \<Rightarrow> num) \<Rightarrow> banking_ctx \<Rightarrow> metric_value" where
  "m1NimTtm R c = (let run = consecutiveQtrTail (bc_quarterly c)
     in if length run < 4 then bUnavailable ''NIM'' Insufficient_history []
        else (case ttmSum R (lastn 4 run) (niiOfQ R) of None \<Rightarrow> bUnavailable ''NIM'' Missing_line_item []
          | Some ttmNii \<Rightarrow>
              (let eaOf = (\<lambda>r. case r of None \<Rightarrow> None | Some a \<Rightarrow> earningAssets R a);
                   avgEa = (case (eaOf (latestAnnual c), eaOf (priorAnnual c)) of
                      (Some l, Some p) \<Rightarrow> Some (R (R (l + p) / 2)) | (Some l, None) \<Rightarrow> Some l | _ \<Rightarrow> None)
               in case avgEa of None \<Rightarrow> bUnavailable ''NIM'' Missing_line_item []
                  | Some ea \<Rightarrow> if ea \<le> 0 then bUnavailable ''NIM'' Missing_line_item []
                      else (let v = R (R (ttmNii / ea) * 100) in mk ''NIM'' v (band_flag R ''NIM'' v BOUNDS_nim)))))"

definition annualYoy :: "(num \<Rightarrow> num) \<Rightarrow> banking_ctx \<Rightarrow> string \<Rightarrow> (banking_annual \<Rightarrow> num option) \<Rightarrow> metric_value" where
  "annualYoy R c key pick = (case (latestAnnual c, priorAnnual c) of
     (Some cur, Some prior) \<Rightarrow> (case (pick cur, pick prior) of
        (Some vCur, Some vPrior) \<Rightarrow> if vPrior \<le> 0 then bUnavailable key Non_positive_base []
          else mk key (R (R (R (vCur - vPrior) / vPrior) * 100)) [Annual_cohort]
      | _ \<Rightarrow> bUnavailable key Missing_line_item [])
   | _ \<Rightarrow> bUnavailable key Insufficient_history [])"

definition m2PpopYoy :: "(num \<Rightarrow> num) \<Rightarrow> banking_ctx \<Rightarrow> metric_value" where "m2PpopYoy R c = annualYoy R c ''PPOP'' ba_ppop"
definition m3NiiYoy :: "(num \<Rightarrow> num) \<Rightarrow> banking_ctx \<Rightarrow> metric_value" where "m3NiiYoy R c = annualYoy R c ''NII'' (niiOf R)"
definition m4NpYoy :: "(num \<Rightarrow> num) \<Rightarrow> banking_ctx \<Rightarrow> metric_value" where "m4NpYoy R c = annualYoy R c ''NPyoy'' ba_netProfit"

definition m5GnpaTtm :: "(num \<Rightarrow> num) \<Rightarrow> banking_ctx \<Rightarrow> metric_value" where
  \<comment> \<open>a quarter has no advances, so the derived figure is never there\<close>
  "m5GnpaTtm R c = (case latestQuarter c of None \<Rightarrow> bUnavailable ''GNPAttm'' Standalone_absent []
   | Some q \<Rightarrow> npa_choice R ''GNPAttm'' (BOUNDS_gnpa R) (pctFromFraction R (bq_gnpaPct q))
       (gnpaFromAbsolutes R (bq_gnpaAbsolute q) (bq_nnpaAbsolute q) None))"

subsection \<open>Quarterly forms\<close>

definition meanOf4Annualised :: "(num \<Rightarrow> num) \<Rightarrow> banking_quarter list \<Rightarrow> (banking_quarter \<Rightarrow> num option) \<Rightarrow> num option" where
  "meanOf4Annualised R run pick = map_option (\<lambda>s. R (R (s / 4) * 100)) (ttm4 R run pick)"

definition ttmFlow :: "(num \<Rightarrow> num) \<Rightarrow> banking_quarter list \<Rightarrow> (banking_quarter \<Rightarrow> num option) \<Rightarrow> num option" where
  "ttmFlow R run pick = ttm4 R run pick"

definition annualFallback :: "metric_value \<Rightarrow> metric_value" where
  "annualFallback v1 = v1\<lparr>mv_flags := mv_flags v1 @ [Annual_fallback]\<rparr>"

definition f1Tier1Q :: "(num \<Rightarrow> num) \<Rightarrow> banking_ctx \<Rightarrow> metric_value" where
  "f1Tier1Q R c = (case (case latestQuarter c of None \<Rightarrow> None | Some q \<Rightarrow> map_option (\<lambda>r. (r, bq_additionalTier1Ratio q)) (bq_cet1Ratio q)) of
     None \<Rightarrow> annualFallback (f1Tier1 R c)
   | Some (ratio, at1Ratio) \<Rightarrow> (let (flags, v) = tier1_level R ratio at1Ratio
       in if inBand v BOUNDS_tier1 then mk ''Tier1'' v (flags @ [Quarter_level]) else annualFallback (f1Tier1 R c)))"

definition quarter_level :: "string \<Rightarrow> band \<Rightarrow> num option \<Rightarrow> metric_value \<Rightarrow> metric_value" where
  "quarter_level key b v annual = (case v of None \<Rightarrow> annualFallback annual
   | Some x \<Rightarrow> if inBand x b then mk key x [Quarter_level] else annualFallback annual)"

definition f2GnpaQ :: "(num \<Rightarrow> num) \<Rightarrow> banking_ctx \<Rightarrow> metric_value" where
  "f2GnpaQ R c = quarter_level ''GNPA'' (BOUNDS_gnpa R)
    (case latestQuarter c of None \<Rightarrow> None | Some q \<Rightarrow> pctFromFraction R (bq_gnpaPct q)) (f2Gnpa R c)"

definition f3NnpaQ :: "(num \<Rightarrow> num) \<Rightarrow> banking_ctx \<Rightarrow> metric_value" where
  "f3NnpaQ R c = quarter_level ''NNPA'' BOUNDS_nnpa
    (case latestQuarter c of None \<Rightarrow> None | Some q \<Rightarrow> pctFromFraction R (bq_nnpaPct q)) (f3Nnpa R c)"

definition f4PcrQ :: "(num \<Rightarrow> num) \<Rightarrow> banking_ctx \<Rightarrow> metric_value" where
  "f4PcrQ R c = (case (case latestQuarter c of None \<Rightarrow> (None, None) | Some q \<Rightarrow> (bq_gnpaAbsolute q, bq_nnpaAbsolute q)) of
     (Some gross, Some net) \<Rightarrow> if gross = 0 then annualFallback (f4Pcr R c)
       else (let v = R (R (R (gross - net) / gross) * 100)
             in if v < 0 \<or> 100 < v then annualFallback (f4Pcr R c) else mk ''PCR'' v [Quarter_level])
   | _ \<Rightarrow> annualFallback (f4Pcr R c))"

definition f5RoaQ :: "(num \<Rightarrow> num) \<Rightarrow> banking_ctx \<Rightarrow> metric_value" where
  "f5RoaQ R c = (case meanOf4Annualised R (consecutiveQtrTail (bc_quarterly c)) bq_roaQuarterly of
     None \<Rightarrow> annualFallback (f5Roa R c)
   | Some v \<Rightarrow> if inBand v BOUNDS_roa then mk ''ROA'' v [Mean_of_four] else annualFallback (f5Roa R c))"

definition ttmYoy :: "(num \<Rightarrow> num) \<Rightarrow> banking_ctx \<Rightarrow> string \<Rightarrow> (banking_quarter \<Rightarrow> num option) \<Rightarrow> metric_value \<Rightarrow> metric_value" where
  "ttmYoy R c key pick v1 = (let run = consecutiveQtrTail (bc_quarterly c)
     in if length run < 8 then annualFallback v1
        else (case (ttmFlow R run pick, ttmFlow R (take (length run - 4) run) pick) of
            (Some now, Some prior) \<Rightarrow> if prior \<le> 0 then annualFallback v1
              else mk key (R (R (R (now - prior) / prior) * 100)) [Ttm_vs_ttm]
          | _ \<Rightarrow> annualFallback v1))"

definition m2PpopYoyTtm :: "(num \<Rightarrow> num) \<Rightarrow> banking_ctx \<Rightarrow> metric_value" where
  "m2PpopYoyTtm R c = ttmYoy R c ''PPOP'' bq_ppop (m2PpopYoy R c)"
definition m3NiiYoyTtm :: "(num \<Rightarrow> num) \<Rightarrow> banking_ctx \<Rightarrow> metric_value" where
  "m3NiiYoyTtm R c = ttmYoy R c ''NII'' (niiOfQ R) (m3NiiYoy R c)"
definition m4NpYoyTtm :: "(num \<Rightarrow> num) \<Rightarrow> banking_ctx \<Rightarrow> metric_value" where
  "m4NpYoyTtm R c = ttmYoy R c ''NPyoy'' bq_netProfit (m4NpYoy R c)"

subsection \<open>Tables by key\<close>

definition BANKING_FOUNDATION_FNS :: "(num \<Rightarrow> num) \<Rightarrow> (string \<times> (banking_ctx \<Rightarrow> metric_value)) list" where
  "BANKING_FOUNDATION_FNS R = [(''Tier1'', f1Tier1Q R), (''GNPA'', f2GnpaQ R), (''NNPA'', f3NnpaQ R), (''PCR'', f4PcrQ R),
     (''ROA'', f5RoaQ R), (''CI'', f6CostIncome R), (''CASA'', f7Casa)]"

definition BANKING_MOMENTUM_FNS :: "(num \<Rightarrow> num) \<Rightarrow> (string \<times> (banking_ctx \<Rightarrow> metric_value)) list" where
  "BANKING_MOMENTUM_FNS R = [(''NIM'', m1NimTtm R), (''PPOP'', m2PpopYoyTtm R), (''NII'', m3NiiYoyTtm R),
     (''NPyoy'', m4NpYoyTtm R), (''GNPAttm'', m5GnpaTtm R)]"

record banking_live =
  bl_foundation :: "metric_value list"
  bl_momentum :: "metric_value list"
  bl_snapshotFy :: "string option"
  bl_snapshotQuarter :: "string option"

definition banking_value :: "(string \<times> (banking_ctx \<Rightarrow> metric_value)) list \<Rightarrow> banking_ctx \<Rightarrow> string \<Rightarrow> metric_value" where
  "banking_value fns c k = (case map_of fns k of Some f \<Rightarrow> f c | None \<Rightarrow> bUnavailable k Missing_line_item [Dispatch_gap k])"

definition computeBankingLiveValues :: "(num \<Rightarrow> num) \<Rightarrow> banking_ctx \<Rightarrow> string list \<Rightarrow> string list \<Rightarrow> banking_live" where
  "computeBankingLiveValues R c foundationKeys momentumKeys =
    \<lparr>bl_foundation = map (banking_value (BANKING_FOUNDATION_FNS R) c) foundationKeys,
     bl_momentum = map (banking_value (BANKING_MOMENTUM_FNS R) c) momentumKeys,
     bl_snapshotFy = map_option ba_fiscalYear (latestAnnual c),
     bl_snapshotQuarter = map_option (\<lambda>q. bq_fiscalYear q @ bq_quarter q) (latestQuarter c)\<rparr>"

definition suppSeries :: "(string \<times> supplementary_point) list \<Rightarrow> num list" where
  "suppSeries m = [v. Some v \<leftarrow> map sp_value (sort_key (\<lambda>p. digits_of (sp_fiscalYear p))
     (filter (\<lambda>p. sp_quarter p = None \<and> sp_fiscalYear p \<noteq> ''LIVE'' \<and> usable p) (map snd m)))]"

definition series_values :: "metric_value list \<Rightarrow> js_number list" where
  "series_values vs = [x. Some x \<leftarrow> map mv_value (filter mv_available vs)]"

definition bankingSeriesForKey :: "(num \<Rightarrow> num) \<Rightarrow> banking_ctx \<Rightarrow> string \<Rightarrow> js_number list" where
  "bankingSeriesForKey R c key =
    (if key = ''Tier1'' then map Fin (suppSeries (bc_tier1 c))
     else if key = ''CASA'' then map Fin (suppSeries (bc_casa c))
     else (case map_of (BANKING_FOUNDATION_FNS R @ BANKING_MOMENTUM_FNS R) key of
         None \<Rightarrow> []
       | Some fn \<Rightarrow>
           if key \<in> {''NIM'', ''GNPAttm'', ''GNPA'', ''NNPA'', ''PCR'', ''ROA'', ''PPOP'', ''NII'', ''NPyoy''}
           then series_values (map (\<lambda>j. fn (c\<lparr>bc_quarterly := take j (bc_quarterly c)\<rparr>)) [1 ..< Suc (length (bc_quarterly c))])
           else series_values (map (\<lambda>i. fn (c\<lparr>bc_annual := take i (bc_annual c)\<rparr>)) [1 ..< Suc (length (bc_annual c))])))"

subsection \<open>Banking values stay in their bands\<close>

definition in_band_when_available :: "band \<Rightarrow> metric_value \<Rightarrow> bool" where
  "in_band_when_available b v \<longleftrightarrow> (\<forall>x. mv_available v \<and> mv_value v = Some (Fin x) \<longrightarrow> inBand x b)"

lemma in_band_simps [simp]:
  "in_band_when_available b (bUnavailable k e fl)" "in_band_when_available b (unavailable k u e)"
  "in_band_when_available b (mk k x fl) \<longleftrightarrow> inBand x b" "in_band_when_available b (available k u src (Fin x) fl) \<longleftrightarrow> inBand x b"
  "in_band_when_available b (annualFallback v) \<longleftrightarrow> in_band_when_available b v"
  by (auto simp: in_band_when_available_def bUnavailable_def unavailable_def mk_def available_def annualFallback_def)

lemma npa_choice_in_band: "in_band_when_available b (npa_choice R key b primary fallback)"
  by (simp add: npa_choice_def Let_def split: option.split)

lemma quarter_level_in_band: "in_band_when_available b annual \<Longrightarrow> in_band_when_available b (quarter_level key b v annual)"
  by (simp add: quarter_level_def split: option.split)

lemma annual_in_band:
  "in_band_when_available (BOUNDS_gnpa R) (f2Gnpa R c)" "in_band_when_available BOUNDS_nnpa (f3Nnpa R c)"
  "in_band_when_available \<lparr>bd_lo = 0, bd_hi = 100\<rparr> (f4Pcr R c)"
  by (simp_all add: f2Gnpa_def f3Nnpa_def f4Pcr_def npa_choice_in_band inBand_def Let_def not_less split: option.split)

lemma tier1_xbrl_in_band: "tier1_xbrl R a = (fl, Some x) \<Longrightarrow> inBand x BOUNDS_tier1"
  by (auto simp: tier1_xbrl_def Let_def split: option.splits if_splits prod.splits)

lemma derived_tier1_in_band:
  "mv_source (f1Tier1Q R c) = Derived \<Longrightarrow> mv_value (f1Tier1Q R c) = Some (Fin x) \<Longrightarrow> inBand x BOUNDS_tier1"
  by (auto simp: f1Tier1Q_def f1Tier1_def Let_def annualFallback_def available_def mk_def bUnavailable_def unavailable_def
      split: option.splits prod.splits if_splits dest: tier1_xbrl_in_band)

lemma bank_metrics_in_band:
  "in_band_when_available (BOUNDS_gnpa R) (f2GnpaQ R c) \<and> in_band_when_available (BOUNDS_gnpa R) (m5GnpaTtm R c) \<and>
   in_band_when_available BOUNDS_nnpa (f3NnpaQ R c) \<and> in_band_when_available \<lparr>bd_lo = 0, bd_hi = 100\<rparr> (f4PcrQ R c) \<and>
   (mv_source (f1Tier1Q R c) = Derived \<and> mv_value (f1Tier1Q R c) = Some (Fin x) \<longrightarrow> inBand x BOUNDS_tier1)"
proof -
  have "in_band_when_available (BOUNDS_gnpa R) (m5GnpaTtm R c)" by (simp add: m5GnpaTtm_def npa_choice_in_band split: option.split)
  moreover have "in_band_when_available \<lparr>bd_lo = 0, bd_hi = 100\<rparr> (f4PcrQ R c)"
    by (simp add: f4PcrQ_def annual_in_band inBand_def Let_def not_less split: option.split)
  ultimately show ?thesis
    using derived_tier1_in_band[of R c x] by (simp add: f2GnpaQ_def f3NnpaQ_def quarter_level_in_band annual_in_band)
qed

subsection \<open>The history of a bank looks ahead\<close>

lemma short_growth_is_annual:
  "length (bc_quarterly c) < 8 \<Longrightarrow> ttmYoy R c key pick v1 = annualFallback v1"
  using length_consecutive_run[of bq_qOrdinal "bc_quarterly c"] by (simp add: ttmYoy_def consecutiveQtrTail_def Let_def)

lemma series_values_Cons:
  "series_values (v # vs) = (if mv_available v \<and> mv_value v \<noteq> None then the (mv_value v) # series_values vs else series_values vs)"
  by (auto simp: series_values_def)

lemma series_values_prefix:
  assumes "\<forall>v \<in> set vs. mv_available v \<and> mv_value v = Some x"
  shows "series_values (vs @ ws) = replicate (length vs) x @ series_values ws"
  using assms by (induction vs) (simp_all add: series_values_Cons)

text \<open>C20. The history of a bank's operating profit growth, rebuilt from prefixes of its
  quarters, looks ahead: a prefix of at most seven quarters falls back to the annual value, and that
  is computed from all annual rows, so when the latest growth is available the first seven points of
  the series are all that latest annual growth, whatever the quarters say.\<close>

theorem history_looks_ahead:
  assumes "mv_available (m2PpopYoy R c)" "mv_value (m2PpopYoy R c) = Some x"
  shows "take (min 7 (length (bc_quarterly c))) (bankingSeriesForKey R c ''PPOP'') = replicate (min 7 (length (bc_quarterly c))) x"
proof -
  let ?n = "length (bc_quarterly c)" and ?k = "min 7 (length (bc_quarterly c))"
  let ?f = "\<lambda>j. m2PpopYoyTtm R (c\<lparr>bc_quarterly := take j (bc_quarterly c)\<rparr>)"
  have ann: "m2PpopYoy R (c\<lparr>bc_quarterly := qs\<rparr>) = m2PpopYoy R c" for qs
  proof -
    have "latestAnnual (c\<lparr>bc_quarterly := qs\<rparr>) = latestAnnual c" by (simp add: latestAnnual_def)
    moreover have "priorAnnual (c\<lparr>bc_quarterly := qs\<rparr>) = priorAnnual c" by (simp add: priorAnnual_def)
    ultimately show ?thesis by (simp add: m2PpopYoy_def annualYoy_def)
  qed
  have early: "mv_available (?f j) \<and> mv_value (?f j) = Some x" if "j \<le> 7" for j
    using that assms by (simp add: m2PpopYoyTtm_def short_growth_is_annual ann annualFallback_def)
  have split: "[1 ..< Suc ?n] = [1 ..< Suc ?k] @ [Suc ?k ..< Suc ?n]" using upt_add_eq_append[of 1 "Suc ?k" "?n - ?k"] by (simp del: upt_Suc)
  have "\<forall>v \<in> set (map ?f [1 ..< Suc ?k]). mv_available v \<and> mv_value v = Some x"
  proof
    fix v
    assume "v \<in> set (map ?f [1 ..< Suc ?k])"
    then obtain j where "v = ?f j" "j \<le> 7" by (auto simp del: upt_Suc)
    then show "mv_available v \<and> mv_value v = Some x" using early by blast
  qed
  from series_values_prefix[OF this, of "map ?f [Suc ?k ..< Suc ?n]"]
  have "series_values (map ?f [1 ..< Suc ?n]) = replicate ?k x @ series_values (map ?f [Suc ?k ..< Suc ?n])"
    unfolding split map_append by (simp del: upt_Suc)
  then show ?thesis
    by (simp add: bankingSeriesForKey_def BANKING_FOUNDATION_FNS_def BANKING_MOMENTUM_FNS_def del: upt_Suc)
qed

definition sample_bank_year :: "int \<Rightarrow> num \<Rightarrow> banking_annual" where
  "sample_bank_year fy x = \<lparr>ba_fiscalYear = ''FY'', ba_fyOrdinal = fy, ba_interestEarned = None, ba_interestExpended = None,
     ba_otherIncome = None, ba_operatingExpenses = None, ba_ppop = Some x, ba_netProfit = None, ba_advances = None,
     ba_investments = None, ba_cashAndBalancesWithRbi = None, ba_balancesWithBanks = None, ba_totalAssets = None,
     ba_gnpaAbsolute = None, ba_nnpaAbsolute = None, ba_gnpaPct = None, ba_nnpaPct = None, ba_cet1Ratio = None,
     ba_additionalTier1Ratio = None, ba_roaDisclosed = None, ba_storedPcr = None\<rparr>"

definition sample_bank_quarter :: "int \<Rightarrow> banking_quarter" where
  "sample_bank_quarter n = \<lparr>bq_fiscalYear = ''FY'', bq_quarter = ''Q'', bq_qOrdinal = n, bq_interestEarned = None,
     bq_interestExpended = None, bq_ppop = Some 3, bq_netProfit = None, bq_gnpaAbsolute = None, bq_nnpaAbsolute = None,
     bq_gnpaPct = None, bq_nnpaPct = None, bq_cet1Ratio = None, bq_additionalTier1Ratio = None, bq_roaQuarterly = None\<rparr>"

definition sample_bank :: banking_ctx where
  "sample_bank = \<lparr>bc_annual = [sample_bank_year 25 10, sample_bank_year 26 15], bc_quarterly = map sample_bank_quarter [100, 101, 102],
     bc_casa = [], bc_tier1 = []\<rparr>"

lemma history_looks_ahead_witness:
  "take 3 (bankingSeriesForKey f64 sample_bank ''PPOP'') = [Fin 50, Fin 50, Fin 50]"
proof -
  have "mv_available (m2PpopYoy f64 sample_bank)" "mv_value (m2PpopYoy f64 sample_bank) = Some (Fin 50)" by code_simp+
  from history_looks_ahead[OF this] show ?thesis by (simp add: sample_bank_def numeral_eq_Suc)
qed

lemma bank_metrics_in_band_witness: "in_band_when_available BOUNDS_nnpa (f3NnpaQ f64 sample_bank)"
  using bank_metrics_in_band[of f64 sample_bank] by simp

end
