(* ===== verification/Dispatch.thy ===== *)
theory Dispatch
  imports Banking
begin

text \<open>
  Which function computes the live value of which metric key, \<open>src/scoring/metric-scoring/live-dispatch.ts\<close>:
  the two tables of a non-financial company, the rolling form with its annual fallback, the table of all
  keys and the dispatcher.  The printing of the table and its notes are left out.
\<close>

record foundation_ctx =
  fc_rows :: "foundation_annual list"
  fc_snap :: foundation_annual
  fc_prior :: "foundation_annual option"
  fc_snapshotOrdinal :: int
  fc_periodAvgPrice :: "num option"
  fc_run :: "momentum_quarter list"

definition FOUNDATION_ANNUAL :: "(num \<Rightarrow> num) \<Rightarrow> (num \<Rightarrow> num \<Rightarrow> js_number) \<Rightarrow> (string \<times> (foundation_ctx \<Rightarrow> metric_value)) list" where
  "FOUNDATION_ANNUAL R mpow =
    [(''F1'', \<lambda>c. f1Roce R (fc_snap c)), (''F2'', \<lambda>c. f2Roe R (fc_snap c)),
     (''F3'', \<lambda>c. f3CashConversion R (fc_snap c) (fc_prior c) (fc_periodAvgPrice c)),
     (''F4'', \<lambda>c. f4DebtEquity R (fc_snap c)), (''F5'', \<lambda>c. f5InterestCoverage R (fc_snap c)),
     (''F6'', \<lambda>c. f6ReceivablesDays R (fc_snap c)), (''F7'', \<lambda>c. f7AssetTurnover R (fc_snap c)),
     (''F8'', \<lambda>c. f8FcfPatAvg R (fc_rows c) (fc_snapshotOrdinal c)),
     (''F9'', \<lambda>c. f9OcfConsistency R (fc_rows c) (fc_snapshotOrdinal c)),
     (''F10'', \<lambda>c. f10Revenue3yCagr R mpow (fc_rows c) (fc_snapshotOrdinal c)),
     (''F1_OPM'', \<lambda>c. fOpmOperatingMargin (fc_snap c))]"

definition rolling_first :: "(foundation_annual \<Rightarrow> momentum_quarter list \<Rightarrow> metric_value) \<Rightarrow> (foundation_ctx \<Rightarrow> metric_value) \<Rightarrow>
    foundation_ctx \<Rightarrow> metric_value" where
  \<comment> \<open>the rolling form where it is available, else the annual one with a flag\<close>
  "rolling_first rolling annual c =
    (let fallback = (let a = annual c in a\<lparr>mv_flags := mv_flags a @ [Rolling_fallback (fc_run c \<noteq> [])]\<rparr>)
     in if fc_run c = [] then fallback
        else (let ttm = rolling (fc_snap c) (fc_run c) in if mv_available ttm then ttm else fallback))"

definition FOUNDATION_DISPATCH :: "(num \<Rightarrow> num) \<Rightarrow> (num \<Rightarrow> num \<Rightarrow> js_number) \<Rightarrow> (string \<times> (foundation_ctx \<Rightarrow> metric_value)) list" where
  "FOUNDATION_DISPATCH R mpow = map (\<lambda>(key, annual). (key, case FOUNDATION_TTM R mpow key of
     None \<Rightarrow> annual | Some rolling \<Rightarrow> rolling_first rolling annual)) (FOUNDATION_ANNUAL R mpow)"

definition emitAs :: "string \<Rightarrow> (momentum_quarter list \<Rightarrow> metric_value) \<Rightarrow> momentum_quarter list \<Rightarrow> metric_value" where
  "emitAs key fn run = (fn run)\<lparr>mv_key := key\<rparr>"

definition MOMENTUM_DISPATCH :: "(num \<Rightarrow> num) \<Rightarrow> (string \<times> (momentum_quarter list \<Rightarrow> metric_value)) list" where
  "MOMENTUM_DISPATCH R = [(''M1'', m1TtmOpm R), (''M2'', m2TtmNpm R), (''M3'', m3RevenueYoyTtm R), (''M4'', m4NetProfitYoyTtm R),
     (''M1_OPM_TTM'', emitAs ''M1_OPM_TTM'' (m1TtmOpm R)), (''M5_OPSHARE'', m5TtmOperatingShareOfPbt R)]"

definition BANKING_FOUNDATION_KEYS :: "string list" where
  "BANKING_FOUNDATION_KEYS = [''Tier1'', ''GNPA'', ''NNPA'', ''PCR'', ''ROA'', ''CI'', ''CASA'']"

definition BANKING_MOMENTUM_KEYS :: "string list" where
  "BANKING_MOMENTUM_KEYS = [''NIM'', ''PPOP'', ''NII'', ''NPyoy'', ''GNPAttm'']"

definition DISPATCH_TABLE :: "(string \<times> label_pillar \<times> industry) list" where
  \<comment> \<open>key, pillar and industry of every entry\<close>
  "DISPATCH_TABLE =
    map (\<lambda>k. (k, P_foundation, Non_financial)) [''F1'', ''F2'', ''F3'', ''F4'', ''F5'', ''F6'', ''F7'', ''F8'', ''F9'', ''F10'', ''F1_OPM''] @
    map (\<lambda>k. (k, P_momentum, Non_financial)) [''M1'', ''M2'', ''M3'', ''M4'', ''M5_OPSHARE'', ''M1_OPM_TTM''] @
    map (\<lambda>k. (k, P_foundation, Banking)) BANKING_FOUNDATION_KEYS @
    map (\<lambda>k. (k, P_momentum, Banking)) BANKING_MOMENTUM_KEYS"

record dispatch_input =
  di_industryType :: industry
  di_foundationKeys :: "string list"
  di_momentumKeys :: "string list"
  di_foundationRows :: "foundation_annual list"
  di_momentumQuarters :: "momentum_quarter list"
  di_foundationQuarters :: "momentum_quarter list option"
  di_periodAvgPrice :: "num option"
  di_bankingCtx :: "banking_ctx option"

datatype dispatch_output =
    Live_values (do_foundation: "metric_value list") (do_momentum: "metric_value list") (do_snapshotFy: "string option")
      (do_snapshotQuarter: "string option")
  | Bank_pipeline_pending "string list" "string list"

definition noFn :: "string \<Rightarrow> metric_value" where
  "noFn key = \<lparr>mv_key = key, mv_available = False, mv_value = None, mv_unit = Live_na, mv_source = No_source, mv_reason = None,
     mv_flags = [Dispatch_gap key]\<rparr>"

definition noData :: "string \<Rightarrow> metric_value" where
  "noData key = unavailable key Live_na Standalone_absent"

definition by_table :: "(string \<times> ('c \<Rightarrow> metric_value)) list \<Rightarrow> 'c \<Rightarrow> string \<Rightarrow> metric_value" where
  "by_table table c k = (case map_of table k of Some f \<Rightarrow> f c | None \<Rightarrow> noFn k)"

definition foundation_values :: "(num \<Rightarrow> num) \<Rightarrow> (num \<Rightarrow> num \<Rightarrow> js_number) \<Rightarrow> dispatch_input \<Rightarrow> metric_value list \<times> string option" where
  "foundation_values R mpow input =
    (let fRows = sort_key fa_fyOrdinal (di_foundationRows input)
     in if fRows = [] then (map noData (di_foundationKeys input), None)
        else (let snap = last fRows;
                  ctx = \<lparr>fc_rows = fRows, fc_snap = snap,
                         fc_prior = find (\<lambda>r. fa_fyOrdinal r = fa_fyOrdinal snap - 1) fRows,
                         fc_snapshotOrdinal = fa_fyOrdinal snap, fc_periodAvgPrice = di_periodAvgPrice input,
                         fc_run = consecutiveTail (nullish (di_foundationQuarters input) (di_momentumQuarters input))\<rparr>
              in (map (by_table (FOUNDATION_DISPATCH R mpow) ctx) (di_foundationKeys input), Some (fa_fiscalYear snap))))"

definition momentum_values :: "(num \<Rightarrow> num) \<Rightarrow> dispatch_input \<Rightarrow> metric_value list \<times> string option" where
  "momentum_values R input =
    (let run = consecutiveTail (di_momentumQuarters input)
     in if run = [] then (map noData (di_momentumKeys input), None)
        else (map (by_table (MOMENTUM_DISPATCH R) run) (di_momentumKeys input),
              Some (mq_fiscalYear (last run) @ mq_quarter (last run))))"

definition dispatchLiveValues :: "(num \<Rightarrow> num) \<Rightarrow> (num \<Rightarrow> num \<Rightarrow> js_number) \<Rightarrow> dispatch_input \<Rightarrow> dispatch_output" where
  "dispatchLiveValues R mpow input =
    (if di_industryType input = Banking
     then (case di_bankingCtx input of
         None \<Rightarrow> Bank_pipeline_pending (di_foundationKeys input) (di_momentumKeys input)
       | Some c \<Rightarrow> (let b = computeBankingLiveValues R c (di_foundationKeys input) (di_momentumKeys input)
           in Live_values (bl_foundation b) (bl_momentum b) (bl_snapshotFy b) (bl_snapshotQuarter b)))
     else (let (f, fy) = foundation_values R mpow input; (m, q) = momentum_values R input in Live_values f m fy q))"

definition selectPgKeys :: "(label_pillar \<times> string option) list \<Rightarrow> string list \<times> string list" where
  "selectPgKeys mapping = ([k. (P_foundation, Some k) \<leftarrow> mapping], [k. (P_momentum, Some k) \<leftarrow> mapping])"

subsection \<open>Every value fits the registry\<close>

lemma shaped_banking:
  "shaped ''GNPA'' (Live U_percent) (f2GnpaQ R c)" "shaped ''NNPA'' (Live U_percent) (f3NnpaQ R c)"
  "shaped ''PCR'' (Live U_percent) (f4PcrQ R c)" "shaped ''ROA'' (Live U_percent) (f5RoaQ R c)"
  "shaped ''CI'' (Live U_percent) (f6CostIncome R c)" "shaped ''CASA'' (Live U_percent) (f7Casa c)"
  "shaped ''NIM'' (Live U_percent) (m1NimTtm R c)" "shaped ''PPOP'' (Live U_percent) (m2PpopYoyTtm R c)"
  "shaped ''NII'' (Live U_percent) (m3NiiYoyTtm R c)" "shaped ''NPyoy'' (Live U_percent) (m4NpYoyTtm R c)"
  "shaped ''GNPAttm'' (Live U_percent) (m5GnpaTtm R c)"
  by (simp_all add: shaped_def metric_shape bUnavailable_def mk_def npa_choice_def quarter_level_def annualFallback_def
      f2Gnpa_def f3Nnpa_def f4Pcr_def f5Roa_def f2GnpaQ_def f3NnpaQ_def f4PcrQ_def f5RoaQ_def f6CostIncome_def f7Casa_def m1NimTtm_def
      annualYoy_def m2PpopYoy_def m3NiiYoy_def m4NpYoy_def ttmYoy_def m2PpopYoyTtm_def m3NiiYoyTtm_def m4NpYoyTtm_def m5GnpaTtm_def
      Let_def split: option.split)

lemma shaped_tier1: "shaped ''Tier1'' (Live U_percent) (f1Tier1Q R c)"
proof -
  have "shaped ''Tier1'' (Live U_percent) (f1Tier1 R c)"
    by (simp add: shaped_def metric_shape f1Tier1_def bUnavailable_def Let_def split: option.split prod.split)
  then show ?thesis
    by (simp add: f1Tier1Q_def shaped_def metric_shape mk_def annualFallback_def Let_def split: option.split prod.split)
qed

definition fits :: "industry \<Rightarrow> label_pillar \<Rightarrow> metric_value \<Rightarrow> bool" where
  \<comment> \<open>well-formed, and when available registered for the pillar and industry with a unit the guard accepts\<close>
  "fits i p v \<longleftrightarrow> value_ok v \<and> (mv_available v \<longrightarrow> (\<exists>m. canonicalMetric (mv_key v) = Some m \<and> cm_pillar m = p \<and>
     cm_industry m = i \<and> unitsMatch (mv_key v) (mv_unit v) None))"

definition registered :: "industry \<Rightarrow> label_pillar \<Rightarrow> string \<Rightarrow> engine_unit \<Rightarrow> bool" where
  "registered i p k u \<longleftrightarrow> (case canonicalMetric k of None \<Rightarrow> False | Some m \<Rightarrow> cm_pillar m = p \<and> cm_industry m = i \<and> cm_unit m = u)"

lemma registered_keys:
  "list_all (\<lambda>(k, u). registered Non_financial P_foundation k u)
    [(''F1'', U_percent), (''F2'', U_percent), (''F3'', U_ratio), (''F4'', U_ratio), (''F5'', U_x), (''F6'', U_days), (''F7'', U_x),
     (''F8'', U_ratio), (''F9'', U_percent), (''F10'', U_percent), (''F1_OPM'', U_percent)]"
  "list_all (\<lambda>(k, u). registered Non_financial P_momentum k u)
    [(''M1'', U_percent), (''M2'', U_percent), (''M3'', U_percent), (''M4'', U_percent), (''M1_OPM_TTM'', U_percent), (''M5_OPSHARE'', U_percent)]"
  "list_all (\<lambda>(k, u). registered Banking P_foundation k u)
    [(''Tier1'', U_percent), (''GNPA'', U_percent), (''NNPA'', U_percent), (''PCR'', U_percent), (''ROA'', U_percent), (''CI'', U_percent), (''CASA'', U_percent)]"
  "list_all (\<lambda>(k, u). registered Banking P_momentum k u)
    [(''NIM'', U_percent), (''PPOP'', U_percent), (''NII'', U_percent), (''NPyoy'', U_percent), (''GNPAttm'', U_percent)]"
  by code_simp+

lemma fits_registered: "registered i p k u \<Longrightarrow> shaped k (Live u) v \<Longrightarrow> fits i p v"
  by (auto simp: fits_def registered_def shaped_def unitsMatch_def assertUnitMatch_def expectedUnit_def canonicalMetric_def
      split: option.splits)

definition table_fits :: "industry \<Rightarrow> label_pillar \<Rightarrow> (string \<times> ('c \<Rightarrow> metric_value)) list \<Rightarrow> bool" where
  "table_fits i p table \<longleftrightarrow> (\<forall>(k, f) \<in> set table. \<exists>u. registered i p k u \<and> (\<forall>c. shaped k (Live u) (f c)))"

lemma table_fits_Cons: "table_fits i p ((k, f) # t) \<longleftrightarrow> (\<exists>u. registered i p k u \<and> (\<forall>c. shaped k (Live u) (f c))) \<and> table_fits i p t"
  by (simp add: table_fits_def)

lemma table_fits_lookup:
  assumes "table_fits i p table" "map_of table k = Some f"
  shows "fits i p (f c) \<and> mv_key (f c) = k"
proof -
  obtain u where "registered i p k u" "shaped k (Live u) (f c)"
    using assms map_of_SomeD[OF assms(2)] unfolding table_fits_def by blast
  then show ?thesis using fits_registered by (auto simp: shaped_def)
qed

lemma shaped_rolling_first:
  "shaped k u (rolling (fc_snap c) (fc_run c)) \<Longrightarrow> shaped k u (annual c) \<Longrightarrow> shaped k u (rolling_first rolling annual c)"
  by (simp add: rolling_first_def Let_def shaped_def metric_shape)

lemma shaped_emitAs: "shaped k u (fn run) \<Longrightarrow> shaped k' u (emitAs k' fn run)"
  by (simp add: emitAs_def shaped_def value_ok_def)

lemma dispatch_table_simps: "FOUNDATION_DISPATCH R mpow =
    [(''F1'', rolling_first (f1RoceTtm R) (\<lambda>c. f1Roce R (fc_snap c))), (''F2'', rolling_first (f2RoeTtm R) (\<lambda>c. f2Roe R (fc_snap c))),
     (''F3'', \<lambda>c. f3CashConversion R (fc_snap c) (fc_prior c) (fc_periodAvgPrice c)), (''F4'', \<lambda>c. f4DebtEquity R (fc_snap c)),
     (''F5'', rolling_first (f5InterestCoverageTtm R) (\<lambda>c. f5InterestCoverage R (fc_snap c))),
     (''F6'', rolling_first (f6ReceivablesDaysTtm R) (\<lambda>c. f6ReceivablesDays R (fc_snap c))),
     (''F7'', rolling_first (f7AssetTurnoverTtm R) (\<lambda>c. f7AssetTurnover R (fc_snap c))),
     (''F8'', \<lambda>c. f8FcfPatAvg R (fc_rows c) (fc_snapshotOrdinal c)),
     (''F9'', \<lambda>c. f9OcfConsistency R (fc_rows c) (fc_snapshotOrdinal c)),
     (''F10'', rolling_first (f10Revenue3yCagrTtm R mpow) (\<lambda>c. f10Revenue3yCagr R mpow (fc_rows c) (fc_snapshotOrdinal c))),
     (''F1_OPM'', \<lambda>c. fOpmOperatingMargin (fc_snap c))]"
  by (simp add: FOUNDATION_DISPATCH_def FOUNDATION_ANNUAL_def FOUNDATION_TTM_def)

lemma foundation_table_fits: "table_fits Non_financial P_foundation (FOUNDATION_DISPATCH R mpow)"
  using registered_keys(1) unfolding dispatch_table_simps table_fits_Cons
  by (auto simp: table_fits_def intro!: shaped_rolling_first metric_shape intro: shaped_foundation shaped_rolling)

lemma momentum_table_fits: "table_fits Non_financial P_momentum (MOMENTUM_DISPATCH R)"
  using registered_keys(2) unfolding MOMENTUM_DISPATCH_def table_fits_Cons
  by (auto simp: table_fits_def intro: shaped_emitAs shaped_momentum)

lemma bank_tables_fit:
  "table_fits Banking P_foundation (BANKING_FOUNDATION_FNS R)" "table_fits Banking P_momentum (BANKING_MOMENTUM_FNS R)"
  using registered_keys(3,4) unfolding BANKING_FOUNDATION_FNS_def BANKING_MOMENTUM_FNS_def table_fits_Cons
  by (auto simp: table_fits_def intro: shaped_tier1 shaped_banking)

lemma by_table_fits: "table_fits i p table \<Longrightarrow> fits i p (by_table table c k) \<and> mv_key (by_table table c k) = k"
  using table_fits_lookup[of i p table k _ c]
  by (auto simp: by_table_def noFn_def fits_def value_ok_def split: option.split)

lemma noData_fits: "fits i p (noData k) \<and> mv_key (noData k) = k"
  by (simp add: noData_def fits_def metric_shape)

lemma banking_value_fits: "table_fits i p fns \<Longrightarrow> fits i p (banking_value fns c k) \<and> mv_key (banking_value fns c k) = k"
  using table_fits_lookup[of i p fns k _ c]
  by (auto simp: banking_value_def bUnavailable_def fits_def metric_shape split: option.split)

lemma table_values:
  "fits Non_financial P_foundation (by_table (FOUNDATION_DISPATCH R mpow) x k)" "mv_key (by_table (FOUNDATION_DISPATCH R mpow) x k) = k"
  "fits Non_financial P_momentum (by_table (MOMENTUM_DISPATCH R) y k)" "mv_key (by_table (MOMENTUM_DISPATCH R) y k) = k"
  "fits Banking P_foundation (banking_value (BANKING_FOUNDATION_FNS R) z k)" "mv_key (banking_value (BANKING_FOUNDATION_FNS R) z k) = k"
  "fits Banking P_momentum (banking_value (BANKING_MOMENTUM_FNS R) z k)" "mv_key (banking_value (BANKING_MOMENTUM_FNS R) z k) = k"
  "fits i p (noData k)" "mv_key (noData k) = k"
  using by_table_fits[OF foundation_table_fits] by_table_fits[OF momentum_table_fits] banking_value_fits[OF bank_tables_fit(1)]
    banking_value_fits[OF bank_tables_fit(2)] noData_fits by blast+

lemma foundation_values_fit:
  "map mv_key (fst (foundation_values R mpow input)) = di_foundationKeys input \<and>
   (\<forall>v \<in> set (fst (foundation_values R mpow input)). fits Non_financial P_foundation v)"
  by (simp add: foundation_values_def Let_def table_values comp_def)

lemma momentum_values_fit:
  "map mv_key (fst (momentum_values R input)) = di_momentumKeys input \<and>
   (\<forall>v \<in> set (fst (momentum_values R input)). fits Non_financial P_momentum v)"
  by (simp add: momentum_values_def Let_def table_values comp_def)

lemma banking_values_fit:
  "map mv_key (bl_foundation (computeBankingLiveValues R c fk mk')) = fk \<and> map mv_key (bl_momentum (computeBankingLiveValues R c fk mk')) = mk' \<and>
   (\<forall>v \<in> set (bl_foundation (computeBankingLiveValues R c fk mk')). fits Banking P_foundation v) \<and>
   (\<forall>v \<in> set (bl_momentum (computeBankingLiveValues R c fk mk')). fits Banking P_momentum v)"
  by (simp add: computeBankingLiveValues_def table_values comp_def)

text \<open>C15. The live values of a stock are well-typed, for every input and any arithmetic: one
  value per requested key in the order asked and under that key; an available value has a number, a
  source and no reason, an unavailable one has neither number nor source; and every available value
  belongs to a metric registered for that pillar and industry, in the unit that the unit guard of
  the scoring step expects.\<close>

theorem dispatch_typed:
  assumes "dispatchLiveValues R mpow input = Live_values fs ms fy q"
  shows "map mv_key fs = di_foundationKeys input \<and> map mv_key ms = di_momentumKeys input \<and>
    (\<forall>v \<in> set fs. fits (di_industryType input) P_foundation v) \<and> (\<forall>v \<in> set ms. fits (di_industryType input) P_momentum v)"
proof (cases "di_industryType input")
  case Non_financial
  then have "fs = fst (foundation_values R mpow input)" "ms = fst (momentum_values R input)"
    using assms by (auto simp: dispatchLiveValues_def split: prod.splits)
  then show ?thesis using Non_financial foundation_values_fit momentum_values_fit by simp
next
  case Banking
  then obtain c where "fs = bl_foundation (computeBankingLiveValues R c (di_foundationKeys input) (di_momentumKeys input))"
      "ms = bl_momentum (computeBankingLiveValues R c (di_foundationKeys input) (di_momentumKeys input))"
    using assms by (auto simp: dispatchLiveValues_def Let_def split: option.splits)
  then show ?thesis using Banking banking_values_fit by simp
qed

definition sample_input :: dispatch_input where
  "sample_input = \<lparr>di_industryType = Non_financial, di_foundationKeys = [''F1'', ''F4'', ''M5''], di_momentumKeys = [''M2''],
     di_foundationRows = [sample_year 26 100], di_momentumQuarters = [], di_foundationQuarters = None, di_periodAvgPrice = None,
     di_bankingCtx = None\<rparr>"

lemma dispatch_typed_witness:
  "\<exists>fs ms fy q. dispatchLiveValues f64 sample_pow sample_input = Live_values fs ms fy q \<and> map mv_key fs = [''F1'', ''F4'', ''M5''] \<and>
     (\<forall>v \<in> set fs. fits Non_financial P_foundation v)"
proof -
  obtain fs ms fy q where d: "dispatchLiveValues f64 sample_pow sample_input = Live_values fs ms fy q"
    by (simp add: dispatchLiveValues_def sample_input_def case_prod_beta)
  then show ?thesis using dispatch_typed[OF d] by (simp add: sample_input_def)
qed

subsection \<open>The registry and the tables\<close>

text \<open>C17. The metric registry and the dispatch tables agree: the dispatch table lists exactly
  the registered metrics with their pillar and industry, except M5, and each of the four function
  tables has a function for exactly the keys the dispatch table lists for it. So the one registered
  key that ends as a dispatch gap is M5.\<close>

theorem dispatch_covers_registry:
  "set DISPATCH_TABLE = (\<lambda>m. (cm_key m, cm_pillar m, cm_industry m)) ` set CANONICAL_METRICS - {(''M5'', P_momentum, Non_financial)} \<and>
   fst ` set (FOUNDATION_DISPATCH R mpow) = {k. (k, P_foundation, Non_financial) \<in> set DISPATCH_TABLE} \<and>
   fst ` set (MOMENTUM_DISPATCH R) = {k. (k, P_momentum, Non_financial) \<in> set DISPATCH_TABLE} \<and>
   fst ` set (BANKING_FOUNDATION_FNS R) = {k. (k, P_foundation, Banking) \<in> set DISPATCH_TABLE} \<and>
   fst ` set (BANKING_MOMENTUM_FNS R) = {k. (k, P_momentum, Banking) \<in> set DISPATCH_TABLE}"
proof -
  have "set DISPATCH_TABLE = (\<lambda>m. (cm_key m, cm_pillar m, cm_industry m)) ` set CANONICAL_METRICS - {(''M5'', P_momentum, Non_financial)}"
    by code_simp
  moreover have "fst ` set (FOUNDATION_DISPATCH R mpow) = {k. (k, P_foundation, Non_financial) \<in> set DISPATCH_TABLE}"
    "fst ` set (MOMENTUM_DISPATCH R) = {k. (k, P_momentum, Non_financial) \<in> set DISPATCH_TABLE}"
    "fst ` set (BANKING_FOUNDATION_FNS R) = {k. (k, P_foundation, Banking) \<in> set DISPATCH_TABLE}"
    "fst ` set (BANKING_MOMENTUM_FNS R) = {k. (k, P_momentum, Banking) \<in> set DISPATCH_TABLE}"
    by (auto simp: dispatch_table_simps MOMENTUM_DISPATCH_def BANKING_FOUNDATION_FNS_def BANKING_MOMENTUM_FNS_def DISPATCH_TABLE_def
        BANKING_FOUNDATION_KEYS_def BANKING_MOMENTUM_KEYS_def)
  ultimately show ?thesis by blast
qed

subsection \<open>The rolling form and its fallback\<close>

lemma rolling_first_available: "mv_available (annual c) \<Longrightarrow> mv_available (rolling_first rolling annual c)"
  by (simp add: rolling_first_def Let_def)

lemma rolling_first_value:
  "(mv_available (rolling (fc_snap c) (fc_run c)) \<Longrightarrow> mv_value (rolling (fc_snap c) (fc_run c)) = mv_value (annual c)) \<Longrightarrow>
    mv_value (rolling_first rolling annual c) = mv_value (annual c)"
  by (simp add: rolling_first_def Let_def)

lemma dispatch_lookup:
  "map_of (FOUNDATION_DISPATCH R mpow) k = map_option (\<lambda>annual. case FOUNDATION_TTM R mpow k of None \<Rightarrow> annual
     | Some rolling \<Rightarrow> rolling_first rolling annual) (map_of (FOUNDATION_ANNUAL R mpow) k)"
proof -
  have "map_of (map (\<lambda>(key, annual). (key, case T key of None \<Rightarrow> annual | Some rolling \<Rightarrow> rolling_first rolling annual)) xs) k =
      map_option (\<lambda>annual. case T k of None \<Rightarrow> annual | Some rolling \<Rightarrow> rolling_first rolling annual) (map_of xs k)" for T xs
    by (induction xs) (auto split: option.split)
  then show ?thesis by (simp add: FOUNDATION_DISPATCH_def)
qed

text \<open>C16. The rolling forms of the Foundation metrics never cost coverage: whatever key is
  available from the annual row is available from the dispatcher, in any arithmetic. When the last
  four quarters add up to the fiscal year, the dispatcher's value of every key but F10 is, in exact
  arithmetic, the annual value.\<close>

theorem rolling_forms:
  "(mv_available (by_table (FOUNDATION_ANNUAL R mpow) c key) \<longrightarrow> mv_available (by_table (FOUNDATION_DISPATCH R mpow) c key)) \<and>
   (year_end (fc_snap c) (fc_run c) \<and> key \<noteq> ''F10'' \<longrightarrow>
     mv_value (by_table (FOUNDATION_DISPATCH (\<lambda>x. x) mpow) c key) = mv_value (by_table (FOUNDATION_ANNUAL (\<lambda>x. x) mpow) c key))"
proof (intro conjI impI)
  assume "mv_available (by_table (FOUNDATION_ANNUAL R mpow) c key)"
  then show "mv_available (by_table (FOUNDATION_DISPATCH R mpow) c key)"
    by (auto simp: by_table_def dispatch_lookup noFn_def rolling_first_available split: option.splits)
next
  assume ye: "year_end (fc_snap c) (fc_run c) \<and> key \<noteq> ''F10''"
  show "mv_value (by_table (FOUNDATION_DISPATCH (\<lambda>x. x) mpow) c key) = mv_value (by_table (FOUNDATION_ANNUAL (\<lambda>x. x) mpow) c key)"
    using ye rolling_agrees[of "fc_snap c" "fc_run c"]
    by (auto simp: by_table_def dispatch_table_simps FOUNDATION_ANNUAL_def noFn_def intro!: rolling_first_value)
qed

definition sample_ctx :: foundation_ctx where
  "sample_ctx = \<lparr>fc_rows = [sample_year 26 100], fc_snap = sample_year 26 100, fc_prior = None, fc_snapshotOrdinal = 26,
     fc_periodAvgPrice = None, fc_run = map (\<lambda>n. sample_quarter n 25) [100, 101, 102, 103]\<rparr>"

lemma rolling_forms_witness:
  "mv_value (by_table (FOUNDATION_DISPATCH (\<lambda>x. x) sample_pow) sample_ctx ''F7'') =
   mv_value (by_table (FOUNDATION_ANNUAL (\<lambda>x. x) sample_pow) sample_ctx ''F7'')"
proof -
  have "year_end (fc_snap sample_ctx) (fc_run sample_ctx)"
    by (simp add: year_end_def sample_ctx_def sample_year_def sample_quarter_def ttm4_def ttmSum_def lastn_def)
  then show ?thesis using rolling_forms[of "\<lambda>x. x" sample_pow sample_ctx "''F7''"] by simp
qed

end
