(* ===== verification/MetricScoring.thy ===== *)
theory MetricScoring
  imports LabelMap
begin

text \<open>
  The lens wiring of \<open>src/scoring/metric-scoring\<close>: peer statistics and the anchor-lift
  decisions (\<open>peer-stats.ts\<close>), the two peer-lens guards (\<open>lens-guards.ts\<close>) and the scoring
  of one metric across a peer group (\<open>wire.ts\<close>).  A suppression directive is a predicate on
  stock and metric, as in \<open>types.ts\<close>; the notes of a scored metric are kept as constructors
  that carry what the note's text interpolates.
\<close>

subsection \<open>Peer statistics (\<open>peer-stats.ts\<close>)\<close>

datatype pillar = Foundation | Momentum | Market | Ownership

datatype score_state = SS_scored | SS_suppressed | SS_missing_renorm | SS_neutral_hold

record peer_stats =
  ps_mean :: num
  ps_stdDev :: num
  ps_sampleN :: nat

record lift_decision =
  ld_rule :: lift_rule
  ld_clearedCount :: nat
  ld_n :: nat
  ld_fraction :: num
  ld_fired :: bool

definition GOOD_L1 :: num where "GOOD_L1 = of_int (BAR_SCORE Good)"

definition LIFT_FRACTION :: num where "LIFT_FRACTION = 3/4"

definition computePeerStats :: "(num \<Rightarrow> num) \<Rightarrow> num list \<Rightarrow> peer_stats" where
  "computePeerStats R values =
    (if values = [] then \<lparr>ps_mean = 0, ps_stdDev = 0, ps_sampleN = 0\<rparr>
     else (let n = length values;
               mean = R (foldl (\<lambda>a b. R (a + b)) 0 values / of_nat n);
               variance = R (foldl (\<lambda>a b. R (a + R ((R (b - mean)) ^ 2))) 0 values / of_nat n)
           in \<lparr>ps_mean = mean, ps_stdDev = js_sqrt variance, ps_sampleN = n\<rparr>))"

definition decide :: "(num \<Rightarrow> num) \<Rightarrow> lift_rule \<Rightarrow> num list \<Rightarrow> lift_decision" where
  "decide R rule l1Scores =
    (let n = length l1Scores; clearedCount = length (filter (\<lambda>s. GOOD_L1 \<le> s) l1Scores);
         fraction = (if 0 < n then R (of_nat clearedCount / of_nat n) else 0)
     in \<lparr>ld_rule = rule, ld_clearedCount = clearedCount, ld_n = n, ld_fraction = fraction,
         ld_fired = (0 < n \<and> LIFT_FRACTION \<le> fraction)\<rparr>)"

definition decideLift531 :: "(num \<Rightarrow> num) \<Rightarrow> num list \<Rightarrow> lift_decision" where
  "decideLift531 R validL1Scores = decide R Rule_5_3_1 validL1Scores"

definition decideLift541 :: "(num \<Rightarrow> num) \<Rightarrow> num list \<Rightarrow> absolute_bars \<Rightarrow> direction \<Rightarrow> lift_decision" where
  "decideLift541 R ownHistoryValues bars dir =
     decide R Rule_5_4_1 (map (\<lambda>v. l1r_score (computeLens1 R v bars dir)) ownHistoryValues)"

subsection \<open>The peer-lens guards (\<open>lens-guards.ts\<close>)\<close>

definition ACCEPTABLE_L1 :: num where "ACCEPTABLE_L1 = 60"
definition GUARD_MIN_PEERS :: nat where "GUARD_MIN_PEERS = 4"

definition l2BadClassGuard :: "(num \<Rightarrow> num) \<Rightarrow> num list \<Rightarrow> absolute_bars \<Rightarrow> direction \<Rightarrow> bool" where
  "l2BadClassGuard R peerValues bars dir =
    (let l1 = map (\<lambda>v. l1r_score (computeLens1 R v bars dir)) peerValues
     in if length l1 < GUARD_MIN_PEERS then False
        else (let s = sort l1 in s ! (length s div 2) < ACCEPTABLE_L1))"

definition l2SigmaGuard :: "num \<Rightarrow> num \<Rightarrow> bool" where
  "l2SigmaGuard peerMean peerStdDev \<longleftrightarrow> \<bar>peerMean\<bar> < peerStdDev"

datatype l2_guard = G_bad_class | G_sigma

subsection \<open>The wiring (\<open>wire.ts\<close>)\<close>

record member =
  m_stockId :: string
  m_symbol :: string
  m_rawValue :: "num option"
  m_available :: bool
  m_unavailableReason :: "string option"
  m_ownHistoryValues :: "num list"

record wiring_config =
  wc_l2SigmaGuard :: bool
  wc_l2BadClassGuard :: bool
  wc_peerMinN :: nat
  wc_l3MinN :: nat
  wc_l3Window :: nat

type_synonym directive = "string \<Rightarrow> string \<Rightarrow> bool"

record suppression =
  excludeFromOwnScore :: directive
  excludeFromPeerMean :: directive

datatype suppression_input = One directive | Two suppression

fun normalizeSuppression :: "suppression_input \<Rightarrow> suppression" where
  "normalizeSuppression (One d) = \<lparr>excludeFromOwnScore = d, excludeFromPeerMean = d\<rparr>"
| "normalizeSuppression (Two s) = s"

record cross_section_input =
  ci_pillar :: pillar
  ci_metricKey :: string
  ci_label :: string
  ci_snapshot :: string
  ci_direction :: direction
  ci_bars :: absolute_bars
  ci_barNote :: string
  ci_liveUnit :: "live_unit option"
  ci_barUnit :: "engine_unit option"
  ci_sscu :: "stock_override option"
  ci_members :: "member list"
  ci_suppression :: suppression_input
  ci_config :: wiring_config

datatype wire_note =
    N_O4_peer_only
  | N_L2_bad_class
  | N_L2_sigma num num
  | N_L2_std_dev_zero
  | N_L2_thin nat nat
  | N_L3_thin nat nat
  | N_L3_std_dev_zero
  | N_own_lift nat nat
  | N_not_scored score_state
  | N_neutral_hold

record scored_metric =
  sm_pillar :: pillar
  sm_metricKey :: string
  sm_label :: string
  sm_stockId :: string
  sm_symbol :: string
  sm_rawValue :: "num option"
  sm_scoreState :: score_state
  sm_includedInPeerStats :: bool
  sm_unavailableReason :: "string option"
  sm_l1Available :: bool
  sm_l1Score :: "num option"
  sm_l1Band :: "band option"
  sm_l1Saturated :: bool
  sm_l1BarSetUsed :: "bar_set option"
  sm_barDirection :: "direction option"
  sm_barNote :: string
  sm_l2Available :: bool
  sm_l2Score :: "num option"
  sm_l2Z :: "num option"
  sm_l2AnchorApplied :: "int option"
  sm_l2AnchorFired :: bool
  sm_peerStats :: "peer_stats option"
  sm_l3Available :: bool
  sm_l3Score :: "num option"
  sm_l3Z :: "num option"
  sm_l3AnchorApplied :: "int option"
  sm_l3AnchorFired :: bool
  sm_l3Mean :: "num option"
  sm_l3StdDev :: "num option"
  sm_l3WindowN :: "nat option"
  sm_metricScore :: "num option"
  sm_lensFallbackApplied :: lens_fallback
  sm_notes :: "wire_note list"

record cross_section_result =
  cr_pillar :: pillar
  cr_metricKey :: string
  cr_label :: string
  cr_snapshot :: string
  cr_peerStats :: peer_stats
  cr_l2Available :: bool
  cr_lift531 :: lift_decision
  cr_scored :: "scored_metric list"

definition buildScored ::
  "(num \<Rightarrow> num) \<Rightarrow> cross_section_input \<Rightarrow> member \<Rightarrow> num \<Rightarrow> lens1_result \<Rightarrow> peer_stats \<Rightarrow> bool \<Rightarrow>
   lift_decision \<Rightarrow> bool \<Rightarrow> wire_note list \<Rightarrow> bool \<Rightarrow> scored_metric" where
  "buildScored R input m value l1 peerStats l2Available lift531 includedInPeerStats extraNotes badClassFired =
    (let config = ci_config input; dir = ci_direction input; bars = ci_bars input;
         guardFired = (if badClassFired then Some G_bad_class
                       else if wc_l2SigmaGuard config \<and> l2SigmaGuard (ps_mean peerStats) (ps_stdDev peerStats)
                       then Some G_sigma else None);
         (l2, notes2) =
           (case guardFired of
              Some G_bad_class \<Rightarrow> (None, [N_L2_bad_class])
            | Some G_sigma \<Rightarrow> (None, [N_L2_sigma (ps_stdDev peerStats) \<bar>ps_mean peerStats\<bar>])
            | None \<Rightarrow>
                if l2Available
                then (let r = computeLens2 R \<lparr>l2i_value = value, l2i_peerMean = ps_mean peerStats,
                                l2i_peerStdDev = ps_stdDev peerStats, l2i_direction = dir,
                                l2i_anchorLifted = ld_fired lift531\<rparr>
                      in (Some r, if z_guard r = Some Std_dev_zero then [N_L2_std_dev_zero] else []))
                else (None, [N_L2_thin (ps_sampleN peerStats) (wc_peerMinN config)]));
         window = lastn (wc_l3Window config) (m_ownHistoryValues m);
         ownStats = computePeerStats R window;
         lift541 = decideLift541 R window bars dir;
         l3 = computeLens3 R \<lparr>l3i_value = value, l3i_ownHistMean = ps_mean ownStats,
                l3i_ownHistStdDev = ps_stdDev ownStats, l3i_windowN = ps_sampleN ownStats,
                l3i_minEffectiveN = wc_l3MinN config, l3i_direction = dir, l3i_anchorLifted = ld_fired lift541\<rparr>;
         notes3 = (if \<not> z_available l3 then [N_L3_thin (ps_sampleN ownStats) (wc_l3MinN config)]
                   else if z_guard l3 = Some Std_dev_zero then [N_L3_std_dev_zero] else []);
         notes4 = (if ld_fired lift541 \<and> z_available l3
                   then [N_own_lift (ld_clearedCount lift541) (ld_n lift541)] else []);
         comp = combineLenses R (Some l1) l2 (Some l3)
     in \<lparr>sm_pillar = ci_pillar input, sm_metricKey = ci_metricKey input, sm_label = ci_label input,
         sm_stockId = m_stockId m, sm_symbol = m_symbol m, sm_rawValue = Some value,
         sm_scoreState = SS_scored, sm_includedInPeerStats = includedInPeerStats, sm_unavailableReason = None,
         sm_l1Available = True, sm_l1Score = Some (l1r_score l1), sm_l1Band = Some (l1r_band l1),
         sm_l1Saturated = l1r_saturated l1, sm_l1BarSetUsed = Some (l1r_barSetUsed l1),
         sm_barDirection = Some dir, sm_barNote = ci_barNote input,
         sm_l2Available = (case l2 of None \<Rightarrow> False | Some r \<Rightarrow> z_available r),
         sm_l2Score = Option.bind l2 z_score, sm_l2Z = Option.bind l2 z_z,
         sm_l2AnchorApplied = map_option z_anchorApplied l2,
         sm_l2AnchorFired = (case l2 of None \<Rightarrow> False | Some r \<Rightarrow> z_anchorLiftFired r),
         sm_peerStats = Some peerStats,
         sm_l3Available = z_available l3, sm_l3Score = z_score l3, sm_l3Z = z_z l3,
         sm_l3AnchorApplied = Some (z_anchorApplied l3), sm_l3AnchorFired = z_anchorLiftFired l3,
         sm_l3Mean = (if 0 < ps_sampleN ownStats then Some (ps_mean ownStats) else None),
         sm_l3StdDev = (if 0 < ps_sampleN ownStats then Some (ps_stdDev ownStats) else None),
         sm_l3WindowN = Some (ps_sampleN ownStats),
         sm_metricScore = Some (mc_metricScore comp), sm_lensFallbackApplied = mc_fallback comp,
         sm_notes = extraNotes @ notes2 @ notes3 @ notes4\<rparr>)"

definition unscored ::
  "cross_section_input \<Rightarrow> member \<Rightarrow> score_state \<Rightarrow> bool \<Rightarrow> string \<Rightarrow> num option \<Rightarrow> wire_note \<Rightarrow> scored_metric" where
  \<comment> \<open>the object literal that \<open>buildNotScored\<close> and \<open>buildNeutralHold\<close> share\<close>
  "unscored input m state included reason score nt =
     \<lparr>sm_pillar = ci_pillar input, sm_metricKey = ci_metricKey input, sm_label = ci_label input,
      sm_stockId = m_stockId m, sm_symbol = m_symbol m, sm_rawValue = m_rawValue m,
      sm_scoreState = state, sm_includedInPeerStats = included, sm_unavailableReason = Some reason,
      sm_l1Available = False, sm_l1Score = None, sm_l1Band = None, sm_l1Saturated = False, sm_l1BarSetUsed = None,
      sm_barDirection = Some (ci_direction input), sm_barNote = ci_barNote input,
      sm_l2Available = False, sm_l2Score = None, sm_l2Z = None, sm_l2AnchorApplied = None, sm_l2AnchorFired = False,
      sm_peerStats = None,
      sm_l3Available = False, sm_l3Score = None, sm_l3Z = None, sm_l3AnchorApplied = None, sm_l3AnchorFired = False,
      sm_l3Mean = None, sm_l3StdDev = None, sm_l3WindowN = None,
      sm_metricScore = score, sm_lensFallbackApplied = FB_none, sm_notes = [nt]\<rparr>"

definition buildNotScored :: "cross_section_input \<Rightarrow> member \<Rightarrow> score_state \<Rightarrow> string \<Rightarrow> scored_metric" where
  "buildNotScored input m state reason = unscored input m state False reason None (N_not_scored state)"

definition buildNeutralHold :: "cross_section_input \<Rightarrow> member \<Rightarrow> scored_metric" where
  "buildNeutralHold input m =
     unscored input m SS_neutral_hold True ''neutral_hold (banking supplementary absent)'' (Some 60) N_neutral_hold"

definition hasValue :: "member \<Rightarrow> bool" where
  "hasValue m \<longleftrightarrow> m_available m \<and> m_rawValue m \<noteq> None"

definition rawValues :: "member list \<Rightarrow> num list" where
  "rawValues ms = map (\<lambda>m. the (m_rawValue m)) ms"

definition ownExcluded :: "cross_section_input \<Rightarrow> string \<Rightarrow> bool" where
  \<comment> \<open>the set of excluded ids is built from the members, then queried by id\<close>
  "ownExcluded input sid \<longleftrightarrow> list_ex (\<lambda>m. m_stockId m = sid \<and>
     excludeFromOwnScore (normalizeSuppression (ci_suppression input)) (m_stockId m) (ci_metricKey input)) (ci_members input)"

definition peerExcluded :: "cross_section_input \<Rightarrow> string \<Rightarrow> bool" where
  "peerExcluded input sid \<longleftrightarrow> list_ex (\<lambda>m. m_stockId m = sid \<and>
     excludeFromPeerMean (normalizeSuppression (ci_suppression input)) (m_stockId m) (ci_metricKey input)) (ci_members input)"

definition scoredSet :: "cross_section_input \<Rightarrow> member list" where
  "scoredSet input = filter (\<lambda>m. hasValue m \<and> \<not> ownExcluded input (m_stockId m)) (ci_members input)"

definition peerSetCommon :: "cross_section_input \<Rightarrow> member list" where
  "peerSetCommon input = filter (\<lambda>m. \<not> peerExcluded input (m_stockId m)) (scoredSet input)"

definition memberL1 :: "(num \<Rightarrow> num) \<Rightarrow> cross_section_input \<Rightarrow> member \<Rightarrow> lens1_result" where
  "memberL1 R input m = scoreL1 R (the (m_rawValue m)) (ci_bars input) (ci_direction input)
     (Some (m_symbol m)) (ci_sscu input)"

definition l1Map :: "(num \<Rightarrow> num) \<Rightarrow> cross_section_input \<Rightarrow> string \<Rightarrow> lens1_result option" where
  \<comment> \<open>\<open>l1Map.set\<close> in member order: a repeated stock id keeps its last value\<close>
  "l1Map R input = foldl (\<lambda>mp m. mp(m_stockId m \<mapsto> memberL1 R input m)) (\<lambda>_. None) (scoredSet input)"

definition scoreMember ::
  "(num \<Rightarrow> num) \<Rightarrow> cross_section_input \<Rightarrow> member \<Rightarrow> scored_metric" where
  "scoreMember R input m =
    (let config = ci_config input;
         commonStats = computePeerStats R (rawValues (peerSetCommon input));
         lift531 = decideLift531 R (map (\<lambda>p. l1r_score (the (l1Map R input (m_stockId p)))) (peerSetCommon input));
         badClassFired = (wc_l2BadClassGuard config \<and>
            l2BadClassGuard R (rawValues (peerSetCommon input)) (ci_bars input) (ci_direction input))
     in if ownExcluded input (m_stockId m)
        then buildNotScored input m SS_suppressed ''suppressed by guardrail directive (own-score excluded)''
        else if \<not> hasValue m
        then buildNotScored input m SS_missing_renorm (nullish (m_unavailableReason m) ''raw value unavailable'')
        else (let value = the (m_rawValue m); peerExcl = peerExcluded input (m_stockId m);
                  stats = (if peerExcl then computePeerStats R (rawValues (peerSetCommon input) @ [value]) else commonStats);
                  l2Avail = (wc_peerMinN config \<le> ps_sampleN stats)
              in buildScored R input m value (the (l1Map R input (m_stockId m))) stats l2Avail lift531 (\<not> peerExcl)
                   (if peerExcl then [N_O4_peer_only] else []) badClassFired))"

definition scoreMetricCrossSection ::
  "(num \<Rightarrow> num) \<Rightarrow> cross_section_input \<Rightarrow> (label_error, cross_section_result) result" where
  "scoreMetricCrossSection R input =
    bindR (case ci_liveUnit input of None \<Rightarrow> Inr U_percent
             | Some u \<Rightarrow> assertUnitMatch (ci_metricKey input) u (ci_barUnit input))
      (\<lambda>_. let commonStats = computePeerStats R (rawValues (peerSetCommon input)) in
        Inr \<lparr>cr_pillar = ci_pillar input, cr_metricKey = ci_metricKey input, cr_label = ci_label input,
             cr_snapshot = ci_snapshot input, cr_peerStats = commonStats,
             cr_l2Available = (wc_peerMinN (ci_config input) \<le> ps_sampleN commonStats),
             cr_lift531 = decideLift531 R
               (map (\<lambda>p. l1r_score (the (l1Map R input (m_stockId p)))) (peerSetCommon input)),
             cr_scored = map (scoreMember R input) (ci_members input)\<rparr>)"


lemma computePeerStats_n [simp]: "ps_sampleN (computePeerStats R xs) = length xs"
  by (simp add: computePeerStats_def Let_def)

lemma computePeerStats_sd_nonneg: "0 \<le> ps_stdDev (computePeerStats R xs)"
  by (simp add: computePeerStats_def Let_def js_sqrt_nonneg)

subsection \<open>The lift decision is an integer comparison\<close>

context rounding begin

lemma ratio_ge_three_quarters:
  assumes "0 < n" "n \<le> 2 ^ 50"
  shows "3/4 \<le> R (of_nat c / of_nat n) \<longleftrightarrow> 3 * n \<le> 4 * c"
proof
  assume "3 * n \<le> 4 * c"
  then have "(of_nat (3 * n) :: rat) \<le> of_nat (4 * c)" by (simp only: of_nat_le_iff)
  then have "3/4 \<le> (of_nat c :: rat) / of_nat n" using assms by (simp add: field_simps)
  then have "R (3/4) \<le> R (of_nat c / of_nat n)" by (rule mono)
  then show "3/4 \<le> R (of_nat c / of_nat n)" using fix_quarter[of 3] by simp
next
  assume le: "3/4 \<le> R (of_nat c / of_nat n)"
  show "3 * n \<le> 4 * c"
  proof (rule ccontr)
    assume "\<not> ?thesis"
    then have "4 * c + 1 \<le> 3 * n" by simp
    then have "(of_nat (4 * c + 1) :: rat) \<le> of_nat (3 * n)" by (simp only: of_nat_le_iff)
    then have "(of_nat c :: rat) \<le> (3 * of_nat n - 1) / 4" by simp
    then have "(of_nat c :: rat) / of_nat n \<le> (3 * of_nat n - 1) / 4 / of_nat n"
      using assms by (intro divide_right_mono) auto
    also have "\<dots> = 3/4 - 1 / (4 * of_nat n)" using assms by (simp add: diff_divide_distrib)
    finally have x: "(of_nat c :: rat) / of_nat n \<le> 3/4 - 1 / (4 * of_nat n)" .
    have "(of_nat n :: rat) \<le> of_nat (2 ^ 50)" using assms by (simp only: of_nat_le_iff)
    then have "4 * (of_nat n :: rat) \<le> 2 ^ 52" by simp
    then have n: "1 / 2 ^ 52 \<le> 1 / (4 * (of_nat n :: rat))" using assms by (intro divide_left_mono) auto
    define y where "y = (of_nat c :: rat) / of_nat n"
    have y: "0 \<le> y" by (simp add: y_def)
    have y2: "y \<le> 3/4 - 1 / 2 ^ 52" unfolding y_def using order_trans[OF x diff_left_mono[OF n]] .
    have "R y - y \<le> \<bar>y\<bar> / 2 ^ 53" using err[of y] by (rule abs_le_D1)
    then have "R y \<le> y + y / 2 ^ 53" using y by linarith
    also have "\<dots> < 3/4" using y2 by simp
    finally show False using le by (simp add: y_def)
  qed
qed

lemma decide_fired:
  assumes "length xs \<le> 2 ^ 50"
  shows "ld_fired (decide R rule xs) \<longleftrightarrow>
    xs \<noteq> [] \<and> 3 * length xs \<le> 4 * length (filter (\<lambda>s. 75 \<le> s) xs)"
  using ratio_ge_three_quarters[of "length xs" "length (filter (\<lambda>s. 75 \<le> s) xs)"] assms
  by (auto simp: decide_def Let_def LIFT_FRACTION_def GOOD_L1_def)

subsection \<open>Peer statistics\<close>

lemma peer_variance_nonneg:
  "0 \<le> R (foldl (\<lambda>a b. R (a + R ((R (b - m)) ^ 2))) 0 xs / of_nat n)"
  by (intro nonneg divide_nonneg_nonneg sum_nonneg) auto

subsection \<open>Scores of the wiring\<close>

lemma buildScored_score:
  assumes "0 \<le> l1r_score l1 \<and> l1r_score l1 \<le> 100"
  shows "\<exists>s. sm_metricScore (buildScored R input m v l1 st l2a lift inc ex bad) = Some s \<and> 0 \<le> s \<and> s \<le> 100"
proof -
  have "zlens_ok r" if "l2 = Some r" "l2 = None \<or> (\<exists>i. l2 = Some (computeLens2 R i))" for l2 r
    using that computeLens2_ok by auto
  then have c: "0 \<le> mc_metricScore (combineLenses R (Some l1) l2 (Some (computeLens3 R j))) \<and>
      mc_metricScore (combineLenses R (Some l1) l2 (Some (computeLens3 R j))) \<le> 100"
    if "l2 = None \<or> (\<exists>i. l2 = Some (computeLens2 R i))" for l2 j
    by (intro combineLenses_range) (use assms that computeLens3_ok in auto)
  show ?thesis unfolding buildScored_def Let_def
    by (auto split: l2_guard.split option.split prod.split intro!: c)
qed

end


lemma hasValue_scored: "m \<in> set (scoredSet input) \<longleftrightarrow>
    m \<in> set (ci_members input) \<and> hasValue m \<and> \<not> ownExcluded input (m_stockId m)"
  by (auto simp: scoredSet_def)

lemma foldl_upd_notin:
  "k \<notin> f ` set xs \<Longrightarrow> foldl (\<lambda>mp m. mp(f m \<mapsto> g m)) mp xs k = mp k"
  by (induction xs arbitrary: mp) auto

lemma foldl_upd_in:
  "k \<in> f ` set xs \<Longrightarrow> \<exists>m. m \<in> set xs \<and> f m = k \<and> foldl (\<lambda>mp m. mp(f m \<mapsto> g m)) mp xs k = Some (g m)"
proof (induction xs arbitrary: mp rule: rev_induct)
  case (snoc x xs)
  show ?case
  proof (cases "f x = k")
    case False
    with snoc.prems have "k \<in> f ` set xs" by auto
    from snoc.IH[OF this] show ?thesis using False by auto
  qed auto
qed simp

lemma l1Map_scored:
  assumes "m \<in> set (scoredSet input)"
  shows "\<exists>m'. m' \<in> set (scoredSet input) \<and> m_stockId m' = m_stockId m \<and> l1Map R input (m_stockId m) = Some (memberL1 R input m')"
  using foldl_upd_in[of "m_stockId m" m_stockId "scoredSet input"] assms unfolding l1Map_def by blast

context rounding begin

lemma scoreMember_scored:
  assumes "m \<in> set (ci_members input)"
  shows "(sm_scoreState (scoreMember R input m) = SS_scored \<longleftrightarrow> hasValue m \<and> \<not> ownExcluded input (m_stockId m)) \<and>
    (case sm_metricScore (scoreMember R input m) of
       None \<Rightarrow> sm_scoreState (scoreMember R input m) \<noteq> SS_scored
     | Some s \<Rightarrow> sm_scoreState (scoreMember R input m) = SS_scored \<and> 0 \<le> s \<and> s \<le> 100)"
proof (cases "hasValue m \<and> \<not> ownExcluded input (m_stockId m)")
  case False
  then show ?thesis by (auto simp: scoreMember_def Let_def buildNotScored_def unscored_def)
next
  case True
  with assms have "m \<in> set (scoredSet input)" by (simp add: hasValue_scored)
  from l1Map_scored[OF this] obtain m' where m': "l1Map R input (m_stockId m) = Some (memberL1 R input m')" by blast
  have l1: "0 \<le> l1r_score (memberL1 R input m') \<and> l1r_score (memberL1 R input m') \<le> 100"
    unfolding memberL1_def by (rule scoreL1_range)
  have st: "sm_scoreState (buildScored R input m v l1 st l2a lift inc ex bad) = SS_scored" for v l1 st l2a lift inc ex bad
    by (auto simp: buildScored_def Let_def split: prod.split)
  have "\<exists>s. sm_metricScore (scoreMember R input m) = Some s \<and> 0 \<le> s \<and> s \<le> 100"
    using True by (simp add: scoreMember_def Let_def m' buildScored_score[OF l1])
  moreover have "sm_scoreState (scoreMember R input m) = SS_scored"
    using True by (simp add: scoreMember_def Let_def st)
  ultimately show ?thesis using True by auto
qed

end

subsection \<open>Excluded values reach nobody else\<close>

text \<open>
  Replacing the member with stock id \<open>x\<close> by any other member of the same id, when the
  directive takes \<open>x\<close> out of the peer mean.
\<close>

definition replaceMember :: "string \<Rightarrow> (member \<Rightarrow> member) \<Rightarrow> cross_section_input \<Rightarrow> cross_section_input" where
  "replaceMember x f input = input\<lparr>ci_members := map (\<lambda>m. if m_stockId m = x then f m else m) (ci_members input)\<rparr>"

lemma replaceMember_frame [simp]:
  "ci_pillar (replaceMember x f i) = ci_pillar i" "ci_metricKey (replaceMember x f i) = ci_metricKey i"
  "ci_label (replaceMember x f i) = ci_label i" "ci_direction (replaceMember x f i) = ci_direction i"
  "ci_bars (replaceMember x f i) = ci_bars i" "ci_barNote (replaceMember x f i) = ci_barNote i"
  "ci_sscu (replaceMember x f i) = ci_sscu i" "ci_suppression (replaceMember x f i) = ci_suppression i"
  "ci_config (replaceMember x f i) = ci_config i"
  by (simp_all add: replaceMember_def)

lemma list_ex_map: "list_ex P (map h xs) = list_ex (\<lambda>x. P (h x)) xs"
  by (induction xs) auto

lemma replaceMember_members:
  "ci_members (replaceMember x f i) = map (\<lambda>m. if m_stockId m = x then f m else m) (ci_members i)"
  by (simp add: replaceMember_def)

lemma excluded_replace:
  assumes "\<And>m. m_stockId (f m) = m_stockId m"
  shows "ownExcluded (replaceMember x f i) = ownExcluded i" "peerExcluded (replaceMember x f i) = peerExcluded i"
proof -
  have id: "m_stockId (if m_stockId m = x then f m else m) = m_stockId m" for m by (simp add: assms)
  show "ownExcluded (replaceMember x f i) = ownExcluded i" "peerExcluded (replaceMember x f i) = peerExcluded i"
    by (simp_all add: fun_eq_iff ownExcluded_def peerExcluded_def replaceMember_members list_ex_map id)
qed

lemma filter_map_other:
  assumes "\<And>m. m_stockId (f m) = m_stockId m"
  shows "filter (\<lambda>m. P m \<and> m_stockId m \<noteq> x) (map (\<lambda>m. if m_stockId m = x then f m else m) ms)
       = filter (\<lambda>m. P m \<and> m_stockId m \<noteq> x) ms"
  by (induction ms) (auto simp: assms)

lemma peerSetCommon_replace:
  assumes id: "\<And>m. m_stockId (f m) = m_stockId m" and ex: "peerExcluded i x"
  shows "peerSetCommon (replaceMember x f i) = peerSetCommon i"
proof -
  have eq: "peerSetCommon j = filter (\<lambda>m. (hasValue m \<and> \<not> ownExcluded j (m_stockId m) \<and>
      \<not> peerExcluded j (m_stockId m)) \<and> m_stockId m \<noteq> x) (ci_members j)" if "peerExcluded j x" for j
    using that by (auto simp: peerSetCommon_def scoredSet_def intro!: filter_cong)
  have ex': "peerExcluded (replaceMember x f i) x" by (simp add: excluded_replace[OF id] ex)
  show ?thesis
    unfolding eq[OF ex] eq[OF ex'] excluded_replace[OF id] replaceMember_members
    by (rule filter_map_other[OF id])
qed

lemma l1Map_foldl_other:
  assumes "\<And>m. m_stockId (f m) = m_stockId m" "k \<noteq> x" "mp k = mp' k"
  shows "foldl (\<lambda>mp m. mp(m_stockId m \<mapsto> g m)) mp (filter P (map (\<lambda>m. if m_stockId m = x then f m else m) ms)) k
       = foldl (\<lambda>mp m. mp(m_stockId m \<mapsto> g m)) mp' (filter P ms) k"
  using assms(3)
proof (induction ms arbitrary: mp mp')
  case (Cons m ms)
  let ?h = "if m_stockId m = x then f m else m"
  define mp1 where "mp1 = (if P ?h then mp(m_stockId ?h \<mapsto> g ?h) else mp)"
  define mp2 where "mp2 = (if P m then mp'(m_stockId m \<mapsto> g m) else mp')"
  have "mp1 k = mp2 k" using Cons.prems assms(1,2) by (auto simp: mp1_def mp2_def)
  from Cons.IH[of mp1 mp2, OF this] show ?case by (simp add: mp1_def mp2_def fun_upd_def split: if_splits)
qed simp

lemma l1Map_replace:
  assumes id: "\<And>m. m_stockId (f m) = m_stockId m" and "k \<noteq> x"
  shows "l1Map R (replaceMember x f i) k = l1Map R i k"
proof -
  have ml: "memberL1 R (replaceMember x f i) = memberL1 R i" by (simp add: fun_eq_iff memberL1_def)
  have mem: "ci_members (replaceMember x f i) = map (\<lambda>m. if m_stockId m = x then f m else m) (ci_members i)"
    by (simp add: replaceMember_def)
  show ?thesis unfolding l1Map_def scoredSet_def ml excluded_replace[OF id] mem
    by (rule l1Map_foldl_other[OF id assms(2)]) simp
qed

lemma buildScored_replace:
  "buildScored R (replaceMember x f i) = buildScored R i" "buildNotScored (replaceMember x f i) = buildNotScored i"
  by (simp_all add: fun_eq_iff buildScored_def buildNotScored_def unscored_def Let_def)

lemma scoreMember_replace:
  assumes id: "\<And>m. m_stockId (f m) = m_stockId m" and ex: "peerExcluded i x" and m: "m_stockId m \<noteq> x"
  shows "scoreMember R (replaceMember x f i) m = scoreMember R i m"
proof -
  have no: "p \<in> set (peerSetCommon i) \<Longrightarrow> m_stockId p \<noteq> x" for p using ex by (auto simp: peerSetCommon_def)
  have l: "map (\<lambda>p. l1r_score (the (l1Map R (replaceMember x f i) (m_stockId p)))) (peerSetCommon i)
      = map (\<lambda>p. l1r_score (the (l1Map R i (m_stockId p)))) (peerSetCommon i)"
    using no l1Map_replace[OF id] by (intro map_cong) auto
  show ?thesis
    unfolding scoreMember_def peerSetCommon_replace[OF id ex] l excluded_replace[OF id] buildScored_replace
      l1Map_replace[OF id m] replaceMember_frame ..
qed

subsection \<open>Properties\<close>

text \<open>Per member of a peer group, in machine arithmetic: the member is scored exactly when
  it has a usable value and the directive does not exclude it from its own score; a scored member
  has a metric score in 0 to 100, every other one has none.\<close>

theorem member_score:
  assumes "m \<in> set (ci_members input)"
  shows "(sm_scoreState (scoreMember f64 input m) = SS_scored \<longleftrightarrow> hasValue m \<and> \<not> ownExcluded input (m_stockId m)) \<and>
    (case sm_metricScore (scoreMember f64 input m) of
       None \<Rightarrow> sm_scoreState (scoreMember f64 input m) \<noteq> SS_scored
     | Some s \<Rightarrow> sm_scoreState (scoreMember f64 input m) = SS_scored \<and> 0 \<le> s \<and> s \<le> 100)"
  by (rule f64.scoreMember_scored[OF assms])

definition sample_member :: "string \<Rightarrow> num \<Rightarrow> member" where
  "sample_member sid v = \<lparr>m_stockId = sid, m_symbol = sid, m_rawValue = Some v, m_available = True,
     m_unavailableReason = None, m_ownHistoryValues = []\<rparr>"

definition sample_section :: "directive \<Rightarrow> member list \<Rightarrow> cross_section_input" where
  "sample_section dct ms = \<lparr>ci_pillar = Foundation, ci_metricKey = ''F1'', ci_label = ''F1'', ci_snapshot = ''FY26Q4'',
     ci_direction = Higher_better, ci_bars = \<lparr>excellent = 1/4, good = 1/5, acceptable = 3/20, concerning = 1/10, distress = 1/20\<rparr>,
     ci_barNote = [], ci_liveUnit = None, ci_barUnit = None, ci_sscu = None, ci_members = ms,
     ci_suppression = One dct,
     ci_config = \<lparr>wc_l2SigmaGuard = True, wc_l2BadClassGuard = False, wc_peerMinN = 3, wc_l3MinN = 8, wc_l3Window = 12\<rparr>\<rparr>"

theorem member_score_witness:
  "sm_scoreState (scoreMember f64 (sample_section (\<lambda>_ _. False) [sample_member ''a'' (1/8)]) (sample_member ''a'' (1/8))) = SS_scored"
  using member_score[of "sample_member ''a'' (1/8)" "sample_section (\<lambda>_ _. False) [sample_member ''a'' (1/8)]"]
  by (simp add: sample_section_def sample_member_def hasValue_def ownExcluded_def)

text \<open>C8. Non-interference: when the directive takes a stock out of the peer mean, replacing
  that stock's member by any other member of the same id leaves the scored record of every other
  member unchanged, for any arithmetic.\<close>

theorem excluded_member_reaches_nobody:
  assumes "\<And>m. m_stockId (f m) = m_stockId m" "peerExcluded input x"
  shows "filter (\<lambda>r. sm_stockId r \<noteq> x) (map (scoreMember R (replaceMember x f input)) (ci_members (replaceMember x f input)))
       = filter (\<lambda>r. sm_stockId r \<noteq> x) (map (scoreMember R input) (ci_members input))"
proof -
  have id: "sm_stockId (scoreMember R i m) = m_stockId m" for i m
    by (auto simp: scoreMember_def buildScored_def buildNotScored_def unscored_def Let_def split: prod.split)
  have eq: "m_stockId m \<noteq> x \<Longrightarrow> scoreMember R (replaceMember x f input) m = scoreMember R input m" for m
    by (rule scoreMember_replace[OF assms])
  have "filter (\<lambda>r. sm_stockId r \<noteq> x) (map (scoreMember R (replaceMember x f input)) (map (\<lambda>m. if m_stockId m = x then f m else m) ms))
       = filter (\<lambda>r. sm_stockId r \<noteq> x) (map (scoreMember R input) ms)" for ms
    by (induction ms) (auto simp: id assms(1) eq)
  then show ?thesis by (simp only: replaceMember_members)
qed

theorem excluded_member_reaches_nobody_witness:
  "let s = (\<lambda>v. sample_section (\<lambda>sid _. sid = ''x'') [sample_member ''a'' (1/8), sample_member ''x'' v])
   in filter (\<lambda>r. sm_stockId r \<noteq> ''x'') (map (scoreMember f64 (s 9)) (ci_members (s 9)))
    = filter (\<lambda>r. sm_stockId r \<noteq> ''x'') (map (scoreMember f64 (s (1/3))) (ci_members (s (1/3))))"
proof -
  let ?s = "\<lambda>v. sample_section (\<lambda>sid _. sid = ''x'') [sample_member ''a'' (1/8), sample_member ''x'' v]"
  have r: "replaceMember ''x'' (\<lambda>m. m\<lparr>m_rawValue := Some 9\<rparr>) (?s (1/3)) = ?s 9"
    by (simp add: replaceMember_def sample_section_def sample_member_def)
  have "peerExcluded (?s (1/3)) ''x''" by (simp add: peerExcluded_def sample_section_def sample_member_def)
  then have "filter (\<lambda>r. sm_stockId r \<noteq> ''x'') (map (scoreMember f64 (?s 9)) (ci_members (?s 9)))
    = filter (\<lambda>r. sm_stockId r \<noteq> ''x'') (map (scoreMember f64 (?s (1/3))) (ci_members (?s (1/3))))"
    using excluded_member_reaches_nobody[of "\<lambda>m. m\<lparr>m_rawValue := Some 9\<rparr>" "?s (1/3)" "''x''" f64, unfolded r] by simp
  then show ?thesis by (simp only: Let_def)
qed

text \<open>The anchor lift is an exact count in machine arithmetic: the rounded share passes
  three quarters exactly when three quarters of a non-empty group clear the Good bar, so neither
  lift rule can fire or miss on a rounding error.\<close>

theorem lift_is_exact:
  assumes "length xs \<le> 2 ^ 50"
  shows "ld_fired (decide f64 rl xs) \<longleftrightarrow> xs \<noteq> [] \<and> 3 * length xs \<le> 4 * length (filter (\<lambda>s. 75 \<le> s) xs)"
  by (rule f64.decide_fired[OF assms])

theorem lift_is_exact_witness:
  "ld_fired (decide f64 Rule_5_3_1 [80, 75, 20, 90]) \<and> \<not> ld_fired (decide f64 Rule_5_3_1 [80, 74, 20, 90])"
  using lift_is_exact[of "[80, 75, 20, 90]" Rule_5_3_1] lift_is_exact[of "[80, 74, 20, 90]" Rule_5_3_1] by simp

text \<open>Three identical peers at one tenth do not have standard deviation 0 in machine
  arithmetic: the mean is rounded away from the value, so the guard for a zero standard deviation
  does not apply and the peer lens scores 45 instead of the anchor 60. In exact arithmetic the guard
  applies.\<close>

theorem identical_peers_miss_guard:
  "let peers = [f64 (1/10), f64 (1/10), f64 (1/10)]; st = computePeerStats f64 peers;
       lens = (\<lambda>st. computeLens2 f64 \<lparr>l2i_value = f64 (1/10), l2i_peerMean = ps_mean st, l2i_peerStdDev = ps_stdDev st,
                 l2i_direction = Higher_better, l2i_anchorLifted = False\<rparr>)
   in z_guard (lens st) = None \<and> z_score (lens st) = Some 45 \<and>
      z_guard (lens (computePeerStats (\<lambda>x. x) peers)) = Some Std_dev_zero"
  by code_simp

end
