(* ===== verification/Pillars.thy ===== *)
theory Pillars
  imports MetricScoring
begin

text \<open>
  Pillar assembly, \<open>src/scoring/pillars\<close>: the effective weights of the metrics that are present
  (\<open>weights.ts\<close>: renormalisation to 100 and redistribution of what a cap cuts off) and the
  roll-up of metric scores into a pillar subtotal with the 50-percent floor
  (\<open>assemble.ts\<close>).  Flags and reasons are constructors that carry what their texts
  interpolate.
\<close>

subsection \<open>Types and constants (\<open>types.ts\<close>)\<close>

datatype pillar_state = PS_scored | PS_unavailable_redistributed

datatype disposition = D_scored | D_dropped | D_neutral_hold

definition NEUTRAL_HOLD_SCORE :: num where "NEUTRAL_HOLD_SCORE = 60"
definition PILLAR_FLOOR_RATIO :: num where "PILLAR_FLOOR_RATIO = 1/2"
definition F10_KEY :: string where "F10_KEY = ''F10''"
definition F10_MAX_WEIGHT :: num where "F10_MAX_WEIGHT = 10"

definition EPS :: "(num \<Rightarrow> num) \<Rightarrow> num" where
  \<comment> \<open>the literal \<open>1e-9\<close>\<close>
  "EPS R = R (1 / 10 ^ 9)"

record weight_spec =
  ws_metricKey :: string
  ws_nominalWeight :: num
  ws_maxWeight :: "num option"

record weight_output =
  wo_metricKey :: string
  wo_effectiveWeight :: num
  wo_capApplied :: bool

subsection \<open>Effective weights (\<open>weights.ts\<close>)\<close>

type_synonym weight_map = "string \<Rightarrow> num option"

definition eff_get :: "weight_map \<Rightarrow> weight_spec \<Rightarrow> num" where
  \<comment> \<open>\<open>eff.get(w.metricKey)!\<close>\<close>
  "eff_get eff w = the (eff (ws_metricKey w))"

definition renormalize :: "(num \<Rightarrow> num) \<Rightarrow> weight_spec list \<Rightarrow> weight_map" where
  "renormalize R present =
    (let nominalTotal = foldl (\<lambda>a w. R (a + ws_nominalWeight w)) 0 present
     in foldl (\<lambda>eff w. eff(ws_metricKey w \<mapsto>
                 (if EPS R < nominalTotal then R (R (ws_nominalWeight w / nominalTotal) * 100)
                  else R (100 / of_nat (length present))))) (\<lambda>_. None) present)"

definition over_cap :: "(num \<Rightarrow> num) \<Rightarrow> weight_map \<Rightarrow> string set \<Rightarrow> weight_spec \<Rightarrow> bool" where
  "over_cap R eff capped w =
    (case ws_maxWeight w of None \<Rightarrow> False
     | Some mx \<Rightarrow> ws_metricKey w \<notin> capped \<and> R (mx + EPS R) < eff_get eff w)"

fun cut_step :: "(num \<Rightarrow> num) \<Rightarrow> num \<times> weight_map \<times> string set \<Rightarrow> weight_spec \<Rightarrow> num \<times> weight_map \<times> string set" where
  "cut_step R (excess, eff, capped) w =
    (let mx = the (ws_maxWeight w)
     in (R (excess + R (eff_get eff w - mx)), eff(ws_metricKey w \<mapsto> mx), insert (ws_metricKey w) capped))"

definition cut_over :: "(num \<Rightarrow> num) \<Rightarrow> weight_spec list \<Rightarrow> weight_map \<times> string set \<Rightarrow> num \<times> weight_map \<times> string set" where
  "cut_over R over st = foldl (cut_step R) (0, st) over"

definition uncappedOf :: "weight_spec list \<Rightarrow> string set \<Rightarrow> weight_spec list" where
  "uncappedOf present capped = filter (\<lambda>w. ws_metricKey w \<notin> capped) present"

definition uncappedTotal :: "(num \<Rightarrow> num) \<Rightarrow> weight_spec list \<Rightarrow> weight_map \<Rightarrow> string set \<Rightarrow> num" where
  "uncappedTotal R present eff capped = foldl (\<lambda>a w. R (a + eff_get eff w)) 0 (uncappedOf present capped)"

definition spread :: "(num \<Rightarrow> num) \<Rightarrow> num \<Rightarrow> num \<Rightarrow> num \<Rightarrow> num" where
  "spread R excess t cur = R (cur + R (excess * R (cur / t)))"

fun cap_loop :: "(num \<Rightarrow> num) \<Rightarrow> weight_spec list \<Rightarrow> nat \<Rightarrow> weight_map \<times> string set \<Rightarrow> weight_map \<times> string set" where
  "cap_loop R present 0 st = st"
| "cap_loop R present (Suc k) (eff, capped) =
    (let over = filter (over_cap R eff capped) present
     in if over = [] then (eff, capped)
        else (case cut_over R over (eff, capped) of (excess, eff1, capped1) \<Rightarrow>
               (let t = uncappedTotal R present eff1 capped1
                in if t \<le> EPS R then (eff1, capped1)
                   else cap_loop R present k
                     (foldl (\<lambda>eff w. eff(ws_metricKey w \<mapsto> spread R excess t (eff_get eff w))) eff1
                        (uncappedOf present capped1), capped1))))"

definition resolveEffectiveWeights :: "(num \<Rightarrow> num) \<Rightarrow> weight_spec list \<Rightarrow> weight_output list" where
  "resolveEffectiveWeights R present =
    (if present = [] then []
     else (let (eff, capped) = cap_loop R present (length present) (renormalize R present, {})
           in map (\<lambda>w. \<lparr>wo_metricKey = ws_metricKey w, wo_effectiveWeight = eff_get eff w,
                         wo_capApplied = (ws_metricKey w \<in> capped)\<rparr>) present))"

subsection \<open>Assembly (\<open>assemble.ts\<close>)\<close>

fun dispositionOf :: "score_state \<Rightarrow> disposition" where
  "dispositionOf SS_scored = D_scored"
| "dispositionOf SS_neutral_hold = D_neutral_hold"
| "dispositionOf SS_suppressed = D_dropped"
| "dispositionOf SS_missing_renorm = D_dropped"

definition defaultWeightSpecs :: "(num \<Rightarrow> num) \<Rightarrow> pillar \<Rightarrow> string list \<Rightarrow> weight_spec list" where
  "defaultWeightSpecs R pl metricKeys =
    (let equal = (if 0 < length metricKeys then R (100 / of_nat (length metricKeys)) else 0)
     in map (\<lambda>k. \<lparr>ws_metricKey = k, ws_nominalWeight = equal,
                  ws_maxWeight = (if pl = Foundation \<and> k = F10_KEY then Some F10_MAX_WEIGHT else None)\<rparr>) metricKeys)"

datatype pillar_flag = PF_null_score string | PF_cap_fired "string list"

datatype unavailable_reason = No_metrics_supplied | Below_floor nat nat

record pillar_row =
  pr_metric :: scored_metric
  pr_disposition :: disposition
  pr_scoreUsed :: "num option"
  pr_nominalWeight :: num
  pr_maxWeight :: "num option"

record metric_contribution =
  mcb_metricKey :: string
  mcb_label :: string
  mcb_scoreState :: score_state
  mcb_disposition :: disposition
  mcb_metricScore :: "num option"
  mcb_nominalWeight :: num
  mcb_effectiveWeight :: num
  mcb_contribution :: num
  mcb_capApplied :: bool
  mcb_includedInPeerStats :: bool

record pillar_result =
  pres_pillar :: pillar
  pres_stockId :: string
  pres_symbol :: string
  pres_snapshot :: string
  pres_pillarState :: pillar_state
  pres_subtotal :: "num option"
  pres_unavailableReason :: "unavailable_reason option"
  pres_totalMetrics :: nat
  pres_presentCount :: nat
  pres_scoredCount :: nat
  pres_neutralHeldCount :: nat
  pres_droppedCount :: nat
  pres_presentRatio :: num
  pres_contributions :: "metric_contribution list"
  pres_flags :: "pillar_flag list"

record pillar_input =
  pi_pillar :: pillar
  pi_stockId :: string
  pi_symbol :: string
  pi_snapshot :: string
  pi_metrics :: "scored_metric list"
  pi_weightSpecs :: "weight_spec list option"
  pi_floorRatio :: "num option"

definition specs_of :: "(num \<Rightarrow> num) \<Rightarrow> pillar_input \<Rightarrow> weight_spec list" where
  "specs_of R i = nullish (pi_weightSpecs i) (defaultWeightSpecs R (pi_pillar i) (map sm_metricKey (pi_metrics i)))"

definition rowOf :: "weight_spec list \<Rightarrow> scored_metric \<Rightarrow> pillar_row" where
  "rowOf specs m =
    (let spec = map_of (rev (map (\<lambda>s. (ws_metricKey s, s)) specs)) (sm_metricKey m);
         (disp, used) =
           (case dispositionOf (sm_scoreState m) of
              D_scored \<Rightarrow> (case sm_metricScore m of None \<Rightarrow> (D_dropped, None) | Some s \<Rightarrow> (D_scored, Some s))
            | D_neutral_hold \<Rightarrow> (D_neutral_hold, Some NEUTRAL_HOLD_SCORE)
            | D_dropped \<Rightarrow> (D_dropped, None))
     in \<lparr>pr_metric = m, pr_disposition = disp, pr_scoreUsed = used,
         pr_nominalWeight = (case spec of None \<Rightarrow> 0 | Some s \<Rightarrow> ws_nominalWeight s),
         pr_maxWeight = Option.bind spec ws_maxWeight\<rparr>)"

definition null_score_flags :: "scored_metric list \<Rightarrow> pillar_flag list" where
  "null_score_flags ms = map (\<lambda>m. PF_null_score (sm_metricKey m))
     (filter (\<lambda>m. sm_scoreState m = SS_scored \<and> sm_metricScore m = None) ms)"

definition row_present :: "pillar_row \<Rightarrow> bool" where
  "row_present r \<longleftrightarrow> pr_disposition r = D_scored \<or> pr_disposition r = D_neutral_hold"

definition contributionOf :: "pillar_row \<Rightarrow> num \<Rightarrow> num \<Rightarrow> bool \<Rightarrow> metric_contribution" where
  "contributionOf r effW contrib cap =
     \<lparr>mcb_metricKey = sm_metricKey (pr_metric r), mcb_label = sm_label (pr_metric r),
      mcb_scoreState = sm_scoreState (pr_metric r), mcb_disposition = pr_disposition r,
      mcb_metricScore = pr_scoreUsed r, mcb_nominalWeight = pr_nominalWeight r,
      mcb_effectiveWeight = effW, mcb_contribution = contrib, mcb_capApplied = cap,
      mcb_includedInPeerStats = sm_includedInPeerStats (pr_metric r)\<rparr>"

definition weightInput :: "pillar_row \<Rightarrow> weight_spec" where
  "weightInput r = \<lparr>ws_metricKey = sm_metricKey (pr_metric r), ws_nominalWeight = pr_nominalWeight r,
     ws_maxWeight = pr_maxWeight r\<rparr>"

definition effByKey :: "weight_output list \<Rightarrow> string \<Rightarrow> weight_output option" where
  "effByKey resolved k = map_of (rev (map (\<lambda>w. (wo_metricKey w, w)) resolved)) k"

definition scoredContribution :: "(num \<Rightarrow> num) \<Rightarrow> weight_output list \<Rightarrow> pillar_row \<Rightarrow> metric_contribution" where
  "scoredContribution R resolved r =
    (let w = (if pr_disposition r \<noteq> D_dropped then effByKey resolved (sm_metricKey (pr_metric r)) else None);
         effW = (case w of None \<Rightarrow> 0 | Some x \<Rightarrow> wo_effectiveWeight x);
         contrib = (if pr_disposition r \<noteq> D_dropped
                    then (case pr_scoreUsed r of None \<Rightarrow> 0 | Some s \<Rightarrow> R (R (effW / 100) * s)) else 0)
     in contributionOf r effW contrib (case w of None \<Rightarrow> False | Some x \<Rightarrow> wo_capApplied x))"

definition meetsFloor :: "(num \<Rightarrow> num) \<Rightarrow> num \<Rightarrow> nat \<Rightarrow> nat \<Rightarrow> bool" where
  "meetsFloor R floorRatio presentCount totalMetrics \<longleftrightarrow>
     0 < totalMetrics \<and>
     floorRatio \<le> R ((if 0 < totalMetrics then R (of_nat presentCount / of_nat totalMetrics) else 0) + EPS R)"

definition assemblePillar :: "(num \<Rightarrow> num) \<Rightarrow> pillar_input \<Rightarrow> pillar_result" where
  "assemblePillar R i =
    (let floorRatio = nullish (pi_floorRatio i) PILLAR_FLOOR_RATIO;
         rows = map (rowOf (specs_of R i)) (pi_metrics i);
         presentRows = filter row_present rows;
         scoredCount = length (filter (\<lambda>r. pr_disposition r = D_scored) rows);
         neutralHeldCount = length (filter (\<lambda>r. pr_disposition r = D_neutral_hold) rows);
         droppedCount = length (filter (\<lambda>r. pr_disposition r = D_dropped) rows);
         totalMetrics = length rows; presentCount = length presentRows;
         presentRatio = (if 0 < totalMetrics then R (of_nat presentCount / of_nat totalMetrics) else 0);
         result = (\<lambda>state subtotal reason contributions flags.
           \<lparr>pres_pillar = pi_pillar i, pres_stockId = pi_stockId i, pres_symbol = pi_symbol i,
            pres_snapshot = pi_snapshot i, pres_pillarState = state, pres_subtotal = subtotal,
            pres_unavailableReason = reason, pres_totalMetrics = totalMetrics, pres_presentCount = presentCount,
            pres_scoredCount = scoredCount, pres_neutralHeldCount = neutralHeldCount,
            pres_droppedCount = droppedCount, pres_presentRatio = presentRatio,
            pres_contributions = contributions, pres_flags = flags\<rparr>)
     in if \<not> meetsFloor R floorRatio presentCount totalMetrics
        then result PS_unavailable_redistributed None
               (Some (if totalMetrics = 0 then No_metrics_supplied else Below_floor presentCount totalMetrics))
               (map (\<lambda>r. contributionOf r 0 0 False) rows) (null_score_flags (pi_metrics i))
        else (let resolved = resolveEffectiveWeights R (map weightInput presentRows);
                  capFlag = (if list_ex wo_capApplied resolved
                             then [PF_cap_fired (map wo_metricKey (filter wo_capApplied resolved))] else []);
                  contributions = map (scoredContribution R resolved) rows
              in result PS_scored (Some (foldl (\<lambda>a c. R (a + mcb_contribution c)) 0 contributions)) None
                   contributions (null_score_flags (pi_metrics i) @ capFlag)))"



subsection \<open>Weight maps updated key by key\<close>

lemma update_all:
  fixes F :: "num \<Rightarrow> num"
  assumes "distinct (map ws_metricKey ps)"
  shows "foldl (\<lambda>eff w. eff(ws_metricKey w \<mapsto> F (eff_get eff w))) e ps k =
    (if k \<in> set (map ws_metricKey ps) then Some (F (the (e k))) else e k)"
  using assms by (induction ps arbitrary: e) (auto simp: eff_get_def)

lemma find_key: "distinct (map ws_metricKey ps) \<Longrightarrow> w \<in> set ps \<Longrightarrow> find (\<lambda>v. ws_metricKey v = ws_metricKey w) ps = Some w"
  by (induction ps) auto

lemma find_key_None: "find (\<lambda>v. ws_metricKey v = k) ps = None \<longleftrightarrow> k \<notin> set (map ws_metricKey ps)"
  by (induction ps) auto

lemma set_all:
  assumes "distinct (map ws_metricKey ps)"
  shows "foldl (\<lambda>eff w. eff(ws_metricKey w \<mapsto> g w)) e ps k =
    (case find (\<lambda>w. ws_metricKey w = k) ps of None \<Rightarrow> e k | Some w \<Rightarrow> Some (g w))"
  using assms
proof (induction ps arbitrary: e)
  case (Cons a ps)
  have n: "find (\<lambda>w. ws_metricKey w = ws_metricKey a) ps = None" using Cons.prems by (simp add: find_key_None)
  show ?case using Cons n by simp
qed simp

lemma renormalize_get:
  assumes "distinct (map ws_metricKey ps)" "w \<in> set ps"
  shows "eff_get (renormalize R ps) w =
    (let t = foldl (\<lambda>a w. R (a + ws_nominalWeight w)) 0 ps
     in if EPS R < t then R (R (ws_nominalWeight w / t) * 100) else R (100 / of_nat (length ps)))"
  unfolding renormalize_def eff_get_def Let_def
  by (subst set_all[OF assms(1)]) (simp add: find_key[OF assms])

lemma cut_over_get:
  assumes "distinct (map ws_metricKey over)"
  shows "fst (snd (cut_over R over (e, c))) k =
      (if k \<in> set (map ws_metricKey over) then Some (the (ws_maxWeight (the (find (\<lambda>w. ws_metricKey w = k) over)))) else e k)"
    and "snd (snd (cut_over R over (e, c))) = c \<union> set (map ws_metricKey over)"
    and "fst (cut_over R over (e, c)) = foldl (\<lambda>x w. R (x + R (eff_get e w - the (ws_maxWeight w)))) 0 over"
proof -
  have gen: "distinct (map ws_metricKey over) \<Longrightarrow>
      fst (snd (foldl (cut_step R) (x, e, c) over)) k =
        (if k \<in> set (map ws_metricKey over) then Some (the (ws_maxWeight (the (find (\<lambda>w. ws_metricKey w = k) over)))) else e k) \<and>
      snd (snd (foldl (cut_step R) (x, e, c) over)) = c \<union> set (map ws_metricKey over) \<and>
      fst (foldl (cut_step R) (x, e, c) over) = foldl (\<lambda>x w. R (x + R (eff_get e w - the (ws_maxWeight w)))) x over" for x
  proof (induction over arbitrary: x e c)
    case (Cons a over)
    define e' where "e' = e(ws_metricKey a \<mapsto> the (ws_maxWeight a))"
    have g: "eff_get e' w = eff_get e w" if "w \<in> set over" for w
      using that Cons.prems by (auto simp: eff_get_def e'_def image_iff)
    have s: "foldl (\<lambda>x w. R (x + R (eff_get e' w - the (ws_maxWeight w)))) y over =
          foldl (\<lambda>x w. R (x + R (eff_get e w - the (ws_maxWeight w)))) y over" for y
      by (intro foldl_cong) (simp_all add: g)
    have d: "distinct (map ws_metricKey over)" and k: "ws_metricKey a \<notin> set (map ws_metricKey over)"
      using Cons.prems by simp_all
    have st: "foldl (cut_step R) (x, e, c) (a # over) = foldl (cut_step R) (R (x + R (eff_get e a - the (ws_maxWeight a))),
        e', insert (ws_metricKey a) c) over"
      by (simp add: Let_def e'_def)
    note IH = Cons.IH[OF d, of "R (x + R (eff_get e a - the (ws_maxWeight a)))" e' "insert (ws_metricKey a) c", unfolded s]
    have e': "e' k = (if k = ws_metricKey a then Some (the (ws_maxWeight a)) else e k)" by (simp add: e'_def)
    show ?case unfolding st using IH k e' by (cases "k = ws_metricKey a") auto
  qed simp
  show "fst (snd (cut_over R over (e, c))) k =
      (if k \<in> set (map ws_metricKey over) then Some (the (ws_maxWeight (the (find (\<lambda>w. ws_metricKey w = k) over)))) else e k)"
    "snd (snd (cut_over R over (e, c))) = c \<union> set (map ws_metricKey over)"
    "fst (cut_over R over (e, c)) = foldl (\<lambda>x w. R (x + R (eff_get e w - the (ws_maxWeight w)))) 0 over"
    using gen[OF assms, of 0] unfolding cut_over_def by blast+
qed

subsection \<open>The cap loop\<close>

text \<open>One round, named: the outcome of the cut, and the weights after what was cut is spread.\<close>

definition cut_of :: "(num \<Rightarrow> num) \<Rightarrow> weight_spec list \<Rightarrow> weight_map \<Rightarrow> string set \<Rightarrow> num \<times> weight_map \<times> string set" where
  "cut_of R present eff capped = cut_over R (filter (over_cap R eff capped) present) (eff, capped)"

definition spread_over :: "(num \<Rightarrow> num) \<Rightarrow> weight_spec list \<Rightarrow> num \<Rightarrow> num \<Rightarrow> weight_map \<Rightarrow> string set \<Rightarrow> weight_map" where
  "spread_over R present x t eff capped =
    foldl (\<lambda>eff w. eff(ws_metricKey w \<mapsto> spread R x t (eff_get eff w))) eff (uncappedOf present capped)"

lemma cap_loop_Suc:
  assumes "cut_of R present eff capped = (excess, eff1, capped1)"
  shows "cap_loop R present (Suc k) (eff, capped) =
    (if filter (over_cap R eff capped) present = [] then (eff, capped)
     else if uncappedTotal R present eff1 capped1 \<le> EPS R then (eff1, capped1)
     else cap_loop R present k (spread_over R present excess (uncappedTotal R present eff1 capped1) eff1 capped1, capped1))"
  using assms by (simp add: cut_of_def spread_over_def)

lemma cut_of_get:
  assumes d: "distinct (map ws_metricKey present)" and c: "cut_of R present eff capped = (excess, eff1, capped1)"
  shows "w \<in> set present \<Longrightarrow> eff_get eff1 w = (if over_cap R eff capped w then the (ws_maxWeight w) else eff_get eff w)"
    and "w \<in> set present \<Longrightarrow> ws_metricKey w \<in> capped1 \<longleftrightarrow> ws_metricKey w \<in> capped \<or> over_cap R eff capped w"
    and "excess = foldl (\<lambda>x w. R (x + R (eff_get eff w - the (ws_maxWeight w)))) 0 (filter (over_cap R eff capped) present)"
proof -
  let ?over = "filter (over_cap R eff capped) present"
  have do: "distinct (map ws_metricKey ?over)" using d by (rule distinct_map_filter)
  have co: "cut_over R ?over (eff, capped) = (excess, eff1, capped1)" using c by (simp add: cut_of_def)
  have key: "ws_metricKey w \<in> set (map ws_metricKey ?over) \<longleftrightarrow> over_cap R eff capped w" if w: "w \<in> set present"
  proof -
    have "v \<in> set present \<Longrightarrow> ws_metricKey v = ws_metricKey w \<Longrightarrow> v = w" for v
      using d w by (auto simp: distinct_map inj_on_def)
    then show ?thesis using w by (auto 0 3)
  qed
  { assume w: "w \<in> set present"
    have fnd: "over_cap R eff capped w \<Longrightarrow> find (\<lambda>v. ws_metricKey v = ws_metricKey w) ?over = Some w"
      by (rule find_key[OF do]) (simp add: w)
    have "eff1 (ws_metricKey w) = (if over_cap R eff capped w then Some (the (ws_maxWeight w)) else eff (ws_metricKey w))"
      using cut_over_get(1)[OF do, of R eff capped "ws_metricKey w", unfolded co key[OF w]]
      by (cases "over_cap R eff capped w") (simp_all only: fnd if_True if_False option.sel fst_conv snd_conv)
    then show "eff_get eff1 w = (if over_cap R eff capped w then the (ws_maxWeight w) else eff_get eff w)"
      by (simp add: eff_get_def)
    show "ws_metricKey w \<in> capped1 \<longleftrightarrow> ws_metricKey w \<in> capped \<or> over_cap R eff capped w"
      using cut_over_get(2)[OF do, of R eff capped] key[OF w] unfolding co by simp }
  show "excess = foldl (\<lambda>x w. R (x + R (eff_get eff w - the (ws_maxWeight w)))) 0 ?over"
    using cut_over_get(3)[OF do, of R eff capped] unfolding co by simp
qed

lemma spread_over_get:
  assumes d: "distinct (map ws_metricKey present)" and w: "w \<in> set present"
  shows "eff_get (spread_over R present x t eff capped) w =
    (if ws_metricKey w \<in> capped then eff_get eff w else spread R x t (eff_get eff w))"
proof -
  have du: "distinct (map ws_metricKey (uncappedOf present capped))"
    using d unfolding uncappedOf_def by (rule distinct_map_filter)
  have "ws_metricKey w \<in> set (map ws_metricKey (uncappedOf present capped)) \<longleftrightarrow> ws_metricKey w \<notin> capped"
    using w by (auto simp: uncappedOf_def)
  then show ?thesis
    using update_all[OF du, of "spread R x t" eff "ws_metricKey w"]
    unfolding eff_get_def[of _ w] spread_over_def by (cases "ws_metricKey w \<in> capped") simp_all
qed

definition caps_ok :: "(num \<Rightarrow> num) \<Rightarrow> weight_spec list \<Rightarrow> bool" where
  "caps_ok R present \<longleftrightarrow> (\<forall>w \<in> set present. case ws_maxWeight w of None \<Rightarrow> True | Some mx \<Rightarrow> 0 \<le> mx \<and> R mx = mx)"

definition weights_ok :: "(num \<Rightarrow> num) \<Rightarrow> weight_spec list \<Rightarrow> weight_map \<Rightarrow> string set \<Rightarrow> bool" where
  "weights_ok R present eff capped \<longleftrightarrow> (\<forall>w \<in> set present. 0 \<le> eff_get eff w \<and> R (eff_get eff w) = eff_get eff w \<and>
     (ws_metricKey w \<in> capped \<longrightarrow> ws_maxWeight w = Some (eff_get eff w)))"

definition below_caps :: "(num \<Rightarrow> num) \<Rightarrow> weight_spec list \<Rightarrow> weight_map \<Rightarrow> bool" where
  "below_caps R present eff \<longleftrightarrow> (\<forall>w \<in> set present. case ws_maxWeight w of None \<Rightarrow> True | Some mx \<Rightarrow> eff_get eff w \<le> R (mx + EPS R))"

lemma uncapped_shrinks:
  assumes "over = filter (over_cap R eff capped) present" "over \<noteq> []"
    and c: "\<And>w. w \<in> set present \<Longrightarrow> ws_metricKey w \<in> capped1 \<longleftrightarrow> ws_metricKey w \<in> capped \<or> over_cap R eff capped w"
  shows "length (filter (\<lambda>w. ws_metricKey w \<notin> capped1) present) < length (filter (\<lambda>w. ws_metricKey w \<notin> capped) present)"
proof -
  have "filter (\<lambda>w. ws_metricKey w \<notin> capped1) present =
        filter (\<lambda>w. \<not> over_cap R eff capped w) (filter (\<lambda>w. ws_metricKey w \<notin> capped) present)"
    unfolding filter_filter by (rule filter_cong) (use c in auto)
  moreover obtain w where "w \<in> set present" "over_cap R eff capped w"
    using assms(1,2) by (metis filter_empty_conv)
  moreover have "ws_metricKey w \<notin> capped" using \<open>over_cap R eff capped w\<close>
    by (simp add: over_cap_def split: option.splits)
  ultimately show ?thesis by (simp del: filter_filter) (rule length_filter_less[of w], auto)
qed

context rounding
begin

lemma EPS_fixed: "R (EPS R) = EPS R" and EPS_pos: "0 < EPS R"
  by (simp_all add: EPS_def idem pos)

lemma sum_ge_start:
  "R s = s \<Longrightarrow> (\<forall>y \<in> set ys. 0 \<le> g y) \<Longrightarrow> s \<le> foldl (\<lambda>s y. R (s + g y)) s ys"
proof (induction ys arbitrary: s)
  case (Cons z zs)
  have "R s \<le> R (s + g z)" using Cons.prems by (intro mono) simp
  then have "s \<le> R (s + g z)" using Cons.prems by simp
  also have "\<dots> \<le> foldl (\<lambda>s y. R (s + g y)) (R (s + g z)) zs" using Cons.prems by (intro Cons.IH) (simp_all add: idem)
  finally show ?case by simp
qed simp

lemma sum_ge_member:
  "x \<in> set xs \<Longrightarrow> 0 \<le> a \<Longrightarrow> (\<And>y. y \<in> set xs \<Longrightarrow> 0 \<le> g y) \<Longrightarrow> R (g x) = g x \<Longrightarrow>
   g x \<le> foldl (\<lambda>s y. R (s + g y)) a xs"
proof (induction xs arbitrary: a)
  case (Cons y ys)
  have n: "0 \<le> R (a + g y)" using Cons.prems by (intro nonneg) simp
  show ?case
  proof (cases "x \<in> set ys")
    case True
    then show ?thesis using Cons n by simp
  next
    case False
    then have "g x \<le> R (a + g y)" using mono[of "g x" "a + g y"] Cons.prems by auto
    also have "\<dots> \<le> foldl (\<lambda>s y. R (s + g y)) (R (a + g y)) ys"
      using Cons.prems by (intro sum_ge_start) (simp_all add: idem)
    finally show ?thesis by simp
  qed
qed simp

lemma over_cap_excess:
  assumes "caps_ok R present" "w \<in> set present" "over_cap R eff capped w"
  shows "\<exists>mx. ws_maxWeight w = Some mx \<and> 0 \<le> mx \<and> R mx = mx \<and> mx < eff_get eff w \<and> ws_metricKey w \<notin> capped"
proof -
  obtain mx where mx: "ws_maxWeight w = Some mx" "R (mx + EPS R) < eff_get eff w" "ws_metricKey w \<notin> capped"
    using assms(3) by (auto simp: over_cap_def split: option.splits)
  moreover have "0 \<le> mx \<and> R mx = mx" using assms(1,2) mx(1) by (auto simp: caps_ok_def split: option.splits)
  moreover have "R mx \<le> R (mx + EPS R)" using EPS_pos by (intro mono) simp
  ultimately show ?thesis by auto
qed

lemma cap_slack: "0 \<le> mx \<Longrightarrow> R mx = mx \<Longrightarrow> mx \<le> R (mx + EPS R) \<and> EPS R \<le> R (mx + EPS R)"
  using mono[of mx "mx + EPS R"] mono[of "EPS R" "mx + EPS R"] EPS_pos EPS_fixed by auto

lemma no_over_below_caps:
  assumes "weights_ok R present eff capped" "filter (over_cap R eff capped) present = []"
  shows "below_caps R present eff"
  unfolding below_caps_def
proof
  fix w assume w: "w \<in> set present"
  then have n: "\<not> over_cap R eff capped w" using assms(2) by (auto simp: filter_empty_conv)
  show "case ws_maxWeight w of None \<Rightarrow> True | Some mx \<Rightarrow> eff_get eff w \<le> R (mx + EPS R)"
  proof (cases "ws_metricKey w \<in> capped")
    case True
    then show ?thesis using assms(1) w cap_slack[of "eff_get eff w"] by (auto simp: weights_ok_def)
  next
    case False
    then show ?thesis using n by (auto simp: over_cap_def split: option.splits)
  qed
qed

lemma break_below_caps:
  assumes "weights_ok R present eff capped" "caps_ok R present"
    and "foldl (\<lambda>a w. R (a + eff_get eff w)) 0 (filter (\<lambda>w. ws_metricKey w \<notin> capped) present) \<le> EPS R"
  shows "below_caps R present eff"
  unfolding below_caps_def
proof
  fix w assume w: "w \<in> set present"
  show "case ws_maxWeight w of None \<Rightarrow> True | Some mx \<Rightarrow> eff_get eff w \<le> R (mx + EPS R)"
  proof (cases "ws_maxWeight w")
    case (Some mx)
    have le: "mx \<le> R (mx + EPS R) \<and> EPS R \<le> R (mx + EPS R)"
      using assms(2) w Some by (intro cap_slack) (auto simp: caps_ok_def split: option.splits)
    show ?thesis
    proof (cases "ws_metricKey w \<in> capped")
      case True
      then show ?thesis using assms(1) w Some le by (auto simp: weights_ok_def)
    next
      case False
      then have "eff_get eff w \<le> foldl (\<lambda>a w. R (a + eff_get eff w)) 0 (filter (\<lambda>w. ws_metricKey w \<notin> capped) present)"
        using assms(1) w by (intro sum_ge_member) (auto simp: weights_ok_def)
      then show ?thesis using assms(3) Some le by simp
    qed
  qed simp
qed

lemma cut_ok:
  assumes "distinct (map ws_metricKey present)" "caps_ok R present" "weights_ok R present eff capped"
    and c: "cut_of R present eff capped = (excess, eff1, capped1)"
  shows "weights_ok R present eff1 capped1 \<and> 0 \<le> excess"
proof
  note cut = cut_of_get[OF assms(1) c]
  show "weights_ok R present eff1 capped1"
    unfolding weights_ok_def
  proof
    fix w assume w: "w \<in> set present"
    show "0 \<le> eff_get eff1 w \<and> R (eff_get eff1 w) = eff_get eff1 w \<and> (ws_metricKey w \<in> capped1 \<longrightarrow> ws_maxWeight w = Some (eff_get eff1 w))"
    proof (cases "over_cap R eff capped w")
      case True
      then show ?thesis using over_cap_excess[OF assms(2) w True] cut(1)[OF w] by auto
    next
      case False
      then show ?thesis using assms(3) w cut(1,2)[OF w] by (auto simp: weights_ok_def)
    qed
  qed
  show "0 \<le> excess" unfolding cut(3)
  proof (rule sum_nonneg)
    fix w assume "w \<in> set (filter (over_cap R eff capped) present)"
    then show "0 \<le> R (eff_get eff w - the (ws_maxWeight w))"
      using over_cap_excess[OF assms(2), of w eff capped] by (auto intro!: nonneg)
  qed simp
qed

lemma spread_ok:
  assumes "distinct (map ws_metricKey present)" "weights_ok R present eff capped" "0 \<le> x" "0 < t"
  shows "weights_ok R present (spread_over R present x t eff capped) capped"
  unfolding weights_ok_def
proof
  fix w assume w: "w \<in> set present"
  have "0 \<le> eff_get eff w" using assms(2) w by (simp add: weights_ok_def)
  then have "0 \<le> spread R x t (eff_get eff w) \<and> R (spread R x t (eff_get eff w)) = spread R x t (eff_get eff w)"
    using assms(3,4) by (auto simp: spread_def idem intro!: nonneg add_nonneg_nonneg mult_nonneg_nonneg)
  then show "0 \<le> eff_get (spread_over R present x t eff capped) w \<and>
      R (eff_get (spread_over R present x t eff capped) w) = eff_get (spread_over R present x t eff capped) w \<and>
      (ws_metricKey w \<in> capped \<longrightarrow> ws_maxWeight w = Some (eff_get (spread_over R present x t eff capped) w))"
    using assms(2) w by (simp add: spread_over_get[OF assms(1) w] weights_ok_def)
qed

text \<open>
  The fuel of the loop, one round per metric, is enough: every round that does not leave it caps a
  metric, so when it ends no metric is above its cap.
\<close>

lemma cap_loop_ok:
  assumes "distinct (map ws_metricKey present)" "caps_ok R present" "weights_ok R present eff capped"
    and "length (uncappedOf present capped) \<le> k"
  shows "weights_ok R present (fst (cap_loop R present k (eff, capped))) (snd (cap_loop R present k (eff, capped))) \<and>
         below_caps R present (fst (cap_loop R present k (eff, capped)))"
  using assms(3,4)
proof (induction k arbitrary: eff capped)
  case 0
  have "filter (over_cap R eff capped) present = []"
    using 0 by (auto simp: filter_empty_conv over_cap_def uncappedOf_def split: option.splits)
  then show ?case using 0 no_over_below_caps by simp
next
  case (Suc k)
  obtain excess eff1 capped1 where c: "cut_of R present eff capped = (excess, eff1, capped1)" by (rule prod_cases3)
  have ok: "weights_ok R present eff1 capped1" "0 \<le> excess" using cut_ok[OF assms(1,2) Suc.prems(1) c] by auto
  let ?t = "uncappedTotal R present eff1 capped1"
  consider "filter (over_cap R eff capped) present = []"
    | "filter (over_cap R eff capped) present \<noteq> []" "?t \<le> EPS R"
    | "filter (over_cap R eff capped) present \<noteq> []" "EPS R < ?t" by linarith
  then show ?case
  proof cases
    case 1
    then show ?thesis using Suc.prems(1) no_over_below_caps unfolding cap_loop_Suc[OF c] by simp
  next
    case 2
    have "below_caps R present eff1"
      by (rule break_below_caps[OF ok(1) assms(2)]) (use 2 in \<open>simp add: uncappedTotal_def uncappedOf_def\<close>)
    then show ?thesis using 2 ok unfolding cap_loop_Suc[OF c] by simp
  next
    case 3
    have "length (uncappedOf present capped1) \<le> k"
      using uncapped_shrinks[OF refl 3(1) cut_of_get(2)[OF assms(1) c]] Suc.prems(2) unfolding uncappedOf_def by linarith
    moreover have "weights_ok R present (spread_over R present excess ?t eff1 capped1) capped1"
      using spread_ok[OF assms(1) ok] 3 EPS_pos by simp
    ultimately show ?thesis using 3 Suc.IH unfolding cap_loop_Suc[OF c] by simp
  qed
qed

end

subsection \<open>Sums in exact arithmetic\<close>

lemma foldl_plus: "foldl (\<lambda>a w. a + g w) s ws = s + sum_list (map g ws)" for s :: num
  by (induction ws arbitrary: s) (simp_all add: add.assoc)

lemma sum_list_if:
  "sum_list (map (\<lambda>w. if P w then a w else b w) ws) =
   sum_list (map a (filter P ws)) + sum_list (map b (filter (\<lambda>w. \<not> P w) ws))" for a b :: "'a \<Rightarrow> num"
  by (induction ws) simp_all

lemma sum_list_split:
  "sum_list (map a ws) = sum_list (map a (filter P ws)) + sum_list (map a (filter (\<lambda>w. \<not> P w) ws))" for a :: "'a \<Rightarrow> num"
  by (induction ws) simp_all

lemma sum_list_minus: "sum_list (map (\<lambda>w. f w - g w) ws) = sum_list (map f ws) - sum_list (map g ws)" for f g :: "'a \<Rightarrow> num"
  by (induction ws) simp_all

definition wsum :: "weight_spec list \<Rightarrow> weight_map \<Rightarrow> num" where
  "wsum present eff = sum_list (map (eff_get eff) present)"

lemma renormalize_sum:
  assumes "distinct (map ws_metricKey present)" "present \<noteq> []"
  shows "wsum present (renormalize (\<lambda>x. x) present) = 100"
proof -
  let ?t = "sum_list (map ws_nominalWeight present)"
  have "wsum present (renormalize (\<lambda>x. x) present) =
    sum_list (map (\<lambda>w. if EPS (\<lambda>x. x) < ?t then ws_nominalWeight w / ?t * 100 else 100 / of_nat (length present)) present)"
    unfolding wsum_def
    by (intro arg_cong[of _ _ sum_list] map_cong refl) (simp only: renormalize_get[OF assms(1)] Let_def foldl_plus add_0)
  also have "\<dots> = 100"
  proof (cases "EPS (\<lambda>x. x) < ?t")
    case True
    then have t: "0 < ?t" using exact.EPS_pos by (rule less_trans[rotated])
    have "sum_list (map (\<lambda>w. ws_nominalWeight w / ?t * 100) present) = sum_list (map (\<lambda>w. ws_nominalWeight w * (100 / ?t)) present)"
      by simp
    also have "\<dots> = ?t * (100 / ?t)" by (rule sum_list_mult_const)
    finally show ?thesis using True t by simp
  next
    case False
    then show ?thesis using assms(2) by (simp add: sum_list_triv)
  qed
  finally show ?thesis .
qed

lemma cut_sum:
  assumes "distinct (map ws_metricKey present)" "cut_of (\<lambda>x. x) present eff capped = (excess, eff1, capped1)"
  shows "wsum present eff1 = wsum present eff - excess"
proof -
  note cut = cut_of_get[OF assms]
  let ?o = "over_cap (\<lambda>x. x) eff capped"
  have "wsum present eff1 = sum_list (map (\<lambda>w. if ?o w then the (ws_maxWeight w) else eff_get eff w) present)"
    unfolding wsum_def by (intro arg_cong[of _ _ sum_list] map_cong refl) (simp add: cut(1))
  then show ?thesis
    unfolding cut(3) wsum_def sum_list_if sum_list_split[of "eff_get eff" present ?o]
    by (simp add: foldl_plus sum_list_minus)
qed

lemma spread_sum:
  assumes "distinct (map ws_metricKey present)" and t: "t = uncappedTotal (\<lambda>x. x) present eff capped" "t \<noteq> 0"
  shows "wsum present (spread_over (\<lambda>x. x) present x t eff capped) = wsum present eff + x"
proof -
  let ?c = "\<lambda>w. ws_metricKey w \<in> capped"
  have t': "t = sum_list (map (eff_get eff) (filter (\<lambda>w. \<not> ?c w) present))"
    by (simp add: t uncappedTotal_def uncappedOf_def foldl_plus)
  have "sum_list (map (\<lambda>w. spread (\<lambda>x. x) x t (eff_get eff w)) (filter (\<lambda>w. \<not> ?c w) present)) =
      sum_list (map (\<lambda>w. eff_get eff w * (1 + x / t)) (filter (\<lambda>w. \<not> ?c w) present))"
    by (simp add: spread_def distrib_left mult.commute)
  also have "\<dots> = t * (1 + x / t)" unfolding t' by (rule sum_list_mult_const)
  also have "\<dots> = t + x" using t by (simp add: distrib_left)
  finally have "sum_list (map (\<lambda>w. spread (\<lambda>x. x) x t (eff_get eff w)) (filter (\<lambda>w. \<not> ?c w) present)) = t + x" .
  moreover have "wsum present (spread_over (\<lambda>x. x) present x t eff capped) =
      sum_list (map (\<lambda>w. if ?c w then eff_get eff w else spread (\<lambda>x. x) x t (eff_get eff w)) present)"
    unfolding wsum_def by (intro arg_cong[of _ _ sum_list] map_cong refl) (simp add: spread_over_get[OF assms(1)])
  ultimately show ?thesis
    unfolding wsum_def sum_list_if sum_list_split[of "eff_get eff" present ?c] t' by simp
qed

lemma cap_loop_sum:
  assumes "distinct (map ws_metricKey present)" "caps_ok (\<lambda>x. x) present" "weights_ok (\<lambda>x. x) present eff capped"
  shows "wsum present (fst (cap_loop (\<lambda>x. x) present k (eff, capped))) \<le> wsum present eff \<and>
    (wsum present (fst (cap_loop (\<lambda>x. x) present k (eff, capped))) = wsum present eff \<or>
     uncappedTotal (\<lambda>x. x) present (fst (cap_loop (\<lambda>x. x) present k (eff, capped))) (snd (cap_loop (\<lambda>x. x) present k (eff, capped))) \<le> EPS (\<lambda>x. x) \<and>
     (\<exists>w \<in> set present. ws_metricKey w \<in> snd (cap_loop (\<lambda>x. x) present k (eff, capped))))"
  using assms(3)
proof (induction k arbitrary: eff capped)
  case (Suc k)
  obtain excess eff1 capped1 where c: "cut_of (\<lambda>x. x) present eff capped = (excess, eff1, capped1)" by (rule prod_cases3)
  have ok: "weights_ok (\<lambda>x. x) present eff1 capped1" "0 \<le> excess" using exact.cut_ok[OF assms(1,2) Suc.prems c] by auto
  let ?t = "uncappedTotal (\<lambda>x. x) present eff1 capped1"
  have s1: "wsum present eff1 = wsum present eff - excess" by (rule cut_sum[OF assms(1) c])
  show ?case
  proof (cases "filter (over_cap (\<lambda>x. x) eff capped) present = [] \<or> ?t \<le> EPS (\<lambda>x. x)")
    case True
    have "filter (over_cap (\<lambda>x. x) eff capped) present \<noteq> [] \<Longrightarrow> \<exists>w \<in> set present. ws_metricKey w \<in> capped1"
      using cut_of_get(2)[OF assms(1) c] by (auto simp: filter_empty_conv)
    then show ?thesis using ok s1 True unfolding cap_loop_Suc[OF c] by auto
  next
    case False
    then have t: "0 < ?t" using exact.EPS_pos by linarith
    have s2: "wsum present (spread_over (\<lambda>x. x) present excess ?t eff1 capped1) = wsum present eff"
      using spread_sum[OF assms(1) refl, of eff1 capped1 excess] t s1 by simp
    show ?thesis
      using False Suc.IH[OF exact.spread_ok[OF assms(1) ok t]] unfolding cap_loop_Suc[OF c] s2 by auto
  qed
qed simp

subsection \<open>The resolved weights\<close>

definition final_state :: "(num \<Rightarrow> num) \<Rightarrow> weight_spec list \<Rightarrow> weight_map \<times> string set" where
  "final_state R present = cap_loop R present (length present) (renormalize R present, {})"

lemma resolve_map:
  "resolveEffectiveWeights R present = map (\<lambda>w. \<lparr>wo_metricKey = ws_metricKey w,
     wo_effectiveWeight = eff_get (fst (final_state R present)) w,
     wo_capApplied = (ws_metricKey w \<in> snd (final_state R present))\<rparr>) present"
  by (cases present) (simp_all add: resolveEffectiveWeights_def final_state_def split: prod.splits)

context rounding
begin

lemma renormalize_ok:
  assumes "distinct (map ws_metricKey present)" "\<And>w. w \<in> set present \<Longrightarrow> 0 \<le> ws_nominalWeight w"
  shows "weights_ok R present (renormalize R present) {}"
proof -
  have "0 \<le> foldl (\<lambda>a w. R (a + ws_nominalWeight w)) 0 present" by (rule sum_nonneg) (use assms in auto)
  then show ?thesis using assms EPS_pos
    by (auto simp: weights_ok_def renormalize_get[OF assms(1)] Let_def idem intro!: nonneg mult_nonneg_nonneg divide_nonneg_nonneg)
qed

lemma final_state_ok:
  assumes "distinct (map ws_metricKey present)" "caps_ok R present" "\<And>w. w \<in> set present \<Longrightarrow> 0 \<le> ws_nominalWeight w"
  shows "weights_ok R present (fst (final_state R present)) (snd (final_state R present)) \<and>
         below_caps R present (fst (final_state R present))"
  unfolding final_state_def
  by (rule cap_loop_ok) (use assms renormalize_ok in \<open>auto simp: uncappedOf_def\<close>)

end

lemma final_state_sum:
  assumes "distinct (map ws_metricKey present)" "caps_ok (\<lambda>x. x) present" "\<And>w. w \<in> set present \<Longrightarrow> 0 \<le> ws_nominalWeight w" "present \<noteq> []"
  shows "wsum present (fst (final_state (\<lambda>x. x) present)) \<le> 100 \<and>
    (wsum present (fst (final_state (\<lambda>x. x) present)) = 100 \<or>
     uncappedTotal (\<lambda>x. x) present (fst (final_state (\<lambda>x. x) present)) (snd (final_state (\<lambda>x. x) present)) \<le> EPS (\<lambda>x. x) \<and>
     (\<exists>w \<in> set present. ws_metricKey w \<in> snd (final_state (\<lambda>x. x) present)))"
  using cap_loop_sum[OF assms(1,2) exact.renormalize_ok[OF assms(1,3)], of "length present"]
  unfolding final_state_def renormalize_sum[OF assms(1,4)] .

text \<open>C6. The cap loop reaches its fixpoint within its bound of one round per metric, in
  machine arithmetic: every effective weight is non-negative, no capped metric ends above its cap
  plus the tolerance, a metric marked as capped has exactly its cap, an uncapped one is never
  marked, and keys come out in order.\<close>

theorem effective_weights_capped:
  assumes "distinct (map ws_metricKey present)"
    and "\<forall>w \<in> set present. 0 \<le> ws_nominalWeight w"
    and "\<forall>w \<in> set present. \<forall>mx. ws_maxWeight w = Some mx \<longrightarrow> 0 \<le> mx \<and> f64 mx = mx"
  shows "list_all2 (\<lambda>w out. wo_metricKey out = ws_metricKey w \<and> 0 \<le> wo_effectiveWeight out \<and>
      (case ws_maxWeight w of None \<Rightarrow> \<not> wo_capApplied out
       | Some mx \<Rightarrow> wo_effectiveWeight out \<le> f64 (mx + EPS f64) \<and> (wo_capApplied out \<longrightarrow> wo_effectiveWeight out = mx)))
    present (resolveEffectiveWeights f64 present)"
proof -
  have c: "caps_ok f64 present" using assms(3) by (auto simp: caps_ok_def split: option.splits)
  have ok: "weights_ok f64 present (fst (final_state f64 present)) (snd (final_state f64 present))"
    "below_caps f64 present (fst (final_state f64 present))"
    using f64.final_state_ok[OF assms(1) c] assms(2) by auto
  show ?thesis unfolding resolve_map list_all2_map2 list_all2_same
    using ok by (force simp: weights_ok_def below_caps_def split: option.splits)
qed


definition sample_specs :: "weight_spec list" where
  "sample_specs = [\<lparr>ws_metricKey = ''F10'', ws_nominalWeight = 30, ws_maxWeight = Some 10\<rparr>,
     \<lparr>ws_metricKey = ''F1'', ws_nominalWeight = 50, ws_maxWeight = None\<rparr>]"

theorem effective_weights_capped_witness:
  "map wo_metricKey (resolveEffectiveWeights f64 sample_specs) = [''F10'', ''F1''] \<and>
   wo_effectiveWeight (hd (resolveEffectiveWeights f64 sample_specs)) \<le> f64 (10 + EPS f64)"
  using effective_weights_capped[of sample_specs] f64.fix_int[of 10] by (simp add: resolve_map sample_specs_def)

text \<open>C7. In exact arithmetic the effective weights of the present metrics sum to 100, except
  when capping leaves nothing to redistribute to: then they sum to less, some cap was applied and
  the metrics without a cap have together at most the tolerance. A pillar whose only present metric
  is capped at 10 gets a total of 10.\<close>

theorem effective_weights_total:
  assumes "distinct (map ws_metricKey present)" "present \<noteq> []"
    and "\<forall>w \<in> set present. 0 \<le> ws_nominalWeight w"
    and "\<forall>w \<in> set present. \<forall>mx. ws_maxWeight w = Some mx \<longrightarrow> 0 \<le> mx"
  shows "let out = resolveEffectiveWeights (\<lambda>x. x) present; total = sum_list (map wo_effectiveWeight out)
     in total = 100 \<or> (total < 100 \<and> list_ex wo_capApplied out \<and>
          sum_list (map wo_effectiveWeight (filter (\<lambda>w. \<not> wo_capApplied w) out)) \<le> 1 / 10 ^ 9)"
proof -
  have c: "caps_ok (\<lambda>x. x) present" using assms(4) by (auto simp: caps_ok_def split: option.splits)
  let ?st = "final_state (\<lambda>x. x) present"
  have a: "sum_list (map wo_effectiveWeight (resolveEffectiveWeights (\<lambda>x. x) present)) = wsum present (fst ?st)"
    by (simp add: resolve_map wsum_def comp_def)
  have b: "sum_list (map wo_effectiveWeight (filter (\<lambda>w. \<not> wo_capApplied w) (resolveEffectiveWeights (\<lambda>x. x) present))) =
      uncappedTotal (\<lambda>x. x) present (fst ?st) (snd ?st)"
    by (simp add: resolve_map uncappedTotal_def uncappedOf_def foldl_plus filter_map comp_def)
  have e: "list_ex wo_capApplied (resolveEffectiveWeights (\<lambda>x. x) present) \<longleftrightarrow> (\<exists>w \<in> set present. ws_metricKey w \<in> snd ?st)"
    by (auto simp: resolve_map list_ex_iff)
  have s: "wsum present (fst ?st) \<le> 100" "wsum present (fst ?st) = 100 \<or> uncappedTotal (\<lambda>x. x) present (fst ?st) (snd ?st) \<le> EPS (\<lambda>x. x) \<and>
      (\<exists>w \<in> set present. ws_metricKey w \<in> snd ?st)"
    using final_state_sum[OF assms(1) c _ assms(2)] assms(3) by auto
  show ?thesis using s unfolding Let_def a b e by (cases "wsum present (fst ?st) = 100") (simp_all add: EPS_def)
qed


theorem effective_weights_total_witness:
  "sum_list (map wo_effectiveWeight (resolveEffectiveWeights (\<lambda>x. x) sample_specs)) \<le> 100 \<and>
   (let one = [\<lparr>ws_metricKey = ''F10'', ws_nominalWeight = 30, ws_maxWeight = Some 10\<rparr>]
    in sum_list (map wo_effectiveWeight (resolveEffectiveWeights (\<lambda>x. x) one)) = 10)"
proof
  show "sum_list (map wo_effectiveWeight (resolveEffectiveWeights (\<lambda>x. x) sample_specs)) \<le> 100"
    using effective_weights_total[of sample_specs] by (auto simp: sample_specs_def Let_def)
  show "let one = [\<lparr>ws_metricKey = ''F10'', ws_nominalWeight = 30, ws_maxWeight = Some 10\<rparr>]
    in sum_list (map wo_effectiveWeight (resolveEffectiveWeights (\<lambda>x. x) one)) = 10"
    by code_simp
qed

subsection \<open>The pillar subtotal\<close>

lemma rowOf_frame [simp]: "pr_metric (rowOf specs m) = m"
  by (simp add: rowOf_def Let_def split: prod.splits)

lemma rowOf_score:
  "pr_scoreUsed (rowOf specs m) = (case sm_scoreState m of SS_scored \<Rightarrow> sm_metricScore m
     | SS_neutral_hold \<Rightarrow> Some NEUTRAL_HOLD_SCORE | _ \<Rightarrow> None)"
  "row_present (rowOf specs m) \<longleftrightarrow> pr_scoreUsed (rowOf specs m) \<noteq> None"
  by (cases "sm_scoreState m"; cases "sm_metricScore m"; simp add: rowOf_def Let_def row_present_def)+

definition presentRows :: "(num \<Rightarrow> num) \<Rightarrow> pillar_input \<Rightarrow> pillar_row list" where
  "presentRows R i = filter row_present (map (rowOf (specs_of R i)) (pi_metrics i))"

text \<open>What the assembler returns, field by field.\<close>

lemma assemblePillar_fields:
  fixes R i
  defines "rows \<equiv> map (rowOf (specs_of R i)) (pi_metrics i)"
    and "ok \<equiv> meetsFloor R (nullish (pi_floorRatio i) PILLAR_FLOOR_RATIO) (length (presentRows R i)) (length (pi_metrics i))"
  shows "pres_pillarState (assemblePillar R i) = (if ok then PS_scored else PS_unavailable_redistributed)"
    and "pres_totalMetrics (assemblePillar R i) = length (pi_metrics i)"
    and "pres_presentCount (assemblePillar R i) = length (presentRows R i)"
    and "pres_contributions (assemblePillar R i) =
      (if ok then map (scoredContribution R (resolveEffectiveWeights R (map weightInput (presentRows R i)))) rows
       else map (\<lambda>r. contributionOf r 0 0 False) rows)"
    and "pres_subtotal (assemblePillar R i) =
      (if ok then Some (foldl (\<lambda>a c. R (a + mcb_contribution c)) 0
         (map (scoredContribution R (resolveEffectiveWeights R (map weightInput (presentRows R i)))) rows)) else None)"
  by (simp_all add: assemblePillar_def Let_def ok_def rows_def presentRows_def)

lemma assemblePillar_counts:
  "pres_scoredCount (assemblePillar R i) + pres_neutralHeldCount (assemblePillar R i) = length (presentRows R i) \<and>
   length (presentRows R i) + pres_droppedCount (assemblePillar R i) = length (pi_metrics i)"
proof -
  have "length (filter (\<lambda>r. pr_disposition r = D_scored) rs) + length (filter (\<lambda>r. pr_disposition r = D_neutral_hold) rs)
      = length (filter row_present rs) \<and>
     length (filter row_present rs) + length (filter (\<lambda>r. pr_disposition r = D_dropped) rs) = length rs" for rs
    by (induction rs) (auto simp: row_present_def, metis disposition.exhaust)
  from this[of "map (rowOf (specs_of R i)) (pi_metrics i)"] show ?thesis
    by (simp add: assemblePillar_def Let_def presentRows_def)
qed


lemma presentRows_keys:
  "map ws_metricKey (map weightInput (presentRows R i)) = map sm_metricKey (filter (row_present \<circ> rowOf (specs_of R i)) (pi_metrics i))"
  by (simp add: presentRows_def filter_map comp_def weightInput_def)

lemma presentRows_distinct:
  "distinct (map sm_metricKey (pi_metrics i)) \<Longrightarrow> distinct (map ws_metricKey (map weightInput (presentRows R i)))"
  unfolding presentRows_keys by (rule distinct_map_filter)

lemma presentRows_in:
  "r \<in> set (presentRows R i) \<longleftrightarrow> (\<exists>m \<in> set (pi_metrics i). r = rowOf (specs_of R i) m \<and> pr_scoreUsed r \<noteq> None)"
  by (auto simp: presentRows_def rowOf_score(2))

definition effOf :: "(num \<Rightarrow> num) \<Rightarrow> pillar_input \<Rightarrow> pillar_row \<Rightarrow> num" where
  "effOf R i r = eff_get (fst (final_state R (map weightInput (presentRows R i)))) (weightInput r)"

lemma scoredContribution_present:
  assumes "distinct (map sm_metricKey (pi_metrics i))" "r \<in> set (presentRows R i)"
  shows "mcb_contribution (scoredContribution R (resolveEffectiveWeights R (map weightInput (presentRows R i))) r) =
    R (R (effOf R i r / 100) * the (pr_scoreUsed r))"
proof -
  let ?in = "map weightInput (presentRows R i)"
  define out where "out = (\<lambda>w. \<lparr>wo_metricKey = ws_metricKey w,
     wo_effectiveWeight = eff_get (fst (final_state R ?in)) w, wo_capApplied = (ws_metricKey w \<in> snd (final_state R ?in))\<rparr>)"
  have k: "ws_metricKey (weightInput r) = sm_metricKey (pr_metric r)" by (simp add: weightInput_def)
  have "map_of (rev (map (\<lambda>w. (wo_metricKey w, w)) (map out ?in))) (ws_metricKey (weightInput r)) = Some (out (weightInput r))"
    by (rule map_of_is_SomeI)
      (use presentRows_distinct[OF assms(1), of R] assms(2) in \<open>auto simp: out_def comp_def rev_map[symmetric]\<close>)
  then have e: "effByKey (resolveEffectiveWeights R ?in) (sm_metricKey (pr_metric r)) = Some (out (weightInput r))"
    unfolding effByKey_def resolve_map out_def[symmetric] k .
  have p: "pr_disposition r \<noteq> D_dropped" "pr_scoreUsed r \<noteq> None"
    using assms(2) presentRows_in[of r R i] by (auto simp: presentRows_def row_present_def)
  show ?thesis using p by (auto simp: scoredContribution_def Let_def e contributionOf_def effOf_def out_def)
qed

lemma scoredContribution_absent: "\<not> row_present r \<Longrightarrow> mcb_contribution (scoredContribution R res r) = 0"
  by (cases "pr_disposition r") (auto simp: row_present_def scoredContribution_def Let_def contributionOf_def)

lemma subtotal_exact:
  assumes d: "distinct (map sm_metricKey (pi_metrics i))" and t: "pres_subtotal (assemblePillar (\<lambda>x. x) i) = Some t"
  shows "t = sum_list (map (\<lambda>r. effOf (\<lambda>x. x) i r / 100 * the (pr_scoreUsed r)) (presentRows (\<lambda>x. x) i))"
proof -
  let ?rows = "map (rowOf (specs_of (\<lambda>x. x) i)) (pi_metrics i)"
  let ?c = "\<lambda>r. mcb_contribution (scoredContribution (\<lambda>x. x) (resolveEffectiveWeights (\<lambda>x. x) (map weightInput (presentRows (\<lambda>x. x) i))) r)"
  have "t = sum_list (map ?c ?rows)"
    using t by (simp add: assemblePillar_fields(5) foldl_plus comp_def split: if_splits)
  also have "\<dots> = sum_list (map (\<lambda>r. if row_present r then effOf (\<lambda>x. x) i r / 100 * the (pr_scoreUsed r) else 0) ?rows)"
  proof (intro arg_cong[of _ _ sum_list] map_cong refl)
    fix r assume "r \<in> set ?rows"
    then have "row_present r \<Longrightarrow> r \<in> set (presentRows (\<lambda>x. x) i)" by (simp add: presentRows_def)
    then show "?c r = (if row_present r then effOf (\<lambda>x. x) i r / 100 * the (pr_scoreUsed r) else 0)"
      using scoredContribution_present[OF d, of r "\<lambda>x. x"] scoredContribution_absent[of r] by simp
  qed
  finally show ?thesis unfolding sum_list_if presentRows_def[symmetric] by simp
qed

definition scores_ok :: "scored_metric list \<Rightarrow> bool" where
  "scores_ok ms \<longleftrightarrow> (\<forall>m \<in> set ms. case sm_metricScore m of None \<Rightarrow> True | Some s \<Rightarrow> 0 \<le> s \<and> s \<le> 100)"

definition specs_ok :: "weight_spec list \<Rightarrow> bool" where
  "specs_ok specs \<longleftrightarrow> (\<forall>w \<in> set specs. 0 \<le> ws_nominalWeight w \<and> (case ws_maxWeight w of None \<Rightarrow> True | Some mx \<Rightarrow> 0 \<le> mx))"

lemma presentRows_score:
  assumes "scores_ok (pi_metrics i)" "r \<in> set (presentRows R i)"
  shows "0 \<le> the (pr_scoreUsed r) \<and> the (pr_scoreUsed r) \<le> 100"
proof -
  obtain m where m: "m \<in> set (pi_metrics i)" "r = rowOf (specs_of R i) m" "pr_scoreUsed r \<noteq> None"
    using assms(2) unfolding presentRows_in by blast
  then show ?thesis using assms(1)
    by (cases "sm_scoreState m") (auto simp: scores_ok_def rowOf_score(1) NEUTRAL_HOLD_SCORE_def split: option.splits)
qed

lemma presentRows_weight:
  assumes "specs_ok (specs_of R i)" "w \<in> set (map weightInput (presentRows R i))"
  shows "0 \<le> ws_nominalWeight w \<and> (case ws_maxWeight w of None \<Rightarrow> True | Some mx \<Rightarrow> 0 \<le> mx)"
proof -
  obtain m where w: "w = weightInput (rowOf (specs_of R i) m)"
    using assms(2) by (auto simp: presentRows_in)
  show ?thesis
  proof (cases "map_of (rev (map (\<lambda>s. (ws_metricKey s, s)) (specs_of R i))) (sm_metricKey m)")
    case None
    then show ?thesis by (simp add: w weightInput_def rowOf_def Let_def split: prod.split)
  next
    case (Some s)
    then have "s \<in> set (specs_of R i)" by (auto dest: map_of_SomeD)
    then show ?thesis using assms(1) Some by (auto simp: w weightInput_def rowOf_def Let_def specs_ok_def split: prod.split)
  qed
qed

text \<open>C5. In exact arithmetic the subtotal of a pillar is in 0 to 100 when metric keys are
  distinct, metric scores are in range and nominal weights and caps are non-negative, whatever is
  dropped, held or capped.\<close>

theorem pillar_subtotal_range:
  assumes "distinct (map sm_metricKey (pi_metrics i))" "scores_ok (pi_metrics i)" "specs_ok (specs_of (\<lambda>x. x) i)"
    and t: "pres_subtotal (assemblePillar (\<lambda>x. x) i) = Some t"
  shows "0 \<le> t \<and> t \<le> 100"
proof -
  let ?P = "presentRows (\<lambda>x. x) i" and ?e = "effOf (\<lambda>x. x) i"
  let ?in = "map weightInput ?P"
  have d: "distinct (map ws_metricKey ?in)" by (rule presentRows_distinct[OF assms(1)])
  have c: "caps_ok (\<lambda>x. x) ?in" unfolding caps_ok_def using presentRows_weight[OF assms(3)] by (fastforce split: option.splits)
  have n: "w \<in> set ?in \<Longrightarrow> 0 \<le> ws_nominalWeight w" for w using presentRows_weight[OF assms(3), of w] by simp
  have e: "0 \<le> ?e r" if "r \<in> set ?P" for r
    using exact.final_state_ok[OF d c n] that by (auto simp: weights_ok_def effOf_def)
  have s: "0 \<le> the (pr_scoreUsed r) \<and> the (pr_scoreUsed r) \<le> 100" if "r \<in> set ?P" for r
    by (rule presentRows_score[OF assms(2) that])
  have tt: "t = sum_list (map (\<lambda>r. ?e r / 100 * the (pr_scoreUsed r)) ?P)" by (rule subtotal_exact[OF assms(1) t])
  have "t \<le> sum_list (map ?e ?P)"
    unfolding tt by (rule sum_list_mono) (use e s in \<open>simp add: mult_left_le mult_mono\<close>)
  also have "\<dots> = wsum ?in (fst (final_state (\<lambda>x. x) ?in))" by (simp add: wsum_def effOf_def[abs_def] comp_def)
  also have "\<dots> \<le> 100"
  proof (cases "?in = []")
    case False
    then show ?thesis using final_state_sum[OF d c n] by blast
  qed (simp add: wsum_def)
  finally have "t \<le> 100" .
  moreover have "0 \<le> t" unfolding tt by (rule sum_list_nonneg) (use e s in auto)
  ultimately show ?thesis by simp
qed

lemma half_minus:
  fixes q t :: num
  assumes "0 < t" "2 * q * t + 1 \<le> t" "t \<le> 10 ^ 6"
  shows "q \<le> 1/2 - 1 / (2 * 10 ^ 6)"
proof -
  have "1 \<le> (1 - 2 * q) * t" using assms(2) by (simp add: left_diff_distrib)
  then have p: "0 < 1 - 2 * q" using assms(1) by (metis less_le_trans zero_less_one zero_less_mult_pos2)
  have "(1 - 2 * q) * t \<le> (1 - 2 * q) * 10 ^ 6" using p assms(3) by (intro mult_left_mono) auto
  then show ?thesis using \<open>1 \<le> (1 - 2 * q) * t\<close> by simp
qed

context rounding
begin

lemma err_up: "0 \<le> x \<Longrightarrow> R x \<le> x + x / 2 ^ 53"
  using order_trans[OF abs_ge_self err[of x]] by simp

text \<open>
  The tolerance of the floor test does not let a smaller share through: with at most a million
  metrics, a share below one half is below it by more than the tolerance.
\<close>

lemma meetsFloor_half:
  assumes "t \<le> 10 ^ 6"
  shows "meetsFloor R (1/2) p t \<longleftrightarrow> 0 < t \<and> t \<le> 2 * p"
proof (cases "0 < t")
  case True
  define q where "q = (of_nat p / of_nat t :: num)"
  have half: "R (1/2) = 1/2" using fix_half[of 1] by simp
  have tq: "(0::num) < of_nat t" using True by simp
  show ?thesis
  proof (cases "t \<le> 2 * p")
    case True
    then have "(of_nat t :: num) \<le> of_nat (2 * p)" by (simp only: of_nat_le_iff)
    then have "1/2 \<le> q" using tq by (simp add: q_def field_simps)
    then have "1/2 \<le> R q" using mono[of "1/2" q] half by simp
    then have "1/2 \<le> R (R q + EPS R)" using mono[of "1/2" "R q + EPS R"] half EPS_pos by simp
    then show ?thesis using True \<open>0 < t\<close> by (simp add: meetsFloor_def q_def)
  next
    case False
    then have "2 * p + 1 \<le> t" by simp
    then have "(of_nat (2 * p + 1) :: num) \<le> of_nat t" by (simp only: of_nat_le_iff)
    then have "2 * q * of_nat t + 1 \<le> of_nat t" using tq by (simp add: q_def)
    moreover have "(of_nat t :: num) \<le> of_nat (10 ^ 6)" using assms by (simp only: of_nat_le_iff)
    ultimately have q: "q \<le> 1/2 - 1 / (2 * 10 ^ 6)" and q0: "0 \<le> q"
      using half_minus[OF tq, of q] by (simp_all add: q_def)
    have "R q \<le> q + q / 2 ^ 53" using err_up[OF q0] .
    then have "R q \<le> 1/2 - 1 / (4 * 10 ^ 6)" using q by simp
    moreover have "EPS R \<le> 1 / 10 ^ 8" using err_up[of "1 / 10 ^ 9"] by (simp add: EPS_def)
    ultimately have u: "R q + EPS R \<le> 1/2 - 1 / 10 ^ 7" "0 \<le> R q + EPS R" using EPS_pos nonneg[OF q0] by simp_all
    have lt: "R z < 1/2" if "0 \<le> z" "z \<le> 1/2 - 1 / 10 ^ 7" for z
      using err_up[of z] that by simp
    have "R (R q + EPS R) < 1/2" by (rule lt[OF u(2,1)])
    then show ?thesis using False \<open>0 < t\<close> by (simp add: meetsFloor_def q_def)
  qed
qed (simp add: meetsFloor_def)

end

definition sample_metric :: "string \<Rightarrow> score_state \<Rightarrow> num option \<Rightarrow> scored_metric" where
  "sample_metric k st sc =
     \<lparr>sm_pillar = Foundation, sm_metricKey = k, sm_label = k, sm_stockId = ''s1'', sm_symbol = ''TCS'', sm_rawValue = None,
      sm_scoreState = st, sm_includedInPeerStats = True, sm_unavailableReason = None,
      sm_l1Available = False, sm_l1Score = None, sm_l1Band = None, sm_l1Saturated = False, sm_l1BarSetUsed = None,
      sm_barDirection = None, sm_barNote = [], sm_l2Available = False, sm_l2Score = None, sm_l2Z = None,
      sm_l2AnchorApplied = None, sm_l2AnchorFired = False, sm_peerStats = None, sm_l3Available = False,
      sm_l3Score = None, sm_l3Z = None, sm_l3AnchorApplied = None, sm_l3AnchorFired = False, sm_l3Mean = None,
      sm_l3StdDev = None, sm_l3WindowN = None, sm_metricScore = sc, sm_lensFallbackApplied = FB_none, sm_notes = []\<rparr>"

definition sample_pillar :: "scored_metric list \<Rightarrow> weight_spec list option \<Rightarrow> pillar_input" where
  "sample_pillar ms specs = \<lparr>pi_pillar = Foundation, pi_stockId = ''s1'', pi_symbol = ''TCS'', pi_snapshot = ''FY26Q4'',
     pi_metrics = ms, pi_weightSpecs = specs, pi_floorRatio = None\<rparr>"

definition sample_metrics :: "scored_metric list" where
  "sample_metrics = [sample_metric ''F1'' SS_scored (Some 80), sample_metric ''F10'' SS_neutral_hold (Some 60),
     sample_metric ''F2'' SS_suppressed None]"

theorem pillar_subtotal_range_witness:
  "case pres_subtotal (assemblePillar (\<lambda>x. x) (sample_pillar sample_metrics None)) of None \<Rightarrow> False | Some t \<Rightarrow> 0 \<le> t \<and> t \<le> 100"
proof -
  let ?i = "sample_pillar sample_metrics None"
  have sp: "specs_of (\<lambda>x. x) ?i = [\<lparr>ws_metricKey = ''F1'', ws_nominalWeight = 100/3, ws_maxWeight = None\<rparr>,
      \<lparr>ws_metricKey = ''F10'', ws_nominalWeight = 100/3, ws_maxWeight = Some 10\<rparr>, \<lparr>ws_metricKey = ''F2'', ws_nominalWeight = 100/3, ws_maxWeight = None\<rparr>]"
    by (simp add: specs_of_def sample_pillar_def sample_metrics_def sample_metric_def defaultWeightSpecs_def F10_KEY_def F10_MAX_WEIGHT_def Let_def)
  have "pres_subtotal (assemblePillar (\<lambda>x. x) ?i) \<noteq> None" by code_simp
  then obtain t where t: "pres_subtotal (assemblePillar (\<lambda>x. x) ?i) = Some t" by blast
  have m: "pi_metrics ?i = sample_metrics" by (simp add: sample_pillar_def)
  have "0 \<le> t \<and> t \<le> 100"
    by (rule pillar_subtotal_range[OF _ _ _ t, unfolded m sp])
      (simp_all add: specs_ok_def scores_ok_def sample_metrics_def sample_metric_def)
  then show ?thesis by (simp add: t)
qed

text \<open>Without caps the subtotal of a pillar is, in exact arithmetic, the mean of the
  scores used (a held metric counts 60) weighted by the nominal weights of the present metrics.\<close>

theorem pillar_weighted_mean:
  assumes "distinct (map sm_metricKey (pi_metrics i))"
    and "\<forall>w \<in> set (specs_of (\<lambda>x. x) i). ws_maxWeight w = None"
    and pos: "1 / 10 ^ 9 < sum_list (map pr_nominalWeight (presentRows (\<lambda>x. x) i))"
    and t: "pres_subtotal (assemblePillar (\<lambda>x. x) i) = Some t"
  shows "t * sum_list (map pr_nominalWeight (presentRows (\<lambda>x. x) i)) =
         sum_list (map (\<lambda>r. pr_nominalWeight r * the (pr_scoreUsed r)) (presentRows (\<lambda>x. x) i))"
proof -
  let ?P = "presentRows (\<lambda>x. x) i"
  let ?in = "map weightInput ?P"
  let ?n = "sum_list (map pr_nominalWeight ?P)"
  have d: "distinct (map ws_metricKey ?in)" by (rule presentRows_distinct[OF assms(1)])
  have nocap: "ws_maxWeight w = None" if w: "w \<in> set ?in" for w
  proof -
    obtain m where m: "w = weightInput (rowOf (specs_of (\<lambda>x. x) i) m)" using w by (auto simp: presentRows_in)
    let ?s = "map_of (rev (map (\<lambda>s. (ws_metricKey s, s)) (specs_of (\<lambda>x. x) i))) (sm_metricKey m)"
    have "w \<in> set (specs_of (\<lambda>x. x) i)" if "?s = Some w" for w using that by (auto dest: map_of_SomeD)
    then show ?thesis using assms(2)
      by (cases ?s) (auto simp: m weightInput_def rowOf_def Let_def split: prod.split)
  qed
  then have "filter (over_cap (\<lambda>x. x) e c) ?in = []" for e c by (auto simp: filter_empty_conv over_cap_def)
  then have fs: "fst (final_state (\<lambda>x. x) ?in) = renormalize (\<lambda>x. x) ?in"
    by (cases "length ?in") (simp_all add: final_state_def)
  have tot: "foldl (\<lambda>a w. a + ws_nominalWeight w) 0 ?in = ?n"
    by (simp add: foldl_plus comp_def weightInput_def)
  have e: "effOf (\<lambda>x. x) i r = pr_nominalWeight r / ?n * 100" if "r \<in> set ?P" for r
  proof -
    have "weightInput r \<in> set ?in" using that by simp
    then show ?thesis
      unfolding effOf_def fs renormalize_get[OF d \<open>weightInput r \<in> set ?in\<close>] Let_def tot
      using pos by (simp add: EPS_def weightInput_def)
  qed
  have n: "?n \<noteq> 0" using pos by auto
  have "t = sum_list (map (\<lambda>r. effOf (\<lambda>x. x) i r / 100 * the (pr_scoreUsed r)) ?P)" by (rule subtotal_exact[OF assms(1) t])
  also have "\<dots> = sum_list (map (\<lambda>r. pr_nominalWeight r * the (pr_scoreUsed r) * (1 / ?n)) ?P)"
    by (intro arg_cong[of _ _ sum_list] map_cong refl) (simp add: e)
  also have "\<dots> = sum_list (map (\<lambda>r. pr_nominalWeight r * the (pr_scoreUsed r)) ?P) * (1 / ?n)"
    by (rule sum_list_mult_const)
  finally show ?thesis using n by simp
qed

theorem pillar_weighted_mean_witness:
  "pres_subtotal (assemblePillar (\<lambda>x. x) (sample_pillar
      [sample_metric ''F1'' SS_scored (Some 80), sample_metric ''F3'' SS_neutral_hold None]
      (Some [\<lparr>ws_metricKey = ''F1'', ws_nominalWeight = 30, ws_maxWeight = None\<rparr>,
             \<lparr>ws_metricKey = ''F3'', ws_nominalWeight = 10, ws_maxWeight = None\<rparr>]))) = Some 75"
proof -
  let ?ms = "[sample_metric ''F1'' SS_scored (Some 80), sample_metric ''F3'' SS_neutral_hold None]"
  let ?specs = "[\<lparr>ws_metricKey = ''F1'', ws_nominalWeight = 30, ws_maxWeight = None\<rparr>,
                \<lparr>ws_metricKey = ''F3'', ws_nominalWeight = 10, ws_maxWeight = None\<rparr>]"
  let ?i = "sample_pillar ?ms (Some ?specs)"
  have "pres_subtotal (assemblePillar (\<lambda>x. x) ?i) \<noteq> None" by code_simp
  then obtain t where t: "pres_subtotal (assemblePillar (\<lambda>x. x) ?i) = Some t" by blast
  have m: "pi_metrics ?i = ?ms" and sp: "specs_of (\<lambda>x. x) ?i = ?specs" by (simp_all add: sample_pillar_def specs_of_def)
  have n: "sum_list (map pr_nominalWeight (presentRows (\<lambda>x. x) ?i)) = 40" by code_simp
  have w: "sum_list (map (\<lambda>r. pr_nominalWeight r * the (pr_scoreUsed r)) (presentRows (\<lambda>x. x) ?i)) = 3000" by code_simp
  have "t * 40 = 3000"
    by (rule pillar_weighted_mean[OF _ _ _ t, unfolded n w m sp]) (simp_all add: sample_metric_def)
  then show ?thesis by (simp add: t)
qed

text \<open>C4. The floor of a pillar in machine arithmetic is an integer comparison for up to a
  million metrics: with the default ratio a pillar is scored exactly when it has metrics and at
  least half of them are present, so the tolerance of the test lets nothing below half through. A
  subtotal exists exactly for scored pillars, the scored, held and dropped counts add up to the
  total, and every metric gets one contribution row in order.\<close>

theorem pillar_floor:
  assumes "pi_floorRatio i = None" "length (pi_metrics i) \<le> 10 ^ 6"
  shows "pres_pillarState (assemblePillar f64 i) =
      (if pi_metrics i \<noteq> [] \<and> length (pi_metrics i) \<le> 2 * pres_presentCount (assemblePillar f64 i)
       then PS_scored else PS_unavailable_redistributed) \<and>
    (pres_subtotal (assemblePillar f64 i) = None \<longleftrightarrow> pres_pillarState (assemblePillar f64 i) = PS_unavailable_redistributed) \<and>
    pres_totalMetrics (assemblePillar f64 i) = pres_scoredCount (assemblePillar f64 i)
      + pres_neutralHeldCount (assemblePillar f64 i) + pres_droppedCount (assemblePillar f64 i) \<and>
    map mcb_metricKey (pres_contributions (assemblePillar f64 i)) = map sm_metricKey (pi_metrics i)"
proof -
  let ?p = "length (presentRows f64 i)" and ?t = "length (pi_metrics i)"
  have fl: "meetsFloor f64 (1/2) ?p ?t \<longleftrightarrow> 0 < ?t \<and> ?t \<le> 2 * ?p"
    by (rule f64.meetsFloor_half[OF assms(2)])
  have k: "mcb_metricKey (scoredContribution R res r) = sm_metricKey (pr_metric r)"
    "mcb_metricKey (contributionOf r a b c) = sm_metricKey (pr_metric r)" for R res r a b c
    by (simp_all add: scoredContribution_def contributionOf_def Let_def)
  show ?thesis
    using assemblePillar_counts[of f64 i]
    by (simp add: assemblePillar_fields assms(1) PILLAR_FLOOR_RATIO_def fl comp_def k)
qed

theorem pillar_floor_witness:
  "pres_pillarState (assemblePillar f64 (sample_pillar (sample_metrics @ [sample_metric ''F4'' SS_scored None]) None)) = PS_scored \<and>
   pres_pillarState (assemblePillar f64 (sample_pillar (sample_metrics @
     [sample_metric ''F4'' SS_scored None, sample_metric ''F5'' SS_missing_renorm None]) None)) = PS_unavailable_redistributed"
proof -
  have p: "pi_floorRatio (sample_pillar ms None) = None" "pi_metrics (sample_pillar ms None) = ms" for ms
    by (simp_all add: sample_pillar_def)
  let ?i = "sample_pillar (sample_metrics @ [sample_metric ''F4'' SS_scored None]) None"
  let ?j = "sample_pillar (sample_metrics @ [sample_metric ''F4'' SS_scored None, sample_metric ''F5'' SS_missing_renorm None]) None"
  have "pres_presentCount (assemblePillar f64 ?i) = 2" "pres_presentCount (assemblePillar f64 ?j) = 2"
    unfolding assemblePillar_fields(3) presentRows_def p
    by (simp_all add: rowOf_score sample_metrics_def sample_metric_def)
  moreover have "length (pi_metrics ?i) = 4" "length (pi_metrics ?j) = 5" unfolding p by (simp_all add: sample_metrics_def)
  ultimately show ?thesis
    using pillar_floor[of ?i, OF p(1)] pillar_floor[of ?j, OF p(1)] by auto
qed

end
