(* ===== verification/Composite.thy ===== *)
theory Composite
  imports MetricScoring
begin

text \<open>
  The composite health score, \<open>src/scoring/composite\<close>: pillar weights, the redistribution of a
  missing pillar's weight and the halving of the market weight (\<open>weights.ts\<close>), the weighted sum,
  its divergence and the unavailable state (\<open>composite.ts\<close>), and the label band with the rounding
  that stays inside it (\<open>label.ts\<close>).  \<open>Record<Pillar, number>\<close> is a function on the four pillars;
  a pillar that is missing from the input list is unavailable, as \<open>undefined\<close> is falsy.
\<close>

subsection \<open>Types (\<open>types.ts\<close>)\<close>

datatype composite_pillar_state = CP_scored | CP_unavailable_redistributed

datatype snapshot_type = Quarterly | Live

datatype label_band = Fragile | Below_par | Steady | Healthy | Pristine

datatype redistribution_reason = RR_none | RR_market_unavailable | RR_missing_pillar | RR_guardrail_suppression

datatype can_score_reason = CS_ok nat | CS_no_anchor | CS_too_few nat

datatype composite_state = CPS_scored | CPS_unavailable

record composite_input =
  cpi_pillar :: pillar
  cpi_subtotal :: "num option"
  cpi_state :: composite_pillar_state
  cpi_sourcePeriod :: string
  cpi_pillarScoreId :: "string option"

datatype composite_flag =
  CF_redistribution redistribution_reason "pillar list" "(pillar \<times> num) list"

record composite_result =
  cpr_stockId :: string
  cpr_symbol :: string
  cpr_snapshotType :: snapshot_type
  cpr_periodKey :: string
  cpr_asOfDate :: int
  cpr_state :: composite_state
  cpr_composite :: "num option"
  cpr_compositeRounded :: "int option"
  cpr_labelBand :: "label_band option"
  cpr_labelText :: "string option"
  cpr_bandMappingVersion :: string
  cpr_specVersion :: string
  cpr_appliedWeights :: "pillar \<Rightarrow> num"
  cpr_redistributionReason :: redistribution_reason
  cpr_survivingPillars :: "pillar list"
  cpr_unavailablePillars :: "pillar list"
  cpr_pillars :: "composite_input list"
  cpr_divergence :: "num option"
  cpr_unavailableReason :: "can_score_reason option"
  cpr_flags :: "composite_flag list"

subsection \<open>Weights (\<open>weights.ts\<close>)\<close>

fun PILLAR_WEIGHTS :: "(num \<Rightarrow> num) \<Rightarrow> pillar \<Rightarrow> num" where
  "PILLAR_WEIGHTS R Foundation = R (35/100)"
| "PILLAR_WEIGHTS R Momentum = R (25/100)"
| "PILLAR_WEIGHTS R Market = R (2/10)"
| "PILLAR_WEIGHTS R Ownership = R (2/10)"

definition ALL_PILLARS :: "pillar list" where
  "ALL_PILLARS = [Foundation, Momentum, Market, Ownership]"

definition ANCHOR_PILLAR :: pillar where "ANCHOR_PILLAR = Foundation"
definition MIN_SURVIVING_PILLARS :: nat where "MIN_SURVIVING_PILLARS = 2"

record redistribution =
  rd_weights :: "pillar \<Rightarrow> num"
  rd_reason :: redistribution_reason
  rd_surviving :: "pillar list"
  rd_unavailable :: "pillar list"
  rd_canScore :: bool
  rd_canScoreReason :: can_score_reason

definition redistributeWeights :: "(num \<Rightarrow> num) \<Rightarrow> (pillar \<Rightarrow> bool) \<Rightarrow> redistribution" where
  "redistributeWeights R available =
    (let surviving = filter available ALL_PILLARS;
         unavailable = filter (\<lambda>p. \<not> available p) ALL_PILLARS;
         sum = foldl (\<lambda>a p. R (a + PILLAR_WEIGHTS R p)) 0 surviving;
         weights = (\<lambda>p. if available p \<and> 0 < sum then R (PILLAR_WEIGHTS R p / sum) else 0);
         reason = (if length unavailable = 0 then RR_none
                   else if length unavailable = 1 \<and> hd unavailable = Market then RR_market_unavailable
                   else RR_missing_pillar);
         foundationOk = available ANCHOR_PILLAR;
         enoughBreadth = MIN_SURVIVING_PILLARS \<le> length surviving;
         canScore = (foundationOk \<and> enoughBreadth)
     in \<lparr>rd_weights = weights, rd_reason = reason, rd_surviving = surviving, rd_unavailable = unavailable,
         rd_canScore = canScore,
         rd_canScoreReason = (if canScore then CS_ok (length surviving)
                              else if \<not> foundationOk then CS_no_anchor else CS_too_few (length surviving))\<rparr>)"

definition halveMarketWeight :: "(num \<Rightarrow> num) \<Rightarrow> (pillar \<Rightarrow> num) \<Rightarrow> (pillar \<Rightarrow> num)" where
  "halveMarketWeight R weights =
    (let out = weights; freed = R (out Market / 2)
     in if freed \<le> 0 then out
        else (let out = out(Market := R (out Market - freed));
                  base = R (out Foundation + out Momentum)
              in if base \<le> 0 then out
                 else (let out = out(Foundation := R (out Foundation + R (freed * R (out Foundation / base))))
                       in out(Momentum := R (out Momentum + R (freed * R (out Momentum / base)))))))"

subsection \<open>Label bands (\<open>label.ts\<close>)\<close>

definition BAND_MAPPING_VERSION :: string where "BAND_MAPPING_VERSION = ''2026.2''"
definition LEGACY_BAND_MAPPING_VERSION :: string where "LEGACY_BAND_MAPPING_VERSION = ''2026.1''"

record band_def =
  \<comment> \<open>\<open>bd_min = None\<close> is \<open>-Infinity\<close>, \<open>bd_max = None\<close> is \<open>null\<close>\<close>
  bd_band :: label_band
  bd_label :: string
  bd_colour :: string
  bd_min :: "num option"
  bd_max :: "num option"

fun band_label :: "label_band \<Rightarrow> string" where
  \<comment> \<open>the \<open>label\<close> column of both maps; the dash of the last one is written \<open>--\<close>\<close>
  "band_label Fragile = ''Fragile''"
| "band_label Below_par = ''Below Par''"
| "band_label Steady = ''Steady''"
| "band_label Healthy = ''Healthy''"
| "band_label Pristine = ''Pristine -- fully priced''"

fun band_colour :: "label_band \<Rightarrow> string" where
  "band_colour Fragile = ''#C0392B''"
| "band_colour Below_par = ''#E67E22''"
| "band_colour Steady = ''#F1C40F''"
| "band_colour Healthy = ''#27AE60''"
| "band_colour Pristine = ''#2980B9''"

definition mk_band :: "label_band \<Rightarrow> num option \<Rightarrow> num option \<Rightarrow> band_def" where
  "mk_band b lo hi = \<lparr>bd_band = b, bd_label = band_label b, bd_colour = band_colour b, bd_min = lo, bd_max = hi\<rparr>"

definition LABEL_BAND_MAP :: "band_def list" where
  "LABEL_BAND_MAP =
    [mk_band Fragile None (Some 50), mk_band Below_par (Some 50) (Some 58), mk_band Steady (Some 58) (Some 65),
     mk_band Healthy (Some 65) (Some 72), mk_band Pristine (Some 72) None]"

definition LEGACY_LABEL_BAND_MAP :: "band_def list" where
  "LEGACY_LABEL_BAND_MAP =
    [mk_band Fragile None (Some 55), mk_band Below_par (Some 55) (Some 62), mk_band Steady (Some 62) (Some 68),
     mk_band Healthy (Some 68) (Some 74), mk_band Pristine (Some 74) None]"

definition mapFor :: "string option \<Rightarrow> band_def list" where
  "mapFor version = (if version = Some LEGACY_BAND_MAPPING_VERSION then LEGACY_LABEL_BAND_MAP else LABEL_BAND_MAP)"

definition in_band :: "band_def \<Rightarrow> num \<Rightarrow> bool" where
  "in_band b v \<longleftrightarrow> (case bd_min b of None \<Rightarrow> True | Some lo \<Rightarrow> lo \<le> v) \<and>
                   (case bd_max b of None \<Rightarrow> True | Some hi \<Rightarrow> v < hi)"

definition labelFor :: "num \<Rightarrow> string option \<Rightarrow> band_def" where
  "labelFor composite bandMappingVersion =
    (let m = mapFor bandMappingVersion
     in case find (\<lambda>b. in_band b composite) m of Some b \<Rightarrow> b | None \<Rightarrow> hd m)"

definition bandSafeScore :: "num \<Rightarrow> label_band \<Rightarrow> string option \<Rightarrow> int option" where
  "bandSafeScore composite storedBand bandMappingVersion =
    (case find (\<lambda>b. bd_band b = storedBand) (mapFor bandMappingVersion) of None \<Rightarrow> None
     | Some band \<Rightarrow> find (\<lambda>v. in_band band (of_int v)) [js_round composite, \<lfloor>composite\<rfloor>, \<lceil>composite\<rceil>])"

datatype score_text = Fixed1 num | Whole int

definition scoreDisplay :: "num \<Rightarrow> label_band \<Rightarrow> string option \<Rightarrow> score_text" where
  \<comment> \<open>\<open>composite.toFixed(1)\<close> and \<open>String(v)\<close>\<close>
  "scoreDisplay composite storedBand bandMappingVersion =
    (case bandSafeScore composite storedBand bandMappingVersion of
       None \<Rightarrow> Fixed1 composite | Some v \<Rightarrow> Whole v)"

definition bandMappingJson ::
  "string option \<Rightarrow> (label_band \<rightharpoonup> (string \<times> string \<times> num option \<times> num option))" where
  "bandMappingJson version =
    foldl (\<lambda>out b. out(bd_band b \<mapsto> (bd_label b, bd_colour b, bd_min b, bd_max b))) (\<lambda>_. None) (mapFor version)"

subsection \<open>Assembly (\<open>composite.ts\<close>)\<close>

definition COMPOSITE_SPEC_VERSION :: string where "COMPOSITE_SPEC_VERSION = ''2026.2''"

record composite_context =
  cc_snapshotType :: snapshot_type
  cc_periodKey :: string
  cc_asOfDate :: int
  cc_specVersion :: "string option"
  cc_bandMappingVersion :: "string option"

definition byPillar :: "composite_input list \<Rightarrow> pillar \<Rightarrow> composite_input option" where
  \<comment> \<open>\<open>new Map(...)\<close>: the last entry of a pillar wins\<close>
  "byPillar pillars p = map_of (rev (map (\<lambda>x. (cpi_pillar x, x)) pillars)) p"

definition subtotalOf :: "composite_input list \<Rightarrow> pillar \<Rightarrow> num" where
  "subtotalOf pillars p = the (Option.bind (byPillar pillars p) cpi_subtotal)"

definition availableOf :: "composite_input list \<Rightarrow> pillar \<Rightarrow> bool" where
  "availableOf pillars p =
    foldl (\<lambda>av x. av(cpi_pillar x := (cpi_state x = CP_scored \<and> cpi_subtotal x \<noteq> None))) (\<lambda>_. False) pillars p"

definition nonMarketBlend :: "(num \<Rightarrow> num) \<Rightarrow> (pillar \<Rightarrow> num) \<Rightarrow> pillar list \<Rightarrow> num option" where
  "nonMarketBlend R sub surviving =
    (let nm = filter (\<lambda>p. p \<noteq> Market) surviving
     in if length nm = 0 then None
        else (let wsum = foldl (\<lambda>a p. R (a + PILLAR_WEIGHTS R p)) 0 nm
              in Some (foldl (\<lambda>a p. R (a + R (R (PILLAR_WEIGHTS R p / wsum) * sub p))) 0 nm)))"

definition weightedSum :: "(num \<Rightarrow> num) \<Rightarrow> (pillar \<Rightarrow> num) \<Rightarrow> (pillar \<Rightarrow> num) \<Rightarrow> pillar list \<Rightarrow> num" where
  "weightedSum R w sub surviving = foldl (\<lambda>c p. R (c + R (w p * sub p))) 0 surviving"

definition assembleComposite ::
  "(num \<Rightarrow> num) \<Rightarrow> string \<Rightarrow> string \<Rightarrow> composite_input list \<Rightarrow> composite_context \<Rightarrow> composite_result" where
  "assembleComposite R stockId symbol pillars ctx =
    (let available = availableOf pillars;
         redist = redistributeWeights R available;
         weights = halveMarketWeight R (rd_weights redist);
         flags = (if rd_reason redist \<noteq> RR_none
                  then [CF_redistribution (rd_reason redist) (rd_unavailable redist)
                          (map (\<lambda>p. (p, R (weights p * 100))) (rd_surviving redist))] else []);
         result = (\<lambda>state composite rounded band label divergence reason.
           \<lparr>cpr_stockId = stockId, cpr_symbol = symbol, cpr_snapshotType = cc_snapshotType ctx,
            cpr_periodKey = cc_periodKey ctx, cpr_asOfDate = cc_asOfDate ctx, cpr_state = state,
            cpr_composite = composite, cpr_compositeRounded = rounded, cpr_labelBand = band, cpr_labelText = label,
            cpr_bandMappingVersion = nullish (cc_bandMappingVersion ctx) BAND_MAPPING_VERSION,
            cpr_specVersion = nullish (cc_specVersion ctx) COMPOSITE_SPEC_VERSION,
            cpr_appliedWeights = weights, cpr_redistributionReason = rd_reason redist,
            cpr_survivingPillars = rd_surviving redist, cpr_unavailablePillars = rd_unavailable redist,
            cpr_pillars = pillars, cpr_divergence = divergence, cpr_unavailableReason = reason, cpr_flags = flags\<rparr>)
     in if \<not> rd_canScore redist
        then result CPS_unavailable None None None None None (Some (rd_canScoreReason redist))
        else (let composite = weightedSum R weights (subtotalOf pillars) (rd_surviving redist);
                  band = labelFor composite (cc_bandMappingVersion ctx);
                  divergence = (if available Market
                                then (case nonMarketBlend R (subtotalOf pillars) (rd_surviving redist) of
                                        None \<Rightarrow> None
                                      | Some blend \<Rightarrow> Some (R (subtotalOf pillars Market - blend)))
                                else None)
              in result CPS_scored (Some composite) (Some (js_round composite)) (Some (bd_band band))
                   (Some (bd_label band)) divergence None))"


subsection \<open>Inputs by pillar\<close>

lemma availableOf_iff:
  "availableOf ps p \<longleftrightarrow> (\<exists>x. byPillar ps p = Some x \<and> cpi_state x = CP_scored \<and> cpi_subtotal x \<noteq> None)"
proof -
  have "foldl (\<lambda>av x. av(cpi_pillar x := (cpi_state x = CP_scored \<and> cpi_subtotal x \<noteq> None))) (\<lambda>_. False) ps p \<longleftrightarrow>
     (\<exists>x. map_of (rev (map (\<lambda>x. (cpi_pillar x, x)) ps)) p = Some x \<and> cpi_state x = CP_scored \<and> cpi_subtotal x \<noteq> None)"
    by (induction ps rule: rev_induct) auto
  then show ?thesis by (simp only: availableOf_def byPillar_def)
qed

lemma byPillar_in: "byPillar ps p = Some x \<Longrightarrow> x \<in> set ps \<and> cpi_pillar x = p"
  unfolding byPillar_def by (drule map_of_SomeD) auto

lemma subtotalOf_available:
  assumes "availableOf ps p"
  obtains x where "x \<in> set ps" "cpi_pillar x = p" "cpi_subtotal x = Some (subtotalOf ps p)"
proof -
  obtain x where x: "byPillar ps p = Some x" "cpi_subtotal x \<noteq> None"
    using assms by (auto simp: availableOf_iff)
  show ?thesis
    by (rule that[of x]) (use x byPillar_in[of ps p x] in \<open>auto simp: subtotalOf_def\<close>)
qed

text \<open>The four availabilities as a case distinction that evaluates.\<close>

definition avail4 :: "bool \<Rightarrow> bool \<Rightarrow> bool \<Rightarrow> bool \<Rightarrow> pillar \<Rightarrow> bool" where
  "avail4 f m k n p = (case p of Foundation \<Rightarrow> f | Momentum \<Rightarrow> m | Market \<Rightarrow> k | Ownership \<Rightarrow> n)"

lemma avail4_eta: "av = avail4 (av Foundation) (av Momentum) (av Market) (av Ownership)"
  by (rule ext) (simp add: avail4_def split: pillar.split)

lemma redistribute_surviving [simp]:
  "set (rd_surviving (redistributeWeights R av)) = {p. av p}"
proof -
  have "p \<in> set ALL_PILLARS" for p by (cases p) (simp_all add: ALL_PILLARS_def)
  then show ?thesis by (auto simp: redistributeWeights_def Let_def)
qed

lemma redistribute_canScore:
  "rd_canScore (redistributeWeights R av) \<longleftrightarrow> av Foundation \<and> (av Momentum \<or> av Market \<or> av Ownership)"
  by (simp add: redistributeWeights_def Let_def ALL_PILLARS_def ANCHOR_PILLAR_def MIN_SURVIVING_PILLARS_def)

abbreviation final_weights :: "(num \<Rightarrow> num) \<Rightarrow> (pillar \<Rightarrow> bool) \<Rightarrow> pillar \<Rightarrow> num" where
  "final_weights R av \<equiv> halveMarketWeight R (rd_weights (redistributeWeights R av))"

subsection \<open>Weights and the weighted sum\<close>

context rounding
begin

lemma PILLAR_WEIGHTS_pos: "0 < PILLAR_WEIGHTS R p"
  by (cases p) (auto intro: pos)

lemma redistributed_nonneg:
  "0 \<le> rd_weights (redistributeWeights R av) p \<and>
   R (rd_weights (redistributeWeights R av) p) = rd_weights (redistributeWeights R av) p"
  using PILLAR_WEIGHTS_pos[of p]
  by (auto simp: redistributeWeights_def Let_def idem zero intro!: nonneg)

lemma halved_nonneg:
  assumes "\<And>p. 0 \<le> w p \<and> R (w p) = w p"
  shows "0 \<le> halveMarketWeight R w p"
proof -
  have m: "0 \<le> w Market" "0 \<le> w Foundation" "0 \<le> w Momentum" "0 \<le> w Ownership"
    "0 \<le> w p" using assms by blast+
  have "R (w Market / 2) \<le> R (w Market)" using m by (intro mono) simp
  then have "R (w Market / 2) \<le> w Market" using assms by simp
  then show ?thesis using m
    by (auto simp: halveMarketWeight_def Let_def intro!: nonneg add_nonneg_nonneg mult_nonneg_nonneg)
qed

lemma final_weights_nonneg: "0 \<le> final_weights R av p"
  by (rule halved_nonneg) (rule redistributed_nonneg)

lemma weightedSum_mono:
  assumes "\<And>p. p \<in> set ps \<Longrightarrow> s p \<le> t p" and "\<And>p. 0 \<le> w p"
  shows "weightedSum R w s ps \<le> weightedSum R w t ps"
  unfolding weightedSum_def by (rule sum_mono) (auto intro!: mono mult_left_mono assms)

lemma weightedSum_nonneg:
  assumes "\<And>p. p \<in> set ps \<Longrightarrow> 0 \<le> s p" and "\<And>p. 0 \<le> w p"
  shows "0 \<le> weightedSum R w s ps"
  unfolding weightedSum_def by (rule sum_nonneg) (auto intro!: nonneg mult_nonneg_nonneg assms)

end


text \<open>At the top of the scale every availability pattern gives exactly 100, in machine arithmetic too.\<close>

lemma full_marks_f64:
  "m \<or> k \<or> n \<Longrightarrow>
   weightedSum f64 (final_weights f64 (avail4 True m k n)) (\<lambda>_. 100)
     (rd_surviving (redistributeWeights f64 (avail4 True m k n))) = 100"
  apply (cases m; cases k; cases n; simp only: simp_thms)
        apply code_simp
       apply code_simp
      apply code_simp
     apply code_simp
    apply code_simp
   apply code_simp
  apply code_simp
  done



lemma full_marks:
  assumes "rd_canScore (redistributeWeights f64 av)"
  shows "weightedSum f64 (final_weights f64 av) (\<lambda>_. 100) (rd_surviving (redistributeWeights f64 av)) = 100"
proof -
  have av: "av = avail4 True (av Momentum) (av Market) (av Ownership)"
    using assms avail4_eta[of av] by (simp add: redistribute_canScore)
  have "av Momentum \<or> av Market \<or> av Ownership" using assms by (simp add: redistribute_canScore)
  then show ?thesis by (subst (1 2) av) (rule full_marks_f64)
qed

lemma assemble_unavailable:
  "\<not> rd_canScore (redistributeWeights R (availableOf ps)) \<Longrightarrow>
   cpr_composite (assembleComposite R sid nm ps ctx) = None \<and>
   cpr_state (assembleComposite R sid nm ps ctx) = CPS_unavailable \<and>
   cpr_labelBand (assembleComposite R sid nm ps ctx) = None"
  by (simp add: assembleComposite_def Let_def)

lemma assemble_scored:
  "rd_canScore (redistributeWeights R (availableOf ps)) \<Longrightarrow>
   cpr_composite (assembleComposite R sid nm ps ctx) =
     Some (weightedSum R (final_weights R (availableOf ps)) (subtotalOf ps) (rd_surviving (redistributeWeights R (availableOf ps)))) \<and>
   cpr_state (assembleComposite R sid nm ps ctx) = CPS_scored \<and>
   cpr_labelBand (assembleComposite R sid nm ps ctx) =
     map_option (\<lambda>c. bd_band (labelFor c (cc_bandMappingVersion ctx))) (cpr_composite (assembleComposite R sid nm ps ctx))"
  by (simp add: assembleComposite_def Let_def)

text \<open>Both maps are five bands between four increasing integer cut points.\<close>

definition band_map :: "int \<Rightarrow> int \<Rightarrow> int \<Rightarrow> int \<Rightarrow> band_def list" where
  "band_map p q r t =
    [mk_band Fragile None (Some (of_int p)), mk_band Below_par (Some (of_int p)) (Some (of_int q)),
     mk_band Steady (Some (of_int q)) (Some (of_int r)), mk_band Healthy (Some (of_int r)) (Some (of_int t)),
     mk_band Pristine (Some (of_int t)) None]"

lemma mapFor_cuts: obtains p q r t where "p < q" "q < r" "r < t" "mapFor v = band_map p q r t"
proof (cases "v = Some LEGACY_BAND_MAPPING_VERSION")
  case True
  show ?thesis by (rule that[of 55 62 68 74]) (use True in \<open>simp_all add: mapFor_def LEGACY_LABEL_BAND_MAP_def band_map_def\<close>)
next
  case False
  show ?thesis by (rule that[of 50 58 65 72]) (use False in \<open>simp_all add: mapFor_def LABEL_BAND_MAP_def band_map_def\<close>)
qed

lemma band_map_find:
  "\<exists>b \<in> set (band_map p q r t). find (\<lambda>b. in_band b c) (band_map p q r t) = Some b \<and> in_band b c"
  by (simp add: band_map_def mk_band_def in_band_def not_less)

lemma band_map_cases:
  assumes "x \<in> set (band_map p q r t)"
  obtains "x = mk_band Fragile None (Some (of_int p))" | "x = mk_band Below_par (Some (of_int p)) (Some (of_int q))"
  | "x = mk_band Steady (Some (of_int q)) (Some (of_int r))" | "x = mk_band Healthy (Some (of_int r)) (Some (of_int t))"
  | "x = mk_band Pristine (Some (of_int t)) None"
  using assms by (auto simp: band_map_def)

lemma band_map_unique:
  assumes "p < q" "q < r" "r < t" "x \<in> set (band_map p q r t)" "in_band x c"
  shows "bd_band x = (if c < of_int p then Fragile else if c < of_int q then Below_par
    else if c < of_int r then Steady else if c < of_int t then Healthy else Pristine)"
proof -
  have lt: "(of_int p :: num) < of_int q" "(of_int q :: num) < of_int r" "(of_int r :: num) < of_int t"
    using assms by simp_all
  from assms(4) show ?thesis
  proof (cases rule: band_map_cases)
    case 1
    then show ?thesis using assms(5) by (simp add: mk_band_def in_band_def)
  next
    case 2
    then show ?thesis using assms(5) by (simp add: mk_band_def in_band_def)
  next
    case 3
    then show ?thesis using assms(5) lt by (simp add: mk_band_def in_band_def)
  next
    case 4
    then show ?thesis using assms(5) lt by (simp add: mk_band_def in_band_def)
  next
    case 5
    then show ?thesis using assms(5) lt by (simp add: mk_band_def in_band_def)
  qed
qed

lemma find_band: assumes "b \<in> set (mapFor v)" shows "find (\<lambda>d. bd_band d = bd_band b) (mapFor v) = Some b"
proof -
  obtain p q r t where m: "mapFor v = band_map p q r t" by (rule mapFor_cuts)
  then have "b \<in> set (band_map p q r t)" using assms by simp
  then show ?thesis unfolding m by (cases rule: band_map_cases) (simp_all add: band_map_def mk_band_def)
qed

lemma labelFor_in_band: "labelFor c v \<in> set (mapFor v) \<and> in_band (labelFor c v) c"
proof (rule mapFor_cuts[of v])
  fix p q r t assume "mapFor v = band_map p q r t"
  then show ?thesis using band_map_find[of p q r t c] by (auto simp: labelFor_def)
qed

lemma map_disjoint:
  assumes "b \<in> set (mapFor v)" "d \<in> set (mapFor v)" "in_band b c" "in_band d c" shows "b = d"
proof -
  obtain p q r t where lt: "p < q" "q < r" "r < t" and m: "mapFor v = band_map p q r t" by (rule mapFor_cuts)
  note u = band_map_unique[OF lt, folded m]
  have eq: "bd_band b = bd_band d"
    unfolding u[OF assms(1,3)] u[OF assms(2,4)] by (rule refl)
  from trans[OF find_band[OF assms(1), unfolded eq, symmetric] find_band[OF assms(2)]]
  show ?thesis by (rule option.inject[THEN iffD1])
qed

text \<open>The cut points are integers, so the floor of a score never leaves its band.\<close>

lemma floor_in_band: assumes "b \<in> set (mapFor v)" "in_band b c" shows "in_band b (of_int \<lfloor>c\<rfloor>)"
proof -
  have lo: "of_int z \<le> c \<Longrightarrow> of_int z \<le> (of_int \<lfloor>c\<rfloor> :: num)" for z by (simp only: of_int_le_iff le_floor_iff)
  have hi: "c < of_int z \<Longrightarrow> of_int \<lfloor>c\<rfloor> < (of_int z :: num)" for z by (rule le_less_trans[OF of_int_floor_le])
  obtain p q r t where "mapFor v = band_map p q r t" by (rule mapFor_cuts)
  then have "b \<in> set (band_map p q r t)" using assms by simp
  then show ?thesis
    using assms(2) by (cases rule: band_map_cases) (auto simp only: mk_band_def in_band_def band_def.simps option.simps lo hi)
qed

text \<open>The label bands partition the composites: under every mapping version the band that
  labelFor returns is the one and only band of the map that contains the composite, so the fallback
  to the first band is never taken.\<close>

theorem labelFor_partition:
  "b \<in> set (mapFor v) \<and> in_band b c \<longleftrightarrow> b = labelFor c v"
  using labelFor_in_band map_disjoint by blast

text \<open>C3. The whole number shown beside a band exists for every composite and its own band,
  carries the same label as the composite under the same mapping, differs from it by less than one
  point, and is the ordinary rounding unless that would leave the band, in which case it is the
  floor.\<close>

theorem bandSafeScore_agrees:
  "\<exists>n. bandSafeScore c (bd_band (labelFor c v)) v = Some n \<and> labelFor (of_int n) v = labelFor c v \<and>
       \<bar>of_int n - c\<bar> < 1 \<and> n = (if in_band (labelFor c v) (of_int (js_round c)) then js_round c else \<lfloor>c\<rfloor>)"
proof -
  define b where "b = labelFor c v"
  have b: "b \<in> set (mapFor v)" "in_band b c" using labelFor_in_band by (auto simp: b_def)
  have fl: "in_band b (of_int \<lfloor>c\<rfloor>)" using floor_in_band b by blast
  have bs: "bandSafeScore c (bd_band b) v = (if in_band b (of_int (js_round c)) then Some (js_round c) else Some \<lfloor>c\<rfloor>)"
    using fl by (simp add: bandSafeScore_def find_band[OF b(1)])
  have lab: "in_band b (of_int n) \<Longrightarrow> labelFor (of_int n) v = b" for n
    using map_disjoint[OF _ b(1)] labelFor_in_band by blast
  have "\<bar>of_int (js_round c) - c\<bar> < 1" using js_round_near[of c] by (auto simp: abs_less_iff)
  moreover have "\<bar>of_int \<lfloor>c\<rfloor> - c\<bar> < 1" by (auto simp: abs_less_iff) linarith+
  ultimately show ?thesis using bs lab fl unfolding b_def[symmetric] by auto
qed

lemma subtotalOf_range:
  assumes "\<forall>x \<in> set ps. \<forall>s. cpi_subtotal x = Some s \<longrightarrow> 0 \<le> s \<and> s \<le> 100" "availableOf ps p"
  shows "0 \<le> subtotalOf ps p \<and> subtotalOf ps p \<le> 100"
  using assms(1) by (rule_tac subtotalOf_available[OF assms(2)]) blast

text \<open>C1. The composite of a stock, in machine arithmetic: it exists exactly when Foundation
  and at least one other pillar are available, and then, for subtotals in 0 to 100, it is in 0 to
  100 too (no rounding of weights or products carries it over 100), the state is scored, and the
  stored band is the one the mapping in force gives for the unrounded composite.\<close>

theorem composite_bounded:
  assumes "\<forall>x \<in> set ps. \<forall>s. cpi_subtotal x = Some s \<longrightarrow> 0 \<le> s \<and> s \<le> 100"
  shows "case cpr_composite (assembleComposite f64 sid nm ps ctx) of
      None \<Rightarrow> (\<not> availableOf ps Foundation \<or> filter (availableOf ps) [Momentum, Market, Ownership] = []) \<and>
        cpr_state (assembleComposite f64 sid nm ps ctx) = CPS_unavailable \<and>
        cpr_labelBand (assembleComposite f64 sid nm ps ctx) = None
    | Some c \<Rightarrow> availableOf ps Foundation \<and> filter (availableOf ps) [Momentum, Market, Ownership] \<noteq> [] \<and>
        0 \<le> c \<and> c \<le> 100 \<and>
        cpr_state (assembleComposite f64 sid nm ps ctx) = CPS_scored \<and>
        cpr_labelBand (assembleComposite f64 sid nm ps ctx) = Some (bd_band (labelFor c (cc_bandMappingVersion ctx)))"
proof (cases "rd_canScore (redistributeWeights f64 (availableOf ps))")
  case True
  let ?w = "final_weights f64 (availableOf ps)" and ?sv = "rd_surviving (redistributeWeights f64 (availableOf ps))"
  have r: "p \<in> set ?sv \<Longrightarrow> 0 \<le> subtotalOf ps p \<and> subtotalOf ps p \<le> 100" for p
    using subtotalOf_range[OF assms] by simp
  have "weightedSum f64 ?w (subtotalOf ps) ?sv \<le> weightedSum f64 ?w (\<lambda>_. 100) ?sv"
    by (rule f64.weightedSum_mono) (use r f64.final_weights_nonneg in auto)
  then have "weightedSum f64 ?w (subtotalOf ps) ?sv \<le> 100" using full_marks[OF True] by simp
  moreover have "0 \<le> weightedSum f64 ?w (subtotalOf ps) ?sv"
    by (rule f64.weightedSum_nonneg) (use r f64.final_weights_nonneg in auto)
  ultimately show ?thesis
    using assemble_scored[OF True, of sid nm ctx] True by (auto simp: redistribute_canScore)
next
  case False
  then show ?thesis using assemble_unavailable[OF False, of sid nm ctx] by (auto simp: redistribute_canScore)
qed

definition sample_inputs :: "num \<Rightarrow> composite_input list" where
  "sample_inputs s =
    [\<lparr>cpi_pillar = Foundation, cpi_subtotal = Some s, cpi_state = CP_scored, cpi_sourcePeriod = ''FY26Q4'', cpi_pillarScoreId = None\<rparr>,
     \<lparr>cpi_pillar = Momentum, cpi_subtotal = Some 70, cpi_state = CP_scored, cpi_sourcePeriod = ''FY26Q4'', cpi_pillarScoreId = None\<rparr>,
     \<lparr>cpi_pillar = Ownership, cpi_subtotal = None, cpi_state = CP_unavailable_redistributed,
      cpi_sourcePeriod = ''FY26Q4'', cpi_pillarScoreId = None\<rparr>]"

definition sample_ctx :: composite_context where
  "sample_ctx = \<lparr>cc_snapshotType = Quarterly, cc_periodKey = ''FY26Q4'', cc_asOfDate = 0, cc_specVersion = None,
     cc_bandMappingVersion = None\<rparr>"

lemma sample_available: "availableOf (sample_inputs s) = avail4 True True False False"
  by (rule ext) (simp add: availableOf_def sample_inputs_def avail4_def split: pillar.split)

theorem composite_bounded_witness:
  "case cpr_composite (assembleComposite f64 ''s1'' ''TCS'' (sample_inputs 66) sample_ctx) of None \<Rightarrow> False
   | Some c \<Rightarrow> 0 \<le> c \<and> c \<le> 100"
proof -
  have h: "\<forall>x \<in> set (sample_inputs 66). \<forall>s. cpi_subtotal x = Some s \<longrightarrow> 0 \<le> s \<and> s \<le> 100"
    by (simp add: sample_inputs_def)
  show ?thesis using composite_bounded[OF h, of "''s1''" "''TCS''" sample_ctx]
    by (simp add: sample_available avail4_def split: option.splits)
qed

text \<open>A stock whose available pillars all have the same or higher subtotals never gets a
  lower composite, in machine arithmetic, as long as the same pillars are available.\<close>

theorem composite_monotone:
  assumes "availableOf qs = availableOf ps"
    and "\<And>p. availableOf ps p \<Longrightarrow> subtotalOf ps p \<le> subtotalOf qs p"
    and "cpr_composite (assembleComposite f64 sid nm ps ctx) = Some c"
  shows "\<exists>d. cpr_composite (assembleComposite f64 sid nm qs ctx) = Some d \<and> c \<le> d"
proof -
  have sc: "rd_canScore (redistributeWeights f64 (availableOf ps))"
    using assms(3) assemble_unavailable[of f64 ps sid nm ctx] by fastforce
  have "weightedSum f64 (final_weights f64 (availableOf ps)) (subtotalOf ps) (rd_surviving (redistributeWeights f64 (availableOf ps)))
     \<le> weightedSum f64 (final_weights f64 (availableOf ps)) (subtotalOf qs) (rd_surviving (redistributeWeights f64 (availableOf ps)))"
    by (rule f64.weightedSum_mono) (use assms(2) f64.final_weights_nonneg in auto)
  then show ?thesis
    using assemble_scored[OF sc, of sid nm ctx] assemble_scored[of f64 qs sid nm ctx] sc assms(1,3) by simp
qed

theorem composite_monotone_witness:
  "\<exists>d. cpr_composite (assembleComposite f64 ''s1'' ''TCS'' (sample_inputs 80) sample_ctx) = Some d \<and>
       the (cpr_composite (assembleComposite f64 ''s1'' ''TCS'' (sample_inputs 60) sample_ctx)) \<le> d"
proof (rule composite_monotone)
  show "availableOf (sample_inputs 80) = availableOf (sample_inputs 60)" by (simp only: sample_available)
  show "subtotalOf (sample_inputs 60) p \<le> subtotalOf (sample_inputs 80) p" if "availableOf (sample_inputs 60) p" for p
    using that by (cases p) (simp_all add: sample_available avail4_def subtotalOf_def byPillar_def sample_inputs_def)
  show "cpr_composite (assembleComposite f64 ''s1'' ''TCS'' (sample_inputs 60) sample_ctx) =
      Some (the (cpr_composite (assembleComposite f64 ''s1'' ''TCS'' (sample_inputs 60) sample_ctx)))"
    using assemble_scored[of f64 "sample_inputs 60" "''s1''" "''TCS''" sample_ctx]
    by (simp add: redistribute_canScore sample_available avail4_def)
qed

text \<open>C2. The weights a composite is computed with, in exact arithmetic and for every
  availability that can be scored: they sum to 1, a pillar has a non-zero weight exactly when it is
  available, Market has half of its redistributed weight and Ownership keeps its redistributed
  weight unchanged.\<close>

theorem applied_weights_exact:
  assumes "rd_canScore (redistributeWeights (\<lambda>x. x) av)"
  shows "final_weights (\<lambda>x. x) av Foundation + final_weights (\<lambda>x. x) av Momentum +
           final_weights (\<lambda>x. x) av Market + final_weights (\<lambda>x. x) av Ownership = 1 \<and>
         2 * final_weights (\<lambda>x. x) av Market = rd_weights (redistributeWeights (\<lambda>x. x) av) Market \<and>
         final_weights (\<lambda>x. x) av Ownership = rd_weights (redistributeWeights (\<lambda>x. x) av) Ownership \<and>
         (\<forall>p. final_weights (\<lambda>x. x) av p \<noteq> 0 \<longleftrightarrow> av p)"
proof -
  have "av = avail4 True (av Momentum) (av Market) (av Ownership)"
    using assms avail4_eta[of av] by (simp add: redistribute_canScore)
  then obtain m k n where av: "av = avail4 True m k n" by blast
  have "m \<or> k \<or> n" using assms by (simp add: redistribute_canScore av avail4_def)
  then show ?thesis unfolding av
    by (cases m; cases k; cases n)
      (simp_all add: halveMarketWeight_def redistributeWeights_def Let_def ALL_PILLARS_def avail4_def split: pillar.split)
qed

theorem applied_weights_exact_witness:
  "final_weights (\<lambda>x. x) (\<lambda>p. p \<noteq> Momentum) Market = 2 / 15 \<and>
   final_weights (\<lambda>x. x) (\<lambda>p. p \<noteq> Momentum) Ownership = 4 / 15 \<and>
   final_weights (\<lambda>x. x) (\<lambda>p. p \<noteq> Momentum) Foundation = 3 / 5"
  using applied_weights_exact[of "\<lambda>p. p \<noteq> Momentum"]
  by (simp add: redistribute_canScore)
    (simp add: halveMarketWeight_def redistributeWeights_def Let_def ALL_PILLARS_def)

end
