(* ===== verification/Market.thy ===== *)
theory Market
  imports MetricScoring Calendar
begin

text \<open>
  The Market pillar, \<open>src/scoring/market\<close>: the seven price sub-components computed from daily closes
  (\<open>universal-subcomponents.ts\<close>) and their roll-up over four categories with renormalisation at both
  levels (\<open>market-universal.ts\<close>).  The series of a stock is a list of dated closes in the order the
  caller supplies.  \<open>Math.log\<close> is the parameter \<open>mlog\<close>; detail texts are left out and exclusion
  reasons are constructors with the numbers of their texts.
\<close>

subsection \<open>Sub-components (\<open>universal-subcomponents.ts\<close>)\<close>

record daily_close =
  dc_date :: instant
  dc_close :: num

definition WIN_A1 :: nat where "WIN_A1 = 252"
definition WIN_A2 :: nat where "WIN_A2 = 756"
definition WIN_DMA :: nat where "WIN_DMA = 200"
definition WIN_VOL :: nat where "WIN_VOL = 90"
definition WIN_MOVE :: nat where "WIN_MOVE = 21"
definition WIN_YEAR :: nat where "WIN_YEAR = 252"
definition B2_QUARTERS_USED :: nat where "B2_QUARTERS_USED = 4"
definition B2_MIN_QUARTER_CLOSES :: nat where "B2_MIN_QUARTER_CLOSES = 7"
definition ANNUALIZE :: num where "ANNUALIZE = js_sqrt 252"

datatype sub_reason =
    Need_days string nat nat
  | Degenerate_range string
  | Nonpositive_dma
  | Need_quarters nat nat
  | No_past_close nat
  | Zero_daily_vol
  | Need_year_return nat
  | Sector_return_thin
  | Need_vol nat
  | Sector_vol_thin
  | Unavailable_reason

record sub_value =
  sv_available :: bool
  sv_value :: "num option"
  sv_reason :: "sub_reason option"

definition ok_value :: "num \<Rightarrow> sub_value" where
  "ok_value v = \<lparr>sv_available = True, sv_value = Some v, sv_reason = None\<rparr>"

definition no_value :: "sub_reason \<Rightarrow> sub_value" where
  "no_value r = \<lparr>sv_available = False, sv_value = None, sv_reason = Some r\<rparr>"

definition upTo :: "daily_close list \<Rightarrow> instant \<Rightarrow> daily_close list" where
  "upTo series asOf = filter (\<lambda>s. dc_date s \<le> asOf) series"

definition stdev :: "(num \<Rightarrow> num) \<Rightarrow> num list \<Rightarrow> num" where
  "stdev R xs =
    (if length xs < 2 then 0
     else (let m = R (foldl (\<lambda>a b. R (a + b)) 0 xs / of_nat (length xs));
               v = R (foldl (\<lambda>a b. R (a + R ((R (b - m)) ^ 2))) 0 xs / of_nat (length xs - 1))
           in js_sqrt v))"

definition median :: "(num \<Rightarrow> num) \<Rightarrow> num list \<Rightarrow> num option" where
  "median R xs =
    (if length xs = 0 then None
     else (let s = sort xs; mid = length s div 2
           in Some (if length s mod 2 \<noteq> 0 then s ! mid else R (R (s ! (mid - 1) + s ! mid) / 2))))"

fun logReturns :: "(num \<Rightarrow> num) \<Rightarrow> (num \<Rightarrow> num) \<Rightarrow> num list \<Rightarrow> num list" where
  "logReturns R mlog (a # b # cs) =
    (if 0 < a then mlog (R (b / a)) # logReturns R mlog (b # cs) else logReturns R mlog (b # cs))"
| "logReturns R mlog _ = []"

definition rangePosition :: "(num \<Rightarrow> num) \<Rightarrow> daily_close list \<Rightarrow> instant \<Rightarrow> nat \<Rightarrow> string \<Rightarrow> sub_value" where
  "rangePosition R series asOf win label =
    (let s = upTo series asOf
     in if length s < win then no_value (Need_days label win (length s))
        else (let w = map dc_close (lastn win s); cur = last w; lo = Min (set w); hi = Max (set w)
              in if hi = lo then no_value (Degenerate_range label)
                 else ok_value (R (R (cur - lo) / R (hi - lo)))))"

definition a1RangePosition52w :: "(num \<Rightarrow> num) \<Rightarrow> daily_close list \<Rightarrow> instant \<Rightarrow> sub_value" where
  "a1RangePosition52w R series asOf = rangePosition R series asOf WIN_A1 ''A1''"

definition a2RangePosition3y :: "(num \<Rightarrow> num) \<Rightarrow> daily_close list \<Rightarrow> instant \<Rightarrow> sub_value" where
  "a2RangePosition3y R series asOf = rangePosition R series asOf WIN_A2 ''A2''"

definition b1Vs200Dma :: "(num \<Rightarrow> num) \<Rightarrow> daily_close list \<Rightarrow> instant \<Rightarrow> sub_value" where
  "b1Vs200Dma R series asOf =
    (let s = upTo series asOf
     in if length s < WIN_DMA then no_value (Need_days ''B1'' WIN_DMA (length s))
        else (let w = map dc_close (lastn WIN_DMA s);
                  dma = R (foldl (\<lambda>a b. R (a + b)) 0 w / of_nat (length w)); cur = last w
              in if dma \<le> 0 then no_value Nonpositive_dma
                 else ok_value (R (R (R (cur - dma) / dma) * 100))))"

record quarter_range =
  q_key :: "int \<times> int"
  q_hi :: num
  q_lo :: num
  q_lastDate :: instant

definition quarter_key :: "instant \<Rightarrow> int \<times> int" where
  "quarter_key t = (utcFullYear t, utcMonth t div 3 + 1)"

fun quarter_add :: "daily_close \<Rightarrow> quarter_range list \<Rightarrow> quarter_range list" where
  \<comment> \<open>\<open>byQ\<close> is a \<open>Map\<close>: entries stay in the order of their first insertion\<close>
  "quarter_add d [] = [\<lparr>q_key = quarter_key (dc_date d), q_hi = dc_close d, q_lo = dc_close d, q_lastDate = dc_date d\<rparr>]"
| "quarter_add d (q # qs) =
    (if q_key q = quarter_key (dc_date d)
     then q\<lparr>q_hi := max (q_hi q) (dc_close d), q_lo := min (q_lo q) (dc_close d),
            q_lastDate := max (q_lastDate q) (dc_date d)\<rparr> # qs
     else q # quarter_add d qs)"

fun trend_count :: "quarter_range list \<Rightarrow> nat" where
  "trend_count (p # q # qs) =
    (if q_hi p < q_hi q then 1 else 0) + (if q_lo p < q_lo q then 1 else 0) + trend_count (q # qs)"
| "trend_count _ = 0"

definition b2QuarterTrend :: "daily_close list \<Rightarrow> instant \<Rightarrow> sub_value" where
  "b2QuarterTrend series asOf =
    (let s = upTo series asOf;
         quarters = sort_key q_lastDate (foldl (\<lambda>qs d. quarter_add d qs) [] s)
     in if length quarters < B2_MIN_QUARTER_CLOSES then no_value (Need_quarters B2_MIN_QUARTER_CLOSES (length quarters))
        else ok_value (of_nat (trend_count (lastn B2_QUARTERS_USED quarters))))"

definition b3RecentMove :: "(num \<Rightarrow> num) \<Rightarrow> (num \<Rightarrow> num) \<Rightarrow> daily_close list \<Rightarrow> instant \<Rightarrow> sub_value" where
  "b3RecentMove R mlog series asOf =
    (let s = upTo series asOf
     in if length s < WIN_VOL + 1 then no_value (Need_days ''B3'' (WIN_VOL + 1) (length s))
        else (let closes = map dc_close s; cur = last closes; past = closes ! (length closes - 1 - WIN_MOVE)
              in if past \<le> 0 then no_value (No_past_close WIN_MOVE)
                 else (let ret21 = R (R (cur - past) / past);
                           dailyVol = stdev R (logReturns R mlog (lastn (WIN_VOL + 1) closes))
                       in if dailyVol \<le> 0 then no_value Zero_daily_vol
                          else ok_value (R (ret21 / R (dailyVol * js_sqrt (of_nat WIN_MOVE)))))))"

definition stockOneYearReturnPct :: "(num \<Rightarrow> num) \<Rightarrow> daily_close list \<Rightarrow> instant \<Rightarrow> num option" where
  "stockOneYearReturnPct R series asOf =
    (let s = upTo series asOf
     in if length s < WIN_YEAR + 1 then None
        else (let closes = map dc_close s; cur = last closes; past = closes ! (length closes - 1 - WIN_YEAR)
              in if past \<le> 0 then None else Some (R (R (R (cur - past) / past) * 100))))"

definition stockAnnualizedVol90 :: "(num \<Rightarrow> num) \<Rightarrow> (num \<Rightarrow> num) \<Rightarrow> daily_close list \<Rightarrow> instant \<Rightarrow> num option" where
  "stockAnnualizedVol90 R mlog series asOf =
    (let s = upTo series asOf
     in if length s < WIN_VOL + 1 then None
        else (let dailyVol = stdev R (logReturns R mlog (map dc_close (lastn (WIN_VOL + 1) s)))
              in if 0 < dailyVol then Some (R (dailyVol * ANNUALIZE)) else None))"

definition c1RelativeStrength :: "(num \<Rightarrow> num) \<Rightarrow> daily_close list \<Rightarrow> instant \<Rightarrow> num option \<Rightarrow> sub_value" where
  "c1RelativeStrength R stockSeries asOf sectorMedian1yrPct =
    (case stockOneYearReturnPct R stockSeries asOf of None \<Rightarrow> no_value (Need_year_return WIN_YEAR)
     | Some stk \<Rightarrow> (case sectorMedian1yrPct of None \<Rightarrow> no_value Sector_return_thin
                   | Some sec \<Rightarrow> ok_value (R (stk - sec))))"

definition d1VolRatio :: "(num \<Rightarrow> num) \<Rightarrow> (num \<Rightarrow> num) \<Rightarrow> daily_close list \<Rightarrow> instant \<Rightarrow> num option \<Rightarrow> sub_value" where
  "d1VolRatio R mlog stockSeries asOf baseline =
    (case stockAnnualizedVol90 R mlog stockSeries asOf of None \<Rightarrow> no_value (Need_vol WIN_VOL)
     | Some v \<Rightarrow> (case baseline of None \<Rightarrow> no_value Sector_vol_thin
                 | Some b \<Rightarrow> if b \<le> 0 then no_value Sector_vol_thin else ok_value (R (v / b))))"

record peer_series =
  psr_symbol :: string
  psr_series :: "daily_close list"

record sector_return =
  sr_median :: "num option"
  sr_n :: nat
  sr_contributors :: "(string \<times> num) list"

definition sectorOneYearReturnMedian :: "(num \<Rightarrow> num) \<Rightarrow> peer_series list \<Rightarrow> instant \<Rightarrow> sector_return" where
  "sectorOneYearReturnMedian R peers asOf =
    (let contributors = concat (map (\<lambda>p. case stockOneYearReturnPct R (psr_series p) asOf of None \<Rightarrow> []
                                        | Some r \<Rightarrow> [(psr_symbol p, r)]) peers)
     in \<lparr>sr_median = median R (map snd contributors), sr_n = length contributors, sr_contributors = contributors\<rparr>)"

text \<open>The sampled windows of one peer: every \<open>MOVE\<close>-th index from \<open>t\<close> on.\<close>

function vol_samples :: "(num \<Rightarrow> num) \<Rightarrow> (num \<Rightarrow> num) \<Rightarrow> daily_close list \<Rightarrow> nat \<Rightarrow> num list" where
  "vol_samples R mlog s t =
    (if t < length s
     then (let v = stdev R (logReturns R mlog (map dc_close (drop (t - WIN_VOL) (take (t + 1) s))))
           in (if 0 < v then [R (v * ANNUALIZE)] else []) @ vol_samples R mlog s (t + WIN_MOVE))
     else [])"
  by pat_completeness auto
termination by (relation "measure (\<lambda>(R, mlog, s, t). length s - t)") (auto simp: WIN_MOVE_def)

declare vol_samples.simps [simp del]

record sector_baseline =
  sb_baseline :: "num option"
  sb_nPeers :: nat
  sb_nObs :: nat
  sb_thin :: bool

definition sectorBaselineVol :: "(num \<Rightarrow> num) \<Rightarrow> (num \<Rightarrow> num) \<Rightarrow> peer_series list \<Rightarrow> instant \<Rightarrow> sector_baseline" where
  "sectorBaselineVol R mlog peers asOf =
    (let windowStart = setUTCFullYear asOf (utcFullYear asOf - 3);
         qual = filter (\<lambda>s. WIN_VOL + 1 \<le> length s) (map (\<lambda>p. upTo (psr_series p) asOf) peers);
         obs = concat (map (\<lambda>s. vol_samples R mlog s
                 (max WIN_VOL (length s - length (filter (\<lambda>d. windowStart \<le> dc_date d) s)))) qual)
     in if length qual < 4
        then \<lparr>sb_baseline = None, sb_nPeers = length qual, sb_nObs = length obs, sb_thin = True\<rparr>
        else \<lparr>sb_baseline = median R obs, sb_nPeers = length qual, sb_nObs = length obs, sb_thin = False\<rparr>)"

subsection \<open>Scores and roll-up (\<open>market-universal.ts\<close>)\<close>

datatype sub_key = A1 | A2 | B1 | B2 | B3 | C1 | D1

datatype category = CatA | CatB | CatC | CatD

datatype cut = Continuous absolute_bars direction | Categorical

definition mk_bars :: "num \<Rightarrow> num \<Rightarrow> num \<Rightarrow> num \<Rightarrow> num \<Rightarrow> absolute_bars" where
  "mk_bars e g a c d = \<lparr>excellent = e, good = g, acceptable = a, concerning = c, distress = d\<rparr>"

fun CUTS :: "(num \<Rightarrow> num) \<Rightarrow> sub_key \<Rightarrow> cut" where
  "CUTS R A1 = Continuous (mk_bars (R (8/10)) (R (6/10)) (R (4/10)) (R (2/10)) 0) Higher_better"
| "CUTS R A2 = Continuous (mk_bars (R (8/10)) (R (6/10)) (R (4/10)) (R (2/10)) 0) Higher_better"
| "CUTS R B1 = Continuous (mk_bars 15 3 (- 3) (- 15) (- 27)) Higher_better"
| "CUTS R B2 = Categorical"
| "CUTS R B3 = Continuous (mk_bars 1 (R (3/10)) (- R (3/10)) (- 1) (- R (17/10))) Higher_better"
| "CUTS R C1 = Continuous (mk_bars 20 5 (- 5) (- 20) (- 35)) Higher_better"
| "CUTS R D1 = Continuous (mk_bars (R (70/100)) (R (85/100)) (R (115/100)) (R (130/100)) (R (145/100))) Lower_better"

fun CATEGORIES :: "category \<Rightarrow> sub_key list" where
  "CATEGORIES CatA = [A1, A2]"
| "CATEGORIES CatB = [B1, B2, B3]"
| "CATEGORIES CatC = [C1]"
| "CATEGORIES CatD = [D1]"

fun CAT_OF :: "sub_key \<Rightarrow> category" where
  "CAT_OF A1 = CatA" | "CAT_OF A2 = CatA" | "CAT_OF B1 = CatB" | "CAT_OF B2 = CatB"
| "CAT_OF B3 = CatB" | "CAT_OF C1 = CatC" | "CAT_OF D1 = CatD"

definition market_bandFromScore :: "num \<Rightarrow> band" where
  "market_bandFromScore s = (if 90 \<le> s then Excellent else if 75 \<le> s then Good else if 60 \<le> s then Acceptable
     else if 40 \<le> s then Concerning else Distress)"

record scored_sub =
  ss_key :: sub_key
  ss_category :: category
  ss_available :: bool
  ss_rawValue :: "num option"
  ss_score :: "num option"
  ss_band :: "band option"
  ss_saturated :: bool
  ss_capped :: bool
  ss_reason :: "sub_reason option"

definition b2_score :: "num \<Rightarrow> num" where
  "b2_score c = (if c \<le> 1 then 20 else if c = 2 then 40 else if c = 3 then 60 else if c = 4 then 75 else 90)"

definition scoreSubComponent :: "(num \<Rightarrow> num) \<Rightarrow> sub_key \<Rightarrow> sub_value \<Rightarrow> scored_sub" where
  "scoreSubComponent R key v =
    (if \<not> sv_available v \<or> sv_value v = None
     then \<lparr>ss_key = key, ss_category = CAT_OF key, ss_available = False, ss_rawValue = sv_value v, ss_score = None,
           ss_band = None, ss_saturated = False, ss_capped = False,
           ss_reason = Some (nullish (sv_reason v) Unavailable_reason)\<rparr>
     else (let c = the (sv_value v)
           in case CUTS R key of
                Categorical \<Rightarrow> (let score = b2_score c in
                  \<lparr>ss_key = key, ss_category = CAT_OF key, ss_available = True, ss_rawValue = Some c, ss_score = Some score,
                   ss_band = Some (market_bandFromScore score), ss_saturated = False, ss_capped = (5 \<le> c), ss_reason = None\<rparr>)
              | Continuous bars dir \<Rightarrow> (let l1 = computeLens1 R c bars dir in
                  \<lparr>ss_key = key, ss_category = CAT_OF key, ss_available = True, ss_rawValue = Some c,
                   ss_score = Some (l1r_score l1), ss_band = Some (l1r_band l1), ss_saturated = l1r_saturated l1,
                   ss_capped = False, ss_reason = None\<rparr>)))"

record category_rollup =
  cat_category :: category
  cat_members :: "sub_key list"
  cat_present :: "sub_key list"
  cat_available :: bool
  cat_score :: "num option"
  cat_withinWeights :: "sub_key \<Rightarrow> num option"
  cat_renormalized :: bool

datatype market_flag =
    MF_category_empty category "sub_key list"
  | MF_category_renormalized category "sub_key list" "sub_key list" num
  | MF_pillar_renormalized "category list" num

datatype market_state = MS_scored | MS_unavailable_redistributed

record market_result =
  mr_state :: market_state
  mr_subtotal :: "num option"
  mr_subs :: "scored_sub list"
  mr_categories :: "category_rollup list"
  mr_survivingCategories :: "category list"
  mr_categoryWeight :: "num option"
  mr_effectiveSubWeights :: "sub_key \<Rightarrow> num option"
  mr_reason :: "nat option"
  mr_flags :: "market_flag list"

definition ALL_CATEGORIES :: "category list" where
  "ALL_CATEGORIES = [CatA, CatB, CatC, CatD]"

definition subByKey :: "scored_sub list \<Rightarrow> sub_key \<Rightarrow> scored_sub option" where
  "subByKey subs k = map_of (rev (map (\<lambda>s. (ss_key s, s)) subs)) k"

definition sub_available :: "scored_sub list \<Rightarrow> sub_key \<Rightarrow> bool" where
  "sub_available subs k = (case subByKey subs k of None \<Rightarrow> False | Some s \<Rightarrow> ss_available s)"

definition sub_score :: "scored_sub list \<Rightarrow> sub_key \<Rightarrow> num" where
  "sub_score subs k = the (Option.bind (subByKey subs k) ss_score)"

definition rollCategory :: "(num \<Rightarrow> num) \<Rightarrow> scored_sub list \<Rightarrow> category \<Rightarrow> category_rollup \<times> market_flag list" where
  "rollCategory R subs cat =
    (let members = CATEGORIES cat; present = filter (sub_available subs) members
     in if length present = 0
        then (\<lparr>cat_category = cat, cat_members = members, cat_present = [], cat_available = False, cat_score = None,
               cat_withinWeights = (\<lambda>_. None), cat_renormalized = False\<rparr>, [MF_category_empty cat members])
        else (let w = R (1 / of_nat (length present));
                  score = foldl (\<lambda>s k. R (s + R (w * sub_score subs k))) 0 present;
                  renormalized = (length present < length members)
              in (\<lparr>cat_category = cat, cat_members = members, cat_present = present, cat_available = True,
                   cat_score = Some score, cat_withinWeights = (\<lambda>k. if k \<in> set present then Some w else None),
                   cat_renormalized = renormalized\<rparr>,
                  (if renormalized
                   then [MF_category_renormalized cat (filter (\<lambda>k. k \<notin> set present) members) present w] else []))))"

definition assembleMarketUniversal :: "(num \<Rightarrow> num) \<Rightarrow> scored_sub list \<Rightarrow> market_result" where
  "assembleMarketUniversal R subs =
    (let rolled = map (rollCategory R subs) ALL_CATEGORIES;
         categories = map fst rolled; flags = concat (map snd rolled);
         surviving = map cat_category (filter cat_available categories)
     in if length surviving < 2
        then \<lparr>mr_state = MS_unavailable_redistributed, mr_subtotal = None, mr_subs = subs, mr_categories = categories,
              mr_survivingCategories = surviving, mr_categoryWeight = None, mr_effectiveSubWeights = (\<lambda>_. None),
              mr_reason = Some (length surviving), mr_flags = flags\<rparr>
        else (let catWeight = R (1 / of_nat (length surviving)); avail = filter cat_available categories;
                  subtotal = foldl (\<lambda>s c. R (s + R (catWeight * the (cat_score c)))) 0 avail;
                  effective = foldl (\<lambda>e c. foldl (\<lambda>e k. e(k \<mapsto> R (catWeight * the (cat_withinWeights c k)))) e (cat_present c))
                                (\<lambda>_. None) avail
              in \<lparr>mr_state = MS_scored, mr_subtotal = Some subtotal, mr_subs = subs, mr_categories = categories,
                  mr_survivingCategories = surviving, mr_categoryWeight = Some catWeight,
                  mr_effectiveSubWeights = effective, mr_reason = None,
                  mr_flags = flags @ (if length surviving < 4 then [MF_pillar_renormalized surviving catWeight] else [])\<rparr>))"

subsection \<open>Equal-weight means in machine arithmetic\<close>

definition equal_mean :: "(num \<Rightarrow> num) \<Rightarrow> ('a \<Rightarrow> num) \<Rightarrow> 'a list \<Rightarrow> num" where
  \<comment> \<open>the sum that both levels of the roll-up compute\<close>
  "equal_mean R f ks = foldl (\<lambda>s k. R (s + R (R (1 / of_nat (length ks)) * f k))) 0 ks"

lemma equal_mean_full:
  "equal_mean f64 (\<lambda>_. 100) [a] = 100" "equal_mean f64 (\<lambda>_. 100) [a, b] = 100"
  "equal_mean f64 (\<lambda>_. 100) [a, b, c] \<le> 100" "equal_mean f64 (\<lambda>_. 100) [a, b, c, d] = 100"
proof -
  have 1: "f64 1 = 1" "f64 100 = 100" by (simp_all add: f64.one f64.fix_num)
  have 2: "f64 (1/2) = 1/2" using f64.fix_half[of 1] by simp
  have n: "f64 50 = 50" "f64 25 = 25" "f64 75 = 75" by (simp_all add: f64.fix_num)
  have 3: "f64 (f64 (f64 (f64 (1/3) * 100) + f64 (f64 (1/3) * 100)) + f64 (f64 (1/3) * 100)) \<le> 100" by code_simp
  have 4: "f64 (1/4) = 1/4" using f64.fix_quarter[of 1] by simp
  show "equal_mean f64 (\<lambda>_. 100) [a] = 100" "equal_mean f64 (\<lambda>_. 100) [a, b] = 100"
    "equal_mean f64 (\<lambda>_. 100) [a, b, c, d] = 100"
    by (simp_all add: equal_mean_def 1 2 4 n)
  show "equal_mean f64 (\<lambda>_. 100) [a, b, c] \<le> 100" using 3 by (simp add: equal_mean_def f64_idem)
qed

lemma equal_mean_range:
  assumes "\<And>k. k \<in> set ks \<Longrightarrow> 0 \<le> f k \<and> f k \<le> 100" "ks \<noteq> []" "length ks \<le> 4"
  shows "0 \<le> equal_mean f64 f ks \<and> equal_mean f64 f ks \<le> 100"
proof
  have w: "0 \<le> f64 (1 / of_nat (length ks))" by (intro f64.nonneg) simp
  show "0 \<le> equal_mean f64 f ks"
    unfolding equal_mean_def by (rule f64.sum_nonneg) (use assms w in \<open>auto intro!: f64.nonneg mult_nonneg_nonneg\<close>)
  have "equal_mean f64 f ks \<le> equal_mean f64 (\<lambda>_. 100) ks"
    unfolding equal_mean_def by (rule f64.sum_mono) (use assms w in \<open>auto intro!: f64.mono mult_left_mono\<close>)
  moreover have "equal_mean f64 (\<lambda>_. 100) ks \<le> 100"
  proof -
    consider (1) a where "ks = [a]" | (2) a b where "ks = [a, b]" | (3) a b c where "ks = [a, b, c]"
      | (4) a b c d where "ks = [a, b, c, d]"
      using assms(2,3) by (cases ks rule: list.exhaust; cases "tl ks" rule: list.exhaust; cases "tl (tl ks)" rule: list.exhaust;
        cases "tl (tl (tl ks))" rule: list.exhaust) auto
    then show ?thesis by cases (simp_all only: equal_mean_full order_refl)
  qed
  ultimately show "equal_mean f64 f ks \<le> 100" by simp
qed

lemma equal_mean_exact: "equal_mean (\<lambda>x. x) f ks = sum_list (map f ks) / of_nat (length ks)"
proof -
  have gen: "foldl (\<lambda>s k. s + w * f k) z ks = z + w * sum_list (map f ks)" for w z
    by (induction ks arbitrary: z) (simp_all add: distrib_left add.assoc)
  show ?thesis unfolding equal_mean_def gen by simp
qed

subsection \<open>Scores of the sub-components\<close>

lemma b2_score_range: "20 \<le> b2_score c \<and> b2_score c \<le> 90"
  by (simp add: b2_score_def)

lemma scoreSub_key [simp]: "ss_key (scoreSubComponent R k v) = k"
  by (auto simp: scoreSubComponent_def Let_def split: cut.split)

lemma scoreSub_available: "ss_available (scoreSubComponent R k v) \<longleftrightarrow> sv_available v \<and> sv_value v \<noteq> None"
  by (auto simp: scoreSubComponent_def Let_def split: cut.split)

lemma computeLens1_f64_range: "0 \<le> l1r_score (computeLens1 f64 v b d) \<and> l1r_score (computeLens1 f64 v b d) \<le> 100"
  using f64.scoreL1_range[of v b d None None] by (simp add: scoreL1_def)

text \<open>Each Market component in machine arithmetic has a score exactly when its value is
  available, in 0 to 100, and a reason exactly when it has none.\<close>

theorem sub_component_score:
  "case ss_score (scoreSubComponent f64 k v) of
     None \<Rightarrow> \<not> (sv_available v \<and> sv_value v \<noteq> None) \<and> \<not> ss_available (scoreSubComponent f64 k v) \<and>
             ss_reason (scoreSubComponent f64 k v) \<noteq> None
   | Some s \<Rightarrow> sv_available v \<and> sv_value v \<noteq> None \<and> ss_available (scoreSubComponent f64 k v) \<and> 0 \<le> s \<and> s \<le> 100 \<and>
             ss_reason (scoreSubComponent f64 k v) = None"
proof -
  have b: "0 \<le> b2_score c \<and> b2_score c \<le> 100" for c using b2_score_range[of c] by simp
  show ?thesis using computeLens1_f64_range b
    by (cases k) (auto simp: scoreSubComponent_def Let_def)
qed

subsection \<open>The roll-up\<close>

lemma rollCategory_fields:
  "cat_category (fst (rollCategory R subs c)) = c"
  "cat_available (fst (rollCategory R subs c)) \<longleftrightarrow> filter (sub_available subs) (CATEGORIES c) \<noteq> []"
  "cat_present (fst (rollCategory R subs c)) = filter (sub_available subs) (CATEGORIES c)"
  "filter (sub_available subs) (CATEGORIES c) \<noteq> [] \<Longrightarrow> cat_score (fst (rollCategory R subs c)) =
     Some (equal_mean R (sub_score subs) (filter (sub_available subs) (CATEGORIES c)))"
  by (auto simp: rollCategory_def Let_def equal_mean_def)

definition surviving :: "scored_sub list \<Rightarrow> category list" where
  "surviving subs = filter (\<lambda>c. filter (sub_available subs) (CATEGORIES c) \<noteq> []) ALL_CATEGORIES"

lemma market_fields:
  "mr_survivingCategories (assembleMarketUniversal R subs) = surviving subs"
  "mr_subtotal (assembleMarketUniversal R subs) =
     (if length (surviving subs) < 2 then None
      else Some (equal_mean R (\<lambda>c. equal_mean R (sub_score subs) (filter (sub_available subs) (CATEGORIES c))) (surviving subs)))"
  "mr_state (assembleMarketUniversal R subs) = (if length (surviving subs) < 2 then MS_unavailable_redistributed else MS_scored)"
proof -
  have av: "filter cat_available (map (\<lambda>c. fst (rollCategory R subs c)) cs) =
      map (\<lambda>c. fst (rollCategory R subs c)) (filter (\<lambda>c. filter (sub_available subs) (CATEGORIES c) \<noteq> []) cs)" for cs
    by (induction cs) (simp_all add: rollCategory_fields(2))
  have sv: "map cat_category (filter cat_available (map (\<lambda>c. fst (rollCategory R subs c)) ALL_CATEGORIES)) = surviving subs"
    by (simp add: av surviving_def rollCategory_fields(1) comp_def)
  have fl: "filter (\<lambda>x. cat_available (fst (rollCategory R subs x))) ALL_CATEGORIES = surviving subs"
    by (simp add: surviving_def rollCategory_fields(2))
  have fold: "foldl (\<lambda>s c. R (s + R (w * the (cat_score c)))) z (filter cat_available (map (\<lambda>c. fst (rollCategory R subs c)) ALL_CATEGORIES))
     = foldl (\<lambda>s c. R (s + R (w * equal_mean R (sub_score subs) (filter (sub_available subs) (CATEGORIES c))))) z (surviving subs)" for w z
    unfolding av surviving_def foldl_map
    by (intro foldl_cong refl) (simp add: rollCategory_fields(4))
  show "mr_survivingCategories (assembleMarketUniversal R subs) = surviving subs"
    "mr_subtotal (assembleMarketUniversal R subs) =
     (if length (surviving subs) < 2 then None
      else Some (equal_mean R (\<lambda>c. equal_mean R (sub_score subs) (filter (sub_available subs) (CATEGORIES c))) (surviving subs)))"
    "mr_state (assembleMarketUniversal R subs) = (if length (surviving subs) < 2 then MS_unavailable_redistributed else MS_scored)"
    by (simp_all add: assembleMarketUniversal_def Let_def map_map comp_def sv fold fl equal_mean_def[of R _ "surviving subs"])
qed

definition ALL_SUBS :: "sub_key list" where "ALL_SUBS = [A1, A2, B1, B2, B3, C1, D1]"

definition scoreAll :: "(num \<Rightarrow> num) \<Rightarrow> (sub_key \<Rightarrow> sub_value) \<Rightarrow> scored_sub list" where
  "scoreAll R vals = map (\<lambda>k. scoreSubComponent R k (vals k)) ALL_SUBS"

lemma subByKey_all: "subByKey (scoreAll R vals) k = Some (scoreSubComponent R k (vals k))"
  unfolding subByKey_def scoreAll_def
  by (rule map_of_is_SomeI) (cases k; simp add: ALL_SUBS_def comp_def)+

text \<open>The Market pillar in machine arithmetic has a subtotal exactly when at least two of
  its categories survive, and then the subtotal is in 0 to 100 and the state is scored; otherwise
  the pillar is unavailable and its weight redistributed.\<close>

theorem market_pillar:
  "case mr_subtotal (assembleMarketUniversal f64 (scoreAll f64 vals)) of
     None \<Rightarrow> length (surviving (scoreAll f64 vals)) < 2 \<and>
             mr_state (assembleMarketUniversal f64 (scoreAll f64 vals)) = MS_unavailable_redistributed
   | Some t \<Rightarrow> 2 \<le> length (surviving (scoreAll f64 vals)) \<and> 0 \<le> t \<and> t \<le> 100 \<and>
             mr_state (assembleMarketUniversal f64 (scoreAll f64 vals)) = MS_scored"
proof -
  let ?subs = "scoreAll f64 vals"
  have s: "0 \<le> sub_score ?subs k \<and> sub_score ?subs k \<le> 100" if "sub_available ?subs k" for k
    using that sub_component_score[where k = k and v = "vals k"]
    by (auto simp: sub_available_def sub_score_def subByKey_all scoreSub_available split: option.splits)
  have c: "0 \<le> equal_mean f64 (sub_score ?subs) (filter (sub_available ?subs) (CATEGORIES c)) \<and>
       equal_mean f64 (sub_score ?subs) (filter (sub_available ?subs) (CATEGORIES c)) \<le> 100" if "c \<in> set (surviving ?subs)" for c
  proof (rule equal_mean_range)
    show "length (filter (sub_available ?subs) (CATEGORIES c)) \<le> 4" using length_filter_le[of _ "CATEGORIES c"] by (cases c) (auto intro: order_trans)
  qed (use that s in \<open>auto simp: surviving_def\<close>)
  have len: "length (surviving ?subs) \<le> 4" using length_filter_le[of _ ALL_CATEGORIES] by (auto simp: surviving_def ALL_CATEGORIES_def)
  show ?thesis
    using equal_mean_range[of "surviving ?subs" "\<lambda>c. equal_mean f64 (sub_score ?subs) (filter (sub_available ?subs) (CATEGORIES c))",
        OF c _ len]
    by (cases "surviving ?subs = []") (auto simp: market_fields not_less)
qed

text \<open>In exact arithmetic the subtotal of the Market pillar is the mean over the
  surviving categories of the mean over their available components.\<close>

theorem market_mean_of_means:
  "mr_subtotal (assembleMarketUniversal (\<lambda>x. x) subs) =
    (if length (surviving subs) < 2 then None
     else Some (sum_list (map (\<lambda>c. let ks = filter (sub_available subs) (CATEGORIES c)
                                  in sum_list (map (sub_score subs) ks) / of_nat (length ks)) (surviving subs))
                / of_nat (length (surviving subs))))"
  by (simp add: market_fields(2) equal_mean_exact Let_def)

subsection \<open>Range positions, trends and medians\<close>

text \<open>The range position over a window of closes, in machine arithmetic, is missing
  exactly when the window is too short or all its closes are the same, and otherwise is between 0
  and 1.\<close>

theorem range_position_unit:
  "case sv_value (rangePosition f64 series asOf (Suc n) label) of
     None \<Rightarrow> length (upTo series asOf) < Suc n \<or>
       (\<exists>c. set (map dc_close (lastn (Suc n) (upTo series asOf))) = {c})
   | Some v \<Rightarrow> Suc n \<le> length (upTo series asOf) \<and> 0 \<le> v \<and> v \<le> 1"
proof (cases "length (upTo series asOf) < Suc n")
  case True
  then show ?thesis by (simp add: rangePosition_def Let_def no_value_def)
next
  case False
  define w where "w = map dc_close (lastn (Suc n) (upTo series asOf))"
  have w: "w \<noteq> []" using False by (auto simp: w_def lastn_def)
  have lo: "Min (set w) \<le> last w" and hi: "last w \<le> Max (set w)" using w by simp_all
  show ?thesis
  proof (cases "Max (set w) = Min (set w)")
    case True
    have "x = last w" if "x \<in> set w" for x
    proof -
      have "Min (set w) \<le> x" "x \<le> Max (set w)" using that by (simp_all add: Min_le Max_ge del: Min_le_iff Max_ge_iff)
      then show ?thesis using True lo hi by linarith
    qed
    then have "set w = {last w}" using w by (auto intro: last_in_set)
    then show ?thesis using True by (auto simp: rangePosition_def Let_def no_value_def w_def[symmetric])
  next
    case neq: False
    then have lt: "Min (set w) < Max (set w)" using lo hi by simp
    show ?thesis
      using f64.ratio_unit[OF lo hi lt] False neq by (simp add: rangePosition_def Let_def ok_value_def w_def[symmetric])
  qed
qed

lemma trend_count_le: "trend_count qs \<le> 2 * (length qs - 1)"
  by (induction qs rule: trend_count.induct) auto

text \<open>The quarter trend is a count of at most six.\<close>

lemma quarter_trend_count:
  "case sv_value (b2QuarterTrend series asOf) of None \<Rightarrow> True
   | Some v \<Rightarrow> (\<exists>k \<le> 6. v = of_nat k) \<and> ss_score (scoreSubComponent f64 B2 (b2QuarterTrend series asOf)) = Some (b2_score v)"
proof -
  have "trend_count (lastn B2_QUARTERS_USED qs) \<le> 6" for qs
    using trend_count_le[of "lastn B2_QUARTERS_USED qs"] by (simp add: B2_QUARTERS_USED_def)
  then show ?thesis by (auto simp: b2QuarterTrend_def Let_def ok_value_def no_value_def scoreSubComponent_def)
qed

lemma median_perm: assumes "mset xs = mset ys" shows "median R xs = median R ys"
proof -
  have "sort xs = sort ys" by (rule properties_for_sort) (use assms in simp_all)
  moreover have "length xs = length ys" by (rule mset_eq_length[OF assms])
  ultimately show ?thesis by (simp add: median_def Let_def)
qed

lemma mset_concat_map: "mset ps = mset qs \<Longrightarrow> mset (concat (map f ps)) = mset (concat (map f qs))"
proof -
  assume "mset ps = mset qs"
  then have "image_mset (\<lambda>p. mset (f p)) (mset ps) = image_mset (\<lambda>p. mset (f p)) (mset qs)" by simp
  then show ?thesis by (simp add: mset_concat sum_mset_sum_list[symmetric] comp_def)
qed

text \<open>The sector baselines (median one-year return, pooled volatility) do not depend on
  the order of the peers, for any arithmetic and any logarithm.\<close>

theorem sector_pool_order:
  assumes "mset peers = mset peers'"
  shows "sectorBaselineVol R mlog peers asOf = sectorBaselineVol R mlog peers' asOf \<and>
    sr_median (sectorOneYearReturnMedian R peers asOf) = sr_median (sectorOneYearReturnMedian R peers' asOf) \<and>
    sr_n (sectorOneYearReturnMedian R peers asOf) = sr_n (sectorOneYearReturnMedian R peers' asOf)"
proof -
  have q: "mset (filter P (map f peers)) = mset (filter P (map f peers'))" for P and f :: "peer_series \<Rightarrow> daily_close list"
    using assms by (simp add: mset_filter)
  have len: "length (filter P (map f peers)) = length (filter P (map f peers'))" for P and f :: "peer_series \<Rightarrow> daily_close list"
    using mset_eq_length[OF q] .
  have obs: "mset (concat (map g (filter P (map f peers)))) = mset (concat (map g (filter P (map f peers'))))"
    for P and f :: "peer_series \<Rightarrow> daily_close list" and g :: "daily_close list \<Rightarrow> num list"
    by (rule mset_concat_map) (rule q)
  have con: "mset (concat (map h peers)) = mset (concat (map h peers'))" for h :: "peer_series \<Rightarrow> (string \<times> num) list"
    by (rule mset_concat_map) (rule assms)
  show ?thesis
    unfolding sectorBaselineVol_def sectorOneYearReturnMedian_def Let_def
    using len median_perm[OF obs] mset_eq_length[OF obs] mset_eq_length[OF con]
      median_perm[OF arg_cong[OF con, of "image_mset snd", folded mset_map]]
    by auto
qed

theorem sector_pool_order_witness:
  "sectorBaselineVol f64 (\<lambda>x. x - 1) [\<lparr>psr_symbol = ''A'', psr_series = []\<rparr>, \<lparr>psr_symbol = ''B'', psr_series = []\<rparr>] 0 =
   sectorBaselineVol f64 (\<lambda>x. x - 1) [\<lparr>psr_symbol = ''B'', psr_series = []\<rparr>, \<lparr>psr_symbol = ''A'', psr_series = []\<rparr>] 0"
  using sector_pool_order[of "[\<lparr>psr_symbol = ''A'', psr_series = []\<rparr>, \<lparr>psr_symbol = ''B'', psr_series = []\<rparr>]"
    "[\<lparr>psr_symbol = ''B'', psr_series = []\<rparr>, \<lparr>psr_symbol = ''A'', psr_series = []\<rparr>]" f64 "\<lambda>x. x - 1" 0]
  by simp

end
