(* ===== verification/PriceRange.thy ===== *)
theory PriceRange
  imports Market
begin

text \<open>
  The trailing 52-week range of daily closes, \<open>src/scoring/price/range.ts\<close>, and the price probe
  over a filing window that \<open>score-pass.ts\<close> builds from it for the promoter category of the
  Ownership flow.  A date text \<open>YYYY-MM-DD\<close> is its day number.
\<close>

definition MIN_TRAILING_DAYS :: nat where "MIN_TRAILING_DAYS = 180"

datatype range_reason = No_close | Only_days nat | Degenerate

record range_position =
  rp_available :: bool
  rp_position :: "num option"
  rp_low :: "num option"
  rp_high :: "num option"
  rp_close :: "num option"
  rp_evalDate :: "int option"
  rp_trailingDays :: nat
  rp_reason :: "range_reason option"

definition evaluation_day :: "daily_close list \<Rightarrow> instant \<Rightarrow> daily_close option" where
  \<comment> \<open>the latest close on or before \<open>asOf\<close>, the first of equal dates\<close>
  "evaluation_day series asOf = foldl (\<lambda>d s. if dc_date s \<le> asOf \<and>
     (case d of None \<Rightarrow> True | Some e \<Rightarrow> dc_date e < dc_date s) then Some s else d) None series"

definition trailing_year :: "daily_close list \<Rightarrow> instant \<Rightarrow> daily_close list" where
  "trailing_year series d = (let lo = setUTCFullYear d (utcFullYear d - 1)
     in filter (\<lambda>s. lo < dc_date s \<and> dc_date s \<le> d) series)"

definition rangePositionAsOf :: "(num \<Rightarrow> num) \<Rightarrow> daily_close list \<Rightarrow> instant \<Rightarrow> range_position" where
  "rangePositionAsOf R series asOf = (case evaluation_day series asOf of
     None \<Rightarrow> \<lparr>rp_available = False, rp_position = None, rp_low = None, rp_high = None, rp_close = None,
              rp_evalDate = None, rp_trailingDays = 0, rp_reason = Some No_close\<rparr>
   | Some d \<Rightarrow>
     (let trailing = trailing_year series (dc_date d); n = length trailing;
          base = \<lparr>rp_available = False, rp_position = None, rp_low = None, rp_high = None, rp_close = Some (dc_close d),
                  rp_evalDate = Some (day_of (dc_date d)), rp_trailingDays = n, rp_reason = Some (Only_days n)\<rparr>
      in if n < MIN_TRAILING_DAYS then base
         else (let mn = Min (set (map dc_close trailing)); mx = Max (set (map dc_close trailing))
               in if mx = mn then base\<lparr>rp_low := Some mn, rp_high := Some mx, rp_reason := Some Degenerate\<rparr>
                  else base\<lparr>rp_available := True, rp_position := Some (R (R (dc_close d - mn) / R (mx - mn))),
                            rp_low := Some mn, rp_high := Some mx, rp_reason := None\<rparr>)))"

subsection \<open>The probe of a filing window (\<open>makePriceProbe\<close>)\<close>

record price_eval =
  pe_available :: bool
  pe_dipTouched :: bool
  pe_touchedOn :: "int option"
  pe_positionAtTouch :: "num option"
  pe_windowStartExclusive :: int
  pe_windowEndInclusive :: int

fun probe_days :: "(num \<Rightarrow> num) \<Rightarrow> daily_close list \<Rightarrow> price_eval \<Rightarrow> daily_close list \<Rightarrow> price_eval" where
  \<comment> \<open>the loop over the days of the window; \<open>assessedAny\<close> is the field \<open>available\<close> of the accumulator\<close>
  "probe_days R series acc [] = acc"
| "probe_days R series acc (d # ds) = (let rp = rangePositionAsOf R series (dc_date d)
     in if rp_trailingDays rp < MIN_TRAILING_DAYS then probe_days R series acc ds
        else (case rp_position rp of
            None \<Rightarrow> probe_days R series (acc\<lparr>pe_available := True\<rparr>) ds
          | Some p \<Rightarrow> if p \<le> 1 / 4
              then acc\<lparr>pe_available := True, pe_dipTouched := True, pe_touchedOn := Some (day_of (dc_date d)),
                       pe_positionAtTouch := Some p\<rparr>
              else probe_days R series (acc\<lparr>pe_available := True\<rparr>) ds))"

definition makePriceProbe :: "(num \<Rightarrow> num) \<Rightarrow> daily_close list \<Rightarrow> instant \<Rightarrow> instant \<Rightarrow> price_eval" where
  "makePriceProbe R series priorExcl currentIncl =
    probe_days R series
      \<lparr>pe_available = False, pe_dipTouched = False, pe_touchedOn = None, pe_positionAtTouch = None,
       pe_windowStartExclusive = day_of priorExcl, pe_windowEndInclusive = day_of currentIncl\<rparr>
      (filter (\<lambda>s. priorExcl < dc_date s \<and> dc_date s \<le> currentIncl) series)"

subsection \<open>Correctness\<close>

lemma evaluation_day_snoc: "evaluation_day (xs @ [s]) asOf = (if dc_date s \<le> asOf \<and>
     (case evaluation_day xs asOf of None \<Rightarrow> True | Some e \<Rightarrow> dc_date e < dc_date s) then Some s else evaluation_day xs asOf)"
  by (simp add: evaluation_day_def)

lemma evaluation_day_spec:
  "case evaluation_day series asOf of None \<Rightarrow> \<forall>s \<in> set series. asOf < dc_date s
   | Some d \<Rightarrow> d \<in> set series \<and> dc_date d \<le> asOf \<and> (\<forall>s \<in> set series. dc_date s \<le> asOf \<longrightarrow> dc_date s \<le> dc_date d)"
proof (induction series rule: rev_induct)
  case Nil
  then show ?case by (simp add: evaluation_day_def)
next
  case (snoc s xs)
  show ?case
  proof (cases "evaluation_day xs asOf")
    case None
    then show ?thesis using snoc.IH by (auto simp: evaluation_day_snoc)
  next
    case (Some e)
    then show ?thesis using snoc.IH by (force simp: evaluation_day_snoc)
  qed
qed

lemma evaluation_day_trailing: "evaluation_day series asOf = Some d \<Longrightarrow> d \<in> set (trailing_year series (dc_date d))"
  using evaluation_day_spec[of series asOf] year_before[of "dc_date d"] by (simp add: trailing_year_def Let_def)

definition rising_closes :: "daily_close list" where
  "rising_closes = map (\<lambda>i. \<lparr>dc_date = int i * DAY_MS, dc_close = of_nat i\<rparr>) [0 ..< 200]"

lemma rising_closes_kernel: "rp_available (rangePositionAsOf R rising_closes (199 * DAY_MS))"
proof -
  have mem: "s \<in> set rising_closes \<longleftrightarrow> (\<exists>i < 200. s = \<lparr>dc_date = int i * DAY_MS, dc_close = of_nat i\<rparr>)" for s
    by (auto simp: rising_closes_def)
  have last: "\<lparr>dc_date = 199 * DAY_MS, dc_close = 199\<rparr> \<in> set rising_closes" unfolding mem by (intro exI[of _ 199]) simp
  obtain d where d: "evaluation_day rising_closes (199 * DAY_MS) = Some d"
    using evaluation_day_spec[of rising_closes "199 * DAY_MS"] last by (fastforce split: option.splits)
  then have dd: "dc_date d = 199 * DAY_MS"
    using evaluation_day_spec[of rising_closes "199 * DAY_MS"] last by fastforce
  have lo: "setUTCFullYear (199 * DAY_MS) (utcFullYear (199 * DAY_MS) - 1) < 0" by code_simp
  have t: "trailing_year rising_closes (dc_date d) = rising_closes"
    unfolding trailing_year_def Let_def dd by (rule filter_True) (use lo in \<open>auto simp: mem DAY_MS_def\<close>)
  have img: "dc_close ` set rising_closes = of_nat ` {..<200}" by (simp add: rising_closes_def image_image lessThan_atLeast0)
  have m: "Min (of_nat ` {..<200 :: nat} :: num set) \<le> 0" "199 \<le> Max (of_nat ` {..<200 :: nat} :: num set)"
    by (intro Min_le Max_ge; force simp: image_iff)+
  have "Max (of_nat ` {..<200 :: nat} :: num set) \<noteq> Min (of_nat ` {..<200 :: nat} :: num set)" using m by linarith
  then have "Max (set (map dc_close rising_closes)) \<noteq> Min (set (map dc_close rising_closes))" by (simp only: set_map img not_False_eq_True)
  moreover have "length rising_closes = 200" by (simp add: rising_closes_def)
  ultimately show ?thesis using d by (simp add: rangePositionAsOf_def t Let_def MIN_TRAILING_DAYS_def del: set_map)
qed

lemma rising_closes_market: "\<not> sv_available (a1RangePosition52w R rising_closes (199 * DAY_MS))"
proof -
  have "length (upTo rising_closes (199 * DAY_MS)) \<le> length rising_closes" by (simp add: upTo_def)
  also have "\<dots> < 252" by (simp add: rising_closes_def)
  finally show ?thesis by (simp add: a1RangePosition52w_def rangePosition_def Let_def no_value_def WIN_A1_def)
qed

text \<open>C24. The 52-week range kernel, in machine arithmetic: it has a position exactly when it
  is available, the position is between 0 and 1, and then its close is one of the series on or
  before the day asked for with at least 180 closes in the calendar year up to it. It is not the
  range of the Market pillar: for 200 daily closes the kernel is available and Market's component A1
  is not.\<close>

theorem range_kernel:
  "(case rp_position (rangePositionAsOf f64 series asOf) of
      None \<Rightarrow> \<not> rp_available (rangePositionAsOf f64 series asOf) \<and> rp_reason (rangePositionAsOf f64 series asOf) \<noteq> None
    | Some p \<Rightarrow> rp_available (rangePositionAsOf f64 series asOf) \<and> 0 \<le> p \<and> p \<le> 1 \<and>
        (\<exists>d \<in> set series. dc_date d \<le> asOf \<and> rp_close (rangePositionAsOf f64 series asOf) = Some (dc_close d) \<and>
           180 \<le> length (trailing_year series (dc_date d)))) \<and>
   rp_available (rangePositionAsOf f64 rising_closes (199 * DAY_MS)) \<and>
   \<not> sv_available (a1RangePosition52w f64 rising_closes (199 * DAY_MS))"
proof -
  have "case rp_position (rangePositionAsOf f64 series asOf) of
      None \<Rightarrow> \<not> rp_available (rangePositionAsOf f64 series asOf) \<and> rp_reason (rangePositionAsOf f64 series asOf) \<noteq> None
    | Some p \<Rightarrow> rp_available (rangePositionAsOf f64 series asOf) \<and> 0 \<le> p \<and> p \<le> 1 \<and>
        (\<exists>d \<in> set series. dc_date d \<le> asOf \<and> rp_close (rangePositionAsOf f64 series asOf) = Some (dc_close d) \<and>
           180 \<le> length (trailing_year series (dc_date d)))"
  proof (cases "evaluation_day series asOf")
    case None
    then show ?thesis by (simp add: rangePositionAsOf_def)
  next
    case (Some d)
    define w where "w = map dc_close (trailing_year series (dc_date d))"
    have "dc_close d \<in> set w" using evaluation_day_trailing[OF Some] by (simp add: w_def)
    then have b: "Min (set w) \<le> dc_close d" "dc_close d \<le> Max (set w)" by simp_all
    have d: "d \<in> set series" "dc_date d \<le> asOf" using evaluation_day_spec[of series asOf] Some by simp_all
    show ?thesis
    proof (cases "length (trailing_year series (dc_date d)) < 180 \<or> Max (set w) = Min (set w)")
      case True
      then show ?thesis using Some by (auto simp: rangePositionAsOf_def Let_def MIN_TRAILING_DAYS_def w_def)
    next
      case False
      then have "Min (set w) < Max (set w)" using b by simp
      then show ?thesis using f64.ratio_unit[OF b] False Some d
        by (auto simp: rangePositionAsOf_def Let_def MIN_TRAILING_DAYS_def w_def[symmetric] simp del: set_map)
    qed
  qed
  then show ?thesis using rising_closes_kernel rising_closes_market by blast
qed

end
