(* ===== verification/OwnershipFlow.thy ===== *)
theory OwnershipFlow
  imports PriceRange
begin

text \<open>
  The flow layer of the first Ownership score, \<open>src/scoring/ownership\<close>: the dilution detector
  (\<open>dilution.ts\<close>), the band cuts (\<open>flow-bands.ts\<close>) and the four flow categories (\<open>flow.ts\<close>) over the
  quarterly shareholding rows of \<open>types.ts\<close>.  Share counts are the unbounded \<open>bigint\<close> of the code,
  percentages are numbers; reason texts and evidence blobs are left out.
\<close>

subsection \<open>Rows (\<open>types.ts\<close>)\<close>

record ownership_quarter =
  oq_asOnDate :: instant
  oq_quarter :: string
  oq_fiscalYear :: string
  oq_promoterShares :: "int option"
  oq_promoterTotalShares :: "int option"
  oq_totalShares :: "int option"
  oq_pledgedShares :: "int option"
  oq_promoterPct :: "num option"
  oq_fiiPct :: "num option"
  oq_diiPct :: "num option"
  oq_retailPct :: "num option"

definition periodKeyOf :: "ownership_quarter \<Rightarrow> string" where
  "periodKeyOf q = oq_fiscalYear q @ oq_quarter q"

definition count_number :: "(num \<Rightarrow> num) \<Rightarrow> int \<Rightarrow> num" where
  \<comment> \<open>\<open>Number(n)\<close> of a \<open>bigint\<close>\<close>
  "count_number R n = R (of_int n)"

subsection \<open>Dilution (\<open>dilution.ts\<close>)\<close>

datatype dilution_verdict = No_drop | Dilution | Genuine_reduction | Indeterminate

record dilution_result =
  dr_verdict :: dilution_verdict
  dr_pctDrop :: "num option"
  dr_promoterPctQ :: "num option"
  dr_promoterPctQ1 :: "num option"
  dr_promoterShareChange :: "num option"
  dr_totalShareChange :: "num option"
  dr_priorQuarterGap :: bool

definition TOL_FRACTION :: "(num \<Rightarrow> num) \<Rightarrow> num" where "TOL_FRACTION R = R (5 / 1000)"
definition GAP_MONTHS_THRESHOLD :: int where "GAP_MONTHS_THRESHOLD = 4"

definition isPriorQuarterGap :: "instant \<Rightarrow> instant \<Rightarrow> bool" where
  "isPriorQuarterGap currentDate priorDate \<longleftrightarrow>
    GAP_MONTHS_THRESHOLD < (utcFullYear currentDate - utcFullYear priorDate) * 12 + (utcMonth currentDate - utcMonth priorDate)"

definition share_change :: "(num \<Rightarrow> num) \<Rightarrow> int option \<Rightarrow> int option \<Rightarrow> num option" where
  "share_change R q q1 = (case (q, q1) of (Some a, Some b) \<Rightarrow> Some (count_number R (a - b)) | _ \<Rightarrow> None)"

definition stake_pct :: "(num \<Rightarrow> num) \<Rightarrow> int \<Rightarrow> int \<Rightarrow> num" where
  "stake_pct R part whole = R (R (count_number R part / count_number R whole) * 100)"

definition classifyDilution :: "(num \<Rightarrow> num) \<Rightarrow> ownership_quarter \<Rightarrow> ownership_quarter option \<Rightarrow> dilution_result" where
  "classifyDilution R current prior = (case prior of
     None \<Rightarrow> \<lparr>dr_verdict = Indeterminate, dr_pctDrop = None, dr_promoterPctQ = None, dr_promoterPctQ1 = None,
              dr_promoterShareChange = None, dr_totalShareChange = None, dr_priorQuarterGap = False\<rparr>
   | Some p1 \<Rightarrow>
     (let base = \<lparr>dr_verdict = Indeterminate, dr_pctDrop = None, dr_promoterPctQ = None, dr_promoterPctQ1 = None,
            dr_promoterShareChange = share_change R (oq_promoterShares current) (oq_promoterShares p1),
            dr_totalShareChange = share_change R (oq_totalShares current) (oq_totalShares p1),
            dr_priorQuarterGap = isPriorQuarterGap (oq_asOnDate current) (oq_asOnDate p1)\<rparr>
      in case (oq_promoterShares current, oq_totalShares current, oq_promoterShares p1, oq_totalShares p1) of
        (Some pS_Q, Some tS_Q, Some pS_Q1, Some tS_Q1) \<Rightarrow>
          if tS_Q \<le> 0 \<or> tS_Q1 \<le> 0
          then base\<lparr>dr_promoterPctQ := (if 0 < tS_Q then Some (stake_pct R pS_Q tS_Q) else None),
                    dr_promoterPctQ1 := (if 0 < tS_Q1 then Some (stake_pct R pS_Q1 tS_Q1) else None)\<rparr>
          else (let promoterPctQ = stake_pct R pS_Q tS_Q; promoterPctQ1 = stake_pct R pS_Q1 tS_Q1;
                    pctDrop = R (promoterPctQ1 - promoterPctQ);
                    full = base\<lparr>dr_pctDrop := Some pctDrop, dr_promoterPctQ := Some promoterPctQ,
                                dr_promoterPctQ1 := Some promoterPctQ1\<rparr>;
                    promoterShareChange = count_number R (pS_Q - pS_Q1);
                    totalShareChange = count_number R (tS_Q - tS_Q1);
                    tol = R (TOL_FRACTION R * count_number R pS_Q1)
                in if pctDrop \<le> 0 then full\<lparr>dr_verdict := No_drop\<rparr>
                   else if \<bar>promoterShareChange\<bar> \<le> tol \<and> tol < totalShareChange then full\<lparr>dr_verdict := Dilution\<rparr>
                   else if promoterShareChange < - tol then full\<lparr>dr_verdict := Genuine_reduction\<rparr>
                   else full)
      | _ \<Rightarrow> base))"

subsection \<open>Bands (\<open>flow-bands.ts\<close>)\<close>

definition landInsiderNetBand :: "num \<Rightarrow> string \<times> int" where
  "landInsiderNetBand netInrCr =
    (if 3 < netInrCr then (''net_buy_gt_3cr'', 3) else if 1 < netInrCr then (''net_buy_1_3cr'', 2)
     else if - 1 \<le> netInrCr then (''neutral_within_1cr'', 0) else if - 3 \<le> netInrCr then (''net_sell_1_3cr'', - 2)
     else (''net_sell_gt_3cr'', - 4))"

definition landBlockNetBand :: "(num \<Rightarrow> num) \<Rightarrow> num \<Rightarrow> string \<times> int" where
  "landBlockNetBand R netPctOfMcap =
    (if 1 / 2 < netPctOfMcap then (''net_buy_gt_0p5pct'', 6) else if R (1 / 10) < netPctOfMcap then (''net_buy_0p1_0p5pct'', 3)
     else if - R (1 / 10) \<le> netPctOfMcap then (''neutral_within_0p1pct'', 0)
     else if - (1 / 2) \<le> netPctOfMcap then (''net_sell_0p1_0p5pct'', - 3) else (''net_sell_gt_0p5pct'', - 6))"

datatype trend_state = Three_up | Three_down | Trend_mixed | Trend_neutral

definition TREND_BONUS_VALUE :: int where "TREND_BONUS_VALUE = 2"

definition classifyTrend :: "int list \<Rightarrow> trend_state" where
  "classifyTrend windowSigns =
    (if length windowSigns < 3 then Trend_neutral
     else (let signs = map sgn (take 3 windowSigns)
           in if list_ex (\<lambda>s. s = 0) signs then Trend_mixed
              else if list_all (\<lambda>s. 0 < s) signs then Three_up
              else if list_all (\<lambda>s. s < 0) signs then Three_down else Trend_mixed))"

definition trendBonus :: "trend_state \<Rightarrow> int" where
  "trendBonus st = (if st = Three_up then TREND_BONUS_VALUE else if st = Three_down then - TREND_BONUS_VALUE else 0)"

subsection \<open>Categories (\<open>flow.ts\<close>)\<close>

definition CAP_A :: "int \<times> int" where "CAP_A = (- 4, 6)"
definition CAP_B :: "int \<times> int" where "CAP_B = (- 6, 6)"
definition CAP_C :: "int \<times> int" where "CAP_C = (- 8, 5)"
definition CAP_D :: "int \<times> int" where "CAP_D = (- 6, 6)"
definition FLOW_CLAMP :: "int \<times> int" where "FLOW_CLAMP = (- 12, 12)"
definition B_MIN_MOVE_PP :: "(num \<Rightarrow> num) \<Rightarrow> num" where "B_MIN_MOVE_PP R = R (5 / 100)"
definition ELIGIBLE_INR_CR :: num where "ELIGIBLE_INR_CR = 1"

definition clamp :: "int \<Rightarrow> int \<times> int \<Rightarrow> int" where
  "clamp x cap = min (snd cap) (max (fst cap) x)"

datatype flow_category = A_promoter | B_institutional | C_insider | D_block
datatype flow_state = Flow_scored | Dormant_no_feed | Dormant_no_data

record flow_result =
  fc_category :: flow_category
  fc_state :: flow_state
  fc_firedRule :: "string option"
  fc_rawSubScore :: int
  fc_cap :: "int \<times> int"
  fc_cappedSubScore :: int
  fc_bandLanded :: "string option"
  fc_netFlowValue :: "num option"
  fc_trendState :: "trend_state option"

definition category_done :: "flow_category \<Rightarrow> int \<times> int \<Rightarrow> flow_state \<Rightarrow> string option \<Rightarrow> int \<Rightarrow> flow_result" where
  \<comment> \<open>the local \<open>done\<close> and the early returns: the raw score is capped on the way out\<close>
  "category_done c cap st rule raw =
    \<lparr>fc_category = c, fc_state = st, fc_firedRule = rule, fc_rawSubScore = raw, fc_cap = cap,
     fc_cappedSubScore = clamp raw cap, fc_bandLanded = None, fc_netFlowValue = None, fc_trendState = None\<rparr>"

datatype side = Buy_side | Sell_side
datatype insider_role = Promoter_role | Director_role

record insider_txn =
  it_date :: instant
  it_insiderId :: string
  it_side :: side
  it_valueInrCr :: num
  it_role :: insider_role

record block_txn =
  bt_date :: instant
  bt_side :: side
  bt_valueInrCr :: num

record flow_feeds =
  ff_insiderTxns :: "insider_txn list option"
  ff_blockTxns :: "block_txn list option"
  ff_marketCapInrCr :: "num option"

definition computeCategoryA :: "(num \<Rightarrow> num) \<Rightarrow> ownership_quarter \<Rightarrow> ownership_quarter option \<Rightarrow> bool \<Rightarrow> price_eval option \<Rightarrow> flow_result" where
  "computeCategoryA R current prior r2Fired price =
    (let out = category_done A_promoter CAP_A
     in case prior of None \<Rightarrow> out Flow_scored None 0
        | Some p1 \<Rightarrow>
          (case (oq_promoterShares current, oq_promoterShares p1) of
             (Some q, Some q1) \<Rightarrow>
               (let delta = R (count_number R q - count_number R q1); tol = R (TOL_FRACTION R * count_number R q1)
                in if tol < delta
                   then (if (case price of None \<Rightarrow> False | Some e \<Rightarrow> pe_available e \<and> pe_dipTouched e)
                         then out Flow_scored (Some ''A1'') 6 else out Flow_scored (Some ''A2'') 3)
                   else if delta < - tol
                   then (if r2Fired then out Flow_scored None 0 else out Flow_scored (Some ''A3'') (- 4))
                   else out Flow_scored None 0)
           | _ \<Rightarrow> out Dormant_no_data None 0))"

definition delta_of :: "(num \<Rightarrow> num) \<Rightarrow> num option \<Rightarrow> num option \<Rightarrow> num option" where
  "delta_of R a b = (case (a, b) of (Some x, Some y) \<Rightarrow> Some (R (x - y)) | _ \<Rightarrow> None)"

definition accumulated_before :: "(num \<Rightarrow> num) \<Rightarrow> ownership_quarter \<Rightarrow> ownership_quarter \<Rightarrow> bool" where
  \<comment> \<open>the accumulation of the quarter before, over consecutive filings only\<close>
  "accumulated_before R prior pp \<longleftrightarrow> \<not> isPriorQuarterGap (oq_asOnDate prior) (oq_asOnDate pp) \<and>
    (case (delta_of R (oq_fiiPct prior) (oq_fiiPct pp), delta_of R (oq_diiPct prior) (oq_diiPct pp)) of
       (Some f, Some d) \<Rightarrow> B_MIN_MOVE_PP R \<le> R (f + d) | _ \<Rightarrow> False)"

definition computeCategoryB :: "(num \<Rightarrow> num) \<Rightarrow> ownership_quarter list \<Rightarrow> nat \<Rightarrow> flow_result" where
  "computeCategoryB R rows snapshotIdx =
    (let out = category_done B_institutional CAP_B; current = rows ! snapshotIdx
     in if snapshotIdx < 1 then out Flow_scored None 0
        else (let prior = rows ! (snapshotIdx - 1)
          in case (delta_of R (oq_fiiPct current) (oq_fiiPct prior), delta_of R (oq_diiPct current) (oq_diiPct prior)) of
            (Some fD, Some dD) \<Rightarrow>
              (let combined = R (fD + dD);
                   b1 = (1 \<le> dD \<and> fD \<le> - B_MIN_MOVE_PP R \<and> - (1 / 2) \<le> fD \<and>
                         (case delta_of R (oq_promoterPct current) (oq_promoterPct prior) of
                            None \<Rightarrow> False | Some pD \<Rightarrow> \<bar>pD\<bar> \<le> 1 / 2));
                   b1Value = (if b1 then 5 else 0 :: int);
                   accThisQ = (B_MIN_MOVE_PP R \<le> combined);
                   accPrevQ = (accThisQ \<and> 2 \<le> snapshotIdx \<and> accumulated_before R prior (rows ! (snapshotIdx - 2)));
                   accRule = (if accPrevQ then ''B2'' else ''B3'');
                   accValue = (if accThisQ then (if accPrevQ then 5 else 3) else 0 :: int);
                   positive = max b1Value accValue;
                   ruleParts = (if b1Value = positive \<and> b1 then [''B1''] else []) @
                               (if accValue = positive \<and> accThisQ then [accRule] else [])
               in if fD \<le> - (1 / 2) \<and> dD \<le> - (1 / 2) then out Flow_scored (Some ''B4'') (- 8)
                  else if positive = 0 then out Flow_scored None 0
                  else out Flow_scored (Some (case ruleParts of [a, b] \<Rightarrow> a @ ''='' @ b | _ \<Rightarrow> concat ruleParts)) positive)
          | _ \<Rightarrow> out Dormant_no_data None 0))"

definition net_of :: "(num \<Rightarrow> num) \<Rightarrow> ('a \<Rightarrow> side) \<Rightarrow> ('a \<Rightarrow> num) \<Rightarrow> 'a list \<Rightarrow> num" where
  \<comment> \<open>buys less sells, each summed on its own\<close>
  "net_of R sd v txns = R (rsum R v (filter (\<lambda>t. sd t = Buy_side) txns) - rsum R v (filter (\<lambda>t. sd t = Sell_side) txns))"

definition insider_window :: "insider_txn list \<Rightarrow> instant \<Rightarrow> instant \<Rightarrow> insider_txn list" where
  "insider_window txns from to = filter (\<lambda>t. ELIGIBLE_INR_CR \<le> it_valueInrCr t \<and>
     (it_role t = Promoter_role \<or> it_role t = Director_role) \<and> from < it_date t \<and> it_date t \<le> to) txns"

definition block_window :: "block_txn list \<Rightarrow> instant \<Rightarrow> instant \<Rightarrow> block_txn list" where
  "block_window txns from to = filter (\<lambda>t. ELIGIBLE_INR_CR \<le> bt_valueInrCr t \<and> from < bt_date t \<and> bt_date t \<le> to) txns"

definition month_windows :: "instant \<Rightarrow> (instant \<times> instant) list" where
  \<comment> \<open>three consecutive windows of 30 days, the newest first\<close>
  "month_windows asOf = map (\<lambda>k. (asOf - k * 30 * DAY_MS - 30 * DAY_MS, asOf - k * 30 * DAY_MS)) [0, 1, 2]"

definition insider_points :: "nat \<Rightarrow> nat \<Rightarrow> nat \<Rightarrow> nat \<Rightarrow> num \<Rightarrow> string \<times> int \<times> string option" where
  \<comment> \<open>rule, points and band for numbers of distinct sellers, buys, distinct buyers and sells\<close>
  "insider_points sellers buys buyers sells net =
    (if 3 \<le> sellers \<and> buys = 0 then (''C2'', - 8, None)
     else if 3 \<le> buyers \<and> sells = 0 then (''C1'', 5, None)
     else (''C3'', snd (landInsiderNetBand net), Some (fst (landInsiderNetBand net))))"

definition computeCategoryC :: "(num \<Rightarrow> num) \<Rightarrow> flow_feeds \<Rightarrow> instant \<Rightarrow> flow_result" where
  "computeCategoryC R feeds asOf = (case ff_insiderTxns feeds of
     None \<Rightarrow> category_done C_insider CAP_C Dormant_no_feed None 0
   | Some txns \<Rightarrow>
     (let win = insider_window txns (asOf - 30 * DAY_MS) asOf;
          buys = filter (\<lambda>t. it_side t = Buy_side) win; sells = filter (\<lambda>t. it_side t = Sell_side) win;
          netInrCr = net_of R it_side it_valueInrCr win;
          signs = map (\<lambda>(from, to). sgn (snd (landInsiderNetBand (net_of R it_side it_valueInrCr (insider_window txns from to)))))
            (month_windows asOf);
          trend = classifyTrend signs
      in case insider_points (card (it_insiderId ` set sells)) (length buys) (card (it_insiderId ` set buys)) (length sells) netInrCr of
         (rule, points, band) \<Rightarrow>
           (category_done C_insider CAP_C Flow_scored (Some rule) (points + trendBonus trend))
             \<lparr>fc_bandLanded := band, fc_netFlowValue := Some netInrCr, fc_trendState := Some trend\<rparr>))"

definition block_pct :: "(num \<Rightarrow> num) \<Rightarrow> block_txn list \<Rightarrow> num \<Rightarrow> instant \<Rightarrow> instant \<Rightarrow> num" where
  "block_pct R txns mcap from to = R (R (net_of R bt_side bt_valueInrCr (block_window txns from to) / mcap) * 100)"

definition computeCategoryD :: "(num \<Rightarrow> num) \<Rightarrow> flow_feeds \<Rightarrow> instant \<Rightarrow> flow_result" where
  "computeCategoryD R feeds asOf = (case ff_blockTxns feeds of
     None \<Rightarrow> category_done D_block CAP_D Dormant_no_feed None 0
   | Some txns \<Rightarrow>
     (case ff_marketCapInrCr feeds of
        None \<Rightarrow> category_done D_block CAP_D Dormant_no_data None 0
      | Some mcap \<Rightarrow>
        if mcap \<le> 0 then category_done D_block CAP_D Dormant_no_data None 0
        else (let netPct = block_pct R txns mcap (asOf - 30 * DAY_MS) asOf;
                  band = landBlockNetBand R netPct;
                  signs = map (\<lambda>(from, to). sgn (snd (landBlockNetBand R (block_pct R txns mcap from to)))) (month_windows asOf);
                  trend = classifyTrend signs
              in (category_done D_block CAP_D Flow_scored (Some ''D'') (snd band + trendBonus trend))
                   \<lparr>fc_bandLanded := Some (fst band), fc_netFlowValue := Some netPct, fc_trendState := Some trend\<rparr>)))"

record flow_total =
  ft_A :: flow_result
  ft_B :: flow_result
  ft_C :: flow_result
  ft_D :: flow_result
  ft_raw :: int
  ft_clamped :: int

definition computeFlow :: "(num \<Rightarrow> num) \<Rightarrow> ownership_quarter list \<Rightarrow> nat \<Rightarrow> bool \<Rightarrow>
    (instant \<Rightarrow> instant \<Rightarrow> price_eval) option \<Rightarrow> flow_feeds \<Rightarrow> flow_total" where
  "computeFlow R rows snapshotIdx r2Fired priceProbe feeds =
    (let current = rows ! snapshotIdx;
         prior = (if 1 \<le> snapshotIdx then Some (rows ! (snapshotIdx - 1)) else None);
         price = (case (prior, priceProbe) of
            (Some p, Some probe) \<Rightarrow> Some (probe (oq_asOnDate p) (oq_asOnDate current)) | _ \<Rightarrow> None);
         a = computeCategoryA R current prior r2Fired price; b = computeCategoryB R rows snapshotIdx;
         c = computeCategoryC R feeds (oq_asOnDate current); d = computeCategoryD R feeds (oq_asOnDate current);
         raw = fc_cappedSubScore a + fc_cappedSubScore b + fc_cappedSubScore c + fc_cappedSubScore d
     in \<lparr>ft_A = a, ft_B = b, ft_C = c, ft_D = d, ft_raw = raw, ft_clamped = clamp raw FLOW_CLAMP\<rparr>)"

end
