(* ===== verification/Guardrail.thy ===== *)
theory Guardrail
  imports Metrics MetricScoring OwnershipFlow "HOL-Library.List_Lexorder" "HOL-Library.Char_ord"
begin

text \<open>
  The guardrail's signatures, \<open>src/scoring/guardrail/types.ts\<close> and \<open>signatures/\<close>: the analysis of the
  profit lines below operations (\<open>below-line-core.ts\<close>), the eleven signatures A-1 to C-2, the registry and
  the contract that says what each may do (\<open>registry.ts\<close>).  A result keeps its evidence
  (\<open>triggeringValues\<close>, thresholds apart) as a value of \<open>evidence\<close>; the \<open>explanation\<close> sentence and the
  fixed reason texts of the metric tables are left out.
\<close>

subsection \<open>Inputs and results (\<open>types.ts\<close>)\<close>

datatype outcome = O1 | O2 | O3 | O4 | O5 | O6

datatype tier = Auto_tier | Review_tier

datatype signature_key = A_1 | A_2 | A_3 | A_4 | B_1 | B_2 | B_3 | B_4 | B_5 | C_1 | C_2

datatype signature_category = Category_A | Category_B | Category_B_bank | Category_C

record latest_fundamental =
  lf_fiscalYear :: string
  lf_revenue :: "num option"
  lf_netProfit :: "num option"
  lf_netWorth :: "num option"
  lf_totalAssets :: "num option"
  lf_profitBeforeTax :: "num option"
  lf_tax :: "num option"
  lf_otherIncome :: "num option"
  lf_financeCosts :: "num option"
  lf_operatingMargin :: "num option"

record quarterly_filing =
  qf_daysPastExpected :: "num option"
  qf_consecutiveMissedQuarters :: num

record history_depth =
  hd_fundamentalRows :: nat
  hd_shareholdingRows :: nat

record activity =
  ac_isActive :: bool
  ac_consecutiveNoPriceDays :: num

datatype event_type = Bonus_event | Split_event | Rights_event | Other_event

record corporate_action =
  ca_hasNearbyEvent :: bool
  ca_eventTypes :: "event_type list option"
  ca_shareCountChangePct :: "num option"

record stock_input =
  si_stockId :: string
  si_symbol :: string
  si_industryPath :: industry
  si_snapshotKey :: string
  si_latestFundamental :: "latest_fundamental option"
  si_priorFundamental :: "latest_fundamental option"
  si_promoterPct :: "num option"
  si_quarterlyFiling :: "quarterly_filing option"
  si_history :: "history_depth option"
  si_activity :: "activity option"
  si_bandFlipDetected :: bool
  si_corporateAction :: "corporate_action option"

datatype fund_field = Revenue_field | NetProfit_field | NetWorth_field | TotalAssets_field

datatype affected_reason = Depends_on "fund_field list" | Stated_reason

record affected_metric =
  am_metricKey :: string
  am_pillar :: pillar
  am_reason :: affected_reason

subsection \<open>Below the operating line (\<open>below-line-core.ts\<close>)\<close>

datatype below_note = Prior_not_positive | Margin_missing | Tax_rate_unusable | Below_line_unavailable
  | Prior_tax_unverified | Prior_share_unverified

record below_line =
  bl_netProfitCurr :: "num option"
  bl_netProfitPrior :: "num option"
  bl_profitYoyPct :: "num option"
  bl_profitDropPct :: "num option"
  bl_profitSignFlip :: bool
  bl_profitSwingAbs :: "num option"
  bl_npSwingPctAbs :: "num option"
  bl_opmChangePp :: "num option"
  bl_opmCurrentPositive :: "bool option"
  bl_opmFlat3pp :: "bool option"
  bl_pbtSwingPctAbs :: "num option"
  bl_effTaxRateCurr :: "num option"
  bl_otherIncomeShareOfPbt :: "num option"
  bl_operatingProfitDerived :: "num option"
  bl_belowLineAmount :: "num option"
  bl_belowLineShareOfProfit :: "num option"
  bl_belowLineShareOfSwing :: "num option"
  bl_notes :: "below_note list"

definition guard_eps :: "(num \<Rightarrow> num) \<Rightarrow> num" where "guard_eps R = R (1 / 10 ^ 9)"

definition guard_pct :: "(num \<Rightarrow> num) \<Rightarrow> num \<Rightarrow> num \<Rightarrow> num" where
  "guard_pct R x y = R (R (x / y) * 100)"

fun present2 :: "'a option \<Rightarrow> 'b option \<Rightarrow> ('a \<times> 'b) option" where
  \<comment> \<open>both operands are present\<close>
  "present2 (Some a) (Some b) = Some (a, b)"
| "present2 _ _ = None"

definition only_if :: "bool \<Rightarrow> 'a \<Rightarrow> 'a option" where
  "only_if b x = (if b then Some x else None)"

definition analyzeBelowLine :: "(num \<Rightarrow> num) \<Rightarrow> latest_fundamental \<Rightarrow> latest_fundamental \<Rightarrow> below_line" where
  "analyzeBelowLine R cur prior =
    (let np = present2 (lf_netProfit cur) (lf_netProfit prior);
         opm = present2 (lf_operatingMargin cur) (lf_operatingMargin prior);
         pbt = present2 (lf_profitBeforeTax cur) (lf_profitBeforeTax prior);
         swing = map_option (\<lambda>(c, p). \<bar>R (c - p)\<bar>) np;
         opmChange = map_option (\<lambda>(c, p). R (c - p)) opm;
         tax = Option.bind (present2 (lf_tax cur) (lf_profitBeforeTax cur)) (\<lambda>(t, b). only_if (guard_eps R < b) (R (t / b)));
         opProfit = map_option (\<lambda>(m, rv). R (R (rv * m) / 100)) (present2 (lf_operatingMargin cur) (lf_revenue cur));
         afterTax = (\<lambda>p. case tax of Some t \<Rightarrow> R (p * R (1 - t)) | None \<Rightarrow> p);
         amount = map_option (\<lambda>(p, n). R (n - afterTax p)) (present2 opProfit (lf_netProfit cur))
     in \<lparr>bl_netProfitCurr = lf_netProfit cur, bl_netProfitPrior = lf_netProfit prior,
         bl_profitYoyPct = Option.bind np (\<lambda>(c, p). only_if (0 < p) (guard_pct R (R (c - p)) p)),
         bl_profitDropPct = Option.bind np (\<lambda>(c, p). only_if (0 < p) (guard_pct R (R (p - c)) p)),
         bl_profitSignFlip = (case np of Some (c, p) \<Rightarrow> 0 < p \<and> c < 0 | None \<Rightarrow> False),
         bl_profitSwingAbs = swing,
         bl_npSwingPctAbs = Option.bind np (\<lambda>(c, p). only_if (guard_eps R < \<bar>p\<bar>) \<bar>guard_pct R (R (c - p)) \<bar>p\<bar>\<bar>),
         bl_opmChangePp = opmChange,
         bl_opmCurrentPositive = map_option (\<lambda>(c, p). 0 < c) opm,
         bl_opmFlat3pp = map_option (\<lambda>d. \<bar>d\<bar> \<le> 3) opmChange,
         bl_pbtSwingPctAbs = Option.bind pbt (\<lambda>(c, p). only_if (guard_eps R < \<bar>p\<bar>) \<bar>guard_pct R (R (c - p)) \<bar>p\<bar>\<bar>),
         bl_effTaxRateCurr = tax,
         bl_otherIncomeShareOfPbt = Option.bind (present2 (lf_otherIncome cur) (lf_profitBeforeTax cur))
           (\<lambda>(i, b). only_if (guard_eps R < \<bar>b\<bar>) (R (i / b))),
         bl_operatingProfitDerived = opProfit,
         bl_belowLineAmount = amount,
         bl_belowLineShareOfProfit = Option.bind (present2 amount (lf_netProfit cur))
           (\<lambda>(a, n). only_if (guard_eps R < \<bar>n\<bar>) (R (\<bar>a\<bar> / \<bar>n\<bar>))),
         bl_belowLineShareOfSwing = Option.bind (present2 amount swing) (\<lambda>(a, s). only_if (guard_eps R < s) (R (\<bar>a\<bar> / s))),
         bl_notes = (case np of Some (c, p) \<Rightarrow> if 0 < p then [] else [Prior_not_positive] | None \<Rightarrow> [])
           @ (if opm = None then [Margin_missing] else [])
           @ (case opProfit of None \<Rightarrow> [Below_line_unavailable]
              | Some _ \<Rightarrow> if lf_netProfit cur \<noteq> None \<and> tax = None then [Tax_rate_unusable] else [])\<rparr>)"

subsection \<open>Verdicts\<close>

datatype issue_kind = Rights_issue | Major_issuance | Bonus_split

datatype evidence =
    E_A1 "num option" "num option"
  | E_A2 string "fund_field list" "string list" int
  | E_A2_complete string
  | E_A3 nat nat
  | E_A4 bool num
  | E_B1 below_line
  | E_B2 below_line
  | E_B3 below_line "num option" bool "below_note list"
  | E_B4 below_line "num option" bool "below_note list"
  | E_B5 num num num num num
  | E_C1 "num option" "num option" bool
  | E_C2 "event_type list" "num option" "issue_kind option"

record signature_result =
  sr_signatureKey :: signature_key
  sr_category :: signature_category
  sr_tier :: tier
  sr_fired :: bool
  sr_outcome :: outcome
  sr_affectedMetrics :: "affected_metric list"
  sr_triggeringValues :: evidence

definition verdict_of :: "signature_key \<Rightarrow> signature_category \<Rightarrow> tier \<Rightarrow> bool \<Rightarrow> outcome \<Rightarrow> affected_metric list \<Rightarrow> evidence \<Rightarrow> signature_result" where
  "verdict_of key cat t fired out ms ev = \<lparr>sr_signatureKey = key, sr_category = cat, sr_tier = t, sr_fired = fired,
     sr_outcome = out, sr_affectedMetrics = ms, sr_triggeringValues = ev\<rparr>"

definition stated :: "pillar \<Rightarrow> string \<Rightarrow> affected_metric" where
  "stated p k = \<lparr>am_metricKey = k, am_pillar = p, am_reason = Stated_reason\<rparr>"

subsection \<open>A-1, stale results (\<open>a1-stale-results.ts\<close>)\<close>

definition STALE_DAYS_THRESHOLD :: num where "STALE_DAYS_THRESHOLD = 45"
definition REMOVE_ESCALATION_QUARTERS :: num where "REMOVE_ESCALATION_QUARTERS = 2"

definition a1_applies :: "stock_input \<Rightarrow> bool" where
  "a1_applies input = (si_quarterlyFiling input \<noteq> None)"

definition a1_evaluate :: "stock_input \<Rightarrow> signature_result option" where
  "a1_evaluate input = (case si_quarterlyFiling input of None \<Rightarrow> None | Some qf \<Rightarrow>
    Some (let late = (case qf_daysPastExpected qf of None \<Rightarrow> False | Some d \<Rightarrow> STALE_DAYS_THRESHOLD < d);
              ev = E_A1 (qf_daysPastExpected qf) (only_if late (qf_consecutiveMissedQuarters qf))
          in if \<not> late then verdict_of A_1 Category_A Auto_tier False O1 [] ev
             else if REMOVE_ESCALATION_QUARTERS < qf_consecutiveMissedQuarters qf then verdict_of A_1 Category_A Auto_tier True O6 [] ev
             else verdict_of A_1 Category_A Auto_tier True O5 [] ev))"

subsection \<open>A-2, missing fields (\<open>a2-missing-fields.ts\<close>)\<close>

fun field_value :: "latest_fundamental \<Rightarrow> fund_field \<Rightarrow> num option" where
  "field_value f Revenue_field = lf_revenue f"
| "field_value f NetProfit_field = lf_netProfit f"
| "field_value f NetWorth_field = lf_netWorth f"
| "field_value f TotalAssets_field = lf_totalAssets f"

fun FIELD_TO_FOUNDATION_METRICS :: "fund_field \<Rightarrow> string list" where
  "FIELD_TO_FOUNDATION_METRICS Revenue_field = [''F6'', ''F7'', ''F10'']"
| "FIELD_TO_FOUNDATION_METRICS NetProfit_field = [''F2'', ''F3'']"
| "FIELD_TO_FOUNDATION_METRICS NetWorth_field = [''F1'', ''F2'', ''F4'']"
| "FIELD_TO_FOUNDATION_METRICS TotalAssets_field = [''F7'']"

definition FOUNDATION_METRIC_COUNT :: int where "FOUNDATION_METRIC_COUNT = 10"
definition FOUNDATION_FLOOR_PRESENT :: int where "FOUNDATION_FLOOR_PRESENT = \<lceil>of_int FOUNDATION_METRIC_COUNT * (1 / 2 :: rat)\<rceil>"

definition nullFields :: "latest_fundamental \<Rightarrow> fund_field list" where
  "nullFields f = filter (\<lambda>k. field_value f k = None) [Revenue_field, NetProfit_field, NetWorth_field, TotalAssets_field]"

definition reasonByMetric :: "fund_field list \<Rightarrow> (string \<times> fund_field list) list" where
  "reasonByMetric nulls = foldl (\<lambda>m field. foldl (\<lambda>m' k. upsert k (\<lambda>old. nullish old [] @ [field]) m') m
     (FIELD_TO_FOUNDATION_METRICS field)) [] nulls"

definition a2_affected :: "fund_field list \<Rightarrow> affected_metric list" where
  \<comment> \<open>the keys are letters and digits, which \<open>localeCompare\<close> orders as the code points do\<close>
  "a2_affected nulls = map (\<lambda>(k, fields). \<lparr>am_metricKey = k, am_pillar = Foundation, am_reason = Depends_on fields\<rparr>)
     (sort_key fst (reasonByMetric nulls))"

definition a2_applies :: "stock_input \<Rightarrow> bool" where
  "a2_applies input = (si_latestFundamental input \<noteq> None)"

definition a2_evaluate :: "stock_input \<Rightarrow> signature_result option" where
  "a2_evaluate input = (case si_latestFundamental input of None \<Rightarrow> None | Some f \<Rightarrow>
    Some (let nulls = nullFields f
          in if nulls = [] then verdict_of A_2 Category_A Auto_tier False O1 [] (E_A2_complete (lf_fiscalYear f))
             else (let affected = a2_affected nulls;
                       presentAfter = FOUNDATION_METRIC_COUNT - int (length affected);
                       ev = E_A2 (lf_fiscalYear f) nulls (map am_metricKey affected) presentAfter
                   in if presentAfter < FOUNDATION_FLOOR_PRESENT then verdict_of A_2 Category_A Auto_tier True O5 [] ev
                      else verdict_of A_2 Category_A Auto_tier True O2 affected ev)))"

subsection \<open>A-3, insufficient history, and A-4, inactive\<close>

definition LENS3_MIN_HISTORY :: nat where "LENS3_MIN_HISTORY = 5"
definition OWNERSHIP_MIN_QUARTERS :: nat where "OWNERSHIP_MIN_QUARTERS = 8"

definition a3_applies :: "stock_input \<Rightarrow> bool" where
  "a3_applies input = (si_history input \<noteq> None)"

definition a3_evaluate :: "stock_input \<Rightarrow> signature_result option" where
  "a3_evaluate input = (case si_history input of None \<Rightarrow> None | Some h \<Rightarrow>
    Some (let short = hd_fundamentalRows h < LENS3_MIN_HISTORY \<or> hd_shareholdingRows h < OWNERSHIP_MIN_QUARTERS
          in verdict_of A_3 Category_A Auto_tier short (if short then O3 else O1) []
               (E_A3 (hd_fundamentalRows h) (hd_shareholdingRows h))))"

definition PRICE_GAP_TRADING_DAYS :: num where "PRICE_GAP_TRADING_DAYS = 10"

definition a4_applies :: "stock_input \<Rightarrow> bool" where
  "a4_applies input = (si_activity input \<noteq> None)"

definition a4_evaluate :: "stock_input \<Rightarrow> signature_result option" where
  "a4_evaluate input = (case si_activity input of None \<Rightarrow> None | Some a \<Rightarrow>
    Some (let gone = \<not> ac_isActive a \<or> PRICE_GAP_TRADING_DAYS < ac_consecutiveNoPriceDays a
          in verdict_of A_4 Category_A Auto_tier gone (if gone then O6 else O1) []
               (E_A4 (ac_isActive a) (ac_consecutiveNoPriceDays a))))"

subsection \<open>B-1 to B-4, profit distortions\<close>

definition b_applies :: "stock_input \<Rightarrow> bool" where
  "b_applies input = (si_industryPath input = Non_financial \<and> si_latestFundamental input \<noteq> None \<and> si_priorFundamental input \<noteq> None)"

definition B1_PROFIT_JUMP_PCT :: num where "B1_PROFIT_JUMP_PCT = 100"
definition B1_BELOW_LINE_SHARE :: "(num \<Rightarrow> num) \<Rightarrow> num" where "B1_BELOW_LINE_SHARE R = R (40 / 100)"

definition B1_SUPPRESS_MAP :: "affected_metric list" where
  "B1_SUPPRESS_MAP = [stated Foundation ''F1'', stated Foundation ''F2'', stated Momentum ''M2'', stated Momentum ''M4'']"

definition b1_evaluate :: "(num \<Rightarrow> num) \<Rightarrow> stock_input \<Rightarrow> signature_result option" where
  "b1_evaluate R input = (case (si_latestFundamental input, si_priorFundamental input) of
     (Some cur, Some prior) \<Rightarrow>
       (let a = analyzeBelowLine R cur prior
        in case (bl_profitYoyPct a, bl_opmFlat3pp a, bl_belowLineShareOfProfit a) of
             (Some yoy, Some flat, Some share) \<Rightarrow>
               Some (if B1_PROFIT_JUMP_PCT < yoy \<and> flat \<and> B1_BELOW_LINE_SHARE R < share
                     then verdict_of B_1 Category_B Auto_tier True O2 B1_SUPPRESS_MAP (E_B1 a)
                     else verdict_of B_1 Category_B Auto_tier False O1 [] (E_B1 a))
           | _ \<Rightarrow> None)
   | _ \<Rightarrow> None)"

definition B2_PROFIT_DROP_PCT :: num where "B2_PROFIT_DROP_PCT = 80"
definition B2_BELOW_LINE_SHARE :: "(num \<Rightarrow> num) \<Rightarrow> num" where "B2_BELOW_LINE_SHARE R = R (40 / 100)"

definition B2_SUPPRESS_MAP :: "affected_metric list" where
  "B2_SUPPRESS_MAP = [stated Foundation ''F2'', stated Momentum ''M2'', stated Momentum ''M4'']"

definition b2_evaluate :: "(num \<Rightarrow> num) \<Rightarrow> stock_input \<Rightarrow> signature_result option" where
  "b2_evaluate R input = (case (si_latestFundamental input, si_priorFundamental input) of
     (Some cur, Some prior) \<Rightarrow>
       (let a = analyzeBelowLine R cur prior
        in case (bl_opmFlat3pp a, bl_opmCurrentPositive a, bl_belowLineShareOfSwing a) of
             (Some flat, Some positive, Some share) \<Rightarrow>
               (let dropOrFlip = (case bl_profitDropPct a of None \<Rightarrow> False | Some d \<Rightarrow> B2_PROFIT_DROP_PCT < d) \<or> bl_profitSignFlip a
                in Some (if dropOrFlip \<and> flat \<and> positive \<and> B2_BELOW_LINE_SHARE R < share
                         then verdict_of B_2 Category_B Auto_tier True O2 B2_SUPPRESS_MAP (E_B2 a)
                         else verdict_of B_2 Category_B Auto_tier False O1 [] (E_B2 a)))
           | _ \<Rightarrow> None)
   | _ \<Rightarrow> None)"

definition B3_EFF_TAX_MAX :: "(num \<Rightarrow> num) \<Rightarrow> num" where "B3_EFF_TAX_MAX R = R (5 / 100)"
definition B3_NORMAL_TAX_MIN :: "(num \<Rightarrow> num) \<Rightarrow> num" where "B3_NORMAL_TAX_MIN R = R (20 / 100)"
definition B3_NP_SWING_MIN :: num where "B3_NP_SWING_MIN = 50"
definition B3_PBT_SWING_MAX :: num where "B3_PBT_SWING_MAX = 25"

definition B3_SUPPRESS_MAP :: "affected_metric list" where
  "B3_SUPPRESS_MAP = [stated Foundation ''F2'', stated Momentum ''M2'', stated Momentum ''M4'']"

definition b3_evaluate :: "(num \<Rightarrow> num) \<Rightarrow> stock_input \<Rightarrow> signature_result option" where
  "b3_evaluate R input = (case (si_latestFundamental input, si_priorFundamental input) of
     (Some cur, Some prior) \<Rightarrow>
       (let a = analyzeBelowLine R cur prior
        in case (bl_effTaxRateCurr a, bl_npSwingPctAbs a, bl_pbtSwingPctAbs a) of
             (Some tax, Some npSwing, Some pbtSwing) \<Rightarrow>
               (let priorTax = Option.bind (present2 (lf_tax prior) (lf_profitBeforeTax prior))
                      (\<lambda>(t, b). only_if (guard_eps R < b) (R (t / b)));
                    normal = (case priorTax of None \<Rightarrow> True | Some t \<Rightarrow> B3_NORMAL_TAX_MIN R < t);
                    ev = E_B3 a priorTax (si_bandFlipDetected input)
                      (bl_notes a @ (if priorTax = None then [Prior_tax_unverified] else []));
                    fired = tax < B3_EFF_TAX_MAX R \<and> normal \<and> B3_NP_SWING_MIN < npSwing \<and> pbtSwing < B3_PBT_SWING_MAX
                in Some (if \<not> fired then verdict_of B_3 Category_B Auto_tier False O1 [] ev
                         else verdict_of B_3 Category_B Auto_tier True (if si_bandFlipDetected input then O2 else O3) B3_SUPPRESS_MAP ev))
           | _ \<Rightarrow> None)
   | _ \<Rightarrow> None)"

definition B4_OTHER_INCOME_SHARE_MAX :: "(num \<Rightarrow> num) \<Rightarrow> num" where "B4_OTHER_INCOME_SHARE_MAX R = R (30 / 100)"
definition B4_NORMAL_OTHER_INCOME_MAX :: "(num \<Rightarrow> num) \<Rightarrow> num" where "B4_NORMAL_OTHER_INCOME_MAX R = R (10 / 100)"

definition B4_SUPPRESS_MAP :: "affected_metric list" where
  "B4_SUPPRESS_MAP = [stated Foundation ''F1'', stated Foundation ''F2'', stated Momentum ''M2'', stated Momentum ''M4'']"

definition b4_evaluate :: "(num \<Rightarrow> num) \<Rightarrow> stock_input \<Rightarrow> signature_result option" where
  "b4_evaluate R input = (case (si_latestFundamental input, si_priorFundamental input) of
     (Some cur, Some prior) \<Rightarrow>
       (let a = analyzeBelowLine R cur prior
        in case bl_otherIncomeShareOfPbt a of
             Some share \<Rightarrow>
               (let priorShare = Option.bind (present2 (lf_otherIncome prior) (lf_profitBeforeTax prior))
                      (\<lambda>(i, b). only_if (guard_eps R < \<bar>b\<bar>) (R (i / b)));
                    normal = (case priorShare of None \<Rightarrow> True | Some s \<Rightarrow> s < B4_NORMAL_OTHER_INCOME_MAX R);
                    ev = E_B4 a priorShare (si_bandFlipDetected input)
                      (bl_notes a @ (if priorShare = None then [Prior_share_unverified] else []))
                in Some (if \<not> (B4_OTHER_INCOME_SHARE_MAX R < share \<and> normal) then verdict_of B_4 Category_B Auto_tier False O1 [] ev
                         else verdict_of B_4 Category_B Auto_tier True (if si_bandFlipDetected input then O2 else O3) B4_SUPPRESS_MAP ev))
           | None \<Rightarrow> None)
   | _ \<Rightarrow> None)"

subsection \<open>B-5, holding-company extraction\<close>

definition B5_NETWORTH_DROP_PCT :: num where "B5_NETWORTH_DROP_PCT = 25"
definition B5_PROMOTER_MIN_PCT :: num where "B5_PROMOTER_MIN_PCT = 50"

definition B5_ANNOTATE_MAP :: "affected_metric list" where
  "B5_ANNOTATE_MAP = [stated Foundation ''F1'', stated Foundation ''F2'']"

definition b5_applies :: "stock_input \<Rightarrow> bool" where
  "b5_applies input = (si_latestFundamental input \<noteq> None \<and> si_priorFundamental input \<noteq> None \<and> si_promoterPct input \<noteq> None)"

definition b5_evaluate :: "(num \<Rightarrow> num) \<Rightarrow> stock_input \<Rightarrow> signature_result option" where
  "b5_evaluate R input = (case (si_latestFundamental input, si_priorFundamental input, si_promoterPct input) of
     (Some cur, Some prior, Some promoter) \<Rightarrow>
       (case (lf_netWorth cur, lf_netWorth prior, lf_netProfit cur) of
          (Some nw, Some nw0, Some np) \<Rightarrow>
            if nw0 \<le> 0 then None
            else (let dropPct = guard_pct R (R (nw0 - nw)) nw0;
                      ev = E_B5 dropPct nw0 nw np promoter
                  in Some (if B5_NETWORTH_DROP_PCT < dropPct \<and> 0 < np \<and> B5_PROMOTER_MIN_PCT < promoter
                           then verdict_of B_5 Category_B Review_tier True O3 B5_ANNOTATE_MAP ev
                           else verdict_of B_5 Category_B Review_tier False O1 [] ev))
        | _ \<Rightarrow> None)
   | _ \<Rightarrow> None)"

subsection \<open>C-1, structural step, and C-2, share count\<close>

definition C1_STEP_PCT :: num where "C1_STEP_PCT = 30"

definition C1_GROWTH_MAP :: "affected_metric list" where
  "C1_GROWTH_MAP = [stated Momentum ''M3'', stated Momentum ''M4'', stated Foundation ''F10'']"

definition stepPct :: "(num \<Rightarrow> num) \<Rightarrow> num option \<Rightarrow> num option \<Rightarrow> num option" where
  "stepPct R cur prior = Option.bind (present2 cur prior)
     (\<lambda>(c, p). only_if (guard_eps R < \<bar>p\<bar>) (R (\<bar>R (R (c - p) / p)\<bar> * 100)))"

definition c1_applies :: "stock_input \<Rightarrow> bool" where
  "c1_applies input = (si_latestFundamental input \<noteq> None \<and> si_priorFundamental input \<noteq> None)"

definition c1_evaluate :: "(num \<Rightarrow> num) \<Rightarrow> stock_input \<Rightarrow> signature_result option" where
  "c1_evaluate R input = (case (si_latestFundamental input, si_priorFundamental input) of
     (Some cur, Some prior) \<Rightarrow>
       (let revStep = stepPct R (lf_revenue cur) (lf_revenue prior);
            assetStep = stepPct R (lf_totalAssets cur) (lf_totalAssets prior);
            above = (\<lambda>s. case s of None \<Rightarrow> False | Some x \<Rightarrow> C1_STEP_PCT < x);
            corroborated = (case si_corporateAction input of None \<Rightarrow> False | Some ca \<Rightarrow> ca_hasNearbyEvent ca);
            ev = E_C1 revStep assetStep corroborated
        in if revStep = None \<and> assetStep = None then None
           else Some (if above revStep \<or> above assetStep
                      then verdict_of C_1 Category_C Review_tier True O4 C1_GROWTH_MAP ev
                      else verdict_of C_1 Category_C Review_tier False O1 [] ev))
   | _ \<Rightarrow> None)"

definition C2_SHARE_CHANGE_PCT :: num where "C2_SHARE_CHANGE_PCT = 20"

definition c2_applies :: "stock_input \<Rightarrow> bool" where
  "c2_applies input = (case si_corporateAction input of None \<Rightarrow> False
     | Some ca \<Rightarrow> nullish (ca_eventTypes ca) [] \<noteq> [] \<or> ca_shareCountChangePct ca \<noteq> None)"

definition c2_evaluate :: "stock_input \<Rightarrow> signature_result option" where
  "c2_evaluate input = (case si_corporateAction input of None \<Rightarrow> None | Some ca \<Rightarrow>
    Some (let types = nullish (ca_eventTypes ca) [];
              hasBonusSplit = Bonus_event \<in> set types \<or> Split_event \<in> set types;
              hasRights = Rights_event \<in> set types;
              bigShareChange = (case ca_shareCountChangePct ca of None \<Rightarrow> False | Some x \<Rightarrow> C2_SHARE_CHANGE_PCT < \<bar>x\<bar>);
              ev = E_C2 types (ca_shareCountChangePct ca)
          in if \<not> (hasBonusSplit \<or> hasRights \<or> bigShareChange) then verdict_of C_2 Category_C Auto_tier False O1 [] (ev None)
             else if hasRights \<or> (bigShareChange \<and> \<not> hasBonusSplit)
                  then verdict_of C_2 Category_C Review_tier True O3 [] (ev (Some (if hasRights then Rights_issue else Major_issuance)))
             else verdict_of C_2 Category_C Auto_tier True O1 [] (ev (Some Bonus_split))))"

subsection \<open>The registry and the behaviour contract (\<open>registry.ts\<close>)\<close>

fun signature_applies :: "signature_key \<Rightarrow> stock_input \<Rightarrow> bool" where
  "signature_applies A_1 = a1_applies"
| "signature_applies A_2 = a2_applies"
| "signature_applies A_3 = a3_applies"
| "signature_applies A_4 = a4_applies"
| "signature_applies B_1 = b_applies"
| "signature_applies B_2 = b_applies"
| "signature_applies B_3 = b_applies"
| "signature_applies B_4 = b_applies"
| "signature_applies B_5 = b5_applies"
| "signature_applies C_1 = c1_applies"
| "signature_applies C_2 = c2_applies"

fun signature_evaluate :: "(num \<Rightarrow> num) \<Rightarrow> signature_key \<Rightarrow> stock_input \<Rightarrow> signature_result option" where
  "signature_evaluate R A_1 = a1_evaluate"
| "signature_evaluate R A_2 = a2_evaluate"
| "signature_evaluate R A_3 = a3_evaluate"
| "signature_evaluate R A_4 = a4_evaluate"
| "signature_evaluate R B_1 = b1_evaluate R"
| "signature_evaluate R B_2 = b2_evaluate R"
| "signature_evaluate R B_3 = b3_evaluate R"
| "signature_evaluate R B_4 = b4_evaluate R"
| "signature_evaluate R B_5 = b5_evaluate R"
| "signature_evaluate R C_1 = c1_evaluate R"
| "signature_evaluate R C_2 = c2_evaluate"

record signature_descriptor =
  sd_key :: signature_key
  sd_category :: signature_category
  sd_tier :: tier
  sd_defaultOutcome :: outcome
  sd_paths :: "industry list"
  sd_built :: bool

definition BOTH_PATHS :: "industry list" where "BOTH_PATHS = [Non_financial, Banking]"
definition NONFIN_PATHS :: "industry list" where "NONFIN_PATHS = [Non_financial]"

definition SIGNATURE_REGISTRY :: "signature_descriptor list" where
  "SIGNATURE_REGISTRY =
    [\<lparr>sd_key = A_1, sd_category = Category_A, sd_tier = Auto_tier, sd_defaultOutcome = O5, sd_paths = BOTH_PATHS, sd_built = True\<rparr>,
     \<lparr>sd_key = A_2, sd_category = Category_A, sd_tier = Auto_tier, sd_defaultOutcome = O2, sd_paths = BOTH_PATHS, sd_built = True\<rparr>,
     \<lparr>sd_key = A_3, sd_category = Category_A, sd_tier = Auto_tier, sd_defaultOutcome = O3, sd_paths = BOTH_PATHS, sd_built = True\<rparr>,
     \<lparr>sd_key = A_4, sd_category = Category_A, sd_tier = Auto_tier, sd_defaultOutcome = O6, sd_paths = BOTH_PATHS, sd_built = True\<rparr>,
     \<lparr>sd_key = B_1, sd_category = Category_B, sd_tier = Auto_tier, sd_defaultOutcome = O2, sd_paths = NONFIN_PATHS, sd_built = True\<rparr>,
     \<lparr>sd_key = B_2, sd_category = Category_B, sd_tier = Auto_tier, sd_defaultOutcome = O2, sd_paths = NONFIN_PATHS, sd_built = True\<rparr>,
     \<lparr>sd_key = B_3, sd_category = Category_B, sd_tier = Auto_tier, sd_defaultOutcome = O3, sd_paths = NONFIN_PATHS, sd_built = True\<rparr>,
     \<lparr>sd_key = B_4, sd_category = Category_B, sd_tier = Auto_tier, sd_defaultOutcome = O3, sd_paths = NONFIN_PATHS, sd_built = True\<rparr>,
     \<lparr>sd_key = B_5, sd_category = Category_B, sd_tier = Review_tier, sd_defaultOutcome = O3, sd_paths = BOTH_PATHS, sd_built = True\<rparr>,
     \<lparr>sd_key = C_1, sd_category = Category_C, sd_tier = Review_tier, sd_defaultOutcome = O4, sd_paths = BOTH_PATHS, sd_built = True\<rparr>,
     \<lparr>sd_key = C_2, sd_category = Category_C, sd_tier = Auto_tier, sd_defaultOutcome = O1, sd_paths = BOTH_PATHS, sd_built = True\<rparr>]"

definition applicableBuiltSignatures :: "industry \<Rightarrow> signature_descriptor list" where
  "applicableBuiltSignatures path = filter (\<lambda>d. sd_built d \<and> path \<in> set (sd_paths d)) SIGNATURE_REGISTRY"

definition registryCoverage :: "signature_key list \<times> signature_key list" where
  "registryCoverage = (map sd_key (filter sd_built SIGNATURE_REGISTRY), map sd_key (filter (\<lambda>d. \<not> sd_built d) SIGNATURE_REGISTRY))"

datatype guardrail_behaviour = Suppress | Annotate | Detect | Disabled

fun GUARDRAIL_BEHAVIOUR :: "signature_key \<Rightarrow> guardrail_behaviour" where
  "GUARDRAIL_BEHAVIOUR A_2 = Annotate"
| "GUARDRAIL_BEHAVIOUR A_3 = Annotate"
| "GUARDRAIL_BEHAVIOUR B_1 = Annotate"
| "GUARDRAIL_BEHAVIOUR B_2 = Annotate"
| "GUARDRAIL_BEHAVIOUR B_3 = Annotate"
| "GUARDRAIL_BEHAVIOUR B_4 = Annotate"
| "GUARDRAIL_BEHAVIOUR B_5 = Detect"
| "GUARDRAIL_BEHAVIOUR C_1 = Detect"
| "GUARDRAIL_BEHAVIOUR A_1 = Disabled"
| "GUARDRAIL_BEHAVIOUR A_4 = Disabled"
| "GUARDRAIL_BEHAVIOUR C_2 = Disabled"

definition canSuppress :: "signature_key \<Rightarrow> bool" where
  "canSuppress key = (GUARDRAIL_BEHAVIOUR key = Suppress)"

definition isEvaluable :: "signature_key \<Rightarrow> bool" where
  "isEvaluable key = (GUARDRAIL_BEHAVIOUR key \<noteq> Disabled)"

definition behaviourGroups :: "guardrail_behaviour \<Rightarrow> signature_key list" where
  "behaviourGroups b = filter (\<lambda>k. GUARDRAIL_BEHAVIOUR k = b) [A_2, A_3, B_1, B_2, B_3, B_4, B_5, C_1, A_1, A_4, C_2]"

subsection \<open>What a verdict can be\<close>

lemma verdict_of_simps [simp]:
  "sr_signatureKey (verdict_of k c t f x ms ev) = k" "sr_tier (verdict_of k c t f x ms ev) = t"
  "sr_fired (verdict_of k c t f x ms ev) = f" "sr_outcome (verdict_of k c t f x ms ev) = x"
  "sr_affectedMetrics (verdict_of k c t f x ms ev) = ms" "sr_category (verdict_of k c t f x ms ev) = c"
  by (simp_all add: verdict_of_def)

lemmas evaluate_defs = a1_evaluate_def a2_evaluate_def a3_evaluate_def a4_evaluate_def b1_evaluate_def b2_evaluate_def
  b3_evaluate_def b4_evaluate_def b5_evaluate_def c1_evaluate_def c2_evaluate_def

lemma evaluate_key: "signature_evaluate R k i = Some r \<Longrightarrow> sr_signatureKey r = k"
  by (cases k) (auto simp: evaluate_defs Let_def split: option.splits if_splits prod.splits)

lemma evaluate_auto_outcome:
  assumes "signature_evaluate R k i = Some r" "sr_tier r = Auto_tier"
  shows "sr_outcome r \<noteq> O4" and "sr_outcome r = O2 \<Longrightarrow> k \<in> {A_2, B_1, B_2, B_3, B_4}"
  using assms by (cases k; auto simp: evaluate_defs Let_def split: option.splits if_splits prod.splits)+


subsection \<open>A-2: the hold\<close>

lemma a2_affected_table:
  "\<forall>nulls \<in> set (subseqs [Revenue_field, NetProfit_field, NetWorth_field, TotalAssets_field]).
     (5 < length (a2_affected nulls) \<longleftrightarrow> Revenue_field \<in> set nulls \<and> NetWorth_field \<in> set nulls)
     \<and> distinct (map am_metricKey (a2_affected nulls))
     \<and> set (map am_metricKey (a2_affected nulls)) = set (concat (map FIELD_TO_FOUNDATION_METRICS nulls))"
  by code_simp

lemma nullFields_in: "nullFields f \<in> set (subseqs [Revenue_field, NetProfit_field, NetWorth_field, TotalAssets_field])"
  by (simp add: nullFields_def)

lemma nullFields_mem: "field_value f k = None \<longleftrightarrow> k \<in> set (nullFields f)"
  by (cases k) (auto simp: nullFields_def)

text \<open>
  It fires exactly when a field is missing, holds the stock exactly when revenue and net worth are both missing, and
  otherwise names, once each, the metrics that read a missing field: at most five of the ten.
\<close>

theorem a2_hold:
  assumes "si_latestFundamental i = Some f"
  shows "\<exists>r. signature_evaluate R A_2 i = Some r
      \<and> (sr_fired r \<longleftrightarrow> (\<exists>k. field_value f k = None))
      \<and> (sr_outcome r = O5 \<longleftrightarrow> lf_revenue f = None \<and> lf_netWorth f = None)
      \<and> (sr_outcome r = O2 \<longrightarrow> distinct (map am_metricKey (sr_affectedMetrics r)) \<and> length (sr_affectedMetrics r) \<le> 5
          \<and> set (map am_metricKey (sr_affectedMetrics r)) = (\<Union>k \<in> {k. field_value f k = None}. set (FIELD_TO_FOUNDATION_METRICS k)))"
proof -
  let ?n = "nullFields f"
  have T: "5 < length (a2_affected ?n) \<longleftrightarrow> Revenue_field \<in> set ?n \<and> NetWorth_field \<in> set ?n"
    "distinct (map am_metricKey (a2_affected ?n))"
    "set (map am_metricKey (a2_affected ?n)) = (\<Union>k \<in> set ?n. set (FIELD_TO_FOUNDATION_METRICS k))"
    using bspec[OF a2_affected_table nullFields_in[of f]] by (blast, blast, simp)
  have n: "{k. field_value f k = None} = set ?n" using nullFields_mem[of f] by blast
  have h: "lf_revenue f = None \<and> lf_netWorth f = None \<longleftrightarrow> 5 < length (a2_affected ?n)"
    using T(1) nullFields_mem[of f Revenue_field] nullFields_mem[of f NetWorth_field] by simp
  have fl: "10 - int m < FOUNDATION_FLOOR_PRESENT \<longleftrightarrow> 5 < m" for m
    by (simp add: FOUNDATION_FLOOR_PRESENT_def FOUNDATION_METRIC_COUNT_def)
  have e: "a2_affected [] = []" by (simp add: a2_affected_def reasonByMetric_def)
  show ?thesis
  proof (cases "?n = []")
    case True
    then show ?thesis using h nullFields_mem[of f] by (auto simp: a2_evaluate_def assms e)
  next
    case False
    then have "\<exists>k. field_value f k = None" using nullFields_mem[of f] by (meson last_in_set)
    then show ?thesis using False T(2) T(3)
      by (simp add: a2_evaluate_def assms FOUNDATION_METRIC_COUNT_def fl h n Let_def del: set_map)
  qed
qed

subsection \<open>B-1 and B-2 exclude each other\<close>


context rounding begin

lemma guard_pct_sign: assumes "0 < p" shows "x \<le> 0 \<Longrightarrow> guard_pct R x p \<le> 0"
proof -
  assume x: "x \<le> 0"
  have z: "y \<le> 0 \<Longrightarrow> R y \<le> 0" for y using mono[of y 0] fix_int[of 0] by simp
  have "R (x / p) \<le> 0" using x assms by (intro z) (simp add: divide_le_0_iff)
  then show "guard_pct R x p \<le> 0" unfolding guard_pct_def by (intro z) simp
qed

lemma gain_excludes_loss:
  assumes "bl_profitYoyPct (analyzeBelowLine R cur prior) = Some y" "100 < y"
  shows "\<not> bl_profitSignFlip (analyzeBelowLine R cur prior)"
    and "bl_profitDropPct (analyzeBelowLine R cur prior) = Some d \<Longrightarrow> d \<le> 0"
proof -
  obtain c p where cp: "lf_netProfit cur = Some c" "lf_netProfit prior = Some p" "0 < p" "y = guard_pct R (R (c - p)) p"
    using assms(1) by (auto simp: analyzeBelowLine_def Let_def only_if_def bind_eq_Some_conv split: if_splits
      elim!: present2.elims)
  have "0 < R (c - p)" using guard_pct_sign[OF cp(3), of "R (c - p)"] assms(2) cp(4) by fastforce
  then have cgt: "p < c" using mono[of "c - p" 0] fix_int[of 0] by (force simp: not_less)
  then show "\<not> bl_profitSignFlip (analyzeBelowLine R cur prior)"
    using cp by (simp add: analyzeBelowLine_def Let_def)
  assume "bl_profitDropPct (analyzeBelowLine R cur prior) = Some d"
  then have "d = guard_pct R (R (p - c)) p" using cp by (simp add: analyzeBelowLine_def Let_def only_if_def)
  moreover have "R (p - c) \<le> 0" using mono[of "p - c" 0] fix_int[of 0] cgt by simp
  ultimately show "d \<le> 0" using guard_pct_sign[OF cp(3)] by simp
qed

lemma b1_excludes_b2:
  assumes "b1_evaluate R i = Some v1" "b2_evaluate R i = Some v2" "sr_fired v1" shows "\<not> sr_fired v2"
proof -
  obtain cur prior where cp: "si_latestFundamental i = Some cur" "si_priorFundamental i = Some prior"
    using assms(1) by (auto simp: b1_evaluate_def split: option.splits)
  let ?a = "analyzeBelowLine R cur prior"
  obtain y where y: "bl_profitYoyPct ?a = Some y" "100 < y"
    using assms(1,3) by (auto simp: b1_evaluate_def cp Let_def B1_PROFIT_JUMP_PCT_def split: option.splits if_splits)
  have "\<not> ((case bl_profitDropPct ?a of None \<Rightarrow> False | Some d \<Rightarrow> B2_PROFIT_DROP_PCT < d) \<or> bl_profitSignFlip ?a)"
    using gain_excludes_loss[OF y] by (auto simp: B2_PROFIT_DROP_PCT_def split: option.splits)
  then show ?thesis
    using assms(2) by (auto simp: b2_evaluate_def cp Let_def split: option.splits if_splits)
qed

end


text \<open>In machine arithmetic the two never fire together.\<close>

theorem gain_and_loss_exclude:
  assumes "signature_evaluate f64 B_1 i = Some v1" "signature_evaluate f64 B_2 i = Some v2"
  shows "\<not> (sr_fired v1 \<and> sr_fired v2)"
  using f64.b1_excludes_b2 assms by auto

definition sample_fund :: "num \<Rightarrow> latest_fundamental" where
  "sample_fund np = \<lparr>lf_fiscalYear = ''FY26'', lf_revenue = Some 1000, lf_netProfit = Some np, lf_netWorth = Some 500,
     lf_totalAssets = Some 900, lf_profitBeforeTax = None, lf_tax = None, lf_otherIncome = None, lf_financeCosts = None,
     lf_operatingMargin = Some 8\<rparr>"

definition distorted_input :: stock_input where
  "distorted_input = \<lparr>si_stockId = ''s1'', si_symbol = ''ABC'', si_industryPath = Non_financial, si_snapshotKey = ''FY26Q4'',
     si_latestFundamental = Some (sample_fund 256), si_priorFundamental = Some (sample_fund 64), si_promoterPct = Some 60,
     si_quarterlyFiling = None, si_history = None, si_activity = None, si_bandFlipDetected = False, si_corporateAction = None\<rparr>"

lemma sample_verdicts:
  "map_option sr_fired (b1_evaluate f64 distorted_input) = Some True"
  "map_option sr_fired (b2_evaluate f64 distorted_input) = Some False"
  by code_simp+

lemma gain_and_loss_exclude_witness:
  "\<exists>v1 v2. signature_evaluate f64 B_1 distorted_input = Some v1 \<and> signature_evaluate f64 B_2 distorted_input = Some v2
     \<and> sr_fired v1 \<and> \<not> sr_fired v2"
proof -
  obtain v1 v2 where v: "signature_evaluate f64 B_1 distorted_input = Some v1" "signature_evaluate f64 B_2 distorted_input = Some v2" "sr_fired v1"
    using sample_verdicts by auto
  then show ?thesis using gain_and_loss_exclude[OF v(1,2)] by blast
qed

lemma a2_hold_witness:
  "\<exists>r. signature_evaluate f64 A_2 (distorted_input\<lparr>si_latestFundamental := Some ((sample_fund 256)\<lparr>lf_revenue := None, lf_netWorth := None\<rparr>)\<rparr>) = Some r
     \<and> sr_fired r \<and> sr_outcome r = O5"
  using a2_hold[of "distorted_input\<lparr>si_latestFundamental := Some ((sample_fund 256)\<lparr>lf_revenue := None, lf_netWorth := None\<rparr>)\<rparr>"
      "(sample_fund 256)\<lparr>lf_revenue := None, lf_netWorth := None\<rparr>" f64]
  by (auto intro: exI[of _ Revenue_field])

end
