(* ===== verification/GuardrailGate.thy ===== *)
theory GuardrailGate
  imports Guardrail Dispatch
begin

text \<open>
  What the guardrail does with a fired signature, \<open>src/scoring/guardrail/\<close>: the outcomes
  (\<open>outcomes.ts\<close>), the operator's review (\<open>review.ts\<close>), the gate of a stock and of a peer group
  (\<open>gate.ts\<close>), the behaviour filter (\<open>behaviour.ts\<close>), the suppression predicates of the scorer
  (\<open>suppression-adapter.ts\<close>) and the call of the scoring pass (\<open>scoring-gate.ts\<close> and its site in
  \<open>composite/score-pass.ts\<close>).  Texts of notes and reasons are left out.
\<close>

subsection \<open>Rows and results (\<open>types.ts\<close>)\<close>

record event_row =
  er_localEventId :: string
  er_stockId :: string
  er_snapshotId :: "string option"
  er_signatureKey :: signature_key
  er_triggeringValues :: evidence
  er_outcome :: outcome
  er_tier :: tier

record directive_row =
  dw_stockId :: string
  dw_snapshotKey :: string
  dw_metricKey :: string
  dw_sourceLocalEventId :: string
  dw_outcome :: outcome
  dw_excludeFromOwnScore :: bool
  dw_excludeFromPeerMean :: bool

datatype action_kind = Hold | Remove

record stock_action =
  sa_kind :: action_kind
  sa_stockId :: string
  sa_snapshotKey :: string
  sa_sourceLocalEventId :: string
  sa_requiresOperatorConfirm :: bool

record annotation =
  an_stockId :: string
  an_snapshotKey :: string
  an_sourceLocalEventId :: string
  an_affectedMetrics :: "affected_metric list"

record pending_review =
  pd_event :: event_row
  pd_result :: signature_result

datatype gate_note =
    Not_evaluated signature_key
  | Did_not_evaluate signature_key
  | Could_not_evaluate signature_key
  | Did_not_fire signature_key outcome
  | Sent_to_review signature_key outcome
  | Fired_note signature_key outcome tier "string list" "action_kind list" bool

record eval_result =
  ev_stockId :: string
  ev_symbol :: string
  ev_snapshotKey :: string
  ev_events :: "event_row list"
  ev_directives :: "directive_row list"
  ev_stockActions :: "stock_action list"
  ev_annotations :: "annotation list"
  ev_pendingReviews :: "pending_review list"
  ev_notes :: "gate_note list"

subsection \<open>Outcomes (\<open>outcomes.ts\<close>)\<close>

fun key_string :: "signature_key \<Rightarrow> string" where
  "key_string A_1 = ''A-1''"
| "key_string A_2 = ''A-2''"
| "key_string A_3 = ''A-3''"
| "key_string A_4 = ''A-4''"
| "key_string B_1 = ''B-1''"
| "key_string B_2 = ''B-2''"
| "key_string B_3 = ''B-3''"
| "key_string B_4 = ''B-4''"
| "key_string B_5 = ''B-5''"
| "key_string C_1 = ''C-1''"
| "key_string C_2 = ''C-2''"

definition localEventId :: "string \<Rightarrow> signature_key \<Rightarrow> string" where
  "localEventId stock key = ''evt:'' @ stock @ '':'' @ key_string key"

record resolved_outcome =
  ro_event :: event_row
  ro_directives :: "directive_row list"
  ro_stockActions :: "stock_action list"
  ro_annotations :: "annotation list"

definition mkDirective :: "signature_result \<Rightarrow> string \<Rightarrow> string \<Rightarrow> bool \<Rightarrow> affected_metric \<Rightarrow> directive_row" where
  "mkDirective r stock snap own m =
    \<lparr>dw_stockId = stock, dw_snapshotKey = snap, dw_metricKey = am_metricKey m,
     dw_sourceLocalEventId = localEventId stock (sr_signatureKey r), dw_outcome = sr_outcome r,
     dw_excludeFromOwnScore = own, dw_excludeFromPeerMean = True\<rparr>"

definition event_of :: "signature_result \<Rightarrow> string \<Rightarrow> tier \<Rightarrow> event_row" where
  "event_of r stock t =
    \<lparr>er_localEventId = localEventId stock (sr_signatureKey r), er_stockId = stock, er_snapshotId = None,
     er_signatureKey = sr_signatureKey r, er_triggeringValues = sr_triggeringValues r, er_outcome = sr_outcome r, er_tier = t\<rparr>"

definition resolveOutcome :: "signature_result \<Rightarrow> string \<Rightarrow> string \<Rightarrow> resolved_outcome" where
  "resolveOutcome r stock snap =
    (let evtId = localEventId stock (sr_signatureKey r);
         event = event_of r stock (sr_tier r);
         action = (\<lambda>kind confirm. \<lparr>sa_kind = kind, sa_stockId = stock, sa_snapshotKey = snap,
            sa_sourceLocalEventId = evtId, sa_requiresOperatorConfirm = confirm\<rparr>);
         out = (\<lambda>ds as ns. \<lparr>ro_event = event, ro_directives = ds, ro_stockActions = as, ro_annotations = ns\<rparr>)
     in case sr_outcome r of
          O1 \<Rightarrow> out [] [] []
        | O2 \<Rightarrow> out (map (mkDirective r stock snap True) (sr_affectedMetrics r)) [] []
        | O3 \<Rightarrow> out [] [] [\<lparr>an_stockId = stock, an_snapshotKey = snap, an_sourceLocalEventId = evtId,
                   an_affectedMetrics = sr_affectedMetrics r\<rparr>]
        | O4 \<Rightarrow> out (map (mkDirective r stock snap False) (sr_affectedMetrics r)) [] []
        | O5 \<Rightarrow> out [] [action Hold False] []
        | O6 \<Rightarrow> out [] [action Remove True] [])"

subsection \<open>The operator's review (\<open>review.ts\<close>)\<close>

datatype ruling = Upheld | Overridden | Deferred

definition proposeReview :: "signature_result \<Rightarrow> string \<Rightarrow> pending_review" where
  "proposeReview r stock = \<lparr>pd_event = event_of r stock Review_tier, pd_result = r\<rparr>"

record review_row =
  rw_sourceLocalEventId :: string
  rw_operatorId :: string
  rw_ruling :: ruling
  rw_reason :: "string option"
  rw_ruledAt :: int
  rw_proposedOutcome :: outcome

definition recordRuling :: "pending_review \<Rightarrow> string \<Rightarrow> ruling \<Rightarrow> string option \<Rightarrow> int \<Rightarrow> review_row" where
  "recordRuling p operator rul reason ruledAt =
    \<lparr>rw_sourceLocalEventId = er_localEventId (pd_event p), rw_operatorId = operator, rw_ruling = rul, rw_reason = reason,
     rw_ruledAt = ruledAt, rw_proposedOutcome = sr_outcome (pd_result p)\<rparr>"

record ruling_application =
  ra_applied :: bool
  ra_ruling :: ruling
  ra_directives :: "directive_row list"
  ra_annotations :: "annotation list"
  ra_stockActions :: "stock_action list"

definition applyRuling :: "pending_review \<Rightarrow> ruling \<Rightarrow> string \<Rightarrow> string \<Rightarrow> ruling_application" where
  "applyRuling p rul stock snap = (case rul of
     Upheld \<Rightarrow> (let resolved = resolveOutcome (pd_result p) stock snap
        in \<lparr>ra_applied = True, ra_ruling = rul, ra_directives = ro_directives resolved,
            ra_annotations = ro_annotations resolved, ra_stockActions = ro_stockActions resolved\<rparr>)
   | _ \<Rightarrow> \<lparr>ra_applied = False, ra_ruling = rul, ra_directives = [], ra_annotations = [], ra_stockActions = []\<rparr>)"

subsection \<open>The gate (\<open>gate.ts\<close>)\<close>

definition gate_step :: "(num \<Rightarrow> num) \<Rightarrow> stock_input \<Rightarrow> (signature_key \<Rightarrow> bool) option \<Rightarrow> eval_result \<Rightarrow> signature_descriptor \<Rightarrow> eval_result" where
  \<comment> \<open>one round of the loop over the descriptors\<close>
  "gate_step R input filt s desc =
    (let key = sd_key desc; note = (\<lambda>n. s\<lparr>ev_notes := ev_notes s @ [n]\<rparr>)
     in if (case filt of None \<Rightarrow> False | Some f \<Rightarrow> \<not> f key) then note (Not_evaluated key)
        else if \<not> signature_applies key input then note (Did_not_evaluate key)
        else case signature_evaluate R key input of
               None \<Rightarrow> note (Could_not_evaluate key)
             | Some r \<Rightarrow>
                 if \<not> sr_fired r then note (Did_not_fire key (sr_outcome r))
                 else if sr_tier r = Review_tier
                 then (let pending = proposeReview r (si_stockId input)
                       in s\<lparr>ev_events := ev_events s @ [pd_event pending], ev_pendingReviews := ev_pendingReviews s @ [pending],
                            ev_notes := ev_notes s @ [Sent_to_review key (sr_outcome r)]\<rparr>)
                 else (let res = resolveOutcome r (si_stockId input) (si_snapshotKey input)
                       in s\<lparr>ev_events := ev_events s @ [ro_event res], ev_directives := ev_directives s @ ro_directives res,
                            ev_stockActions := ev_stockActions s @ ro_stockActions res,
                            ev_annotations := ev_annotations s @ ro_annotations res,
                            ev_notes := ev_notes s @ [Fired_note key (sr_outcome r) (sr_tier r) (map dw_metricKey (ro_directives res))
                               (map sa_kind (ro_stockActions res)) (ro_annotations res \<noteq> [])]\<rparr>))"

definition empty_eval :: "stock_input \<Rightarrow> eval_result" where
  "empty_eval input = \<lparr>ev_stockId = si_stockId input, ev_symbol = si_symbol input, ev_snapshotKey = si_snapshotKey input,
     ev_events = [], ev_directives = [], ev_stockActions = [], ev_annotations = [], ev_pendingReviews = [], ev_notes = []\<rparr>"

definition runGuardrailGate :: "(num \<Rightarrow> num) \<Rightarrow> stock_input \<Rightarrow> (signature_key \<Rightarrow> bool) option \<Rightarrow> eval_result" where
  "runGuardrailGate R input filt =
     foldl (gate_step R input filt) (empty_eval input) (applicableBuiltSignatures (si_industryPath input))"

record pg_gate =
  pg_byStock :: "(string \<times> eval_result) list"
  pg_allDirectives :: "directive_row list"
  pg_allEvents :: "event_row list"
  pg_allStockActions :: "stock_action list"

definition runGuardrailGateForPG :: "(num \<Rightarrow> num) \<Rightarrow> stock_input list \<Rightarrow> (signature_key \<Rightarrow> bool) option \<Rightarrow> pg_gate" where
  "runGuardrailGateForPG R inputs filt =
    (let run = (\<lambda>i. runGuardrailGate R i filt)
     in \<lparr>pg_byStock = foldl (\<lambda>m i. upsert (si_stockId i) (\<lambda>_. run i) m) [] inputs,
         pg_allDirectives = concat (map (\<lambda>i. ev_directives (run i)) inputs),
         pg_allEvents = concat (map (\<lambda>i. ev_events (run i)) inputs),
         pg_allStockActions = concat (map (\<lambda>i. ev_stockActions (run i)) inputs)\<rparr>)"

subsection \<open>The behaviour filter (\<open>behaviour.ts\<close>)\<close>

record stripped =
  st_signatureKey :: "signature_key option"
  st_behaviour :: guardrail_behaviour
  st_stockId :: string
  st_metricKey :: string
  st_outcome :: outcome

record behaviour_audit =
  ba_strippedDirectives :: "stripped list"
  ba_firedByBehaviour :: "guardrail_behaviour \<Rightarrow> signature_key list"

definition signatureOf :: "eval_result \<Rightarrow> directive_row \<Rightarrow> signature_key option" where
  "signatureOf r d = map_option er_signatureKey (find (\<lambda>e. er_localEventId e = dw_sourceLocalEventId d) (ev_events r))"

definition behaviour_step :: "eval_result \<Rightarrow> directive_row list \<times> stripped list \<Rightarrow> directive_row \<Rightarrow> directive_row list \<times> stripped list" where
  "behaviour_step r acc d =
    (let strip = (\<lambda>k b. (fst acc, snd acc @ [\<lparr>st_signatureKey = k, st_behaviour = b, st_stockId = dw_stockId d,
            st_metricKey = dw_metricKey d, st_outcome = dw_outcome d\<rparr>]))
     in case signatureOf r d of
          None \<Rightarrow> strip None Detect
        | Some sig \<Rightarrow> if canSuppress sig then (fst acc @ [d], snd acc) else strip (Some sig) (GUARDRAIL_BEHAVIOUR sig))"

definition fired_step :: "(guardrail_behaviour \<Rightarrow> signature_key list) \<Rightarrow> event_row \<Rightarrow> guardrail_behaviour \<Rightarrow> signature_key list" where
  "fired_step m e = (let b = GUARDRAIL_BEHAVIOUR (er_signatureKey e)
     in if er_signatureKey e \<in> set (m b) then m else m(b := m b @ [er_signatureKey e]))"

definition applyBehaviour :: "eval_result \<Rightarrow> eval_result \<times> behaviour_audit" where
  "applyBehaviour r =
    (let acc = foldl (behaviour_step r) ([], []) (ev_directives r)
     in (r\<lparr>ev_directives := fst acc\<rparr>,
         \<lparr>ba_strippedDirectives = snd acc, ba_firedByBehaviour = foldl fired_step (\<lambda>_. []) (ev_events r)\<rparr>))"

definition applyBehaviourForPG :: "eval_result list \<Rightarrow> eval_result list \<times> directive_row list \<times> behaviour_audit list" where
  "applyBehaviourForPG results =
    (let both = map applyBehaviour results
     in (map fst both, concat (map (\<lambda>p. ev_directives (fst p)) both), map snd both))"

subsection \<open>The scorer's predicates (\<open>suppression-adapter.ts\<close>)\<close>

definition pair_key :: "string \<Rightarrow> string \<Rightarrow> string" where
  "pair_key stock metric = stock @ [CHR 0x00] @ metric"

definition toSuppressionPredicate :: "directive_row list \<Rightarrow> string \<Rightarrow> directive" where
  "toSuppressionPredicate ds snap =
    (let ownExcluded = (\<lambda>d. pair_key (dw_stockId d) (dw_metricKey d)) ` set (filter (\<lambda>d. dw_snapshotKey d = snap \<and> dw_excludeFromOwnScore d) ds)
     in (\<lambda>stock metric. pair_key stock metric \<in> ownExcluded))"

definition toPeerMeanExclusionPredicate :: "directive_row list \<Rightarrow> string \<Rightarrow> directive" where
  "toPeerMeanExclusionPredicate ds snap =
    (let peerExcluded = (\<lambda>d. pair_key (dw_stockId d) (dw_metricKey d)) ` set (filter (\<lambda>d. dw_snapshotKey d = snap \<and> dw_excludeFromPeerMean d) ds)
     in (\<lambda>stock metric. pair_key stock metric \<in> peerExcluded))"

definition toSuppressionPredicates :: "directive_row list \<Rightarrow> string \<Rightarrow> suppression" where
  "toSuppressionPredicates ds snap =
    \<lparr>excludeFromOwnScore = toSuppressionPredicate ds snap, excludeFromPeerMean = toPeerMeanExclusionPredicate ds snap\<rparr>"

definition suppressedPairs :: "directive_row list \<Rightarrow> string \<Rightarrow> (string \<times> string \<times> outcome \<times> bool \<times> bool) list" where
  "suppressedPairs ds snap = map (\<lambda>d. (dw_stockId d, dw_metricKey d, dw_outcome d, dw_excludeFromOwnScore d, dw_excludeFromPeerMean d))
     (filter (\<lambda>d. dw_snapshotKey d = snap) ds)"

subsection \<open>The gate of the scoring pass (\<open>scoring-gate.ts\<close>, \<open>score-pass.ts\<close>)\<close>

record gate_member =
  gm_stockId :: string
  gm_symbol :: string
  gm_fRows :: "foundation_annual list"
  gm_own :: "ownership_quarter list"

definition toFundInput :: "(num \<Rightarrow> num) \<Rightarrow> foundation_annual \<Rightarrow> latest_fundamental" where
  "toFundInput R r = \<lparr>lf_fiscalYear = fa_fiscalYear r, lf_revenue = fa_revenue r, lf_netProfit = fa_netProfit r,
     lf_netWorth = netWorthFrom R r, lf_totalAssets = fa_totalAssets r, lf_profitBeforeTax = fa_profitBeforeTax r,
     lf_tax = map_option (\<lambda>(b, n). R (b - n)) (present2 (fa_profitBeforeTax r) (fa_netProfit r)),
     lf_otherIncome = fa_otherIncome r, lf_financeCosts = fa_financeCosts r, lf_operatingMargin = fa_storedOperatingMargin r\<rparr>"

definition buildGateInput :: "(num \<Rightarrow> num) \<Rightarrow> industry \<Rightarrow> string \<Rightarrow> gate_member \<Rightarrow> stock_input" where
  "buildGateInput R path snap m =
    (let sorted = sort_key fa_fyOrdinal (gm_fRows m);
         latest = (if sorted = [] then None else Some (last sorted));
         prior = (if 2 \<le> length sorted then Some (sorted ! (length sorted - 2)) else None);
         latestSh = (if gm_own m = [] then None else Some (last (gm_own m)))
     in \<lparr>si_stockId = gm_stockId m, si_symbol = gm_symbol m, si_industryPath = path, si_snapshotKey = snap,
         si_latestFundamental = map_option (toFundInput R) latest, si_priorFundamental = map_option (toFundInput R) prior,
         si_promoterPct = Option.bind latestSh oq_promoterPct, si_quarterlyFiling = None,
         si_history = Some \<lparr>hd_fundamentalRows = length (gm_fRows m), hd_shareholdingRows = length (gm_own m)\<rparr>,
         si_activity = None, si_bandFlipDetected = False, si_corporateAction = None\<rparr>)"

record gate_summary =
  gs_membersEvaluated :: nat
  gs_firedEvents :: nat
  gs_appliedDirectives :: nat
  gs_strippedDirectives :: nat
  gs_pendingReviews :: nat
  gs_stockActions :: nat

datatype not_run_reason = Flag_off | Point_in_time string

record scoring_gate_result =
  sg_ran :: bool
  sg_reason :: "not_run_reason option"
  sg_results :: "eval_result list"
  sg_suppression :: suppression_input
  sg_audits :: "behaviour_audit list"
  sg_summary :: gate_summary

definition NO_SUPPRESSION :: directive where "NO_SUPPRESSION = (\<lambda>_ _. False)"

definition gateNotRun :: "not_run_reason \<Rightarrow> scoring_gate_result" where
  "gateNotRun reason = \<lparr>sg_ran = False, sg_reason = Some reason, sg_results = [], sg_suppression = One NO_SUPPRESSION, sg_audits = [],
     sg_summary = \<lparr>gs_membersEvaluated = 0, gs_firedEvents = 0, gs_appliedDirectives = 0, gs_strippedDirectives = 0,
       gs_pendingReviews = 0, gs_stockActions = 0\<rparr>\<rparr>"

definition runScoringGate :: "(num \<Rightarrow> num) \<Rightarrow> gate_member list \<Rightarrow> industry \<Rightarrow> string \<Rightarrow> scoring_gate_result" where
  "runScoringGate R members path snap =
    (let inputs = map (buildGateInput R path snap) members;
         rawResults = map snd (pg_byStock (runGuardrailGateForPG R inputs (Some isEvaluable)));
         (results, suppressDirectives, audits) = applyBehaviourForPG rawResults
     in \<lparr>sg_ran = True, sg_reason = None, sg_results = results,
         sg_suppression = Two (toSuppressionPredicates suppressDirectives snap), sg_audits = audits,
         sg_summary = \<lparr>gs_membersEvaluated = length inputs,
           gs_firedEvents = sum_list (map (\<lambda>r. length (ev_events r)) results),
           gs_appliedDirectives = length suppressDirectives,
           gs_strippedDirectives = sum_list (map (\<lambda>a. length (ba_strippedDirectives a)) audits),
           gs_pendingReviews = sum_list (map (\<lambda>r. length (ev_pendingReviews r)) results),
           gs_stockActions = sum_list (map (\<lambda>r. length (ev_stockActions r)) results)\<rparr>\<rparr>)"

definition passGate :: "(num \<Rightarrow> num) \<Rightarrow> bool \<Rightarrow> string option \<Rightarrow> bool \<Rightarrow> gate_member list \<Rightarrow> industry \<Rightarrow> string \<Rightarrow> scoring_gate_result" where
  \<comment> \<open>the gate as the pass calls it: \<open>withGuardrail\<close>, the point in time, \<open>screenHistory\<close>\<close>
  "passGate R withGuardrail pit screenHistory members path periodKey =
    (if \<not> withGuardrail then gateNotRun Flag_off
     else case pit of
            Some expectKey \<Rightarrow> if screenHistory then runScoringGate R members path periodKey else gateNotRun (Point_in_time expectKey)
          | None \<Rightarrow> runScoringGate R members path periodKey)"

subsection \<open>Where a directive of the gate comes from\<close>

lemma key_string_inj: "inj key_string"
  by (rule injI) (case_tac x; case_tac y; simp)

lemma localEventId_inj: "localEventId s k = localEventId s k' \<longleftrightarrow> k = k'"
  using key_string_inj by (auto simp: localEventId_def inj_def)

lemma event_of_simps [simp]:
  "er_localEventId (event_of r s t) = localEventId s (sr_signatureKey r)" "er_stockId (event_of r s t) = s"
  "er_signatureKey (event_of r s t) = sr_signatureKey r" "er_outcome (event_of r s t) = sr_outcome r"
  "er_tier (event_of r s t) = t" "er_snapshotId (event_of r s t) = None"
  by (simp_all add: event_of_def)

lemma resolve_event [simp]: "ro_event (resolveOutcome r s p) = event_of r s (sr_tier r)"
  by (simp add: resolveOutcome_def Let_def split: outcome.split)

lemma resolve_directives:
  "ro_directives (resolveOutcome r s p) =
    (if sr_outcome r = O2 then map (mkDirective r s p True) (sr_affectedMetrics r)
     else if sr_outcome r = O4 then map (mkDirective r s p False) (sr_affectedMetrics r) else [])"
  by (simp add: resolveOutcome_def Let_def split: outcome.split)

definition fired_verdict :: "(num \<Rightarrow> num) \<Rightarrow> stock_input \<Rightarrow> (signature_key \<Rightarrow> bool) option \<Rightarrow> signature_descriptor \<Rightarrow> signature_result option" where
  \<comment> \<open>the verdict of a descriptor that is allowed, applies and fires\<close>
  "fired_verdict R input filt desc =
    (if (case filt of None \<Rightarrow> True | Some f \<Rightarrow> f (sd_key desc)) \<and> signature_applies (sd_key desc) input
     then Option.bind (signature_evaluate R (sd_key desc) input) (\<lambda>r. only_if (sr_fired r) r) else None)"

definition verdict_directives :: "stock_input \<Rightarrow> signature_result \<Rightarrow> directive_row list" where
  "verdict_directives input r = (if sr_tier r = Review_tier then []
     else ro_directives (resolveOutcome r (si_stockId input) (si_snapshotKey input)))"

definition verdict_event :: "stock_input \<Rightarrow> signature_result \<Rightarrow> event_row" where
  "verdict_event input r = event_of r (si_stockId input) (sr_tier r)"

lemma gate_step_split:
  "ev_events (gate_step R input filt s d) = ev_events s @
      (case fired_verdict R input filt d of None \<Rightarrow> [] | Some r \<Rightarrow> [verdict_event input r])"
  "ev_directives (gate_step R input filt s d) = ev_directives s @
      (case fired_verdict R input filt d of None \<Rightarrow> [] | Some r \<Rightarrow> verdict_directives input r)"
  by (auto simp: gate_step_def fired_verdict_def verdict_directives_def verdict_event_def only_if_def proposeReview_def Let_def
      split: option.split)

lemma gate_step_frame:
  "ev_stockId (gate_step R input filt s d) = ev_stockId s" "ev_snapshotKey (gate_step R input filt s d) = ev_snapshotKey s"
  by (simp_all add: gate_step_def Let_def split: option.split)

definition fired_list :: "(num \<Rightarrow> num) \<Rightarrow> stock_input \<Rightarrow> (signature_key \<Rightarrow> bool) option \<Rightarrow> signature_result list" where
  "fired_list R input filt = List.map_filter (fired_verdict R input filt) (applicableBuiltSignatures (si_industryPath input))"

lemma foldl_gate:
  "ev_events (foldl (gate_step R input filt) s ds) = ev_events s @ map (verdict_event input) (List.map_filter (fired_verdict R input filt) ds)
   \<and> ev_directives (foldl (gate_step R input filt) s ds)
      = ev_directives s @ concat (map (verdict_directives input) (List.map_filter (fired_verdict R input filt) ds))
   \<and> ev_stockId (foldl (gate_step R input filt) s ds) = ev_stockId s \<and> ev_snapshotKey (foldl (gate_step R input filt) s ds) = ev_snapshotKey s"
  by (induction ds arbitrary: s) (auto simp: gate_step_split gate_step_frame map_filter_simps split: option.split)

lemma gate_run:
  "ev_events (runGuardrailGate R input filt) = map (verdict_event input) (fired_list R input filt)"
  "ev_directives (runGuardrailGate R input filt) = concat (map (verdict_directives input) (fired_list R input filt))"
  "ev_stockId (runGuardrailGate R input filt) = si_stockId input"
  using foldl_gate[of R input filt "empty_eval input"] by (simp_all add: runGuardrailGate_def fired_list_def empty_eval_def)

lemma fired_verdict_key: "fired_verdict R input filt d = Some r \<Longrightarrow> sr_signatureKey r = sd_key d \<and> sr_fired r
    \<and> signature_evaluate R (sd_key d) input = Some r \<and> (\<forall>f. filt = Some f \<longrightarrow> f (sd_key d))"
  by (auto simp: fired_verdict_def only_if_def bind_eq_Some_conv evaluate_key split: if_splits option.splits)

lemma fired_list_keys: "distinct (map sr_signatureKey (fired_list R input filt))"
proof -
  have "map sr_signatureKey (List.map_filter (fired_verdict R input filt) ds)
      = map sd_key (filter (\<lambda>d. fired_verdict R input filt d \<noteq> None) ds)" for ds
    by (induction ds) (auto simp: map_filter_simps fired_verdict_key split: option.split)
  moreover have "distinct (map sd_key (filter P (applicableBuiltSignatures p)))" for P p
  proof -
    have "distinct (map sd_key SIGNATURE_REGISTRY)" by (simp add: SIGNATURE_REGISTRY_def)
    then show ?thesis unfolding applicableBuiltSignatures_def by (intro distinct_map_filter)
  qed
  ultimately show ?thesis by (simp add: fired_list_def)
qed


lemma find_by_key:
  "distinct (map sr_signatureKey rs) \<Longrightarrow> r \<in> set rs \<Longrightarrow>
    find (\<lambda>e. er_localEventId e = localEventId (si_stockId input) (sr_signatureKey r)) (map (verdict_event input) rs) = Some (verdict_event input r)"
  by (induction rs) (auto simp: verdict_event_def localEventId_inj)

lemma directive_origin:
  assumes "d \<in> set (ev_directives (runGuardrailGate R input filt))"
  obtains r where "r \<in> set (fired_list R input filt)" "sr_tier r = Auto_tier" "sr_outcome r = O2"
    "d \<in> mkDirective r (si_stockId input) (si_snapshotKey input) True ` set (sr_affectedMetrics r)"
    "find (\<lambda>e. er_localEventId e = dw_sourceLocalEventId d) (ev_events (runGuardrailGate R input filt)) = Some (verdict_event input r)"
    "signature_evaluate R (sr_signatureKey r) input = Some r" "sr_fired r" "\<forall>f. filt = Some f \<longrightarrow> f (sr_signatureKey r)"
proof -
  obtain r where r: "r \<in> set (fired_list R input filt)" "d \<in> set (verdict_directives input r)"
    using assms by (auto simp: gate_run)
  have e: "signature_evaluate R (sr_signatureKey r) input = Some r" "sr_fired r" "\<forall>f. filt = Some f \<longrightarrow> f (sr_signatureKey r)"
    using r(1) fired_verdict_key[of R input filt]
    by (auto simp: fired_list_def List.map_filter_def)
  have t: "sr_tier r = Auto_tier" using r(2) by (cases "sr_tier r") (auto simp: verdict_directives_def)
  have o: "sr_outcome r = O2" using r(2) evaluate_auto_outcome(1)[OF e(1) t]
    by (auto simp: verdict_directives_def t resolve_directives split: if_splits)
  have m: "d \<in> mkDirective r (si_stockId input) (si_snapshotKey input) True ` set (sr_affectedMetrics r)"
    using r(2) by (simp add: verdict_directives_def t o resolve_directives)
  then have "dw_sourceLocalEventId d = localEventId (si_stockId input) (sr_signatureKey r)" by (auto simp: mkDirective_def)
  then have "find (\<lambda>e. er_localEventId e = dw_sourceLocalEventId d) (ev_events (runGuardrailGate R input filt)) = Some (verdict_event input r)"
    using find_by_key[OF fired_list_keys r(1), of input] by (simp add: gate_run)
  then show ?thesis using that r(1) t o m e by blast
qed

text \<open>C11. A directive of the gate can be traced: the behaviour filter finds for it the
  signature that produced it (A-2 or B-1 to B-4), that signature fired on this stock in the
  automatic tier with the outcome O2 and names the directive's metric, and the directive excludes
  from the own score and from the peer mean. So a signature that waits for an operator contributes
  no directive.\<close>

theorem directive_traced:
  assumes "d \<in> set (ev_directives (runGuardrailGate R input filt))"
  shows "\<exists>key r. signatureOf (runGuardrailGate R input filt) d = Some key \<and> key \<in> {A_2, B_1, B_2, B_3, B_4}
      \<and> signature_evaluate R key input = Some r \<and> sr_fired r \<and> sr_tier r = Auto_tier \<and> sr_outcome r = O2
      \<and> dw_metricKey d \<in> set (map am_metricKey (sr_affectedMetrics r)) \<and> dw_stockId d = si_stockId input
      \<and> dw_snapshotKey d = si_snapshotKey input \<and> dw_excludeFromOwnScore d \<and> dw_excludeFromPeerMean d"
proof -
  obtain r where r: "sr_tier r = Auto_tier" "sr_outcome r = O2"
    "d \<in> mkDirective r (si_stockId input) (si_snapshotKey input) True ` set (sr_affectedMetrics r)"
    "find (\<lambda>e. er_localEventId e = dw_sourceLocalEventId d) (ev_events (runGuardrailGate R input filt)) = Some (verdict_event input r)"
    "signature_evaluate R (sr_signatureKey r) input = Some r" "sr_fired r"
    using directive_origin[OF assms] by metis
  have "signatureOf (runGuardrailGate R input filt) d = Some (sr_signatureKey r)"
    using r(4) by (simp add: signatureOf_def verdict_event_def)
  then show ?thesis using r evaluate_auto_outcome(2)[OF r(5,1,2)] by (auto simp: mkDirective_def)
qed

subsection \<open>Nothing reaches a score\<close>

lemma behaviour_steps:
  "foldl (behaviour_step r) acc ds = (fst acc @ filter (\<lambda>d. \<exists>k. signatureOf r d = Some k \<and> canSuppress k) ds,
     snd acc @ map (\<lambda>d. \<lparr>st_signatureKey = signatureOf r d, st_behaviour = (case signatureOf r d of None \<Rightarrow> Detect | Some k \<Rightarrow> GUARDRAIL_BEHAVIOUR k),
       st_stockId = dw_stockId d, st_metricKey = dw_metricKey d, st_outcome = dw_outcome d\<rparr>)
       (filter (\<lambda>d. \<not> (\<exists>k. signatureOf r d = Some k \<and> canSuppress k)) ds))"
proof (induction ds arbitrary: acc)
  case (Cons d ds)
  show ?case unfolding foldl.simps Cons.IH by (cases "signatureOf r d") (simp_all add: behaviour_step_def Let_def)
qed simp

lemma never_suppress [simp]: "\<not> canSuppress k"
  by (cases k) (simp_all add: canSuppress_def)

lemma applyBehaviour_silent:
  "ev_directives (fst (applyBehaviour r)) = []"
  "length (ba_strippedDirectives (snd (applyBehaviour r))) = length (ev_directives r)"
  "ev_events (fst (applyBehaviour r)) = ev_events r" "ev_pendingReviews (fst (applyBehaviour r)) = ev_pendingReviews r"
  "ev_annotations (fst (applyBehaviour r)) = ev_annotations r" "ev_stockActions (fst (applyBehaviour r)) = ev_stockActions r"
  by (simp_all add: applyBehaviour_def behaviour_steps Let_def)

lemma no_directives: "toSuppressionPredicates [] snap = \<lparr>excludeFromOwnScore = NO_SUPPRESSION, excludeFromPeerMean = NO_SUPPRESSION\<rparr>"
  by (simp add: toSuppressionPredicates_def toSuppressionPredicate_def toPeerMeanExclusionPredicate_def NO_SUPPRESSION_def)

lemma normalize_gate: "normalizeSuppression (sg_suppression (passGate R w pit sh members path snap))
    = \<lparr>excludeFromOwnScore = NO_SUPPRESSION, excludeFromPeerMean = NO_SUPPRESSION\<rparr>"
proof -
  have "concat (map ((\<lambda>p. ev_directives (fst p)) \<circ> applyBehaviour \<circ> snd) rs) = []" for rs :: "(string \<times> eval_result) list"
    by (simp add: applyBehaviour_silent)
  then have "normalizeSuppression (sg_suppression (runScoringGate R members path snap))
      = \<lparr>excludeFromOwnScore = NO_SUPPRESSION, excludeFromPeerMean = NO_SUPPRESSION\<rparr>"
    by (simp add: runScoringGate_def applyBehaviourForPG_def Let_def no_directives del: concat_eq_Nil_conv)
  then show ?thesis by (simp add: passGate_def gateNotRun_def split: option.split)
qed

lemma score_suppression_cong:
  assumes "normalizeSuppression s = normalizeSuppression s'"
  shows "scoreMetricCrossSection R (i\<lparr>ci_suppression := s\<rparr>) = scoreMetricCrossSection R (i\<lparr>ci_suppression := s'\<rparr>)"
proof -
  let ?i = "i\<lparr>ci_suppression := s\<rparr>" and ?j = "i\<lparr>ci_suppression := s'\<rparr>"
  have own: "ownExcluded ?i = ownExcluded ?j" and peer: "peerExcluded ?i = peerExcluded ?j"
    by (simp_all add: fun_eq_iff ownExcluded_def peerExcluded_def assms)
  have sets: "scoredSet ?i = scoredSet ?j" "peerSetCommon ?i = peerSetCommon ?j"
    by (simp_all add: scoredSet_def peerSetCommon_def own peer)
  have l1: "memberL1 R ?i = memberL1 R ?j" by (simp add: fun_eq_iff memberL1_def)
  then have l1m: "l1Map R ?i = l1Map R ?j" by (simp add: fun_eq_iff l1Map_def sets)
  have build: "buildScored R ?i = buildScored R ?j" "buildNotScored ?i = buildNotScored ?j" "buildNeutralHold ?i = buildNeutralHold ?j"
    by (simp_all add: fun_eq_iff buildScored_def buildNotScored_def buildNeutralHold_def unscored_def)
  have "scoreMember R ?i = scoreMember R ?j"
    unfolding scoreMember_def fun_eq_iff own peer sets l1 l1m build by simp
  then show ?thesis by (cases "ci_liveUnit i") (simp_all add: scoreMetricCrossSection_def sets l1m)
qed

text \<open>C10. The guardrail cannot move a score today: whatever the members, the path, the period
  and the switches of the pass, scoring a metric's peer group with the gate's suppression gives
  exactly what it gives without any suppression, because every directive's signature is one the
  behaviour contract keeps from suppressing.\<close>

theorem guardrail_moves_no_score:
  "scoreMetricCrossSection R (input\<lparr>ci_suppression := sg_suppression (passGate R withGuardrail pit screenHistory members path snap)\<rparr>)
     = scoreMetricCrossSection R (input\<lparr>ci_suppression := One NO_SUPPRESSION\<rparr>)"
  by (rule score_suppression_cong) (simp add: normalize_gate)

lemma gate_counts:
  fixes R members path snap
  defines "g \<equiv> runScoringGate R members path snap"
  defines "raw \<equiv> map snd (pg_byStock (runGuardrailGateForPG R (map (buildGateInput R path snap) members) (Some isEvaluable)))"
  shows "map ev_events (sg_results g) = map ev_events raw \<and> map ev_pendingReviews (sg_results g) = map ev_pendingReviews raw
    \<and> gs_appliedDirectives (sg_summary g) = 0
    \<and> gs_strippedDirectives (sg_summary g) = sum_list (map (\<lambda>r. length (ev_directives r)) raw)"
  unfolding g_def raw_def
  by (simp add: runScoringGate_def applyBehaviourForPG_def Let_def applyBehaviour_silent o_def)


lemma directive_traced_witness:
  "\<exists>d key. d \<in> set (ev_directives (runGuardrailGate f64 distorted_input None)) \<and> signatureOf (runGuardrailGate f64 distorted_input None) d = Some key
     \<and> key \<in> {A_2, B_1, B_2, B_3, B_4} \<and> dw_excludeFromPeerMean d"
proof -
  have "ev_directives (runGuardrailGate f64 distorted_input None) \<noteq> []" by code_simp
  then obtain d where "d \<in> set (ev_directives (runGuardrailGate f64 distorted_input None))"
    by (meson last_in_set)
  from directive_traced[OF this] this show ?thesis by blast
qed

subsection \<open>A-2 and the values the dispatcher computes\<close>

lemma unavailable_simps [simp]: "\<not> mv_available (unavailable k u rs)" "mv_available (available k u src v fl)"
  by (simp_all add: unavailable_def available_def)

lemma rolling_first_iff:
  "mv_available (rolling_first rolling annual c) \<longleftrightarrow> mv_available (annual c) \<or> fc_run c \<noteq> [] \<and> mv_available (rolling (fc_snap c) (fc_run c))"
  by (simp add: rolling_first_def Let_def)

lemma by_dispatch:
  "by_table (FOUNDATION_DISPATCH R mpow) c ''F1'' = rolling_first (f1RoceTtm R) (\<lambda>c. f1Roce R (fc_snap c)) c"
  "by_table (FOUNDATION_DISPATCH R mpow) c ''F2'' = rolling_first (f2RoeTtm R) (\<lambda>c. f2Roe R (fc_snap c)) c"
  "by_table (FOUNDATION_DISPATCH R mpow) c ''F3'' = f3CashConversion R (fc_snap c) (fc_prior c) (fc_periodAvgPrice c)"
  "by_table (FOUNDATION_DISPATCH R mpow) c ''F4'' = f4DebtEquity R (fc_snap c)"
  "by_table (FOUNDATION_DISPATCH R mpow) c ''F6'' = rolling_first (f6ReceivablesDaysTtm R) (\<lambda>c. f6ReceivablesDays R (fc_snap c)) c"
  "by_table (FOUNDATION_DISPATCH R mpow) c ''F7'' = rolling_first (f7AssetTurnoverTtm R) (\<lambda>c. f7AssetTurnover R (fc_snap c)) c"
  "by_table (FOUNDATION_DISPATCH R mpow) c ''F10'' = rolling_first (f10Revenue3yCagrTtm R mpow)
     (\<lambda>c. f10Revenue3yCagr R mpow (fc_rows c) (fc_snapshotOrdinal c)) c"
  by (simp_all add: by_table_def FOUNDATION_DISPATCH_def FOUNDATION_ANNUAL_def FOUNDATION_TTM_def)

lemma annual_unavailable:
  "netWorthFrom R r = None \<Longrightarrow> \<not> mv_available (f1Roce R r)" "netWorthFrom R r = None \<Longrightarrow> \<not> mv_available (f2Roe R r)"
  "netWorthFrom R r = None \<Longrightarrow> \<not> mv_available (f4DebtEquity R r)" "fa_netProfit r = None \<Longrightarrow> \<not> mv_available (f2Roe R r)"
  "fa_netProfit r = None \<Longrightarrow> \<not> mv_available (f3CashConversion R r p a)" "fa_revenue r = None \<Longrightarrow> \<not> mv_available (f6ReceivablesDays R r)"
  "fa_revenue r = None \<Longrightarrow> \<not> mv_available (f7AssetTurnover R r)" "fa_totalAssets r = None \<Longrightarrow> \<not> mv_available (f7AssetTurnover R r)"
  by (simp_all add: f1Roce_def f2Roe_def f4DebtEquity_def f3CashConversion_def f6ReceivablesDays_def f7AssetTurnover_def split: option.split)

lemma rolling_unavailable:
  "netWorthFrom R r = None \<Longrightarrow> \<not> mv_available (f1RoceTtm R r run)" "netWorthFrom R r = None \<Longrightarrow> \<not> mv_available (f2RoeTtm R r run)"
  "fa_totalAssets r = None \<Longrightarrow> \<not> mv_available (f7AssetTurnoverTtm R r run)"
  by (simp_all add: f1RoceTtm_def f2RoeTtm_def f7AssetTurnoverTtm_def split: option.split)

lemma f10_unavailable:
  assumes "rows \<noteq> []" "fa_revenue (last rows) = None"
  shows "\<not> mv_available (f10Revenue3yCagr R mpow rows (fa_fyOrdinal (last rows)))"
proof -
  have "byOrd rows (fa_fyOrdinal (last rows)) = Some (last rows)"
    using assms(1) by (cases rows rule: rev_cases) (simp_all add: byOrd_def)
  then show ?thesis using assms(2) by (simp add: f10Revenue3yCagr_def)
qed

lemma a2_affected_keys:
  assumes "k \<in> set (map am_metricKey (a2_affected (nullFields f)))"
  shows "\<exists>field. field_value f field = None \<and> k \<in> set (FIELD_TO_FOUNDATION_METRICS field)"
proof -
  have "k \<in> set (concat (map FIELD_TO_FOUNDATION_METRICS (nullFields f)))"
    using bspec[OF a2_affected_table nullFields_in[of f]] assms by blast
  then show ?thesis using nullFields_mem[of f] by auto
qed

lemma missing_field_unavailable:
  assumes "rows \<noteq> []" "fc_rows c = rows" "fc_snap c = last rows" "fc_snapshotOrdinal c = fa_fyOrdinal (last rows)"
    "field_value (toFundInput R (last rows)) field = None" "k \<in> set (FIELD_TO_FOUNDATION_METRICS field)"
    "mv_available (by_table (FOUNDATION_DISPATCH R mpow) c k)"
  shows "fc_run c \<noteq> [] \<and> (k = ''F2'' \<and> fa_netProfit (last rows) = None \<or> k \<in> {''F6'', ''F7'', ''F10''} \<and> fa_revenue (last rows) = None)"
proof -
  have ten: "fa_revenue (last rows) = None \<Longrightarrow>
      \<not> mv_available (f10Revenue3yCagr R mpow (fc_rows c) (fc_snapshotOrdinal c))"
    using f10_unavailable[OF assms(1)] assms(2,4) by simp
  show ?thesis
  proof (cases field)
    case Revenue_field
    then have "fa_revenue (last rows) = None" "k \<in> {''F6'', ''F7'', ''F10''}" using assms(5,6) by (auto simp: toFundInput_def)
    then show ?thesis using assms(3,7) ten by (auto simp: by_dispatch rolling_first_iff annual_unavailable)
  next
    case NetProfit_field
    then have "fa_netProfit (last rows) = None" "k \<in> {''F2'', ''F3''}" using assms(5,6) by (auto simp: toFundInput_def)
    then show ?thesis using assms(3,7) by (auto simp: by_dispatch rolling_first_iff annual_unavailable)
  next
    case NetWorth_field
    then have "netWorthFrom R (last rows) = None" "k \<in> {''F1'', ''F2'', ''F4''}" using assms(5,6) by (auto simp: toFundInput_def)
    then show ?thesis using assms(3,7) by (auto simp: by_dispatch rolling_first_iff annual_unavailable rolling_unavailable)
  next
    case TotalAssets_field
    then have "fa_totalAssets (last rows) = None" "k = ''F7''" using assms(5,6) by (auto simp: toFundInput_def)
    then show ?thesis using assms(3,7) by (auto simp: by_dispatch rolling_first_iff annual_unavailable rolling_unavailable)
  qed
qed

text \<open>C12. What A-2 would take out of the score, against the values the dispatcher computes:
  for a company with annual rows, a metric that A-2 names is unavailable, except that with a run of
  quarters F2 (no annual profit) and F6, F7 and F10 (no annual revenue) can be available in their
  rolling form.\<close>

theorem a2_names_uncomputable:
  assumes "gm_fRows m \<noteq> []"
    and "signature_evaluate R A_2 (buildGateInput R Non_financial snap m) = Some r"
    and "k \<in> set (map am_metricKey (sr_affectedMetrics r))"
    and "di_industryType input = Non_financial" "di_foundationRows input = gm_fRows m" "di_foundationKeys input = [k]"
  shows "\<exists>v. do_foundation (dispatchLiveValues R mpow input) = [v] \<and> (mv_available v \<longrightarrow>
      consecutiveTail (nullish (di_foundationQuarters input) (di_momentumQuarters input)) \<noteq> [] \<and>
      (k = ''F2'' \<and> fa_netProfit (last (sort_key fa_fyOrdinal (gm_fRows m))) = None
       \<or> k \<in> {''F6'', ''F7'', ''F10''} \<and> fa_revenue (last (sort_key fa_fyOrdinal (gm_fRows m))) = None))"
proof -
  let ?rows = "sort_key fa_fyOrdinal (gm_fRows m)"
  have rows: "?rows \<noteq> []" using assms(1) by (metis length_0_conv length_sort)
  let ?f = "toFundInput R (last ?rows)"
  have "si_latestFundamental (buildGateInput R Non_financial snap m) = Some ?f" using rows by (simp add: buildGateInput_def Let_def)
  then have "k \<in> set (map am_metricKey (a2_affected (nullFields ?f)))"
    using assms(2,3) by (auto simp: a2_evaluate_def Let_def split: if_splits)
  then obtain field where field: "field_value ?f field = None" "k \<in> set (FIELD_TO_FOUNDATION_METRICS field)"
    using a2_affected_keys by blast
  define c where "c = \<lparr>fc_rows = ?rows, fc_snap = last ?rows,
      fc_prior = find (\<lambda>r. fa_fyOrdinal r = fa_fyOrdinal (last ?rows) - 1) ?rows, fc_snapshotOrdinal = fa_fyOrdinal (last ?rows),
      fc_periodAvgPrice = di_periodAvgPrice input,
      fc_run = consecutiveTail (nullish (di_foundationQuarters input) (di_momentumQuarters input))\<rparr>"
  have "do_foundation (dispatchLiveValues R mpow input) = [by_table (FOUNDATION_DISPATCH R mpow) c k]"
    using rows assms(4-6) by (simp add: dispatchLiveValues_def foundation_values_def Let_def c_def split: prod.split)
  then show ?thesis
    using missing_field_unavailable[OF rows _ _ _ field, of c mpow] by (simp add: c_def)
qed


definition undisclosed_profit :: gate_member where
  "undisclosed_profit = \<lparr>gm_stockId = ''s1'', gm_symbol = ''ABC'', gm_fRows = [(sample_year 26 100)\<lparr>fa_netProfit := None\<rparr>], gm_own = []\<rparr>"

definition profit_quarters :: "momentum_quarter list \<Rightarrow> string \<Rightarrow> dispatch_input" where
  "profit_quarters qs k = \<lparr>di_industryType = Non_financial, di_foundationKeys = [k], di_momentumKeys = [],
     di_foundationRows = gm_fRows undisclosed_profit, di_momentumQuarters = qs, di_foundationQuarters = None, di_periodAvgPrice = None,
     di_bankingCtx = None\<rparr>"

lemma undisclosed_profit_verdict:
  "map_option (\<lambda>r. (sr_outcome r, map am_metricKey (sr_affectedMetrics r)))
     (signature_evaluate f64 A_2 (buildGateInput f64 Non_financial ''FY26Q4'' undisclosed_profit)) = Some (O2, [''F2'', ''F3''])"
  by code_simp

lemma undisclosed_profit_result:
  obtains r where "signature_evaluate f64 A_2 (buildGateInput f64 Non_financial ''FY26Q4'' undisclosed_profit) = Some r"
    "sr_outcome r = O2" "map am_metricKey (sr_affectedMetrics r) = [''F2'', ''F3'']"
  using undisclosed_profit_verdict by auto

lemma a2_names_uncomputable_witness:
  "\<exists>v. do_foundation (dispatchLiveValues f64 sample_pow (profit_quarters [] ''F2'')) = [v] \<and> \<not> mv_available v"
proof -
  obtain r where r: "signature_evaluate f64 A_2 (buildGateInput f64 Non_financial ''FY26Q4'' undisclosed_profit) = Some r"
    "map am_metricKey (sr_affectedMetrics r) = [''F2'', ''F3'']" using undisclosed_profit_result by metis
  show ?thesis
    using a2_names_uncomputable[OF _ r(1), of "''F2''" "profit_quarters [] ''F2''" sample_pow] r(2)
    by (auto simp: undisclosed_profit_def profit_quarters_def consecutiveTail_def consecutive_run_def)
qed

lemma a2_names_a_computable_metric:
  \<comment> \<open>four quarters disclose the profit the year does not: A-2 excludes a return on equity that is computed\<close>
  "\<exists>r. signature_evaluate f64 A_2 (buildGateInput f64 Non_financial ''FY26Q4'' undisclosed_profit) = Some r \<and> sr_outcome r = O2
     \<and> ''F2'' \<in> set (map am_metricKey (sr_affectedMetrics r))
     \<and> map (\<lambda>v. (mv_available v, mv_value v)) (do_foundation (dispatchLiveValues f64 sample_pow
          (profit_quarters [sample_quarter 1 9, sample_quarter 2 9, sample_quarter 3 9, sample_quarter 4 9] ''F2''))) = [(True, Some (Fin 40))]"
proof -
  have "map (\<lambda>v. (mv_available v, mv_value v)) (do_foundation (dispatchLiveValues f64 sample_pow
          (profit_quarters [sample_quarter 1 9, sample_quarter 2 9, sample_quarter 3 9, sample_quarter 4 9] ''F2''))) = [(True, Some (Fin 40))]"
    by code_simp
  moreover obtain r where "signature_evaluate f64 A_2 (buildGateInput f64 Non_financial ''FY26Q4'' undisclosed_profit) = Some r"
    "sr_outcome r = O2" "map am_metricKey (sr_affectedMetrics r) = [''F2'', ''F3'']" using undisclosed_profit_result by metis
  ultimately show ?thesis by auto
qed

subsection \<open>The predicates read the directives back exactly\<close>

lemma pair_key_inj:
  assumes "CHR 0x00 \<notin> set m" "CHR 0x00 \<notin> set m'" shows "pair_key s m = pair_key s' m' \<longleftrightarrow> s = s' \<and> m = m'"
proof
  assume "pair_key s m = pair_key s' m'"
  then have e: "rev m @ CHR 0x00 # rev s = rev m' @ CHR 0x00 # rev s'"
    unfolding pair_key_def by (metis append.assoc append_Cons append_Nil rev.simps(2) rev_append)
  have "takeWhile (\<lambda>c. c \<noteq> CHR 0x00) (rev m @ CHR 0x00 # rev s) = rev m" if "CHR 0x00 \<notin> set m" for m s
    using that by (subst takeWhile_append2) auto
  from this[OF assms(1), of s] this[OF assms(2), of s'] e have "rev m = rev m'" by metis
  with e show "s = s' \<and> m = m'" by simp
qed (simp add: pair_key_def)

lemma predicates_exact:
  assumes "CHR 0x00 \<notin> set metric" "\<And>d. d \<in> set ds \<Longrightarrow> CHR 0x00 \<notin> set (dw_metricKey d)"
  shows "toSuppressionPredicate ds snap stock metric \<longleftrightarrow>
      (\<exists>d \<in> set ds. dw_snapshotKey d = snap \<and> dw_excludeFromOwnScore d \<and> dw_stockId d = stock \<and> dw_metricKey d = metric)"
    and "toPeerMeanExclusionPredicate ds snap stock metric \<longleftrightarrow>
      (\<exists>d \<in> set ds. dw_snapshotKey d = snap \<and> dw_excludeFromPeerMean d \<and> dw_stockId d = stock \<and> dw_metricKey d = metric)"
  using pair_key_inj[OF assms(1)] assms(2)
  by (auto simp: toSuppressionPredicate_def toPeerMeanExclusionPredicate_def image_iff)

end
