(* ===== verification/GuardrailStore.thy ===== *)
theory GuardrailStore
  imports GuardrailGate
begin

text \<open>
  The guardrail's tables, \<open>src/scoring/guardrail/persist.ts\<close>: events, suppressions and the operator's
  rulings.  A transaction is one step of the state, and a thrown error leaves the state as it was; an id the
  database makes is \<open>gen\<close> of the state it is made in.  The returned plan (the rows as text) is left out.
\<close>

subsection \<open>The two tables (\<open>persist.ts\<close>)\<close>

record event_db =
  gd_id :: string
  gd_stockId :: string
  gd_snapshotKey :: string
  gd_snapshotId :: "string option"
  gd_signatureKey :: signature_key
  gd_triggeringValues :: evidence
  gd_outcome :: outcome
  gd_tier :: tier

record suppression_db =
  sp_stockId :: string
  sp_snapshotKey :: string
  sp_metricKey :: string
  sp_sourceGuardrailEventId :: string
  sp_outcome :: outcome
  sp_excludeFromOwnScore :: bool
  sp_excludeFromPeerMean :: bool

record review_db =
  rd_guardrailEventId :: string
  rd_operatorId :: string
  rd_ruling :: ruling
  rd_reason :: "string option"
  rd_ruledAt :: int

record guardrail_db =
  db_events :: "event_db list"
  db_suppressions :: "suppression_db list"
  db_reviews :: "review_db list"

datatype persist_error = Requires_snapshots | Requires_event_id | Unique_violation

definition find_event :: "guardrail_db \<Rightarrow> string \<Rightarrow> string \<Rightarrow> signature_key \<Rightarrow> event_db option" where
  "find_event db stock snap key = find (\<lambda>e. gd_stockId e = stock \<and> gd_snapshotKey e = snap \<and> gd_signatureKey e = key) (db_events db)"

definition find_suppression :: "guardrail_db \<Rightarrow> string \<Rightarrow> string \<Rightarrow> string \<Rightarrow> suppression_db option" where
  "find_suppression db stock snap metric =
     find (\<lambda>s. sp_stockId s = stock \<and> sp_snapshotKey s = snap \<and> sp_metricKey s = metric) (db_suppressions db)"

type_synonym local_ids = "string \<Rightarrow> string option"

definition write_event :: "(guardrail_db \<Rightarrow> string) \<Rightarrow> string \<Rightarrow> string option \<Rightarrow> guardrail_db \<times> local_ids \<Rightarrow> event_row \<Rightarrow> guardrail_db \<times> local_ids" where
  "write_event gen snap sid st e = (case find_event (fst st) (er_stockId e) snap (er_signatureKey e) of
     Some row \<Rightarrow> (fst st, (snd st)(er_localEventId e \<mapsto> gd_id row))
   | None \<Rightarrow> (let rid = gen (fst st)
       in ((fst st)\<lparr>db_events := db_events (fst st) @ [\<lparr>gd_id = rid, gd_stockId = er_stockId e, gd_snapshotKey = snap,
             gd_snapshotId = sid, gd_signatureKey = er_signatureKey e, gd_triggeringValues = er_triggeringValues e,
             gd_outcome = er_outcome e, gd_tier = er_tier e\<rparr>]\<rparr>,
           (snd st)(er_localEventId e \<mapsto> rid))))"

definition write_directive :: "local_ids \<Rightarrow> guardrail_db \<Rightarrow> directive_row \<Rightarrow> guardrail_db" where
  "write_directive ids db d = (case ids (dw_sourceLocalEventId d) of
     None \<Rightarrow> db
   | Some srcId \<Rightarrow> (case find_suppression db (dw_stockId d) (dw_snapshotKey d) (dw_metricKey d) of
       Some _ \<Rightarrow> db
     | None \<Rightarrow> db\<lparr>db_suppressions := db_suppressions db @ [\<lparr>sp_stockId = dw_stockId d, sp_snapshotKey = dw_snapshotKey d,
         sp_metricKey = dw_metricKey d, sp_sourceGuardrailEventId = srcId, sp_outcome = dw_outcome d,
         sp_excludeFromOwnScore = dw_excludeFromOwnScore d, sp_excludeFromPeerMean = dw_excludeFromPeerMean d\<rparr>]\<rparr>))"

definition writeAll :: "(guardrail_db \<Rightarrow> string) \<Rightarrow> string \<Rightarrow> (string \<Rightarrow> string option) \<Rightarrow> eval_result list \<Rightarrow> guardrail_db \<Rightarrow> guardrail_db" where
  "writeAll gen snap snapIds results db =
    (let st = foldl (\<lambda>st r. foldl (write_event gen snap (snapIds (ev_stockId r))) st (ev_events r)) (db, Map.empty) results
     in foldl (\<lambda>db' r. foldl (write_directive (snd st)) db' (ev_directives r)) (fst st) results)"

definition writeGuardrailEval ::
  "(guardrail_db \<Rightarrow> string) \<Rightarrow> string \<Rightarrow> (string \<Rightarrow> string option) option \<Rightarrow> bool \<Rightarrow> eval_result list \<Rightarrow> guardrail_db \<Rightarrow>
   (persist_error, guardrail_db) result" where
  "writeGuardrailEval gen snap snapIds dryRun results db =
    (if dryRun then Inr db
     else case snapIds of None \<Rightarrow> Inl Requires_snapshots | Some ids \<Rightarrow> Inr (writeAll gen snap ids results db))"

definition create_suppression :: "string \<Rightarrow> (persist_error, guardrail_db) result \<Rightarrow> directive_row \<Rightarrow> (persist_error, guardrail_db) result" where
  \<comment> \<open>a plain \<open>create\<close>: the table's unique key refuses a second row\<close>
  "create_suppression evId acc d = bindR acc (\<lambda>db.
     if find_suppression db (dw_stockId d) (dw_snapshotKey d) (dw_metricKey d) \<noteq> None then Inl Unique_violation
     else Inr (db\<lparr>db_suppressions := db_suppressions db @ [\<lparr>sp_stockId = dw_stockId d, sp_snapshotKey = dw_snapshotKey d,
       sp_metricKey = dw_metricKey d, sp_sourceGuardrailEventId = evId, sp_outcome = dw_outcome d,
       sp_excludeFromOwnScore = dw_excludeFromOwnScore d, sp_excludeFromPeerMean = dw_excludeFromPeerMean d\<rparr>]\<rparr>))"

definition writeGuardrailReview ::
  "review_row \<Rightarrow> ruling_application \<Rightarrow> bool \<Rightarrow> string option \<Rightarrow> guardrail_db \<Rightarrow> (persist_error, guardrail_db) result" where
  "writeGuardrailReview review app dryRun eventDbId db =
    (if dryRun then Inr db
     else case eventDbId of
            None \<Rightarrow> Inl Requires_event_id
          | Some evId \<Rightarrow> if evId = [] then Inl Requires_event_id else foldl (create_suppression evId)
              (Inr (db\<lparr>db_reviews := db_reviews db @ [\<lparr>rd_guardrailEventId = evId, rd_operatorId = rw_operatorId review,
                 rd_ruling = rw_ruling review, rd_reason = rw_reason review, rd_ruledAt = rw_ruledAt review\<rparr>]\<rparr>))
              (ra_directives app))"

definition loadSuppressionRows :: "guardrail_db \<Rightarrow> string \<Rightarrow> directive_row list" where
  "loadSuppressionRows db snap = map (\<lambda>s. \<lparr>dw_stockId = sp_stockId s, dw_snapshotKey = sp_snapshotKey s, dw_metricKey = sp_metricKey s,
     dw_sourceLocalEventId = sp_sourceGuardrailEventId s, dw_outcome = sp_outcome s,
     dw_excludeFromOwnScore = sp_excludeFromOwnScore s, dw_excludeFromPeerMean = sp_excludeFromPeerMean s\<rparr>)
     (filter (\<lambda>s. sp_snapshotKey s = snap) (db_suppressions db))"

subsection \<open>Writing twice\<close>

definition guardrail_db_ok :: "guardrail_db \<Rightarrow> bool" where
  \<comment> \<open>the unique keys of the two tables, and every suppression points at an event\<close>
  "guardrail_db_ok db \<longleftrightarrow> distinct (map (\<lambda>e. (gd_stockId e, gd_snapshotKey e, gd_signatureKey e)) (db_events db))
     \<and> distinct (map (\<lambda>s. (sp_stockId s, sp_snapshotKey s, sp_metricKey s)) (db_suppressions db))
     \<and> (\<forall>s \<in> set (db_suppressions db). sp_sourceGuardrailEventId s \<in> gd_id ` set (db_events db))"

definition grows :: "guardrail_db \<Rightarrow> guardrail_db \<Rightarrow> bool" where
  \<comment> \<open>rows are only appended\<close>
  "grows db db' \<longleftrightarrow> (\<exists>es. db_events db' = db_events db @ es) \<and> (\<exists>ss. db_suppressions db' = db_suppressions db @ ss) \<and> db_reviews db' = db_reviews db"

lemma grows_trans: "grows a b \<Longrightarrow> grows b c \<Longrightarrow> grows a c"
  by (fastforce simp: grows_def)

lemma grows_refl [simp]: "grows db db" by (simp add: grows_def)

lemma find_None: "find P xs = None \<longleftrightarrow> (\<forall>x \<in> set xs. \<not> P x)"
  by (induction xs) auto

lemma find_append: "find P (xs @ ys) = (case find P xs of None \<Rightarrow> find P ys | Some x \<Rightarrow> Some x)"
  by (induction xs) auto

lemma find_event_grows: "find_event db s p k = Some e \<Longrightarrow> grows db db' \<Longrightarrow> find_event db' s p k = Some e"
  by (auto simp: find_event_def grows_def find_append)

lemma find_suppression_grows: "find_suppression db s p k \<noteq> None \<Longrightarrow> grows db db' \<Longrightarrow> find_suppression db' s p k \<noteq> None"
  by (auto simp: find_suppression_def grows_def find_append split: option.split)

definition ids_ok :: "guardrail_db \<times> local_ids \<Rightarrow> bool" where
  "ids_ok st \<longleftrightarrow> guardrail_db_ok (fst st) \<and> ran (snd st) \<subseteq> gd_id ` set (db_events (fst st))"

lemma write_event_ok:
  assumes "ids_ok st" shows "ids_ok (write_event gen snap sid st e) \<and> grows (fst st) (fst (write_event gen snap sid st e))"
proof (cases "find_event (fst st) (er_stockId e) snap (er_signatureKey e)")
  case None
  then have new: "(er_stockId e, snap, er_signatureKey e) \<notin> (\<lambda>e. (gd_stockId e, gd_snapshotKey e, gd_signatureKey e)) ` set (db_events (fst st))"
    by (auto simp: find_event_def find_None)
  have "ran ((snd st)(er_localEventId e \<mapsto> x)) \<subseteq> insert x (ran (snd st))" for x by (auto simp: ran_def)
  then show ?thesis using assms new None
    by (fastforce simp: write_event_def Let_def ids_ok_def guardrail_db_ok_def grows_def)
next
  case (Some row)
  then have "row \<in> set (db_events (fst st))" by (auto simp: find_event_def find_Some_iff)
  then have "gd_id row \<in> gd_id ` set (db_events (fst st))" by simp
  moreover have "ran ((snd st)(er_localEventId e \<mapsto> x)) \<subseteq> insert x (ran (snd st))" for x by (auto simp: ran_def)
  ultimately show ?thesis using assms Some by (fastforce simp: write_event_def ids_ok_def)
qed

lemma write_directive_ok:
  assumes "guardrail_db_ok db" "ran ids \<subseteq> gd_id ` set (db_events db)"
  shows "guardrail_db_ok (write_directive ids db d) \<and> grows db (write_directive ids db d) \<and> db_events (write_directive ids db d) = db_events db"
proof (cases "ids (dw_sourceLocalEventId d)")
  case (Some srcId)
  then have src: "srcId \<in> gd_id ` set (db_events db)" using assms(2) by (auto simp: ran_def)
  show ?thesis
  proof (cases "find_suppression db (dw_stockId d) (dw_snapshotKey d) (dw_metricKey d)")
    case None
    then have "(dw_stockId d, dw_snapshotKey d, dw_metricKey d) \<notin> (\<lambda>s. (sp_stockId s, sp_snapshotKey s, sp_metricKey s)) ` set (db_suppressions db)"
      by (auto simp: find_suppression_def find_None)
    then show ?thesis using assms(1) src Some None
      by (auto simp: write_directive_def guardrail_db_ok_def grows_def)
  qed (simp add: write_directive_def Some assms(1))
qed (simp add: write_directive_def assms(1))

definition written_events :: "(string \<Rightarrow> string option) \<Rightarrow> eval_result list \<Rightarrow> (string option \<times> event_row) list" where
  "written_events snapIds results = concat (map (\<lambda>r. map (Pair (snapIds (ev_stockId r))) (ev_events r)) results)"

definition event_step :: "(guardrail_db \<Rightarrow> string) \<Rightarrow> string \<Rightarrow> guardrail_db \<times> local_ids \<Rightarrow> string option \<times> event_row \<Rightarrow> guardrail_db \<times> local_ids" where
  "event_step gen snap st p = write_event gen snap (fst p) st (snd p)"

lemma foldl_concat: "foldl (\<lambda>st r. foldl f st (g r)) st rs = foldl f st (concat (map g rs))"
  by (induction rs arbitrary: st) simp_all

lemma foldl_pair: "foldl (write_event gen snap sid) st es = foldl (event_step gen snap) st (map (Pair sid) es)"
  by (induction es arbitrary: st) (simp_all add: event_step_def)

lemma writeAll_flat:
  "writeAll gen snap snapIds results db =
    (let st = foldl (event_step gen snap) (db, Map.empty) (written_events snapIds results)
     in foldl (write_directive (snd st)) (fst st) (concat (map ev_directives results)))"
  by (simp add: writeAll_def foldl_pair foldl_concat written_events_def Let_def)

lemma event_pass_ok:
  "ids_ok st \<Longrightarrow> ids_ok (foldl (event_step gen snap) st ps) \<and> grows (fst st) (fst (foldl (event_step gen snap) st ps))"
proof (induction ps arbitrary: st)
  case (Cons p ps)
  then have a: "ids_ok (event_step gen snap st p)" "grows (fst st) (fst (event_step gen snap st p))"
    using write_event_ok[of st gen snap "fst p" "snd p"] by (simp_all add: event_step_def)
  show ?case using Cons.IH[OF a(1)] grows_trans[OF a(2)] by simp
qed simp

lemma write_event_found: "find_event (fst (write_event gen snap sid st e)) (er_stockId e) snap (er_signatureKey e) \<noteq> None"
  by (auto simp: write_event_def Let_def find_event_def find_append split: option.split)

lemma write_event_dom: "dom (snd (write_event gen snap sid st e)) = insert (er_localEventId e) (dom (snd st))"
  by (simp add: write_event_def Let_def split: option.split)

lemma write_event_grows: "grows (fst st) (fst (write_event gen snap sid st e))"
  by (auto simp: write_event_def Let_def grows_def split: option.split)

lemma event_pass_grows: "grows (fst st) (fst (foldl (event_step gen snap) st ps))"
proof (induction ps arbitrary: st)
  case (Cons p ps)
  then show ?case using grows_trans[OF write_event_grows Cons.IH] by (simp add: event_step_def)
qed simp

lemma event_pass_found:
  "p \<in> set ps \<Longrightarrow> find_event (fst (foldl (event_step gen snap) st ps)) (er_stockId (snd p)) snap (er_signatureKey (snd p)) \<noteq> None"
proof (induction ps arbitrary: st)
  case (Cons q ps)
  show ?case
  proof (cases "p = q")
    case True
    obtain e where "find_event (fst (event_step gen snap st p)) (er_stockId (snd p)) snap (er_signatureKey (snd p)) = Some e"
      using write_event_found unfolding event_step_def by blast
    then show ?thesis using find_event_grows[OF _ event_pass_grows] True by fastforce
  qed (use Cons in simp)
qed simp

lemma event_pass_dom: "dom (snd (foldl (event_step gen snap) st ps)) = er_localEventId ` snd ` set ps \<union> dom (snd st)"
  by (induction ps arbitrary: st) (auto simp: event_step_def write_event_dom)

lemma event_pass_noop:
  "(\<And>p. p \<in> set ps \<Longrightarrow> find_event (fst st) (er_stockId (snd p)) snap (er_signatureKey (snd p)) \<noteq> None) \<Longrightarrow>
    fst (foldl (event_step gen snap) st ps) = fst st"
proof (induction ps arbitrary: st)
  case (Cons p ps)
  have "fst (event_step gen snap st p) = fst st"
    using Cons.prems[of p] by (auto simp: event_step_def write_event_def split: option.split)
  then show ?case using Cons by simp
qed simp

lemma write_directive_grows: "grows db (write_directive ids db d)"
  by (auto simp: write_directive_def grows_def split: option.split)

lemma directive_pass_grows: "grows db (foldl (write_directive ids) db ds)"
proof (induction ds arbitrary: db)
  case (Cons d ds)
  then show ?case using grows_trans[OF write_directive_grows Cons.IH] by simp
qed simp

lemma directive_pass_ok:
  "guardrail_db_ok db \<Longrightarrow> ran ids \<subseteq> gd_id ` set (db_events db) \<Longrightarrow> guardrail_db_ok (foldl (write_directive ids) db ds)"
proof (induction ds arbitrary: db)
  case (Cons d ds)
  then show ?case using write_directive_ok[OF Cons.prems, of d] by simp
qed simp

definition settled :: "local_ids \<Rightarrow> guardrail_db \<Rightarrow> directive_row \<Rightarrow> bool" where
  "settled ids db d \<longleftrightarrow> ids (dw_sourceLocalEventId d) = None \<or> find_suppression db (dw_stockId d) (dw_snapshotKey d) (dw_metricKey d) \<noteq> None"

lemma settled_grows: "settled ids db d \<Longrightarrow> grows db db' \<Longrightarrow> settled ids db' d"
  unfolding settled_def using find_suppression_grows by blast

lemma write_directive_settles: "settled ids (write_directive ids db d) d"
  by (auto simp: settled_def write_directive_def find_suppression_def find_append split: option.split)

lemma directive_pass_settles: "d \<in> set ds \<Longrightarrow> settled ids (foldl (write_directive ids) db ds) d"
proof (induction ds arbitrary: db)
  case (Cons e ds)
  show ?case
  proof (cases "d = e")
    case True
    then show ?thesis using settled_grows[OF write_directive_settles directive_pass_grows] by simp
  qed (use Cons in simp)
qed simp

lemma directive_pass_noop: "(\<And>d. d \<in> set ds \<Longrightarrow> settled ids db d) \<Longrightarrow> foldl (write_directive ids) db ds = db"
proof (induction ds)
  case (Cons d ds)
  have "write_directive ids db d = db"
    using Cons.prems[of d] by (auto simp: settled_def write_directive_def split: option.split)
  then show ?case using Cons by simp
qed simp

lemma writeAll_idempotent: "writeAll gen' snap snapIds' results (writeAll gen snap snapIds results db) = writeAll gen snap snapIds results db"
proof -
  let ?ps = "written_events snapIds results" and ?ps' = "written_events snapIds' results" and ?ds = "concat (map ev_directives results)"
  define st where "st = foldl (event_step gen snap) (db, Map.empty) ?ps"
  define db2 where "db2 = foldl (write_directive (snd st)) (fst st) ?ds"
  have w: "writeAll gen snap snapIds results db = db2" by (simp add: writeAll_flat Let_def st_def db2_def)
  define st' where "st' = foldl (event_step gen' snap) (db2, Map.empty) ?ps'"
  have same: "snd ` set ?ps' = snd ` set ?ps" by (force simp: written_events_def)
  have found: "find_event db2 (er_stockId (snd p)) snap (er_signatureKey (snd p)) \<noteq> None" if "p \<in> set ?ps'" for p
  proof -
    have "snd p \<in> snd ` set ?ps" unfolding same[symmetric] using that by (rule imageI)
    then obtain q where q: "q \<in> set ?ps" "snd q = snd p" by (elim imageE) simp
    then obtain e where "find_event (fst st) (er_stockId (snd p)) snap (er_signatureKey (snd p)) = Some e"
      using event_pass_found[OF q(1), of gen snap "(db, Map.empty)"] by (auto simp: st_def)
    then show ?thesis using find_event_grows[OF _ directive_pass_grows] unfolding db2_def by blast
  qed
  have fst': "fst st' = db2" using event_pass_noop[of ?ps' "(db2, Map.empty)"] found by (simp add: st'_def)
  have "dom (snd st') = dom (snd st)" unfolding st'_def st_def event_pass_dom same by simp
  then have none: "snd st' x = None \<longleftrightarrow> snd st x = None" for x by (metis domIff)
  have "settled (snd st') db2 d" if "d \<in> set ?ds" for d
    using directive_pass_settles[OF that, of "snd st" "fst st"] by (auto simp: settled_def db2_def none)
  then have "foldl (write_directive (snd st')) db2 ?ds = db2" by (rule directive_pass_noop)
  then show ?thesis unfolding w by (simp add: writeAll_flat Let_def st'_def[symmetric] fst')
qed

lemma writeAll_ok:
  assumes "guardrail_db_ok db" shows "guardrail_db_ok (writeAll gen snap snapIds results db) \<and> grows db (writeAll gen snap snapIds results db)"
proof -
  define st where "st = foldl (event_step gen snap) (db, Map.empty) (written_events snapIds results)"
  have "ids_ok (db, Map.empty)" using assms by (simp add: ids_ok_def)
  then have st: "ids_ok st" "grows db (fst st)" using event_pass_ok[of "(db, Map.empty)"] by (auto simp: st_def)
  have w: "writeAll gen snap snapIds results db = foldl (write_directive (snd st)) (fst st) (concat (map ev_directives results))"
    by (simp add: writeAll_flat Let_def st_def)
  show ?thesis unfolding w
    using directive_pass_ok st grows_trans[OF st(2) directive_pass_grows] by (auto simp: ids_ok_def)
qed

text \<open>C13. Writing the guardrail's verdicts, whatever they are and whatever ids the database
  makes: the unique keys of both tables hold and every suppression points at an event of the table
  afterwards if they did before, rows are only appended, and writing the same verdicts again, with
  any snapshots, changes nothing.\<close>

theorem guardrail_write_once:
  assumes "guardrail_db_ok db" and "writeGuardrailEval gen snap (Some snapIds) False results db = Inr db'"
  shows "guardrail_db_ok db' \<and> grows db db' \<and> writeGuardrailEval gen' snap (Some snapIds') False results db' = Inr db'"
  using assms writeAll_ok[OF assms(1)] by (auto simp: writeGuardrailEval_def writeAll_idempotent)


lemma guardrail_write_once_witness:
  "\<exists>db'. writeGuardrailEval (\<lambda>db. replicate (length (db_events db)) CHR ''e'') ''FY26Q4'' (Some (\<lambda>_. Some ''snap'')) False
       [runGuardrailGate f64 distorted_input None] \<lparr>db_events = [], db_suppressions = [], db_reviews = []\<rparr> = Inr db'
     \<and> guardrail_db_ok db'"
proof -
  let ?gen = "\<lambda>db. replicate (length (db_events db)) CHR ''e''" and ?db = "\<lparr>db_events = [], db_suppressions = [], db_reviews = []\<rparr>"
  obtain db' where "writeGuardrailEval ?gen ''FY26Q4'' (Some (\<lambda>_. Some ''snap'')) False [runGuardrailGate f64 distorted_input None] ?db = Inr db'"
    by (simp add: writeGuardrailEval_def)
  moreover have "guardrail_db_ok ?db" by (simp add: guardrail_db_ok_def)
  ultimately show ?thesis using guardrail_write_once by blast
qed

subsection \<open>A ruling is not revisable\<close>

lemma create_error: "foldl (create_suppression ev) (Inl e) ds = Inl e"
  by (induction ds) (simp_all add: create_suppression_def)

lemma create_step_ok:
  "create_suppression ev (Inr db) d = Inr db' \<Longrightarrow> grows db db' \<and> length (db_suppressions db') = Suc (length (db_suppressions db)) \<and>
     find_suppression db' (dw_stockId d) (dw_snapshotKey d) (dw_metricKey d) \<noteq> None"
  by (auto simp: create_suppression_def grows_def find_suppression_def find_append split: if_splits)

lemma create_all_ok:
  "foldl (create_suppression ev) (Inr db) ds = Inr db' \<Longrightarrow>
     grows db db' \<and> length (db_suppressions db') = length (db_suppressions db) + length ds \<and>
     (\<forall>d \<in> set ds. find_suppression db' (dw_stockId d) (dw_snapshotKey d) (dw_metricKey d) \<noteq> None)"
proof (induction ds arbitrary: db)
  case (Cons d ds)
  obtain db1 where db1: "create_suppression ev (Inr db) d = Inr db1"
    using Cons.prems create_error by (cases "create_suppression ev (Inr db) d") auto
  then have "foldl (create_suppression ev) (Inr db1) ds = Inr db'" using Cons.prems by simp
  note later = Cons.IH[OF this] and now = create_step_ok[OF db1]
  have "find_suppression db' (dw_stockId d) (dw_snapshotKey d) (dw_metricKey d) \<noteq> None"
    using find_suppression_grows now later by blast
  then show ?case using later now grows_trans[of db db1 db'] by auto
qed simp

lemma create_present:
  "ds \<noteq> [] \<Longrightarrow> (\<forall>d \<in> set ds. find_suppression db (dw_stockId d) (dw_snapshotKey d) (dw_metricKey d) \<noteq> None) \<Longrightarrow>
     foldl (create_suppression ev) (Inr db) ds = Inl Unique_violation"
  by (cases ds) (simp_all add: create_suppression_def create_error)

lemma find_suppression_reviews [simp]: "find_suppression (db\<lparr>db_reviews := rs\<rparr>) = find_suppression db"
  by (simp add: find_suppression_def fun_eq_iff)

lemma c1_proposal:
  "signature_evaluate R C_1 input = Some r \<Longrightarrow> sr_fired r \<Longrightarrow> sr_outcome r = O4 \<and> sr_affectedMetrics r = C1_GROWTH_MAP"
  by (auto simp: c1_evaluate_def Let_def split: option.splits if_splits prod.splits)

text \<open>C14. An operator's ruling on a structural step is not revisable as its table promises:
  the first upheld ruling writes three suppressions, a later overriding ruling leaves them in force,
  and upholding once more is refused by the unique key, so that ruling cannot be recorded.\<close>

theorem ruling_upheld_twice:
  assumes "signature_evaluate R C_1 input = Some r" "sr_fired r" and "p = proposeReview r stock" and "evId \<noteq> []"
    and "writeGuardrailReview (recordRuling p op1 Upheld why1 t1) (applyRuling p Upheld stock snap) False (Some evId) db = Inr db'"
  shows "writeGuardrailReview (recordRuling p op2 Upheld why2 t2) (applyRuling p Upheld stock snap) False (Some evId) db' = Inl Unique_violation
    \<and> length (db_suppressions db') = length (db_suppressions db) + 3
    \<and> (\<exists>db''. writeGuardrailReview (recordRuling p op2 Overridden why2 t2) (applyRuling p Overridden stock snap) False (Some evId) db' = Inr db''
         \<and> db_suppressions db'' = db_suppressions db')"
proof -
  let ?ds = "map (mkDirective r stock snap False) C1_GROWTH_MAP"
  have ds: "ra_directives (applyRuling p Upheld stock snap) = ?ds"
    using c1_proposal[OF assms(1,2)] by (simp add: applyRuling_def assms(3) proposeReview_def resolve_directives Let_def)
  obtain rs where "foldl (create_suppression evId) (Inr (db\<lparr>db_reviews := rs\<rparr>)) ?ds = Inr db'"
    using assms(5) unfolding writeGuardrailReview_def ds by (simp add: assms(4))
  from create_all_ok[OF this] have now: "length (db_suppressions db') = length (db_suppressions db) + 3"
    "\<forall>d \<in> set ?ds. find_suppression db' (dw_stockId d) (dw_snapshotKey d) (dw_metricKey d) \<noteq> None"
    by (simp_all add: C1_GROWTH_MAP_def)
  have ne: "?ds \<noteq> []" by (simp add: C1_GROWTH_MAP_def)
  have "writeGuardrailReview (recordRuling p op2 Upheld why2 t2) (applyRuling p Upheld stock snap) False (Some evId) db' = Inl Unique_violation"
    unfolding writeGuardrailReview_def ds using create_present[OF ne] now(2) assms(4) by simp
  moreover have "ra_directives (applyRuling p Overridden stock snap) = []" by (simp add: applyRuling_def)
  ultimately show ?thesis using now(1) assms(4) by (simp add: writeGuardrailReview_def)
qed


definition merged_year :: stock_input where
  "merged_year = distorted_input\<lparr>si_latestFundamental := Some ((sample_fund 256)\<lparr>lf_revenue := Some 2000\<rparr>)\<rparr>"

definition merger_verdict :: signature_result where
  "merger_verdict = verdict_of C_1 Category_C Review_tier True O4 C1_GROWTH_MAP (E_C1 (Some 100) (Some 0) False)"

lemma merger_fires: "c1_evaluate f64 merged_year = Some merger_verdict"
  by code_simp

lemma ruling_upheld_twice_witness:
  "\<exists>db'. writeGuardrailReview (recordRuling (proposeReview merger_verdict ''s1'') ''op'' Upheld None 0)
        (applyRuling (proposeReview merger_verdict ''s1'') Upheld ''s1'' ''FY26Q4'') False (Some ''e1'')
        \<lparr>db_events = [], db_suppressions = [], db_reviews = []\<rparr> = Inr db'
     \<and> writeGuardrailReview (recordRuling (proposeReview merger_verdict ''s1'') ''op'' Upheld None 1)
        (applyRuling (proposeReview merger_verdict ''s1'') Upheld ''s1'' ''FY26Q4'') False (Some ''e1'') db' = Inl Unique_violation"
proof -
  have e: "signature_evaluate f64 C_1 merged_year = Some merger_verdict" "sr_fired merger_verdict"
    using merger_fires by (simp_all add: merger_verdict_def)
  obtain db' where "writeGuardrailReview (recordRuling (proposeReview merger_verdict ''s1'') ''op'' Upheld None 0)
        (applyRuling (proposeReview merger_verdict ''s1'') Upheld ''s1'' ''FY26Q4'') False (Some ''e1'')
        \<lparr>db_events = [], db_suppressions = [], db_reviews = []\<rparr> = Inr db'"
    by (simp add: writeGuardrailReview_def recordRuling_def applyRuling_def proposeReview_def merger_verdict_def resolve_directives
        C1_GROWTH_MAP_def stated_def mkDirective_def create_suppression_def find_suppression_def Let_def)
  from this ruling_upheld_twice[OF e refl _ this] show ?thesis by (intro exI[of _ db']) simp
qed

end
