(* ===== verification/OwnershipPrimary.thy ===== *)
theory OwnershipPrimary
  imports OwnershipFlow
begin

text \<open>
  The first Ownership score, \<open>src/scoring/ownership\<close>: baseline (\<open>baseline.ts\<close>), pledging ladder and R1
  (\<open>pledging.ts\<close>), the disturbances R2, R6 and prolonged FII exit (\<open>disturbances.ts\<close>), their sum
  (\<open>primary.ts\<close>) and the final score with the flow layer (\<open>ownership.ts\<close>).  Reason texts and the
  SHA-256 fingerprint of the inputs are left out.
\<close>

subsection \<open>Baseline (\<open>baseline.ts\<close>)\<close>

definition BASELINE_QUARTERS_THRESHOLD :: nat where "BASELINE_QUARTERS_THRESHOLD = 8"
definition BASELINE_INSUFFICIENT :: int where "BASELINE_INSUFFICIENT = 60"
definition BASELINE_ESTABLISHED :: int where "BASELINE_ESTABLISHED = 75"

datatype baseline_reason = Insufficient_history_60 | Established_75

record baseline_result =
  br_baseline :: int
  br_reason :: baseline_reason
  br_consecutiveTrailingQuarters :: nat

fun trailing_run :: "ownership_quarter list \<Rightarrow> nat \<Rightarrow> nat" where
  \<comment> \<open>the loop of \<open>countConsecutiveTrailingQuarters\<close> from row \<open>i\<close> down, the row itself included\<close>
  "trailing_run rows 0 = 1"
| "trailing_run rows (Suc i) =
    (if isPriorQuarterGap (oq_asOnDate (rows ! Suc i)) (oq_asOnDate (rows ! i)) then 1 else Suc (trailing_run rows i))"

definition countConsecutiveTrailingQuarters :: "ownership_quarter list \<Rightarrow> int \<Rightarrow> nat" where
  "countConsecutiveTrailingQuarters rows snapshotIdx =
    (if rows = [] \<or> snapshotIdx < 0 then 0 else trailing_run rows (nat snapshotIdx))"

definition computeBaseline :: "ownership_quarter list \<Rightarrow> int \<Rightarrow> baseline_result" where
  "computeBaseline rows snapshotIdx =
    (let n = countConsecutiveTrailingQuarters rows snapshotIdx; established = BASELINE_QUARTERS_THRESHOLD \<le> n
     in \<lparr>br_baseline = (if established then BASELINE_ESTABLISHED else BASELINE_INSUFFICIENT),
         br_reason = (if established then Established_75 else Insufficient_history_60),
         br_consecutiveTrailingQuarters = n\<rparr>)"

subsection \<open>Pledging (\<open>pledging.ts\<close>)\<close>

datatype ladder_state = Pledge_zero | Pledge_falling | Pledge_stable | Pledge_rising | Pledge_dormant | Pledge_no_promoter | Pledge_no_prior

fun LADDER_POINTS :: "ladder_state \<Rightarrow> int" where
  "LADDER_POINTS Pledge_zero = 0"
| "LADDER_POINTS Pledge_falling = 1"
| "LADDER_POINTS Pledge_stable = - 2"
| "LADDER_POINTS Pledge_rising = - 4"
| "LADDER_POINTS Pledge_dormant = 0"
| "LADDER_POINTS Pledge_no_promoter = 0"
| "LADDER_POINTS Pledge_no_prior = 0"

definition PLEDGE_STABLE_BAND_PP :: "(num \<Rightarrow> num) \<Rightarrow> num" where "PLEDGE_STABLE_BAND_PP R = R (1 / 100)"
definition R1_PLEDGE_RATIO_PCT :: num where "R1_PLEDGE_RATIO_PCT = 50"
definition R1_QOQ_RISE_PP :: num where "R1_QOQ_RISE_PP = 10"

datatype r1_reason = Ratio_above num | Rose_by num

record pledging_result =
  pl_ratioQ :: "num option"
  pl_ratioQ1 :: "num option"
  pl_qoqRisePp :: "num option"
  pl_state :: ladder_state
  pl_adjustment :: int
  pl_dormant :: bool
  pl_r1Breach :: bool
  pl_r1Reasons :: "r1_reason list"

definition pledgeDenominator :: "ownership_quarter \<Rightarrow> int option" where
  "pledgeDenominator q = (case oq_promoterTotalShares q of
     Some n \<Rightarrow> if 0 < n then Some n else oq_promoterShares q | None \<Rightarrow> oq_promoterShares q)"

definition pledgeRatio :: "(num \<Rightarrow> num) \<Rightarrow> ownership_quarter \<Rightarrow> num option" where
  "pledgeRatio R q = (case oq_pledgedShares q of None \<Rightarrow> None
   | Some pledged \<Rightarrow> (case pledgeDenominator q of None \<Rightarrow> None
     | Some d \<Rightarrow> if d \<le> 0 then None else Some (stake_pct R pledged d)))"

definition pledging_none :: "ladder_state \<Rightarrow> pledging_result" where
  "pledging_none st = \<lparr>pl_ratioQ = None, pl_ratioQ1 = None, pl_qoqRisePp = None, pl_state = st,
     pl_adjustment = LADDER_POINTS st, pl_dormant = True, pl_r1Breach = False, pl_r1Reasons = []\<rparr>"

definition computePledging :: "(num \<Rightarrow> num) \<Rightarrow> ownership_quarter \<Rightarrow> ownership_quarter option \<Rightarrow> pledging_result" where
  "computePledging R current prior =
    (if oq_pledgedShares current = None then pledging_none Pledge_dormant
     else if (case oq_promoterShares current of None \<Rightarrow> True | Some n \<Rightarrow> n \<le> 0) then pledging_none Pledge_no_promoter
     else (let ratioQ = the (pledgeRatio R current);
               ratioQ1 = (case prior of None \<Rightarrow> None | Some p \<Rightarrow> pledgeRatio R p);
               rise = map_option (\<lambda>r. R (ratioQ - r)) ratioQ1;
               r1Reasons = (if R1_PLEDGE_RATIO_PCT < ratioQ then [Ratio_above ratioQ] else []) @
                 (case rise of None \<Rightarrow> [] | Some r \<Rightarrow> if R1_QOQ_RISE_PP \<le> r then [Rose_by r] else []);
               st = (if ratioQ = 0 then Pledge_zero
                     else (case rise of None \<Rightarrow> Pledge_no_prior
                       | Some delta \<Rightarrow> if \<bar>delta\<bar> \<le> PLEDGE_STABLE_BAND_PP R then Pledge_stable
                           else if delta < 0 then Pledge_falling else Pledge_rising))
           in \<lparr>pl_ratioQ = Some ratioQ, pl_ratioQ1 = ratioQ1, pl_qoqRisePp = rise, pl_state = st,
               pl_adjustment = LADDER_POINTS st, pl_dormant = (st = Pledge_no_prior),
               pl_r1Breach = (r1Reasons \<noteq> []), pl_r1Reasons = r1Reasons\<rparr>))"

definition r1StandingAt :: "(num \<Rightarrow> num) \<Rightarrow> ownership_quarter list \<Rightarrow> int \<Rightarrow> bool" where
  "r1StandingAt R rows idx \<longleftrightarrow> 0 \<le> idx \<and> idx < int (length rows) \<and>
    pl_r1Breach (computePledging R (rows ! nat idx) (if 1 \<le> idx then Some (rows ! nat (idx - 1)) else None))"

subsection \<open>Disturbances (\<open>disturbances.ts\<close>)\<close>

definition R2_PENALTY :: int where "R2_PENALTY = - 6"
definition R2_DROP_PP :: num where "R2_DROP_PP = 5"
definition R6_PENALTY :: int where "R6_PENALTY = - 8"
definition R6_MIN_MOVE_PP :: "(num \<Rightarrow> num) \<Rightarrow> num" where "R6_MIN_MOVE_PP R = R (5 / 100)"
definition PF_PENALTY :: int where "PF_PENALTY = - 4"
definition PF_MIN_DECLINE_PP :: num where "PF_MIN_DECLINE_PP = 1 / 2"
definition PF_QUARTERS :: nat where "PF_QUARTERS = 4"

record r2_result =
  r2_fired :: bool
  r2_penalty :: int
  r2_pctDrop :: "num option"
  r2_gatingVerdict :: dilution_verdict
  r2_spansGap :: bool

definition computeR2 :: "(num \<Rightarrow> num) \<Rightarrow> ownership_quarter \<Rightarrow> ownership_quarter option \<Rightarrow> r2_result" where
  "computeR2 R current prior =
    (let dil = classifyDilution R current prior;
         dropExceeds = (case dr_pctDrop dil of None \<Rightarrow> False | Some d \<Rightarrow> R2_DROP_PP < d);
         fired = (dropExceeds \<and> dr_verdict dil \<noteq> Dilution)
     in \<lparr>r2_fired = fired, r2_penalty = (if fired then R2_PENALTY else 0), r2_pctDrop = dr_pctDrop dil,
         r2_gatingVerdict = dr_verdict dil, r2_spansGap = dr_priorQuarterGap dil\<rparr>)"

record r6_result =
  r6_fired :: bool
  r6_penalty :: int
  r6_promoterDelta :: "num option"
  r6_fiiDelta :: "num option"
  r6_retailDelta :: "num option"

definition computeR6 :: "(num \<Rightarrow> num) \<Rightarrow> ownership_quarter \<Rightarrow> ownership_quarter option \<Rightarrow> r6_result" where
  "computeR6 R current prior =
    (let none = \<lparr>r6_fired = False, r6_penalty = 0, r6_promoterDelta = None, r6_fiiDelta = None, r6_retailDelta = None\<rparr>
     in case prior of None \<Rightarrow> none
        | Some p1 \<Rightarrow>
          (case (delta_of R (oq_promoterPct current) (oq_promoterPct p1), delta_of R (oq_fiiPct current) (oq_fiiPct p1),
                 delta_of R (oq_retailPct current) (oq_retailPct p1)) of
             (Some p, Some f, Some r) \<Rightarrow>
               (let fired = (p \<le> - R6_MIN_MOVE_PP R \<and> f \<le> - R6_MIN_MOVE_PP R \<and> R6_MIN_MOVE_PP R \<le> r)
                in \<lparr>r6_fired = fired, r6_penalty = (if fired then R6_PENALTY else 0), r6_promoterDelta = Some p,
                    r6_fiiDelta = Some f, r6_retailDelta = Some r\<rparr>)
           | _ \<Rightarrow> none))"

record prolonged_fii =
  pf_fired :: bool
  pf_penalty :: int
  pf_declines :: "num list"
  pf_transitionsChecked :: nat

fun pf_loop :: "(num \<Rightarrow> num) \<Rightarrow> ownership_quarter list \<Rightarrow> nat \<Rightarrow> num list \<Rightarrow> nat list \<Rightarrow> prolonged_fii" where
  \<comment> \<open>the loop over the transitions \<open>k\<close> back from the snapshot; the list is what is left of them\<close>
  "pf_loop R rows idx declines [] =
    \<lparr>pf_fired = True, pf_penalty = PF_PENALTY, pf_declines = declines, pf_transitionsChecked = PF_QUARTERS\<rparr>"
| "pf_loop R rows idx declines (k # ks) =
    (let cur = rows ! (idx - k); prv = rows ! (idx - k - 1);
         stop = (\<lambda>ds n. \<lparr>pf_fired = False, pf_penalty = 0, pf_declines = ds, pf_transitionsChecked = n\<rparr>)
     in if isPriorQuarterGap (oq_asOnDate cur) (oq_asOnDate prv) then stop declines k
        else (case delta_of R (oq_fiiPct prv) (oq_fiiPct cur) of
            None \<Rightarrow> stop declines k
          | Some decline \<Rightarrow> if decline < PF_MIN_DECLINE_PP then stop (declines @ [decline]) (k + 1)
              else pf_loop R rows idx (declines @ [decline]) ks))"

definition computeProlongedFii :: "(num \<Rightarrow> num) \<Rightarrow> ownership_quarter list \<Rightarrow> nat \<Rightarrow> prolonged_fii" where
  "computeProlongedFii R rows snapshotIdx =
    (if snapshotIdx < PF_QUARTERS then \<lparr>pf_fired = False, pf_penalty = 0, pf_declines = [], pf_transitionsChecked = 0\<rparr>
     else pf_loop R rows snapshotIdx [] [0 ..< PF_QUARTERS])"

subsection \<open>The primary subtotal (\<open>primary.ts\<close>) and the final score (\<open>ownership.ts\<close>)\<close>

record primary_result =
  po_periodKey :: string
  po_index :: int
  po_baseline :: baseline_result
  po_pledging :: pledging_result
  po_r2 :: r2_result
  po_r6 :: r6_result
  po_prolongedFii :: prolonged_fii
  po_primarySubtotal :: int
  po_redFlag :: bool

definition computePrimaryOwnership :: "(num \<Rightarrow> num) \<Rightarrow> ownership_quarter list \<Rightarrow> int \<Rightarrow> primary_result option" where
  "computePrimaryOwnership R rows snapshotIdx =
    (if rows = [] \<or> snapshotIdx < 0 \<or> int (length rows) \<le> snapshotIdx then None
     else (let i = nat snapshotIdx; current = rows ! i; prior = (if 1 \<le> i then Some (rows ! (i - 1)) else None);
               baseline = computeBaseline rows snapshotIdx; pledging = computePledging R current prior;
               r2 = computeR2 R current prior; r6 = computeR6 R current prior; pf = computeProlongedFii R rows i
           in Some \<lparr>po_periodKey = periodKeyOf current, po_index = snapshotIdx, po_baseline = baseline, po_pledging = pledging,
                po_r2 = r2, po_r6 = r6, po_prolongedFii = pf,
                po_primarySubtotal = br_baseline baseline + pl_adjustment pledging + r2_penalty r2 + r6_penalty r6 + pf_penalty pf,
                po_redFlag = pl_r1Breach pledging\<rparr>))"

definition OWNERSHIP_FLOOR :: int where "OWNERSHIP_FLOOR = 40"
definition OWNERSHIP_CEIL :: int where "OWNERSHIP_CEIL = 100"

record ownership_result =
  or_primary :: primary_result
  or_flow :: flow_total
  or_flowAdjustmentRaw :: int
  or_flowAdjustmentClamped :: int
  or_finalOwnership :: int

definition computeOwnership :: "(num \<Rightarrow> num) \<Rightarrow> ownership_quarter list \<Rightarrow>
    (instant \<Rightarrow> instant \<Rightarrow> price_eval) option \<Rightarrow> flow_feeds \<Rightarrow> int \<Rightarrow> ownership_result option" where
  "computeOwnership R rows priceProbe feeds snapshotIdx = (case computePrimaryOwnership R rows snapshotIdx of
     None \<Rightarrow> None
   | Some primary \<Rightarrow>
     (let flow = computeFlow R rows (nat snapshotIdx) (r2_fired (po_r2 primary)) priceProbe feeds
      in Some \<lparr>or_primary = primary, or_flow = flow, or_flowAdjustmentRaw = ft_raw flow, or_flowAdjustmentClamped = ft_clamped flow,
           or_finalOwnership = clamp (po_primarySubtotal primary + ft_clamped flow) (OWNERSHIP_FLOOR, OWNERSHIP_CEIL)\<rparr>))"

subsection \<open>Bounds\<close>

lemma clamp_range: "fst cap \<le> snd cap \<Longrightarrow> fst cap \<le> clamp x cap \<and> clamp x cap \<le> snd cap"
  by (auto simp: clamp_def)

lemma category_done_sel [simp]:
  "fc_cappedSubScore (category_done c cap st rule raw) = clamp raw cap"
  "fc_state (category_done c cap st rule raw) = st"
  "fc_firedRule (category_done c cap st rule raw) = rule"
  by (simp_all add: category_done_def)

lemma category_caps:
  "\<exists>x. fc_cappedSubScore (computeCategoryA R cur prior fired price) = clamp x CAP_A"
  "\<exists>x. fc_cappedSubScore (computeCategoryB R rows i) = clamp x CAP_B"
  "\<exists>x. fc_cappedSubScore (computeCategoryC R feeds asOf) = clamp x CAP_C"
  "\<exists>x. fc_cappedSubScore (computeCategoryD R feeds asOf) = clamp x CAP_D"
  by (auto simp: computeCategoryA_def computeCategoryB_def computeCategoryC_def computeCategoryD_def Let_def split: option.splits prod.splits)

lemma category_range:
  "- 4 \<le> fc_cappedSubScore (computeCategoryA R cur prior fired price)" "fc_cappedSubScore (computeCategoryA R cur prior fired price) \<le> 6"
  "- 6 \<le> fc_cappedSubScore (computeCategoryB R rows i)" "fc_cappedSubScore (computeCategoryB R rows i) \<le> 6"
  "- 8 \<le> fc_cappedSubScore (computeCategoryC R feeds asOf)" "fc_cappedSubScore (computeCategoryC R feeds asOf) \<le> 5"
  "- 6 \<le> fc_cappedSubScore (computeCategoryD R feeds asOf)" "fc_cappedSubScore (computeCategoryD R feeds asOf) \<le> 6"
  using category_caps(1)[of R cur prior fired price] category_caps(2)[of R rows i] category_caps(3)[of R feeds asOf]
    category_caps(4)[of R feeds asOf] clamp_range[of CAP_A] clamp_range[of CAP_B] clamp_range[of CAP_C] clamp_range[of CAP_D]
  by (auto simp: CAP_A_def CAP_B_def CAP_C_def CAP_D_def)

lemma ladder_range: "- 4 \<le> pl_adjustment (computePledging R cur prior)" "pl_adjustment (computePledging R cur prior) \<le> 1"
proof -
  have l: "- 4 \<le> LADDER_POINTS st \<and> LADDER_POINTS st \<le> 1" for st by (cases st) simp_all
  have "pl_adjustment (computePledging R cur prior) = LADDER_POINTS (pl_state (computePledging R cur prior))"
    by (simp add: computePledging_def pledging_none_def Let_def del: LADDER_POINTS.simps)
  then show "- 4 \<le> pl_adjustment (computePledging R cur prior)" "pl_adjustment (computePledging R cur prior) \<le> 1"
    using l by metis+
qed

lemma pf_loop_penalty: "pf_penalty (pf_loop R rows idx ds ks) = (if pf_fired (pf_loop R rows idx ds ks) then - 4 else 0)"
  by (induction R rows idx ds ks rule: pf_loop.induct) (auto simp: PF_PENALTY_def Let_def split: option.splits)

lemma penalties:
  "- 6 \<le> r2_penalty (computeR2 R cur prior)" "r2_penalty (computeR2 R cur prior) \<le> 0"
  "- 8 \<le> r6_penalty (computeR6 R cur prior)" "r6_penalty (computeR6 R cur prior) \<le> 0"
  by (auto simp: computeR2_def computeR6_def Let_def R2_PENALTY_def R6_PENALTY_def split: option.splits)

lemma prolonged_penalty:
  "- 4 \<le> pf_penalty (computeProlongedFii R rows i)" "pf_penalty (computeProlongedFii R rows i) \<le> 0"
  by (simp_all add: computeProlongedFii_def pf_loop_penalty)

lemma baseline_range: "60 \<le> br_baseline (computeBaseline rows idx)" "br_baseline (computeBaseline rows idx) \<le> 75"
  by (simp_all add: computeBaseline_def Let_def BASELINE_ESTABLISHED_def BASELINE_INSUFFICIENT_def)

lemma primary_subtotal:
  assumes "computePrimaryOwnership R rows idx = Some p"
  defines "prior \<equiv> if 1 \<le> nat idx then Some (rows ! (nat idx - 1)) else None"
  shows "po_primarySubtotal p = br_baseline (computeBaseline rows idx) + pl_adjustment (computePledging R (rows ! nat idx) prior) +
      r2_penalty (computeR2 R (rows ! nat idx) prior) + r6_penalty (computeR6 R (rows ! nat idx) prior) +
      pf_penalty (computeProlongedFii R rows (nat idx)) \<and> po_r2 p = computeR2 R (rows ! nat idx) prior"
  using assms(1) unfolding prior_def computePrimaryOwnership_def Let_def by (auto split: if_splits)

lemma computeOwnership_parts:
  assumes "computeOwnership R rows probe feeds idx = Some r"
  shows "computePrimaryOwnership R rows idx = Some (or_primary r)"
    "or_flow r = computeFlow R rows (nat idx) (r2_fired (po_r2 (or_primary r))) probe feeds"
    "or_finalOwnership r = clamp (po_primarySubtotal (or_primary r) + ft_clamped (or_flow r)) (40, 100)"
    "0 \<le> idx" "idx < int (length rows)"
  using assms by (auto simp: computeOwnership_def computePrimaryOwnership_def Let_def OWNERSHIP_FLOOR_def OWNERSHIP_CEIL_def
    split: option.splits if_splits)

text \<open>The first Ownership score, for any arithmetic: the primary subtotal is between 38
  and 76 and the flow adjustment between -12 and 12, so that the final score is between its floor 40
  and 88 and the ceiling of 100 is never reached; with neither insider nor block feed the adjustment
  is exactly promoter plus institutional category.\<close>

theorem first_ownership_score:
  assumes "computeOwnership R rows probe feeds idx = Some r"
  shows "38 \<le> po_primarySubtotal (or_primary r) \<and> po_primarySubtotal (or_primary r) \<le> 76 \<and>
    - 12 \<le> ft_clamped (or_flow r) \<and> ft_clamped (or_flow r) \<le> 12 \<and>
    40 \<le> or_finalOwnership r \<and> or_finalOwnership r \<le> 88 \<and>
    (ff_insiderTxns feeds = None \<and> ff_blockTxns feeds = None \<longrightarrow>
       ft_clamped (or_flow r) = fc_cappedSubScore (ft_A (or_flow r)) + fc_cappedSubScore (ft_B (or_flow r)))"
proof -
  note parts = computeOwnership_parts[OF assms]
  have sub: "38 \<le> po_primarySubtotal (or_primary r)" "po_primarySubtotal (or_primary r) \<le> 76"
  proof -
    define prior where "prior = (if 1 \<le> nat idx then Some (rows ! (nat idx - 1)) else None)"
    show "38 \<le> po_primarySubtotal (or_primary r)" "po_primarySubtotal (or_primary r) \<le> 76"
      using primary_subtotal[OF parts(1)] ladder_range[of R "rows ! nat idx" prior] penalties[of R "rows ! nat idx" prior]
        prolonged_penalty[of R rows "nat idx"] baseline_range[of rows idx] unfolding prior_def[symmetric] by linarith+
  qed
  have fl: "- 12 \<le> ft_clamped (or_flow r)" "ft_clamped (or_flow r) \<le> 12"
    using clamp_range[of FLOW_CLAMP] unfolding parts(2) by (auto simp: computeFlow_def Let_def FLOW_CLAMP_def)
  have "40 \<le> or_finalOwnership r" "or_finalOwnership r \<le> 88"
    unfolding parts(3) using sub fl by (auto simp: clamp_def)
  moreover have "ft_clamped (or_flow r) = fc_cappedSubScore (ft_A (or_flow r)) + fc_cappedSubScore (ft_B (or_flow r))"
    if "ff_insiderTxns feeds = None" "ff_blockTxns feeds = None"
  proof -
    have cd: "fc_cappedSubScore (computeCategoryC R feeds asOf) = 0" "fc_cappedSubScore (computeCategoryD R feeds asOf) = 0" for asOf
      using that by (simp_all add: computeCategoryC_def computeCategoryD_def clamp_def CAP_C_def CAP_D_def)
    obtain a b where ab: "fc_cappedSubScore (ft_A (or_flow r)) = a" "fc_cappedSubScore (ft_B (or_flow r)) = b"
      "ft_clamped (or_flow r) = clamp (a + b) FLOW_CLAMP" "- 4 \<le> a" "a \<le> 6" "- 6 \<le> b" "b \<le> 6"
      unfolding parts(2) using category_range(1-4) by (auto simp: computeFlow_def Let_def cd)
    then show ?thesis by (simp add: clamp_def FLOW_CLAMP_def)
  qed
  ultimately show ?thesis using sub fl by blast
qed

subsection \<open>The firewall between the primary score and the flow\<close>

lemma category_A_capped:
  "fc_cappedSubScore (computeCategoryA R cur (Some p1) fired price) =
    (case (oq_promoterShares cur, oq_promoterShares p1) of
       (Some q, Some q1) \<Rightarrow>
         (let delta = R (count_number R q - count_number R q1); tol = R (TOL_FRACTION R * count_number R q1)
          in if tol < delta then (if (case price of None \<Rightarrow> False | Some e \<Rightarrow> pe_available e \<and> pe_dipTouched e) then 6 else 3)
             else if delta < - tol \<and> \<not> fired then - 4 else 0)
     | _ \<Rightarrow> 0)"
  by (auto simp: computeCategoryA_def Let_def clamp_def CAP_A_def split: option.splits)

lemma dilution_is_stable:
  assumes "dr_verdict (classifyDilution R cur (Some p1)) = Dilution"
  shows "\<exists>q q1. oq_promoterShares cur = Some q \<and> oq_promoterShares p1 = Some q1 \<and>
    \<bar>count_number R (q - q1)\<bar> \<le> R (TOL_FRACTION R * count_number R q1)"
  using assms by (auto simp: classifyDilution_def Let_def split: option.splits if_splits)

definition safe_count :: "int option \<Rightarrow> bool" where
  \<comment> \<open>a share count that \<open>Number\<close> keeps exactly\<close>
  "safe_count n \<longleftrightarrow> (case n of None \<Rightarrow> True | Some k \<Rightarrow> \<bar>k\<bar> \<le> 2 ^ 53)"

definition issue_rows :: "ownership_quarter list" where
  \<comment> \<open>the promoter buys four percent more shares while an issue grows the total by thirty percent\<close>
  "issue_rows =
    (let row = (\<lambda>t p n. \<lparr>oq_asOnDate = t * DAY_MS, oq_quarter = ''Q1'', oq_fiscalYear = ''FY26'', oq_promoterShares = Some p,
        oq_promoterTotalShares = None, oq_totalShares = Some n, oq_pledgedShares = Some 0, oq_promoterPct = None,
        oq_fiiPct = None, oq_diiPct = None, oq_retailPct = None\<rparr>)
     in [row 0 50 100, row 90 52 130])"

definition no_feeds :: flow_feeds where
  "no_feeds = \<lparr>ff_insiderTxns = None, ff_blockTxns = None, ff_marketCapInrCr = None\<rparr>"

lemma issue_rows_scores:
  "map_option (\<lambda>r. (r2_fired (po_r2 (or_primary r)), fc_cappedSubScore (ft_A (or_flow r)), or_finalOwnership r))
     (computeOwnership f64 issue_rows None no_feeds 1) = Some (True, 3, 57)"
  by code_simp

text \<open>C23. No promoter sale is charged twice: when R2 fires the promoter category never
  deducts, and a fall that is classified as dilution is charged by neither, in machine arithmetic
  for counts that are exact numbers. The converse does not hold: a promoter who buys while an issue
  dilutes the stake by more than 5 points is charged with an exit by R2 and credited with an
  accumulation by the flow.\<close>

theorem promoter_firewall:
  assumes "computeOwnership f64 rows probe feeds idx = Some r" "\<forall>q \<in> set rows. safe_count (oq_promoterShares q)"
  shows "\<not> (r2_fired (po_r2 (or_primary r)) \<and> fc_cappedSubScore (ft_A (or_flow r)) < 0) \<and>
    \<not> (r2_gatingVerdict (po_r2 (or_primary r)) = Dilution \<and>
        (r2_fired (po_r2 (or_primary r)) \<or> fc_cappedSubScore (ft_A (or_flow r)) \<noteq> 0)) \<and>
    map_option (\<lambda>r. (r2_fired (po_r2 (or_primary r)), fc_cappedSubScore (ft_A (or_flow r)), or_finalOwnership r))
      (computeOwnership f64 issue_rows None no_feeds 1) = Some (True, 3, 57)"
proof (cases "1 \<le> nat idx")
  case False
  have "fc_cappedSubScore (computeCategoryA f64 cur None fired price) = 0" for cur fired price
    by (simp add: computeCategoryA_def Let_def clamp_def CAP_A_def)
  moreover have "r2_gatingVerdict (computeR2 f64 cur None) \<noteq> Dilution" for cur
    by (simp add: computeR2_def classifyDilution_def Let_def)
  ultimately show ?thesis
    using computeOwnership_parts(2)[OF assms(1)] primary_subtotal[OF computeOwnership_parts(1)[OF assms(1)]] False issue_rows_scores
    by (auto simp: computeFlow_def Let_def)
next
  case True
  define cur p1 where "cur = rows ! nat idx" and "p1 = rows ! (nat idx - 1)"
  note parts = computeOwnership_parts[OF assms(1)]
  have r2: "po_r2 (or_primary r) = computeR2 f64 cur (Some p1)"
    using primary_subtotal[OF parts(1)] True by (simp add: cur_def p1_def)
  have A: "\<exists>price. ft_A (or_flow r) = computeCategoryA f64 cur (Some p1) (r2_fired (computeR2 f64 cur (Some p1))) price"
    using True unfolding parts(2) r2 by (auto simp: computeFlow_def Let_def cur_def p1_def)
  have mem: "cur \<in> set rows" "p1 \<in> set rows" using parts(4,5) by (auto simp: cur_def p1_def)
  have neutral: "fc_cappedSubScore (ft_A (or_flow r)) = 0" if dil: "dr_verdict (classifyDilution f64 cur (Some p1)) = Dilution"
  proof -
    obtain q q1 where q: "oq_promoterShares cur = Some q" "oq_promoterShares p1 = Some q1"
      "\<bar>count_number f64 (q - q1)\<bar> \<le> f64 (TOL_FRACTION f64 * count_number f64 q1)"
      using dilution_is_stable[OF dil] by blast
    have "\<bar>q\<bar> \<le> 2 ^ 53" "\<bar>q1\<bar> \<le> 2 ^ 53" using assms(2) mem q(1,2) by (auto simp: safe_count_def split: option.splits)
    then have "f64 (count_number f64 q - count_number f64 q1) = count_number f64 (q - q1)"
      by (simp add: count_number_def f64.fix_int)
    then show ?thesis using A q by (auto simp: category_A_capped Let_def)
  qed
  have verdict: "r2_gatingVerdict (computeR2 f64 cur (Some p1)) = dr_verdict (classifyDilution f64 cur (Some p1))"
    "r2_fired (computeR2 f64 cur (Some p1)) \<Longrightarrow> dr_verdict (classifyDilution f64 cur (Some p1)) \<noteq> Dilution"
    by (simp_all add: computeR2_def Let_def)
  have "0 \<le> fc_cappedSubScore (ft_A (or_flow r))" if "r2_fired (computeR2 f64 cur (Some p1))"
    using A that by (auto simp: category_A_capped Let_def split: option.splits)
  then show ?thesis using verdict neutral issue_rows_scores unfolding r2 by (metis not_less)
qed

lemma issue_rows_safe: "\<forall>q \<in> set issue_rows. safe_count (oq_promoterShares q)"
  by (simp add: issue_rows_def safe_count_def)

theorem promoter_firewall_witness:
  "\<exists>r. computeOwnership f64 issue_rows None no_feeds 1 = Some r \<and> r2_fired (po_r2 (or_primary r)) \<and>
     0 \<le> fc_cappedSubScore (ft_A (or_flow r))"
proof -
  obtain r where r: "computeOwnership f64 issue_rows None no_feeds 1 = Some r" "r2_fired (po_r2 (or_primary r))"
    using issue_rows_scores by auto
  show ?thesis using promoter_firewall[OF r(1) issue_rows_safe] r by (intro exI[of _ r]) auto
qed

theorem first_ownership_score_witness:
  "\<exists>r. computeOwnership f64 issue_rows None no_feeds 1 = Some r \<and> or_finalOwnership r \<le> 88"
proof -
  obtain r where r: "computeOwnership f64 issue_rows None no_feeds 1 = Some r"
    using issue_rows_scores by auto
  show ?thesis using first_ownership_score[OF r] r by auto
qed

end
