(* ===== verification/FilingRules.thy ===== *)
theory FilingRules
  imports OwnershipPrimary GuardrailGate
begin

text \<open>
  The findings that read nothing but filed data, \<open>src/scoring/findings\<close>: the context and the results
  (\<open>types.ts\<close>, \<open>fired-finding.types.ts\<close>, \<open>context.ts\<close>), the two guards against one-off items
  (\<open>guards\<close>), the 22 rules of the four groups (\<open>rules/r*\<close>, \<open>rules/p*\<close>, \<open>rules/n*\<close>, \<open>rules/h*\<close>, with the
  bars of \<open>catalogue/finding-facts.ts\<close>), the registries and the runner (\<open>engine.ts\<close>).  A rule that
  returns \<open>null\<close> is \<open>Not_fired\<close>.  Of the evidence every entry is kept but the sentences
  (\<open>verdict\<close>, \<open>verbatim\<close>, \<open>breaches\<close>, \<open>guardClean\<close>); a field that is \<open>undefined\<close> or \<open>null\<close> is \<open>None\<close>.
\<close>

subsection \<open>Context and results\<close>

datatype industry_type = Ind_non_financial | Ind_banking | Ind_nbfc | Ind_life_insurance | Ind_general_insurance

definition isFinancialIndustry :: "industry_type \<Rightarrow> bool" where
  "isFinancialIndustry ind \<longleftrightarrow> ind \<noteq> Ind_non_financial"

record opm_point =
  op_periodKey :: string
  op_opm :: num

record filing_context =
  fx_stockId :: string
  fx_symbol :: string
  fx_asOfDate :: instant
  fx_industry :: industry_type
  fx_shareholding :: "ownership_quarter list"
  fx_annualFundamentals :: "foundation_annual list"
  fx_quarterlyOpm :: "opm_point list option"
  fx_quarterlyResults :: "momentum_quarter list"
  fx_feeds :: flow_feeds

datatype finding_kind = Red_flag | Pattern_finding
datatype finding_direction = Positive_dir | Negative_dir

datatype evidence_value = Ev_null | Ev_num num | Ev_text string | Ev_flag bool
  | Ev_list "evidence_value list" | Ev_bag "(string \<times> evidence_value) list"

record fired_finding =
  ff_kind :: finding_kind
  ff_key :: string
  ff_severity :: string
  ff_direction :: "finding_direction option"
  ff_magnitude :: "int option"
  ff_displayState :: "string option"
  ff_polarity :: "string option"
  ff_temporalClass :: "string option"
  ff_evidence :: "(string \<times> evidence_value) list"

datatype not_evaluable_reason = Insufficient_annual_history | Insufficient_quarters_filed | Insufficient_shareholding_history
  | Negative_equity | No_debt | Class_not_disclosed | Share_count_unavailable | Pledging_not_disclosed
  | No_prior_snapshots | Opm_unavailable | Pillar_unavailable | Band_typical_unavailable | Feed_not_wired | Line_item_missing
  | Industry_not_applicable | Not_ingested | Not_in_universe | Read_failed | Reader_read_failed | Peers_unassigned

datatype rule_result = Fired fired_finding | Not_evaluable not_evaluable_reason | Not_fired

type_synonym filing_rule = "filing_context \<Rightarrow> rule_result"

definition red_flag :: "string \<Rightarrow> string \<Rightarrow> (string \<times> evidence_value) list \<Rightarrow> rule_result" where
  \<comment> \<open>the object literal of the red-flag rules\<close>
  "red_flag key sev ev = Fired \<lparr>ff_kind = Red_flag, ff_key = key, ff_severity = sev, ff_direction = None, ff_magnitude = None,
     ff_displayState = None, ff_polarity = None, ff_temporalClass = None, ff_evidence = ev\<rparr>"

definition pattern_finding :: "string \<Rightarrow> string \<Rightarrow> finding_direction option \<Rightarrow> int option \<Rightarrow> (string \<times> evidence_value) list \<Rightarrow> rule_result" where
  \<comment> \<open>the object literal of the pattern rules P and H\<close>
  "pattern_finding key sev dir mag ev = Fired \<lparr>ff_kind = Pattern_finding, ff_key = key, ff_severity = sev, ff_direction = dir,
     ff_magnitude = mag, ff_displayState = Some ''active'', ff_polarity = None, ff_temporalClass = None, ff_evidence = ev\<rparr>"

definition notable_finding :: "string \<Rightarrow> (string \<times> evidence_value) list \<Rightarrow> rule_result" where
  \<comment> \<open>the object literal of the rules of family N\<close>
  "notable_finding key ev = Fired \<lparr>ff_kind = Pattern_finding, ff_key = key, ff_severity = ''green'',
     ff_direction = Some Positive_dir, ff_magnitude = None, ff_displayState = Some ''active'',
     ff_polarity = Some ''positive'', ff_temporalClass = Some ''CONDITION'', ff_evidence = (''family'', Ev_text ''N'') # ev\<rparr>"

definition round_at :: "(num \<Rightarrow> num) \<Rightarrow> num \<Rightarrow> num \<Rightarrow> num" where
  \<comment> \<open>\<open>Math.round(x * m) / m\<close>, and \<open>Math.round(x)\<close> for \<open>m = 1\<close>\<close>
  "round_at R m x = R (of_int (js_round (R (x * m))) / m)"

definition ev_round :: "(num \<Rightarrow> num) \<Rightarrow> num \<Rightarrow> num option \<Rightarrow> evidence_value" where
  "ev_round R m x = (case x of None \<Rightarrow> Ev_null | Some v \<Rightarrow> Ev_num (round_at R m v))"

definition ev_pct :: "num option \<Rightarrow> evidence_value" where
  "ev_pct x = (case x of None \<Rightarrow> Ev_null | Some v \<Rightarrow> Ev_num v)"

definition opmSeriesFromQuarters :: "(num \<Rightarrow> num) \<Rightarrow> momentum_quarter list \<Rightarrow> opm_point list" where
  "opmSeriesFromQuarters R rows = concat (map (\<lambda>q. case (mq_operatingProfitStored q, mq_revenue q) of
       (Some p, Some r) \<Rightarrow> if r = 0 then []
          else [\<lparr>op_periodKey = mq_fiscalYear q @ mq_quarter q, op_opm = R (R (p / r) * 100)\<rparr>]
     | _ \<Rightarrow> []) (sort_key mq_qOrdinal rows))"

definition quarter_key :: "momentum_quarter \<Rightarrow> string" where
  "quarter_key q = mq_fiscalYear q @ mq_quarter q"

definition sh_last :: "ownership_quarter list \<Rightarrow> ownership_quarter" where
  "sh_last rows = rows ! (length rows - 1)"

definition sh_prior :: "ownership_quarter list \<Rightarrow> ownership_quarter" where
  "sh_prior rows = rows ! (length rows - 2)"

subsection \<open>Guards (\<open>guards\<close>)\<close>

record annual_exceptional =
  ax_evaluated :: bool
  ax_gain :: bool
  ax_loss :: bool
  ax_tax :: bool
  ax_distorted :: bool
  ax_fired :: "string list"

definition annual_guard_input :: "(num \<Rightarrow> num) \<Rightarrow> foundation_annual \<Rightarrow> foundation_annual \<Rightarrow> stock_input" where
  "annual_guard_input R latest prior = \<lparr>si_stockId = [], si_symbol = [], si_industryPath = Non_financial,
     si_snapshotKey = fa_fiscalYear latest, si_latestFundamental = Some (toFundInput R latest),
     si_priorFundamental = Some (toFundInput R prior), si_promoterPct = None, si_quarterlyFiling = None, si_history = None,
     si_activity = None, si_bandFlipDetected = False, si_corporateAction = None\<rparr>"

definition annualExceptionalLatest :: "(num \<Rightarrow> num) \<Rightarrow> foundation_annual list \<Rightarrow> annual_exceptional" where
  "annualExceptionalLatest R annuals =
    (if length annuals < 2
     then \<lparr>ax_evaluated = False, ax_gain = False, ax_loss = False, ax_tax = False, ax_distorted = False, ax_fired = []\<rparr>
     else (let sorted = sort_key fa_fyOrdinal annuals;
               input = annual_guard_input R (sorted ! (length sorted - 1)) (sorted ! (length sorted - 2));
               fired = map er_signatureKey (ev_events (runGuardrailGate R input None));
               gain = B_1 \<in> set fired; loss = B_2 \<in> set fired; tax = B_3 \<in> set fired
           in \<lparr>ax_evaluated = True, ax_gain = gain, ax_loss = loss, ax_tax = tax, ax_distorted = (gain \<or> loss \<or> tax),
               ax_fired = map key_string fired\<rparr>))"

definition DISTORTION_BASELINE_MIN_PCT :: num where "DISTORTION_BASELINE_MIN_PCT = 5"

definition isDistortedOpm :: "opm_point list \<Rightarrow> nat \<Rightarrow> bool" where
  "isDistortedOpm series idx =
    (if length series \<le> idx then False
     else if 0 \<le> op_opm (series ! idx) then False
     else (let priors = sort (map op_opm (take idx series))
           in if priors = [] then False else DISTORTION_BASELINE_MIN_PCT < priors ! (length priors div 2)))"

definition latestQuarterDistorted :: "opm_point list \<Rightarrow> bool" where
  "latestQuarterDistorted series = (series \<noteq> [] \<and> isDistortedOpm series (length series - 1))"

subsection \<open>Rules on the shareholding filing\<close>

definition r1TriggeringValues :: "(num \<Rightarrow> num) \<Rightarrow> pledging_result \<Rightarrow> (string \<times> evidence_value) list" where
  "r1TriggeringValues R p = [(''pledgeRatioQ'', ev_round R 10 (pl_ratioQ p)), (''pledgeRatioQ1'', ev_round R 10 (pl_ratioQ1 p)),
     (''qoqRisePp'', ev_round R 10 (pl_qoqRisePp p)), (''thresholdPct'', Ev_num R1_PLEDGE_RATIO_PCT),
     (''thresholdQoqRisePp'', Ev_num R1_QOQ_RISE_PP)]"

definition ruleR1 :: "(num \<Rightarrow> num) \<Rightarrow> filing_rule" where
  "ruleR1 R ctx =
    (let rows = fx_shareholding ctx
     in if length rows < 1 then Not_evaluable Insufficient_shareholding_history
        else (let cur = sh_last rows; prior = (if 2 \<le> length rows then Some (sh_prior rows) else None)
              in if oq_pledgedShares cur = None then Not_evaluable Pledging_not_disclosed
                 else if oq_promoterShares cur = None then Not_evaluable Share_count_unavailable
                 else (let p = computePledging R cur prior
                       in if \<not> pl_r1Breach p then Not_fired
                          else red_flag ''ownership_R1_pledge'' ''critical'' (r1TriggeringValues R p))))"

definition dilution_text :: "dilution_verdict \<Rightarrow> string" where
  "dilution_text v = (case v of dilution_verdict.No_drop \<Rightarrow> ''no_drop'' | dilution_verdict.Dilution \<Rightarrow> ''dilution'' | dilution_verdict.Genuine_reduction \<Rightarrow> ''genuine_reduction''
     | dilution_verdict.Indeterminate \<Rightarrow> ''indeterminate'')"

definition ruleR2 :: "(num \<Rightarrow> num) \<Rightarrow> filing_rule" where
  "ruleR2 R ctx =
    (let sh = fx_shareholding ctx
     in if length sh < 2 then Not_fired
        else (let r2 = computeR2 R (sh_last sh) (Some (sh_prior sh))
              in if \<not> r2_fired r2 then Not_fired
                 else red_flag ''ownership_R2_promoter_exit'' ''critical''
                   [(''rule'', Ev_text ''R2''), (''name'', Ev_text ''Promoter Exit''), (''currentPeriod'', Ev_text (periodKeyOf (sh_last sh))),
                    (''priorPeriod'', Ev_text (periodKeyOf (sh_prior sh))), (''promoterPctDropPp'', ev_round R 100 (r2_pctDrop r2)),
                    (''thresholdPp'', Ev_num R2_DROP_PP), (''dilutionVerdict'', Ev_text (dilution_text (r2_gatingVerdict r2))),
                    (''spansQuarterGap'', Ev_flag (r2_spansGap r2))]))"

definition ruleR6 :: "(num \<Rightarrow> num) \<Rightarrow> filing_rule" where
  "ruleR6 R ctx =
    (let sh = fx_shareholding ctx
     in if length sh < 2 then Not_fired
        else (let cur = sh_last sh; pri = sh_prior sh; r6 = computeR6 R cur (Some pri)
              in if \<not> r6_fired r6 then Not_fired
                 else red_flag ''ownership_R6_distribution'' ''critical''
                   [(''rule'', Ev_text ''R6''), (''name'', Ev_text ''Distribution Pattern''), (''currentPeriod'', Ev_text (periodKeyOf cur)),
                    (''priorPeriod'', Ev_text (periodKeyOf pri)), (''promoterPct'', ev_pct (oq_promoterPct cur)),
                    (''promoterPctPrior'', ev_pct (oq_promoterPct pri)), (''promoterDeltaPp'', ev_round R 100 (r6_promoterDelta r6)),
                    (''fiiPct'', ev_pct (oq_fiiPct cur)), (''fiiPctPrior'', ev_pct (oq_fiiPct pri)),
                    (''fiiDeltaPp'', ev_round R 100 (r6_fiiDelta r6)), (''retailPct'', ev_pct (oq_retailPct cur)),
                    (''retailPctPrior'', ev_pct (oq_retailPct pri)), (''retailDeltaPp'', ev_round R 100 (r6_retailDelta r6)),
                    (''noiseFloorPp'', Ev_num (R6_MIN_MOVE_PP R))]))"

definition rule_includes_B1 :: "string option \<Rightarrow> bool" where
  \<comment> \<open>\<open>firedRule.includes("B1")\<close> of the rule strings that category B builds\<close>
  "rule_includes_B1 r = (case r of None \<Rightarrow> False | Some s \<Rightarrow> list_ex (\<lambda>i. take 2 (drop i s) = ''B1'') [0..<length s])"

definition b_delta :: "(num \<Rightarrow> num) \<Rightarrow> (ownership_quarter \<Rightarrow> num option) \<Rightarrow> ownership_quarter list \<Rightarrow> num option" where
  \<comment> \<open>a delta of category B's evidence\<close>
  "b_delta R f rows = delta_of R (f (sh_last rows)) (f (sh_prior rows))"

definition ruleP1 :: "(num \<Rightarrow> num) \<Rightarrow> filing_rule" where
  "ruleP1 R ctx =
    (let rows = fx_shareholding ctx
     in if length rows < 2 then Not_fired
        else (let b = computeCategoryB R rows (length rows - 1)
              in if \<not> rule_includes_B1 (fc_firedRule b) then Not_fired
                 else pattern_finding ''ownership_P1_clean_rotation'' ''green'' (Some Positive_dir) (Some 5)
                   [(''pattern'', Ev_text ''P1''), (''name'', Ev_text ''Clean Institutional Rotation''),
                    (''period'', Ev_text (periodKeyOf (sh_last rows))), (''fiiDeltaPp'', ev_round R 100 (b_delta R oq_fiiPct rows)),
                    (''diiDeltaPp'', ev_round R 100 (b_delta R oq_diiPct rows)),
                    (''promoterDeltaPp'', ev_round R 100 (b_delta R oq_promoterPct rows)),
                    (''firedRule'', Ev_text (the (fc_firedRule b)))]))"

definition ruleP4 :: "(num \<Rightarrow> num) \<Rightarrow> filing_rule" where
  "ruleP4 R ctx =
    (let rows = fx_shareholding ctx
     in if length rows < 2 then Not_fired
        else (let b = computeCategoryB R rows (length rows - 1)
              in if fc_firedRule b \<noteq> Some ''B4'' then Not_fired
                 else pattern_finding ''ownership_P4_dual_exit'' ''red'' (Some Negative_dir) (Some (- 8))
                   [(''pattern'', Ev_text ''P4''), (''name'', Ev_text ''Dual Institutional Exit''),
                    (''period'', Ev_text (periodKeyOf (sh_last rows))), (''fiiDeltaPp'', ev_round R 100 (b_delta R oq_fiiPct rows)),
                    (''diiDeltaPp'', ev_round R 100 (b_delta R oq_diiPct rows))]))"

definition N5_MIN_MOVE_PP :: num where "N5_MIN_MOVE_PP = 1 / 2"

definition ruleN5 :: "(num \<Rightarrow> num) \<Rightarrow> filing_rule" where
  "ruleN5 R ctx =
    (let rows = fx_shareholding ctx
     in if length rows < 2 then Not_evaluable Insufficient_shareholding_history
        else (let cur = sh_last rows; prior = sh_prior rows
          in case (oq_fiiPct cur, oq_fiiPct prior, oq_diiPct cur, oq_diiPct prior) of
            (Some f, Some f1, Some d, Some d1) \<Rightarrow>
              (let fiiDelta = R (f - f1); diiDelta = R (d - d1)
               in if fiiDelta < N5_MIN_MOVE_PP \<or> diiDelta < N5_MIN_MOVE_PP then Not_fired
                  else if rule_includes_B1 (fc_firedRule (computeCategoryB R rows (length rows - 1))) then Not_fired
                  else notable_finding ''ownership_N5_dual_institutional_build''
                    [(''pattern'', Ev_text ''N5''), (''name'', Ev_text ''Dual Institutional Build''), (''period'', Ev_text (periodKeyOf cur)),
                     (''fiiDeltaPp'', ev_round R 100 (Some fiiDelta)), (''diiDeltaPp'', ev_round R 100 (Some diiDelta)),
                     (''minMovePp'', Ev_num N5_MIN_MOVE_PP), (''fiiFrom'', ev_round R 100 (Some f1)), (''fiiTo'', ev_round R 100 (Some f)),
                     (''diiFrom'', ev_round R 100 (Some d1)), (''diiTo'', ev_round R 100 (Some d))])
          | _ \<Rightarrow> Not_evaluable Class_not_disclosed))"

definition N6_MIN_QUARTERS :: nat where "N6_MIN_QUARTERS = 2"
definition N6_MIN_CUMULATIVE_PP :: num where "N6_MIN_CUMULATIVE_PP = 1"

fun n6_run :: "ownership_quarter \<Rightarrow> ownership_quarter list \<Rightarrow> ownership_quarter list" where
  \<comment> \<open>the loop from the newest row back: the rows before it, newest first\<close>
  "n6_run newer [] = [newer]"
| "n6_run newer (older # rest) =
    (if isPriorQuarterGap (oq_asOnDate newer) (oq_asOnDate older) then [newer]
     else (case (oq_promoterShares newer, oq_promoterShares older) of
         (Some n, Some o1) \<Rightarrow> if o1 < n then newer # n6_run older rest else [newer]
       | _ \<Rightarrow> [newer]))"

definition ruleN6 :: "(num \<Rightarrow> num) \<Rightarrow> filing_rule" where
  "ruleN6 R ctx =
    (let rows = fx_shareholding ctx
     in if length rows < N6_MIN_QUARTERS + 1 then Not_evaluable Insufficient_shareholding_history
        else if list_ex (\<lambda>r. oq_promoterShares r = None) (lastn (N6_MIN_QUARTERS + 1) rows) then Not_evaluable Share_count_unavailable
        else (let run = n6_run (sh_last rows) (rev (butlast rows)); quarters = length run - 1; latest = hd run; oldest = last run
          in if quarters < N6_MIN_QUARTERS then Not_fired
             else (case (oq_promoterPct latest, oq_promoterPct oldest) of
                (Some pl, Some po) \<Rightarrow>
                  (let cumulativePp = R (pl - po)
                   in if cumulativePp < N6_MIN_CUMULATIVE_PP then Not_fired
                      else notable_finding ''ownership_N6_promoter_accumulation''
                        [(''pattern'', Ev_text ''N6''), (''name'', Ev_text ''Promoter Accumulation''), (''quarters'', Ev_num (of_nat quarters)),
                         (''cumulativePp'', ev_round R 100 (Some cumulativePp)), (''fromPeriod'', Ev_text (periodKeyOf oldest)),
                         (''toPeriod'', Ev_text (periodKeyOf latest)), (''promoterPctFrom'', ev_round R 100 (Some po)),
                         (''promoterPctTo'', ev_round R 100 (Some pl)), (''minCumulativePp'', Ev_num N6_MIN_CUMULATIVE_PP),
                         (''basedOn'', Ev_text ''absolute_share_count''),
                         (''series'', Ev_list (map (\<lambda>q. Ev_bag [(''period'', Ev_text (periodKeyOf q)),
                            (''promoterShares'', Ev_num (count_number R (nullish (oq_promoterShares q) 0))),
                            (''promoterPct'', ev_round R 100 (oq_promoterPct q))]) (rev run)))])
              | _ \<Rightarrow> Not_fired)))"

definition N7_QOQ_FALL_PP :: num where "N7_QOQ_FALL_PP = 10"
definition N7_RATIO_PCT :: num where "N7_RATIO_PCT = 50"

definition ruleN7 :: "(num \<Rightarrow> num) \<Rightarrow> filing_rule" where
  "ruleN7 R ctx =
    (let rows = fx_shareholding ctx
     in if length rows < 2 then Not_evaluable Insufficient_shareholding_history
        else (let cur = sh_last rows; prior = sh_prior rows
          in if oq_pledgedShares cur = None \<or> oq_pledgedShares prior = None then Not_evaluable Pledging_not_disclosed
             else (let cp = computePledging R cur (Some prior)
               in case (pl_ratioQ cp, pl_ratioQ1 cp) of
                    (Some ratioQ, Some ratioQ1) \<Rightarrow>
                      (let fallPp = R (ratioQ1 - ratioQ); fallTrigger = (N7_QOQ_FALL_PP \<le> fallPp);
                           crossTrigger = (N7_RATIO_PCT < ratioQ1 \<and> ratioQ < N7_RATIO_PCT)
                       in if \<not> fallTrigger \<and> \<not> crossTrigger then Not_fired
                          else if r1StandingAt R rows (int (length rows) - 2) then Not_fired
                          else notable_finding ''ownership_N7_pledge_release''
                            [(''pattern'', Ev_text ''N7''), (''name'', Ev_text ''Pledge Release''), (''period'', Ev_text (periodKeyOf cur)),
                             (''priorPeriod'', Ev_text (periodKeyOf prior)), (''pledgeFromPct'', ev_round R 100 (Some ratioQ1)),
                             (''pledgeToPct'', ev_round R 100 (Some ratioQ)), (''fallPp'', ev_round R 100 (Some fallPp)),
                             (''trigger'', Ev_text (if fallTrigger then ''qoq_fall'' else ''crossed_below_50'')),
                             (''qoqFallPp'', Ev_num N7_QOQ_FALL_PP), (''ratioPct'', Ev_num N7_RATIO_PCT), (''priorR1Standing'', Ev_flag False)])
                  | _ \<Rightarrow> Not_fired)))"

subsection \<open>Rules on the annual accounts\<close>

definition annual_sorted :: "filing_context \<Rightarrow> foundation_annual list" where
  "annual_sorted ctx = sort_key fa_fyOrdinal (fx_annualFundamentals ctx)"

definition R3_MIN_CONSECUTIVE :: nat where "R3_MIN_CONSECUTIVE = 4"

fun r3_run :: "foundation_annual list \<Rightarrow> (string \<times> num \<times> num) list" where
  \<comment> \<open>the loop from the latest year back, over the rows newest first; the run newest first\<close>
  "r3_run [] = []"
| "r3_run (r # rest) = (case (fa_netProfit r, fa_cashFromOperating r) of
     (Some np, Some ocf) \<Rightarrow> if ocf < np then (fa_fiscalYear r, np, ocf) # r3_run rest else []
   | _ \<Rightarrow> [])"

definition ruleR3 :: "(num \<Rightarrow> num) \<Rightarrow> filing_rule" where
  "ruleR3 R ctx =
    (if isFinancialIndustry (fx_industry ctx) then Not_evaluable Industry_not_applicable
     else if length (fx_annualFundamentals ctx) < R3_MIN_CONSECUTIVE then Not_evaluable Insufficient_annual_history
     else (let run = rev (r3_run (rev (annual_sorted ctx)))
           in if length run < R3_MIN_CONSECUTIVE then Not_fired
              else red_flag ''foundation_R3_earnings_quality'' ''critical''
                [(''rule'', Ev_text ''R3''), (''name'', Ev_text ''Earnings Quality Breakdown''),
                 (''consecutiveYears'', Ev_num (of_nat (length run))), (''latestPeriod'', Ev_text (fst (last run))),
                 (''series'', Ev_list (map (\<lambda>(fy, np, ocf). Ev_bag [(''fy'', Ev_text fy), (''netProfit'', ev_round R 1 (Some np)),
                    (''ocf'', ev_round R 1 (Some ocf)), (''gap'', ev_round R 1 (Some (R (np - ocf))))]) run))]))"

definition R4_DE_THRESHOLD :: num where "R4_DE_THRESHOLD = 3"
definition R4_WINDOW_YEARS :: nat where "R4_WINDOW_YEARS = 5"

definition debtOf :: "(num \<Rightarrow> num) \<Rightarrow> foundation_annual \<Rightarrow> num" where
  \<comment> \<open>an undisclosed line counts as zero\<close>
  "debtOf R r = R (nullish (fa_borrowingsCurrent r) 0 + nullish (fa_borrowingsNoncurrent r) 0)"

definition deRatio :: "(num \<Rightarrow> num) \<Rightarrow> foundation_annual \<Rightarrow> num option" where
  "deRatio R r =
    (let debt = debtOf R r;
         nw = (case fa_totalEquity r of Some e \<Rightarrow> Some e
           | None \<Rightarrow> (case (fa_equityShareCapital r, fa_otherEquity r) of (Some c, Some e) \<Rightarrow> Some (R (c + e)) | _ \<Rightarrow> None))
     in case nw of None \<Rightarrow> None | Some w \<Rightarrow> if w \<le> 0 then None else Some (R (debt / w)))"

definition ruleR4 :: "(num \<Rightarrow> num) \<Rightarrow> filing_rule" where
  "ruleR4 R ctx =
    (if isFinancialIndustry (fx_industry ctx) then Not_evaluable Industry_not_applicable
     else if length (fx_annualFundamentals ctx) < 2 then Not_evaluable Insufficient_annual_history
     else (let window = lastn R4_WINDOW_YEARS (fx_annualFundamentals ctx); latest = last window;
               knownPriors = List.map_filter (deRatio R) (butlast window)
           in case deRatio R latest of None \<Rightarrow> Not_fired
              | Some latestDe \<Rightarrow>
                  if latestDe \<le> R4_DE_THRESHOLD then Not_fired
                  else if knownPriors = [] then Not_fired
                  else if list_ex (\<lambda>d. R4_DE_THRESHOLD < d) knownPriors then Not_fired
                  else red_flag ''foundation_R4_debt_explosion'' ''critical''
                    [(''rule'', Ev_text ''R4''), (''name'', Ev_text ''Debt Explosion''), (''latestPeriod'', Ev_text (fa_fiscalYear latest)),
                     (''deRatioLatest'', ev_round R 100 (Some latestDe)), (''threshold'', Ev_num R4_DE_THRESHOLD),
                     (''deHistory'', Ev_list (map (\<lambda>r. Ev_bag [(''fy'', Ev_text (fa_fiscalYear r)), (''de'', ev_round R 100 (deRatio R r))]) window)),
                     (''firstBreach'', Ev_flag True)]))"

definition P7_CASH_BACK_MAX :: num where "P7_CASH_BACK_MAX = 1 / 2"

definition ruleP7 :: "(num \<Rightarrow> num) \<Rightarrow> filing_rule" where
  "ruleP7 R ctx =
    (if isFinancialIndustry (fx_industry ctx) then Not_evaluable Industry_not_applicable
     else if length (fx_annualFundamentals ctx) < 2 then Not_evaluable Insufficient_annual_history
     else (let latest = last (annual_sorted ctx)
           in case (fa_netProfit latest, fa_cashFromOperating latest) of
                (Some np, Some ocf) \<Rightarrow>
                  if np \<le> 0 then Not_fired
                  else (let cashBack = R (ocf / np)
                        in if P7_CASH_BACK_MAX \<le> cashBack then Not_fired
                           else if ax_distorted (annualExceptionalLatest R (annual_sorted ctx)) then Not_fired
                           else pattern_finding ''foundation_P7_accruals'' ''red'' (Some Negative_dir) (Some (- 8))
                             [(''pattern'', Ev_text ''P7''), (''name'', Ev_text ''Accruals Divergence''), (''latestPeriod'', Ev_text (fa_fiscalYear latest)),
                              (''netProfit'', ev_round R 1 (Some np)), (''ocf'', ev_round R 1 (Some ocf)),
                              (''cashBackPct'', Ev_num (of_int (js_round (R (cashBack * 100))))),
                              (''accrualsGap'', ev_round R 1 (Some (R (np - ocf)))), (''provisional'', Ev_flag True)])
              | _ \<Rightarrow> Not_fired))"

definition recv :: "(num \<Rightarrow> num) \<Rightarrow> foundation_annual \<Rightarrow> num option" where
  "recv R r = (case (fa_tradeReceivablesCurrent r, fa_tradeReceivablesNoncurrent r) of
     (None, None) \<Rightarrow> None | (c, nc) \<Rightarrow> Some (R (nullish c 0 + nullish nc 0)))"

definition growth_pct :: "(num \<Rightarrow> num) \<Rightarrow> num \<Rightarrow> num \<Rightarrow> num" where
  \<comment> \<open>\<open>((cur - pri) / pri) * 100\<close>\<close>
  "growth_pct R cur pri = R (R (R (cur - pri) / pri) * 100)"

definition RECV_OUTPACE_PP :: num where "RECV_OUTPACE_PP = 15"
definition MIN_RECV_GROWTH_PCT :: num where "MIN_RECV_GROWTH_PCT = 10"
definition MIN_RECV_TO_REV :: "(num \<Rightarrow> num) \<Rightarrow> num" where "MIN_RECV_TO_REV R = R (5 / 100)"

definition ruleP8 :: "(num \<Rightarrow> num) \<Rightarrow> filing_rule" where
  "ruleP8 R ctx =
    (let f = fx_annualFundamentals ctx
     in if isFinancialIndustry (fx_industry ctx) then Not_evaluable Industry_not_applicable
        else if length f < 2 then Not_evaluable Insufficient_annual_history
        else (let latest = f ! (length f - 1); prior = f ! (length f - 2)
          in case (recv R latest, recv R prior, fa_revenue latest, fa_revenue prior) of
               (Some recCur, Some recPri, Some revCur, Some revPri) \<Rightarrow>
                 if recPri \<le> 0 \<or> revPri \<le> 0 \<or> revCur \<le> 0 then Not_fired
                 else (let recGrowthPct = growth_pct R recCur recPri; revGrowthPct = growth_pct R revCur revPri;
                           gapPp = R (recGrowthPct - revGrowthPct); recToRev = R (recCur / revCur)
                       in if recGrowthPct < MIN_RECV_GROWTH_PCT then Not_fired
                          else if recToRev < MIN_RECV_TO_REV R then Not_fired
                          else if gapPp < RECV_OUTPACE_PP then Not_fired
                          else pattern_finding ''foundation_P8_receivables'' ''amber'' (Some Negative_dir) (Some (- 3))
                            [(''pattern'', Ev_text ''P8''), (''name'', Ev_text ''Capital Tied in Receivables''),
                             (''latestPeriod'', Ev_text (fa_fiscalYear latest)), (''receivablesGrowthPct'', ev_round R 10 (Some recGrowthPct)),
                             (''revenueGrowthPct'', ev_round R 10 (Some revGrowthPct)), (''outpacePp'', ev_round R 10 (Some gapPp)),
                             (''receivablesToRevenue'', ev_round R 10 (Some (R (recToRev * 100)))), (''thresholdPp'', Ev_num RECV_OUTPACE_PP)])
             | _ \<Rightarrow> Not_fired))"

definition N1_MIN_YEARS :: nat where "N1_MIN_YEARS = 3"
definition N1_OCF_NP_MIN :: num where "N1_OCF_NP_MIN = 1"

fun trailingCashBackedRun :: "(num \<Rightarrow> num) \<Rightarrow> int option \<Rightarrow> foundation_annual list \<Rightarrow> (string \<times> num \<times> num \<times> num) list" where
  \<comment> \<open>rows newest first, after the ordinal of the row taken before; the run newest first\<close>
  "trailingCashBackedRun R newer [] = []"
| "trailingCashBackedRun R newer (r # rest) = (case (fa_netProfit r, fa_cashFromOperating r) of
     (Some np, Some ocf) \<Rightarrow>
       if np \<le> 0 then []
       else if R (ocf / np) < N1_OCF_NP_MIN then []
       else if (case newer of None \<Rightarrow> False | Some o1 \<Rightarrow> o1 - fa_fyOrdinal r \<noteq> 1) then []
       else (fa_fiscalYear r, ocf, np, R (ocf / np)) # trailingCashBackedRun R (Some (fa_fyOrdinal r)) rest
   | _ \<Rightarrow> [])"

definition ruleN1 :: "(num \<Rightarrow> num) \<Rightarrow> filing_rule" where
  "ruleN1 R ctx =
    (if isFinancialIndustry (fx_industry ctx) then Not_evaluable Industry_not_applicable
     else if length (fx_annualFundamentals ctx) < N1_MIN_YEARS then Not_evaluable Insufficient_annual_history
     else (let run = rev (trailingCashBackedRun R None (rev (annual_sorted ctx)))
           in if length run < N1_MIN_YEARS then Not_fired
              else if ax_distorted (annualExceptionalLatest R (annual_sorted ctx)) then Not_fired
              else notable_finding ''foundation_N1_cash_backed_earnings''
                [(''pattern'', Ev_text ''N1''), (''name'', Ev_text ''Cash-Backed Earnings''), (''years'', Ev_num (of_nat (length run))),
                 (''fromPeriod'', Ev_text (fst (hd run))), (''toPeriod'', Ev_text (fst (last run))),
                 (''minYears'', Ev_num (of_nat N1_MIN_YEARS)), (''ocfNpMin'', Ev_num N1_OCF_NP_MIN),
                 (''series'', Ev_list (map (\<lambda>(fy, ocf, np, ratio). Ev_bag [(''fy'', Ev_text fy), (''ocf'', ev_round R 1 (Some ocf)),
                    (''netProfit'', ev_round R 1 (Some np)), (''ocfToNp'', ev_round R 100 (Some ratio))]) run))]))"

record discipline_year =
  dy_fy :: string
  dy_baseFy :: string
  dy_revGrowthPct :: num
  dy_recvGrowthPct :: num
  dy_gapPp :: num
  dy_recvBase :: num
  dy_revBase :: num

definition N2_UNDERPACE_PP :: num where "N2_UNDERPACE_PP = 15"
definition N2_MIN_YEARS :: nat where "N2_MIN_YEARS = 2"
definition N2_MIN_RECV_TO_REV :: "(num \<Rightarrow> num) \<Rightarrow> num" where "N2_MIN_RECV_TO_REV R = R (5 / 100)"

definition discipline_of :: "(num \<Rightarrow> num) \<Rightarrow> foundation_annual \<Rightarrow> foundation_annual \<Rightarrow> discipline_year option" where
  \<comment> \<open>one round of the loop: \<open>None\<close> ends the run\<close>
  "discipline_of R cur pri =
    (if fa_fyOrdinal cur - fa_fyOrdinal pri \<noteq> 1 then None
     else (case (fa_revenue cur, fa_revenue pri, recv R cur, recv R pri) of
        (Some revCur, Some revPri, Some recvCur, Some recvPri) \<Rightarrow>
          if revPri \<le> 0 \<or> recvPri \<le> 0 then None
          else (let revGrowthPct = growth_pct R revCur revPri; recvGrowthPct = growth_pct R recvCur recvPri;
                    gapPp = R (revGrowthPct - recvGrowthPct)
                in if gapPp < N2_UNDERPACE_PP then None
                   else Some \<lparr>dy_fy = fa_fiscalYear cur, dy_baseFy = fa_fiscalYear pri, dy_revGrowthPct = revGrowthPct,
                     dy_recvGrowthPct = recvGrowthPct, dy_gapPp = gapPp, dy_recvBase = recvPri, dy_revBase = revPri\<rparr>)
      | _ \<Rightarrow> None))"

fun trailingDisciplineRun :: "(num \<Rightarrow> num) \<Rightarrow> foundation_annual list \<Rightarrow> discipline_year list" where
  \<comment> \<open>rows newest first; the run newest first\<close>
  "trailingDisciplineRun R (cur # pri # rest) = (case discipline_of R cur pri of
     None \<Rightarrow> [] | Some d \<Rightarrow> d # trailingDisciplineRun R (pri # rest))"
| "trailingDisciplineRun R rows = []"

definition ruleN2 :: "(num \<Rightarrow> num) \<Rightarrow> filing_rule" where
  "ruleN2 R ctx =
    (if isFinancialIndustry (fx_industry ctx) then Not_evaluable Industry_not_applicable
     else if length (fx_annualFundamentals ctx) < N2_MIN_YEARS + 1 then Not_evaluable Insufficient_annual_history
     else (let run = rev (trailingDisciplineRun R (rev (annual_sorted ctx)))
           in if length run < N2_MIN_YEARS then Not_fired
              else (let base = hd run; baseRatio = R (dy_recvBase base / dy_revBase base)
                    in if baseRatio < N2_MIN_RECV_TO_REV R then Not_fired
                       else notable_finding ''foundation_N2_working_capital''
                         [(''pattern'', Ev_text ''N2''), (''name'', Ev_text ''Working-Capital Discipline''), (''years'', Ev_num (of_nat (length run))),
                          (''fromPeriod'', Ev_text (dy_fy base)), (''toPeriod'', Ev_text (dy_fy (last run))),
                          (''basePeriod'', Ev_text (dy_baseFy base)), (''thresholdPp'', Ev_num N2_UNDERPACE_PP),
                          (''minYears'', Ev_num (of_nat N2_MIN_YEARS)), (''baseReceivablesToRevenue'', ev_round R 10 (Some (R (baseRatio * 100)))),
                          (''series'', Ev_list (map (\<lambda>d. Ev_bag [(''fy'', Ev_text (dy_fy d)),
                             (''revenueGrowthPct'', ev_round R 10 (Some (dy_revGrowthPct d))),
                             (''receivablesGrowthPct'', ev_round R 10 (Some (dy_recvGrowthPct d))),
                             (''outpacePp'', ev_round R 10 (Some (dy_gapPp d)))]) run))])))"

definition N3_MIN_YEARS :: nat where "N3_MIN_YEARS = 3"
definition N3_MIN_ABS_DECLINE :: num where "N3_MIN_ABS_DECLINE = 1 / 2"
definition N3_MIN_REL_DECLINE :: num where "N3_MIN_REL_DECLINE = 1 / 4"

fun contiguous_years :: "foundation_annual \<Rightarrow> foundation_annual list \<Rightarrow> foundation_annual list" where
  \<comment> \<open>the window of consecutive years that ends at the newest row; rows and window newest first\<close>
  "contiguous_years newer [] = [newer]"
| "contiguous_years newer (r # rest) =
    (if fa_fyOrdinal newer - fa_fyOrdinal r \<noteq> 1 then [newer] else newer # contiguous_years r rest)"

fun n3_run :: "(num \<Rightarrow> num) \<Rightarrow> num option \<Rightarrow> foundation_annual list \<Rightarrow> (string \<times> num) list" where
  \<comment> \<open>rows newest first, after the ratio taken before; the run newest first\<close>
  "n3_run R newer [] = []"
| "n3_run R newer (r # rest) = (case netWorthFrom R r of None \<Rightarrow> []
   | Some nw \<Rightarrow> if nw \<le> 0 then []
       else (let de = R (debtOf R r / nw)
             in if (case newer of None \<Rightarrow> False | Some d \<Rightarrow> \<not> d < de) then []
                else (fa_fiscalYear r, de) # n3_run R (Some de) rest))"

definition ruleN3 :: "(num \<Rightarrow> num) \<Rightarrow> filing_rule" where
  "ruleN3 R ctx =
    (if isFinancialIndustry (fx_industry ctx) then Not_evaluable Industry_not_applicable
     else if length (fx_annualFundamentals ctx) < N3_MIN_YEARS + 1 then Not_evaluable Insufficient_annual_history
     else (let newest = rev (annual_sorted ctx); win = contiguous_years (hd newest) (tl newest)
       in if length win < N3_MIN_YEARS + 1 then Not_fired
          else if list_ex (\<lambda>r. case netWorthFrom R r of None \<Rightarrow> False | Some nw \<Rightarrow> nw \<le> 0) (take (N3_MIN_YEARS + 1) win)
          then Not_evaluable Negative_equity
          else (let run = n3_run R None win; declines = length run - 1
            in if declines < N3_MIN_YEARS then Not_fired
               else (let deTo = snd (hd run); deFrom = snd (last run); absDecline = R (deFrom - deTo);
                         relDecline = (if 0 < deFrom then R (absDecline / deFrom) else 0)
                 in if absDecline < N3_MIN_ABS_DECLINE \<and> relDecline < N3_MIN_REL_DECLINE then Not_fired
                    else notable_finding ''foundation_N3_deleveraging''
                      [(''pattern'', Ev_text ''N3''), (''name'', Ev_text ''Deleveraging''), (''years'', Ev_num (of_nat declines)),
                       (''deFrom'', ev_round R 100 (Some deFrom)), (''deTo'', ev_round R 100 (Some deTo)),
                       (''fromPeriod'', Ev_text (fst (last run))), (''toPeriod'', Ev_text (fst (hd run))),
                       (''absDecline'', ev_round R 100 (Some absDecline)),
                       (''relDeclinePct'', Ev_num (of_int (js_round (R (relDecline * 100))))),
                       (''minAbsDecline'', Ev_num N3_MIN_ABS_DECLINE), (''minRelDecline'', Ev_num N3_MIN_REL_DECLINE),
                       (''series'', Ev_list (map (\<lambda>(fy, de). Ev_bag [(''fy'', Ev_text fy), (''de'', ev_round R 100 (Some de))]) (rev run)))]))))"

subsection \<open>Rules on the quarterly results\<close>

definition quarters_sorted :: "filing_context \<Rightarrow> momentum_quarter list" where
  "quarters_sorted ctx = sort_key mq_qOrdinal (fx_quarterlyResults ctx)"

datatype ttm_result = Ttm_ok num | Ttm_unavailable | Ttm_no_debt

definition four_quarters :: "momentum_quarter list \<Rightarrow> int \<Rightarrow> momentum_quarter list option" where
  \<comment> \<open>\<open>rows.slice(i - 3, i + 1)\<close>, \<open>None\<close> where it is short or has a gap\<close>
  "four_quarters rows i =
    (if i < 3 then None
     else (let win = take 4 (drop (nat (i - 3)) rows)
           in if mq_qOrdinal (win ! 3) - mq_qOrdinal (win ! 0) \<noteq> 3 then None else Some win))"

fun sum_disclosed :: "(num \<Rightarrow> num) \<Rightarrow> ('a \<Rightarrow> num option) \<Rightarrow> num \<Rightarrow> 'a list \<Rightarrow> num option" where
  "sum_disclosed R f s [] = Some s"
| "sum_disclosed R f s (q # qs) = (case f q of None \<Rightarrow> None | Some v \<Rightarrow> sum_disclosed R f (R (s + v)) qs)"

definition ttmIC :: "(num \<Rightarrow> num) \<Rightarrow> momentum_quarter list \<Rightarrow> int \<Rightarrow> ttm_result" where
  "ttmIC R rows i = (case four_quarters rows i of None \<Rightarrow> Ttm_unavailable
   | Some win \<Rightarrow> (case (sum_disclosed R mq_profitBeforeTax 0 win, sum_disclosed R mq_interest 0 win) of
       (Some sumPbt, Some sumInt) \<Rightarrow> if sumInt \<le> 0 then Ttm_no_debt else Ttm_ok (R (R (sumPbt + sumInt) / sumInt))
     | _ \<Rightarrow> Ttm_unavailable))"

definition R5_IC_THRESHOLD :: num where "R5_IC_THRESHOLD = 3 / 2"
definition R5_MIN_CONSECUTIVE :: nat where "R5_MIN_CONSECUTIVE = 2"

fun r5_loop :: "(num \<Rightarrow> num) \<Rightarrow> momentum_quarter list \<Rightarrow> int list \<Rightarrow> (string \<times> num) list \<Rightarrow> rule_result + (string \<times> num) list" where
  \<comment> \<open>the loop over the positions counted back from the latest; \<open>Inl\<close> returns from the rule\<close>
  "r5_loop R rows [] ttms = Inr ttms"
| "r5_loop R rows (i # is) ttms = (case ttmIC R rows i of
     Ttm_unavailable \<Rightarrow> Inl (Not_evaluable Insufficient_quarters_filed)
   | Ttm_no_debt \<Rightarrow> Inl Not_fired
   | Ttm_ok ic \<Rightarrow> if R5_IC_THRESHOLD \<le> ic then Inl Not_fired
       else r5_loop R rows is ((quarter_key (rows ! nat i), ic) # ttms))"

definition ruleR5 :: "(num \<Rightarrow> num) \<Rightarrow> filing_rule" where
  "ruleR5 R ctx =
    (let rows = quarters_sorted ctx; latest = int (length rows) - 1
     in if isFinancialIndustry (fx_industry ctx) then Not_evaluable Industry_not_applicable
        else if length rows < R5_MIN_CONSECUTIVE + 3 then Not_evaluable Insufficient_quarters_filed
        else case r5_loop R rows (map (\<lambda>k. latest - int k) [0..<R5_MIN_CONSECUTIVE]) [] of
          Inl out \<Rightarrow> out
        | Inr ttms \<Rightarrow> red_flag ''foundation_R5_interest_coverage'' ''critical''
            [(''rule'', Ev_text ''R5''), (''name'', Ev_text ''Interest Coverage Collapse''), (''threshold'', Ev_num R5_IC_THRESHOLD),
             (''consecutiveQuarters'', Ev_num (of_nat R5_MIN_CONSECUTIVE)),
             (''ttmSeries'', Ev_list (map (\<lambda>(p, ic). Ev_bag [(''period'', Ev_text p), (''ttmIC'', ev_round R 100 (Some ic))]) ttms)),
             (''latestTtmIC'', ev_round R 100 (Some (snd (last ttms))))])"

definition N4_MIN_RISES :: nat where "N4_MIN_RISES = 2"
definition N4_LOW_BASE_MAX :: num where "N4_LOW_BASE_MAX = 3"

fun n4_run :: "(num \<Rightarrow> num) \<Rightarrow> momentum_quarter list \<Rightarrow> num option \<Rightarrow> int list \<Rightarrow> (string \<times> num) list" where
  \<comment> \<open>positions counted back from the latest; the run newest first\<close>
  "n4_run R rows newer [] = []"
| "n4_run R rows newer (i # is) = (case ttmIC R rows i of
     Ttm_ok ic \<Rightarrow> if (case newer of None \<Rightarrow> False | Some n \<Rightarrow> \<not> ic < n) then []
       else (quarter_key (rows ! nat i), ic) # n4_run R rows (Some ic) is
   | _ \<Rightarrow> [])"

definition ruleN4 :: "(num \<Rightarrow> num) \<Rightarrow> filing_rule" where
  "ruleN4 R ctx =
    (let rows = quarters_sorted ctx; latest = int (length rows) - 1;
         first_windows = map (\<lambda>k. ttmIC R rows (latest - int k)) [0..<N4_MIN_RISES + 1]
     in if isFinancialIndustry (fx_industry ctx) then Not_evaluable Industry_not_applicable
        else case filter (\<lambda>w. w = Ttm_unavailable \<or> w = Ttm_no_debt) first_windows of
          w # _ \<Rightarrow> Not_evaluable (if w = Ttm_unavailable then Insufficient_quarters_filed else No_debt)
        | [] \<Rightarrow>
          (let run = n4_run R rows None (rev (map int [3..<length rows])); rises = length run - 1
           in if rises < N4_MIN_RISES then Not_fired
              else (let trough = snd (last run)
                    in if N4_LOW_BASE_MAX \<le> trough then Not_fired
                       else notable_finding ''foundation_N4_coverage_strengthening''
                         [(''pattern'', Ev_text ''N4''), (''name'', Ev_text ''Coverage Strengthening''), (''quarters'', Ev_num (of_nat rises)),
                          (''troughCoverage'', ev_round R 100 (Some trough)), (''latestCoverage'', ev_round R 100 (Some (snd (hd run)))),
                          (''fromPeriod'', Ev_text (fst (last run))), (''toPeriod'', Ev_text (fst (hd run))),
                          (''lowBaseMax'', Ev_num N4_LOW_BASE_MAX), (''minRises'', Ev_num (of_nat N4_MIN_RISES)),
                          (''series'', Ev_list (map (\<lambda>(p, ic). Ev_bag [(''period'', Ev_text p), (''ttmIC'', ev_round R 100 (Some ic))]) (rev run)))])))"

fun opm_run :: "(num \<Rightarrow> num \<Rightarrow> bool) \<Rightarrow> opm_point \<Rightarrow> opm_point list \<Rightarrow> opm_point list" where
  \<comment> \<open>the run back from the newest point while \<open>cmp newer older\<close> holds; newest first\<close>
  "opm_run cmp newer [] = [newer]"
| "opm_run cmp newer (older # rest) = (if cmp (op_opm newer) (op_opm older) then newer # opm_run cmp older rest else [newer])"

definition opm_evidence :: "(num \<Rightarrow> num) \<Rightarrow> opm_point list \<Rightarrow> evidence_value" where
  "opm_evidence R run = Ev_list (map (\<lambda>p. Ev_bag [(''periodKey'', Ev_text (op_periodKey p)), (''opm'', ev_round R 100 (Some (op_opm p)))]) run)"

definition P11_MIN_DECLINES :: nat where "P11_MIN_DECLINES = 2"
definition P11_MAGNITUDE :: int where "P11_MAGNITUDE = - 8"

definition ruleP11 :: "(num \<Rightarrow> num) \<Rightarrow> filing_rule" where
  "ruleP11 R ctx = (case fx_quarterlyOpm ctx of None \<Rightarrow> Not_evaluable Opm_unavailable
   | Some series \<Rightarrow>
      if length series < P11_MIN_DECLINES + 1 then Not_evaluable Insufficient_quarters_filed
      else if latestQuarterDistorted series then Not_fired
      else (let run = rev (opm_run (\<lambda>n o1. n < o1) (last series) (rev (butlast series))); declines = length run - 1
            in if declines < P11_MIN_DECLINES then Not_fired
               else pattern_finding ''momentum_P11_margin_compression'' ''red'' (Some Negative_dir) (Some P11_MAGNITUDE)
                 [(''pattern'', Ev_text ''P11''), (''name'', Ev_text ''Quarterly Margin Compression''),
                  (''quartersOfDecline'', Ev_num (of_nat declines)), (''opmSeries'', opm_evidence R run)]))"

definition P12_MIN_RISES :: nat where "P12_MIN_RISES = 2"

definition ruleP12 :: "(num \<Rightarrow> num) \<Rightarrow> filing_rule" where
  "ruleP12 R ctx = (case fx_quarterlyOpm ctx of None \<Rightarrow> Not_evaluable Opm_unavailable
   | Some series \<Rightarrow>
      if length series < P12_MIN_RISES + 1 then Not_evaluable Insufficient_quarters_filed
      else (let run = rev (opm_run (\<lambda>n o1. o1 < n) (last series) (rev (butlast series)));
                startIdx = length series - length run; rises = length run - 1
            in if rises < P12_MIN_RISES then Not_fired
               else if op_opm (hd run) < 0 \<or> isDistortedOpm series startIdx then Not_fired
               else if ax_gain (annualExceptionalLatest R (fx_annualFundamentals ctx)) then Not_fired
               else pattern_finding ''momentum_P12_margin_recovery'' ''green'' (Some Positive_dir) (Some 5)
                 [(''pattern'', Ev_text ''P12''), (''name'', Ev_text ''Quarterly Margin Recovery''),
                  (''quartersOfRecovery'', Ev_num (of_nat rises)), (''opmSeries'', opm_evidence R run)]))"

definition P13_INFLECTION_PP :: num where "P13_INFLECTION_PP = 5"

definition ttmRevenue :: "(num \<Rightarrow> num) \<Rightarrow> momentum_quarter list \<Rightarrow> int \<Rightarrow> num option" where
  "ttmRevenue R rows i = Option.bind (four_quarters rows i) (sum_disclosed R mq_revenue 0)"

definition ttmYoyGrowth :: "(num \<Rightarrow> num) \<Rightarrow> momentum_quarter list \<Rightarrow> int \<Rightarrow> num option" where
  "ttmYoyGrowth R rows i = (case (ttmRevenue R rows i, ttmRevenue R rows (i - 4)) of
     (Some cur, Some base) \<Rightarrow> if base \<le> 0 then None
        else if i < 4 \<or> mq_qOrdinal (rows ! nat i) - mq_qOrdinal (rows ! nat (i - 4)) \<noteq> 4 then None
        else Some (R (R (R (cur / base) - 1) * 100))
   | _ \<Rightarrow> None)"

definition ruleP13 :: "(num \<Rightarrow> num) \<Rightarrow> filing_rule" where
  "ruleP13 R ctx =
    (let rows = quarters_sorted ctx; latest = int (length rows) - 1
     in if isFinancialIndustry (fx_industry ctx) then Not_evaluable Industry_not_applicable
        else case (ttmYoyGrowth R rows latest, ttmYoyGrowth R rows (latest - 1)) of
          (Some latestG, Some priorG) \<Rightarrow>
            (let delta = R (latestG - priorG); accelerated = (0 < delta)
             in if \<bar>delta\<bar> < P13_INFLECTION_PP then Not_fired
                else pattern_finding ''momentum_P13_revenue_inflection'' (if accelerated then ''green'' else ''red'')
                  (Some (if accelerated then Positive_dir else Negative_dir)) (Some (if accelerated then 5 else - 5))
                  [(''pattern'', Ev_text ''P13''), (''name'', Ev_text ''TTM Revenue Inflection''),
                   (''latestPeriod'', Ev_text (quarter_key (rows ! nat latest))), (''priorTtmGrowthPct'', ev_round R 10 (Some priorG)),
                   (''latestTtmGrowthPct'', ev_round R 10 (Some latestG)), (''deltaPp'', ev_round R 10 (Some delta))])
        | _ \<Rightarrow> Not_fired)"

subsection \<open>Rules on the dated event feeds\<close>

definition INSIDER_WINDOW_DAYS :: int where "INSIDER_WINDOW_DAYS = 90"
definition INSIDER_ELIGIBLE_CR :: num where "INSIDER_ELIGIBLE_CR = 1"
definition P6_MIN_NET_CR :: num where "P6_MIN_NET_CR = 2"
definition P6_MIN_BUYERS :: nat where "P6_MIN_BUYERS = 1"

definition ruleP6 :: "(num \<Rightarrow> num) \<Rightarrow> filing_rule" where
  "ruleP6 R ctx = (case ff_insiderTxns (fx_feeds ctx) of None \<Rightarrow> Not_fired
   | Some txns \<Rightarrow>
     (let anchor = fx_asOfDate ctx; from_time = anchor - INSIDER_WINDOW_DAYS * DAY_MS;
          win = filter (\<lambda>t. it_role t = Director_role \<and> INSIDER_ELIGIBLE_CR \<le> it_valueInrCr t \<and> from_time < it_date t \<and> it_date t \<le> anchor) txns;
          buys = filter (\<lambda>t. it_side t = Buy_side) win; sells = filter (\<lambda>t. it_side t = Sell_side) win;
          netCr = net_of R it_side it_valueInrCr win; distinctBuyers = card (it_insiderId ` set buys)
      in if txns = [] then Not_fired
         else if netCr < P6_MIN_NET_CR \<or> distinctBuyers < P6_MIN_BUYERS then Not_fired
         else pattern_finding ''ownership_P6_insider_conviction'' ''green'' (Some Positive_dir) (Some 5)
           [(''pattern'', Ev_text ''P6''), (''name'', Ev_text ''Insider Conviction''), (''windowDays'', Ev_num (of_int INSIDER_WINDOW_DAYS)),
            (''netBuyCr'', ev_round R 1 (Some netCr)), (''distinctBuyers'', Ev_num (of_nat distinctBuyers)),
            (''buyTxns'', Ev_num (of_nat (length buys))), (''sellTxns'', Ev_num (of_nat (length sells)))]))"

definition BLOCK_WINDOW_DAYS :: int where "BLOCK_WINDOW_DAYS = 90"
definition H_MIN_DEAL_CR :: num where "H_MIN_DEAL_CR = 1"

definition ruleH :: "(num \<Rightarrow> num) \<Rightarrow> filing_rule" where
  "ruleH R ctx = (case ff_blockTxns (fx_feeds ctx) of None \<Rightarrow> Not_fired
   | Some blocks \<Rightarrow>
     (let anchor = fx_asOfDate ctx; from_time = anchor - BLOCK_WINDOW_DAYS * DAY_MS;
          win = filter (\<lambda>t. H_MIN_DEAL_CR \<le> bt_valueInrCr t \<and> from_time < bt_date t \<and> bt_date t \<le> anchor) blocks;
          buyCr = rsum R bt_valueInrCr (filter (\<lambda>t. bt_side t = Buy_side) win);
          sellCr = rsum R bt_valueInrCr (filter (\<lambda>t. bt_side t = Sell_side) win);
          netCr = R (buyCr - sellCr); grossCr = R (buyCr + sellCr)
      in if win = [] then Not_fired
         else pattern_finding ''ownership_H_block_events'' ''low''
           (if 0 < netCr then Some Positive_dir else if netCr < 0 then Some Negative_dir else None) None
           [(''card'', Ev_text ''H''), (''name'', Ev_text ''Ownership Events''), (''windowDays'', Ev_num (of_int BLOCK_WINDOW_DAYS)),
            (''deals'', Ev_num (of_nat (length win))), (''grossCr'', ev_round R 1 (Some grossCr)), (''netCr'', ev_round R 1 (Some netCr)),
            (''buyCr'', ev_round R 1 (Some buyCr)), (''sellCr'', ev_round R 1 (Some sellCr))]))"

subsection \<open>Registries and runner (\<open>engine.ts\<close>)\<close>

datatype rule_ref = Rule_R1 | Rule_R2 | Rule_R3 | Rule_R4 | Rule_R5 | Rule_R6 | Rule_P1 | Rule_P4 | Rule_P6 | Rule_P7 | Rule_P8
  | Rule_P11 | Rule_P12 | Rule_P13 | Rule_H | Rule_N1 | Rule_N2 | Rule_N3 | Rule_N4 | Rule_N5 | Rule_N6 | Rule_N7

definition SHAREHOLDING_RULES :: "rule_ref list" where
  "SHAREHOLDING_RULES = [Rule_R1, Rule_R2, Rule_R6, Rule_P1, Rule_P4, Rule_N5, Rule_N6, Rule_N7]"
definition ANNUAL_RULES :: "rule_ref list" where
  "ANNUAL_RULES = [Rule_R3, Rule_R4, Rule_P7, Rule_P8, Rule_N1, Rule_N2, Rule_N3]"
definition QUARTERLY_RULES :: "rule_ref list" where
  "QUARTERLY_RULES = [Rule_R5, Rule_N4, Rule_P11, Rule_P12, Rule_P13]"
definition FEED_RULES :: "rule_ref list" where
  "FEED_RULES = [Rule_P6, Rule_H]"
definition FILING_RULES :: "rule_ref list" where
  "FILING_RULES = SHAREHOLDING_RULES @ ANNUAL_RULES @ QUARTERLY_RULES @ FEED_RULES"

fun filing_rule_of :: "(num \<Rightarrow> num) \<Rightarrow> rule_ref \<Rightarrow> filing_rule" where
  "filing_rule_of R Rule_R1 = ruleR1 R" | "filing_rule_of R Rule_R2 = ruleR2 R" | "filing_rule_of R Rule_R3 = ruleR3 R"
| "filing_rule_of R Rule_R4 = ruleR4 R" | "filing_rule_of R Rule_R5 = ruleR5 R" | "filing_rule_of R Rule_R6 = ruleR6 R"
| "filing_rule_of R Rule_P1 = ruleP1 R" | "filing_rule_of R Rule_P4 = ruleP4 R" | "filing_rule_of R Rule_P6 = ruleP6 R"
| "filing_rule_of R Rule_P7 = ruleP7 R" | "filing_rule_of R Rule_P8 = ruleP8 R" | "filing_rule_of R Rule_P11 = ruleP11 R"
| "filing_rule_of R Rule_P12 = ruleP12 R" | "filing_rule_of R Rule_P13 = ruleP13 R" | "filing_rule_of R Rule_H = ruleH R"
| "filing_rule_of R Rule_N1 = ruleN1 R" | "filing_rule_of R Rule_N2 = ruleN2 R" | "filing_rule_of R Rule_N3 = ruleN3 R"
| "filing_rule_of R Rule_N4 = ruleN4 R" | "filing_rule_of R Rule_N5 = ruleN5 R" | "filing_rule_of R Rule_N6 = ruleN6 R"
| "filing_rule_of R Rule_N7 = ruleN7 R"

datatype evaluation_state = State_fired | State_not_fired | State_not_evaluable

datatype outcome_reason = Reason_of not_evaluable_reason | Rule_error

record filing_outcome =
  fo_rule :: rule_ref
  fo_state :: evaluation_state
  fo_finding :: "fired_finding option"
  fo_reason :: "outcome_reason option"
  fo_errored :: bool

definition outcome_of_rule :: "rule_ref \<Rightarrow> (unit, rule_result) result \<Rightarrow> filing_outcome" where
  \<comment> \<open>one round of the loop: \<open>Inl ()\<close> is a rule that throws\<close>
  "outcome_of_rule ref r = (case r of
     Inl _ \<Rightarrow> \<lparr>fo_rule = ref, fo_state = State_not_evaluable, fo_finding = None, fo_reason = Some Rule_error, fo_errored = True\<rparr>
   | Inr (Not_evaluable why) \<Rightarrow> \<lparr>fo_rule = ref, fo_state = State_not_evaluable, fo_finding = None, fo_reason = Some (Reason_of why), fo_errored = False\<rparr>
   | Inr (Fired f) \<Rightarrow> \<lparr>fo_rule = ref, fo_state = State_fired, fo_finding = Some f, fo_reason = None, fo_errored = False\<rparr>
   | Inr Not_fired \<Rightarrow> \<lparr>fo_rule = ref, fo_state = State_not_fired, fo_finding = None, fo_reason = None, fo_errored = False\<rparr>)"

definition run_rules :: "(rule_ref \<Rightarrow> filing_context \<Rightarrow> (unit, rule_result) result) \<Rightarrow> filing_context \<Rightarrow> rule_ref list \<Rightarrow> filing_outcome list" where
  \<comment> \<open>\<open>runFilingRules\<close> for any rule functions\<close>
  "run_rules rule ctx rules = map (\<lambda>ref. outcome_of_rule ref (rule ref ctx)) rules"

definition runFilingRules :: "(num \<Rightarrow> num) \<Rightarrow> filing_context \<Rightarrow> rule_ref list \<Rightarrow> filing_outcome list" where
  "runFilingRules R ctx rules = run_rules (\<lambda>ref c. Inr (filing_rule_of R ref c)) ctx rules"

subsection \<open>What a firing rule has seen\<close>

definition fires :: "rule_result \<Rightarrow> bool" where
  "fires r \<longleftrightarrow> (case r of Fired _ \<Rightarrow> True | _ \<Rightarrow> False)"

lemma fires_simps [simp]:
  "fires (Fired f)" "\<not> fires (Not_evaluable why)" "\<not> fires Not_fired"
  "fires (red_flag key sev ev)" "fires (pattern_finding key sev dir mag ev)" "fires (notable_finding key ev)"
  by (simp_all add: fires_def red_flag_def pattern_finding_def notable_finding_def)

lemma fires_if [simp]: "fires (if b then x else y) \<longleftrightarrow> (if b then fires x else fires y)"
  by simp

lemma f64_pos_diff: "0 < f64 (x - y) \<Longrightarrow> y < x"
  using f64_mono[of "x - y" 0] by force

lemma f64_diff_less: "c \<le> f64 (x - y) \<Longrightarrow> 0 < c \<Longrightarrow> y < x"
  by (rule f64_pos_diff) simp

lemma annual_sorted_id: "sorted (map fa_fyOrdinal (fx_annualFundamentals ctx)) \<Longrightarrow> annual_sorted ctx = fx_annualFundamentals ctx"
  unfolding annual_sorted_def by (metis sort_key_id_if_sorted)

lemma annual_sorted_length [simp]: "length (annual_sorted ctx) = length (fx_annualFundamentals ctx)"
  by (simp add: annual_sorted_def)

lemma rev_last2: "2 \<le> length xs \<Longrightarrow> \<exists>rest. rev xs = xs ! (length xs - 1) # xs ! (length xs - 2) # rest"
proof -
  assume l: "2 \<le> length xs"
  then obtain a b rest where r: "rev xs = a # b # rest" by (cases "rev xs"; cases "tl (rev xs)") (auto simp: Suc_le_eq)
  then have "xs = rev rest @ [b, a]" by (metis append.assoc append_Cons append_Nil rev.simps(2) rev_rev_ident)
  with r show ?thesis by (auto simp: nth_append)
qed

lemma p7_fires:
  assumes "fires (ruleP7 R ctx)"
  obtains np ocf where "fa_netProfit (last (annual_sorted ctx)) = Some np" "fa_cashFromOperating (last (annual_sorted ctx)) = Some ocf"
    "0 < np" "R (ocf / np) < 1 / 2"
  using assms by (auto simp: ruleP7_def Let_def P7_CASH_BACK_MAX_def split: if_splits option.splits)

lemma n1_fires:
  assumes "fires (ruleN1 R ctx)" "fa_netProfit (last (annual_sorted ctx)) = Some np" "fa_cashFromOperating (last (annual_sorted ctx)) = Some ocf"
  shows "1 \<le> R (ocf / np)"
proof -
  have l: "trailingCashBackedRun R None (rev (annual_sorted ctx)) \<noteq> []" "annual_sorted ctx \<noteq> []"
    using assms(1) by (auto simp: ruleN1_def Let_def N1_MIN_YEARS_def split: if_splits)
  then obtain rest where "rev (annual_sorted ctx) = last (annual_sorted ctx) # rest"
    by (metis append_butlast_last_id rev.simps(2) rev_rev_ident)
  with l assms(2,3) show ?thesis by (auto simp: N1_OCF_NP_MIN_def split: if_splits)
qed

lemma deRatio_alt: "deRatio R r = (case netWorthFrom R r of None \<Rightarrow> None | Some w \<Rightarrow> if w \<le> 0 then None else Some (R (debtOf R r / w)))"
  by (simp add: deRatio_def netWorthFrom_def Let_def)

lemma map_filter_set: "set (List.map_filter f xs) = {y. \<exists>x \<in> set xs. f x = Some y}"
  by (auto simp: List.map_filter_def image_iff) (metis option.sel)

lemma r4_fires:
  assumes "fires (ruleR4 R ctx)" "2 \<le> length (fx_annualFundamentals ctx)"
  obtains d where "deRatio R (last (fx_annualFundamentals ctx)) = Some d" "3 < d"
    "\<And>d1. deRatio R (fx_annualFundamentals ctx ! (length (fx_annualFundamentals ctx) - 2)) = Some d1 \<Longrightarrow> d1 \<le> 3"
proof -
  let ?f = "fx_annualFundamentals ctx" and ?w = "lastn R4_WINDOW_YEARS (fx_annualFundamentals ctx)"
  have "?w \<noteq> []" using assms(2) by (auto simp: lastn_def R4_WINDOW_YEARS_def)
  have l: "last ?w = last ?f" using assms(2) by (simp add: lastn_def R4_WINDOW_YEARS_def)
  have "butlast ?w \<noteq> []" and m: "?f ! (length ?f - 2) \<in> set (butlast ?w)"
  proof -
    obtain rest where "rev ?f = ?f ! (length ?f - 1) # ?f ! (length ?f - 2) # rest" using rev_last2[OF assms(2)] by blast
    then have f: "?f = rev rest @ [?f ! (length ?f - 2), ?f ! (length ?f - 1)]"
      by (metis append.assoc append_Cons append_Nil rev.simps(2) rev_rev_ident)
    have "?w = drop (length ?f - 5) (rev rest) @ [?f ! (length ?f - 2), ?f ! (length ?f - 1)]"
    proof -
      have "length ?f = length rest + 2" using arg_cong[OF f, of length] by simp
      then show ?thesis unfolding lastn_def R4_WINDOW_YEARS_def by (subst f) (simp add: drop_append)
    qed
    then show "?f ! (length ?f - 2) \<in> set (butlast ?w)" by (simp add: butlast_append)
    then show "butlast ?w \<noteq> []" by auto
  qed
  obtain d where d: "deRatio R (last ?f) = Some d" "3 < d"
    "\<not> list_ex (\<lambda>d. R4_DE_THRESHOLD < d) (List.map_filter (deRatio R) (butlast ?w))"
    using assms(1) l by (auto simp: ruleR4_def Let_def R4_DE_THRESHOLD_def split: if_splits option.splits)
  have "d1 \<le> 3" if "deRatio R (?f ! (length ?f - 2)) = Some d1" for d1
  proof -
    have "d1 \<in> set (List.map_filter (deRatio R) (butlast ?w))" using m that by (auto simp: map_filter_set)
    with d(3) show ?thesis by (auto simp: list_ex_iff R4_DE_THRESHOLD_def)
  qed
  with d that show ?thesis by blast
qed


lemma n3_fires:
  assumes "fires (ruleN3 R ctx)" "2 \<le> length (fx_annualFundamentals ctx)"
    and s: "annual_sorted ctx = fx_annualFundamentals ctx"
  obtains d d1 where "deRatio R (last (fx_annualFundamentals ctx)) = Some d"
    "deRatio R (fx_annualFundamentals ctx ! (length (fx_annualFundamentals ctx) - 2)) = Some d1" "d < d1"
proof -
  let ?f = "fx_annualFundamentals ctx"
  obtain rest where r: "rev ?f = ?f ! (length ?f - 1) # ?f ! (length ?f - 2) # rest" using rev_last2[OF assms(2)] by blast
  define a b where "a = ?f ! (length ?f - 1)" "b = ?f ! (length ?f - 2)"
  have l: "last ?f = a" using assms(2) unfolding a_b_def by (metis One_nat_def last_conv_nth list.size(3) not_numeral_le_zero)
  define win where "win = contiguous_years a (b # rest)"
  have "4 \<le> length (contiguous_years (hd (rev ?f)) (tl (rev ?f)))"
    "3 \<le> length (n3_run R None (contiguous_years (hd (rev ?f)) (tl (rev ?f)))) - 1"
    using assms(1) unfolding ruleN3_def s Let_def N3_MIN_YEARS_def by (simp_all split: if_splits)
  then have n: "4 \<le> length win" "3 \<le> length (n3_run R None win) - 1" unfolding r win_def a_b_def by simp_all
  from n(1) obtain w where w: "win = a # b # w"
    unfolding win_def by (cases rest) (auto split: if_splits)
  from n(2) have "2 \<le> length (n3_run R None (a # b # w))" using w by simp
  then show ?thesis
    using that[of "R (debtOf R a / the (netWorthFrom R a))" "R (debtOf R b / the (netWorthFrom R b))"] l
    unfolding a_b_def[symmetric] by (auto simp: deRatio_alt Let_def split: option.splits if_splits)
qed

lemma last_two: "2 \<le> length xs \<Longrightarrow> last xs = xs ! (length xs - 1)"
  by (cases xs) (auto simp: last_conv_nth)

lemma p8_fires:
  assumes "fires (ruleP8 R ctx)"
  obtains rc rp vc vp where "recv R (fx_annualFundamentals ctx ! (length (fx_annualFundamentals ctx) - 1)) = Some rc"
    "recv R (fx_annualFundamentals ctx ! (length (fx_annualFundamentals ctx) - 2)) = Some rp"
    "fa_revenue (fx_annualFundamentals ctx ! (length (fx_annualFundamentals ctx) - 1)) = Some vc"
    "fa_revenue (fx_annualFundamentals ctx ! (length (fx_annualFundamentals ctx) - 2)) = Some vp"
    "15 \<le> R (growth_pct R rc rp - growth_pct R vc vp)" "2 \<le> length (fx_annualFundamentals ctx)"
  using assms by (auto simp: ruleP8_def Let_def RECV_OUTPACE_PP_def split: if_splits option.splits)

lemma n2_fires:
  assumes "fires (ruleN2 R ctx)" "annual_sorted ctx = fx_annualFundamentals ctx" "2 \<le> length (fx_annualFundamentals ctx)"
    and "recv R (fx_annualFundamentals ctx ! (length (fx_annualFundamentals ctx) - 1)) = Some rc"
    "recv R (fx_annualFundamentals ctx ! (length (fx_annualFundamentals ctx) - 2)) = Some rp"
    "fa_revenue (fx_annualFundamentals ctx ! (length (fx_annualFundamentals ctx) - 1)) = Some vc"
    "fa_revenue (fx_annualFundamentals ctx ! (length (fx_annualFundamentals ctx) - 2)) = Some vp"
  shows "15 \<le> R (growth_pct R vc vp - growth_pct R rc rp)"
proof -
  let ?f = "fx_annualFundamentals ctx"
  obtain rest where r: "rev ?f = ?f ! (length ?f - 1) # ?f ! (length ?f - 2) # rest" using rev_last2[OF assms(3)] by blast
  have "trailingDisciplineRun R (rev ?f) \<noteq> []"
    using assms(1,2) by (auto simp: ruleN2_def Let_def N2_MIN_YEARS_def split: if_splits)
  then have "discipline_of R (?f ! (length ?f - 1)) (?f ! (length ?f - 2)) \<noteq> None" unfolding r by (auto split: option.splits)
  then show ?thesis using assms(4-7) by (auto simp: discipline_of_def Let_def N2_UNDERPACE_PP_def split: if_splits)
qed

lemma opm_run_first:
  assumes "3 \<le> length series" "2 \<le> length (opm_run cmp (last series) (rev (butlast series))) - 1"
  shows "cmp (op_opm (last series)) (op_opm (last (butlast series)))"
proof -
  have "butlast series \<noteq> []" using assms(1) by (cases series; cases "tl series") auto
  then obtain rest where "rev (butlast series) = last (butlast series) # rest"
    by (metis append_butlast_last_id rev.simps(2) rev_rev_ident)
  with assms(2) show ?thesis by (auto split: if_splits)
qed

lemma p11_fires:
  assumes "fires (ruleP11 R ctx)"
  obtains series where "fx_quarterlyOpm ctx = Some series" "op_opm (last series) < op_opm (last (butlast series))"
proof -
  obtain series where s: "fx_quarterlyOpm ctx = Some series" using assms by (auto simp: ruleP11_def split: option.splits)
  with assms have "3 \<le> length series" "2 \<le> length (opm_run (<) (last series) (rev (butlast series))) - 1"
    by (auto simp: ruleP11_def Let_def P11_MIN_DECLINES_def split: if_splits)
  from opm_run_first[OF this] s that show ?thesis by blast
qed

lemma p12_fires:
  assumes "fires (ruleP12 R ctx)" "fx_quarterlyOpm ctx = Some series"
  shows "op_opm (last (butlast series)) < op_opm (last series)"
proof -
  have "3 \<le> length series" "2 \<le> length (opm_run (\<lambda>n o1. o1 < n) (last series) (rev (butlast series))) - 1"
    using assms by (auto simp: ruleP12_def Let_def P12_MIN_RISES_def split: if_splits)
  from opm_run_first[OF this] show ?thesis .
qed

lemma rule_parts_not_B4:
  "(case (if x then [''B1''] else []) @ (if y then [if z then ''B2'' else ''B3''] else []) of [a, b] \<Rightarrow> a @ ''='' @ b
     | _ \<Rightarrow> concat ((if x then [''B1''] else []) @ (if y then [if z then ''B2'' else ''B3''] else []))) \<noteq> ''B4''"
  by (cases x; cases y; cases z) simp_all

lemma category_B_dual_exit:
  assumes "fc_firedRule (computeCategoryB R rows i) = Some ''B4''"
  shows "\<exists>fD. delta_of R (oq_fiiPct (rows ! i)) (oq_fiiPct (rows ! (i - 1))) = Some fD \<and> fD \<le> - (1 / 2)"
proof (cases "delta_of R (oq_fiiPct (rows ! i)) (oq_fiiPct (rows ! (i - 1)))")
  case None
  with assms show ?thesis by (simp add: computeCategoryB_def Let_def category_done_def split: if_splits)
next
  case (Some fD)
  show ?thesis
  proof (rule ccontr)
    assume "\<nexists>fD. delta_of R (oq_fiiPct (rows ! i)) (oq_fiiPct (rows ! (i - 1))) = Some fD \<and> fD \<le> - (1 / 2)"
    then have n: "\<not> fD \<le> - (1 / 2)" using Some by simp
    have one: "\<not> i < 1" using assms by (rule contrapos_pn) (simp add: computeCategoryB_def Let_def category_done_def)
    obtain dD where d: "delta_of R (oq_diiPct (rows ! i)) (oq_diiPct (rows ! (i - 1))) = Some dD"
      using assms Some one by (cases "delta_of R (oq_diiPct (rows ! i)) (oq_diiPct (rows ! (i - 1)))")
        (simp_all add: computeCategoryB_def Let_def category_done_def)
    have if_out: "fc_firedRule (if c then a else b) = Some s \<longleftrightarrow> (if c then fc_firedRule a = Some s else fc_firedRule b = Some s)" for c a b s
      by simp
    show False
      using assms
      unfolding computeCategoryB_def Let_def Some d prod.case option.case if_out if_not_P[OF one] if_not_P[OF n] de_Morgan_conj
      by (simp only: n one simp_thms if_False if_out category_done_def flow_result.simps option.inject rule_parts_not_B4 if_cancel
        option.distinct refl split: if_split)
  qed
qed

lemma p4_fires:
  assumes "fires (ruleP4 R ctx)"
  obtains fD where "b_delta R oq_fiiPct (fx_shareholding ctx) = Some fD" "fD \<le> - (1 / 2)"
proof -
  let ?rows = "fx_shareholding ctx"
  have l: "2 \<le> length ?rows" and b: "fc_firedRule (computeCategoryB R ?rows (length ?rows - 1)) = Some ''B4''"
    using assms by (auto simp: ruleP4_def Let_def split: if_splits)
  have i: "length ?rows - 1 - 1 = length ?rows - 2" by simp
  show ?thesis using category_B_dual_exit[OF b] that unfolding i b_delta_def sh_last_def sh_prior_def by blast
qed

lemma n5_fires:
  assumes "fires (ruleN5 R ctx)" "b_delta R oq_fiiPct (fx_shareholding ctx) = Some fD" shows "1 / 2 \<le> fD"
  using assms by (auto simp: ruleN5_def Let_def N5_MIN_MOVE_PP_def b_delta_def delta_of_def split: if_splits option.splits)


lemma r1_fires:
  assumes "fires (ruleR1 R ctx)" "2 \<le> length (fx_shareholding ctx)"
  shows "pl_r1Breach (computePledging R (sh_last (fx_shareholding ctx)) (Some (sh_prior (fx_shareholding ctx))))"
  using assms by (auto simp: ruleR1_def Let_def split: if_splits)

lemma n7_fires:
  assumes "fires (ruleN7 R ctx)"
  obtains q q1 where "2 \<le> length (fx_shareholding ctx)"
    "pl_ratioQ (computePledging R (sh_last (fx_shareholding ctx)) (Some (sh_prior (fx_shareholding ctx)))) = Some q"
    "pl_ratioQ1 (computePledging R (sh_last (fx_shareholding ctx)) (Some (sh_prior (fx_shareholding ctx)))) = Some q1"
    "10 \<le> R (q1 - q) \<or> 50 < q1 \<and> q < 50"
    "\<not> r1StandingAt R (fx_shareholding ctx) (int (length (fx_shareholding ctx)) - 2)"
    "oq_pledgedShares (sh_prior (fx_shareholding ctx)) \<noteq> None"
  using assms by (auto simp: ruleN7_def Let_def N7_QOQ_FALL_PP_def N7_RATIO_PCT_def split: if_splits option.splits)

lemma pledging_breach:
  "pl_r1Breach (computePledging R cur (Some p)) \<longleftrightarrow> oq_pledgedShares cur \<noteq> None \<and> (\<exists>n. oq_promoterShares cur = Some n \<and> 0 < n) \<and>
     (50 < the (pledgeRatio R cur) \<or> (\<exists>r. pledgeRatio R p = Some r \<and> 10 \<le> R (the (pledgeRatio R cur) - r)))"
  by (auto simp: computePledging_def pledging_none_def Let_def R1_PLEDGE_RATIO_PCT_def R1_QOQ_RISE_PP_def split: option.splits)

lemma pledging_ratios:
  "pl_ratioQ (computePledging R cur (Some p)) = Some q \<Longrightarrow> q = the (pledgeRatio R cur)"
  "pl_ratioQ1 (computePledging R cur (Some p)) = Some q1 \<Longrightarrow> pledgeRatio R p = Some q1"
  by (auto simp: computePledging_def pledging_none_def Let_def split: option.splits if_splits)

lemma standing_by_level:
  assumes "2 \<le> length rows" "oq_pledgedShares (sh_prior rows) \<noteq> None" "oq_promoterShares (sh_prior rows) = Some n" "0 < n"
    and "50 < the (pledgeRatio R (sh_prior rows))"
  shows "r1StandingAt R rows (int (length rows) - 2)"
proof -
  have i: "nat (int (length rows) - 2) = length rows - 2" by simp
  show ?thesis
    using assms unfolding r1StandingAt_def i sh_prior_def
    by (auto simp: computePledging_def Let_def R1_PLEDGE_RATIO_PCT_def split: option.splits)
qed

lemma pledge_crisis_and_release:
  assumes "fires (ruleR1 f64 ctx)" "fires (ruleN7 f64 ctx)"
    and n: "oq_promoterShares (sh_prior (fx_shareholding ctx)) = Some n" "0 < n"
  shows False
proof -
  let ?rows = "fx_shareholding ctx"
  obtain q q1 where q: "2 \<le> length ?rows"
    "pl_ratioQ (computePledging f64 (sh_last ?rows) (Some (sh_prior ?rows))) = Some q"
    "pl_ratioQ1 (computePledging f64 (sh_last ?rows) (Some (sh_prior ?rows))) = Some q1"
    "10 \<le> f64 (q1 - q) \<or> 50 < q1 \<and> q < 50"
    "\<not> r1StandingAt f64 ?rows (int (length ?rows) - 2)" "oq_pledgedShares (sh_prior ?rows) \<noteq> None"
    by (rule n7_fires[OF assms(2)])
  have "\<not> 50 < q1"
    using standing_by_level[OF q(1) q(6) n] q(5) pledging_ratios(2)[OF q(3)] by auto
  then have "10 \<le> f64 (q1 - q)" using q(4) by simp
  then have less: "q < q1" by (rule f64_diff_less) simp
  from r1_fires[OF assms(1) q(1)] consider "50 < q" | "10 \<le> f64 (q - q1)"
    unfolding pledging_breach using pledging_ratios(1)[OF q(2)] pledging_ratios(2)[OF q(3)] by auto
  then show False
  proof cases
    case 1
    with less \<open>\<not> 50 < q1\<close> show False by linarith
  next
    case 2
    then have "q1 < q" by (rule f64_diff_less) simp
    with less show False by simp
  qed
qed

definition mirror_pairs :: "(rule_ref \<times> rule_ref) list" where
  \<comment> \<open>a negative finding and the constructive one its header calls the mirror\<close>
  "mirror_pairs = [(Rule_R1, Rule_N7), (Rule_R4, Rule_N3), (Rule_P4, Rule_N5), (Rule_P7, Rule_N1), (Rule_P8, Rule_N2), (Rule_P11, Rule_P12)]"

lemma mirror_rules:
  assumes s: "sorted (map fa_fyOrdinal (fx_annualFundamentals ctx))"
    and n: "2 \<le> length (fx_shareholding ctx) \<Longrightarrow> \<exists>n. oq_promoterShares (sh_prior (fx_shareholding ctx)) = Some n \<and> 0 < n"
    and p: "(neg, pos) \<in> set mirror_pairs"
    and f: "fires (filing_rule_of f64 neg ctx)" "fires (filing_rule_of f64 pos ctx)"
  shows False
proof -
  note id = annual_sorted_id[OF s]
  from p consider "neg = Rule_R1" "pos = Rule_N7" | "neg = Rule_R4" "pos = Rule_N3" | "neg = Rule_P4" "pos = Rule_N5"
    | "neg = Rule_P7" "pos = Rule_N1" | "neg = Rule_P8" "pos = Rule_N2" | "neg = Rule_P11" "pos = Rule_P12"
    by (auto simp: mirror_pairs_def)
  then show False
  proof cases
    case 1
    then have f': "fires (ruleR1 f64 ctx)" "fires (ruleN7 f64 ctx)" using f by simp_all
    from f'(2) have "2 \<le> length (fx_shareholding ctx)" by (rule n7_fires)
    from n[OF this] pledge_crisis_and_release[OF f'] show False by auto
  next
    case 2
    then have f': "fires (ruleR4 f64 ctx)" "fires (ruleN3 f64 ctx)" using f by simp_all
    from f'(2) have l: "2 \<le> length (fx_annualFundamentals ctx)" by (auto simp: ruleN3_def N3_MIN_YEARS_def split: if_splits)
    obtain d where "deRatio f64 (last (fx_annualFundamentals ctx)) = Some d" "3 < d"
      "\<And>d1. deRatio f64 (fx_annualFundamentals ctx ! (length (fx_annualFundamentals ctx) - 2)) = Some d1 \<Longrightarrow> d1 \<le> 3"
      by (rule r4_fires[OF f'(1) l]) blast
    moreover obtain d' d1 where "deRatio f64 (last (fx_annualFundamentals ctx)) = Some d'"
      "deRatio f64 (fx_annualFundamentals ctx ! (length (fx_annualFundamentals ctx) - 2)) = Some d1" "d' < d1"
      by (rule n3_fires[OF f'(2) l id])
    ultimately show False by fastforce
  next
    case 3
    then have f': "fires (ruleP4 f64 ctx)" "fires (ruleN5 f64 ctx)" using f by simp_all
    obtain fD where fD: "b_delta f64 oq_fiiPct (fx_shareholding ctx) = Some fD" "fD \<le> - (1 / 2)" by (rule p4_fires[OF f'(1)])
    from n5_fires[OF f'(2) fD(1)] fD(2) show False by simp
  next
    case 4
    then have f': "fires (ruleP7 f64 ctx)" "fires (ruleN1 f64 ctx)" using f by simp_all
    obtain np ocf where o: "fa_netProfit (last (annual_sorted ctx)) = Some np" "fa_cashFromOperating (last (annual_sorted ctx)) = Some ocf"
      "f64 (ocf / np) < 1 / 2" by (rule p7_fires[OF f'(1)])
    from n1_fires[OF f'(2) o(1,2)] o(3) show False by simp
  next
    case 5
    then have f': "fires (ruleP8 f64 ctx)" "fires (ruleN2 f64 ctx)" using f by simp_all
    obtain rc rp vc vp where o: "recv f64 (fx_annualFundamentals ctx ! (length (fx_annualFundamentals ctx) - 1)) = Some rc"
      "recv f64 (fx_annualFundamentals ctx ! (length (fx_annualFundamentals ctx) - 2)) = Some rp"
      "fa_revenue (fx_annualFundamentals ctx ! (length (fx_annualFundamentals ctx) - 1)) = Some vc"
      "fa_revenue (fx_annualFundamentals ctx ! (length (fx_annualFundamentals ctx) - 2)) = Some vp"
      "15 \<le> f64 (growth_pct f64 rc rp - growth_pct f64 vc vp)" "2 \<le> length (fx_annualFundamentals ctx)"
      by (rule p8_fires[OF f'(1)])
    have "growth_pct f64 vc vp < growth_pct f64 rc rp" using o(5) by (rule f64_diff_less) simp
    moreover have "growth_pct f64 rc rp < growth_pct f64 vc vp"
      by (rule f64_diff_less[OF n2_fires[OF f'(2) id o(6) o(1-4)]]) simp
    ultimately show False by simp
  next
    case 6
    then have f': "fires (ruleP11 f64 ctx)" "fires (ruleP12 f64 ctx)" using f by simp_all
    obtain series where o: "fx_quarterlyOpm ctx = Some series" "op_opm (last series) < op_opm (last (butlast series))"
      by (rule p11_fires[OF f'(1)])
    from p12_fires[OF f'(2) o(1)] o(2) show False by simp
  qed
qed

lemma state_fired_iff: "fo_state (outcome_of_rule ref (Inr r)) = State_fired \<longleftrightarrow> fires r"
  by (cases r) (simp_all add: outcome_of_rule_def)

lemma fo_rule_of [simp]: "fo_rule (outcome_of_rule ref r) = ref"
  by (auto simp: outcome_of_rule_def split: sum.splits rule_result.splits)

lemma outcome_fired:
  assumes "o1 \<in> set (runFilingRules R ctx rules)" "fo_state o1 = State_fired"
  shows "fires (filing_rule_of R (fo_rule o1) ctx)"
  using assms by (auto simp: runFilingRules_def run_rules_def state_fired_iff)

text \<open>C9. In machine arithmetic a negative filing finding and the constructive one that
  mirrors it never fire in the same run of the rules on one stock: R1 pledging and N7 release, R4
  debt and N3 deleveraging, P4 dual exit and N5 dual build, P7 accruals and N1 cash backing, P8
  receivables and N2 working capital, P11 and P12 margins. It assumes that the annual rows come in
  order of their years and, where there are two shareholding filings, that the earlier of the last
  two has a positive promoter share count; the sides use different windows, thresholds and
  roundings, and for R1 and N7 it rests on the guard against a standing R1.\<close>

theorem mirror_findings_exclude:
  assumes "sorted (map fa_fyOrdinal (fx_annualFundamentals ctx))"
    and "2 \<le> length (fx_shareholding ctx) \<Longrightarrow> \<exists>n. oq_promoterShares (sh_prior (fx_shareholding ctx)) = Some n \<and> 0 < n"
    and "(neg, pos) \<in> set mirror_pairs"
    and "o1 \<in> set (runFilingRules f64 ctx FILING_RULES)" "fo_rule o1 = neg" "fo_state o1 = State_fired"
    and "o2 \<in> set (runFilingRules f64 ctx FILING_RULES)" "fo_rule o2 = pos"
  shows "fo_state o2 \<noteq> State_fired"
  using mirror_rules[OF assms(1,2,3)] outcome_fired[OF assms(4,6)] outcome_fired[OF assms(7)] assms(5,8) by blast

lemma outcome_in:
  "ref \<in> set rules \<Longrightarrow> outcome_of_rule ref (Inr (filing_rule_of R ref ctx)) \<in> set (runFilingRules R ctx rules)"
  by (auto simp: runFilingRules_def run_rules_def)

definition share_row :: "string \<Rightarrow> instant \<Rightarrow> int \<Rightarrow> num \<Rightarrow> ownership_quarter" where
  \<comment> \<open>a filing with the given number of pledged shares out of 100, and one percentage for both kinds of institutions\<close>
  "share_row q d pledged x = \<lparr>oq_asOnDate = d, oq_quarter = q, oq_fiscalYear = ''FY26'', oq_promoterShares = Some 100,
     oq_promoterTotalShares = None, oq_totalShares = Some 200, oq_pledgedShares = Some pledged, oq_promoterPct = Some 50,
     oq_fiiPct = Some x, oq_diiPct = Some x, oq_retailPct = Some (50 - 2 * x)\<rparr>"

definition filing_sample :: "ownership_quarter list \<Rightarrow> foundation_annual list \<Rightarrow> filing_context" where
  "filing_sample sh annual = \<lparr>fx_stockId = ''s1'', fx_symbol = ''ABC'', fx_asOfDate = 1774900000000, fx_industry = Ind_non_financial,
     fx_shareholding = sh, fx_annualFundamentals = annual, fx_quarterlyOpm = None, fx_quarterlyResults = [],
     fx_feeds = \<lparr>ff_insiderTxns = None, ff_blockTxns = None, ff_marketCapInrCr = None\<rparr>\<rparr>"

definition dual_exit :: filing_context where
  "dual_exit = filing_sample [share_row ''Q1'' 1751241600000 0 12, share_row ''Q2'' 1759190400000 0 10] []"

lemma dual_exit_fires: "fires (ruleP4 f64 dual_exit)"
  by code_simp

lemma mirror_findings_exclude_witness:
  "fo_state (outcome_of_rule Rule_N5 (Inr (ruleN5 f64 dual_exit))) \<noteq> State_fired"
proof -
  have "outcome_of_rule Rule_P4 (Inr (filing_rule_of f64 Rule_P4 dual_exit)) \<in> set (runFilingRules f64 dual_exit FILING_RULES)"
    "outcome_of_rule Rule_N5 (Inr (filing_rule_of f64 Rule_N5 dual_exit)) \<in> set (runFilingRules f64 dual_exit FILING_RULES)"
    by (rule outcome_in; simp add: FILING_RULES_def SHAREHOLDING_RULES_def)+
  from mirror_findings_exclude[OF _ _ _ this(1) _ _ this(2), of Rule_P4 Rule_N5] dual_exit_fires show ?thesis
    by (simp add: state_fired_iff mirror_pairs_def dual_exit_def filing_sample_def sh_prior_def share_row_def)
qed

subsection \<open>Years and gaps\<close>

definition relabel_year :: "(int \<Rightarrow> int) \<Rightarrow> foundation_annual \<Rightarrow> foundation_annual" where
  "relabel_year g r = r\<lparr>fa_fyOrdinal := g (fa_fyOrdinal r)\<rparr>"

definition relabel_years :: "(int \<Rightarrow> int) \<Rightarrow> filing_context \<Rightarrow> filing_context" where
  "relabel_years g ctx = ctx\<lparr>fx_annualFundamentals := map (relabel_year g) (fx_annualFundamentals ctx)\<rparr>"

lemma sort_relabel:
  assumes "strict_mono g"
  shows "sort_key fa_fyOrdinal (map (relabel_year g) rows) = map (relabel_year g) (sort_key fa_fyOrdinal rows)"
proof (induction rows)
  case (Cons r rows)
  have "insort_key fa_fyOrdinal (relabel_year g r) (map (relabel_year g) ys) = map (relabel_year g) (insort_key fa_fyOrdinal r ys)" for ys
    by (induction ys) (simp_all add: relabel_year_def strict_mono_less_eq[OF assms])
  with Cons show ?case by simp
qed simp

lemma r3_run_relabel: "r3_run (map (relabel_year g) rows) = r3_run rows"
  by (induction rows) (auto simp: relabel_year_def split: option.splits)

text \<open>R3 asks for four consecutive years and counts four rows: its verdict only depends on the order of
  the years, so rows five years apart are a run as well.\<close>

theorem earnings_flag_ignores_gaps:
  assumes "strict_mono g"
  shows "ruleR3 R (relabel_years g ctx) = ruleR3 R ctx"
proof -
  have "annual_sorted (relabel_years g ctx) = map (relabel_year g) (annual_sorted ctx)"
    by (simp add: annual_sorted_def relabel_years_def sort_relabel[OF assms])
  then show ?thesis by (simp add: ruleR3_def Let_def rev_map r3_run_relabel) (simp add: relabel_years_def)
qed

definition annual_row :: "int \<Rightarrow> num option \<Rightarrow> num \<Rightarrow> num \<Rightarrow> foundation_annual" where
  \<comment> \<open>a year with the given debt, profit and operating cash flow\<close>
  "annual_row n debt np ocf = \<lparr>fa_fiscalYear = ''FY'', fa_fyOrdinal = n, fa_revenue = Some 1000, fa_otherIncome = Some 0,
     fa_financeCosts = Some 10, fa_depreciation = Some 10, fa_profitBeforeTax = Some (np + 10), fa_netProfit = Some np,
     fa_equityShareCapital = Some 50, fa_otherEquity = Some 50, fa_totalEquity = Some 100, fa_borrowingsCurrent = None,
     fa_borrowingsNoncurrent = debt, fa_totalAssets = Some 400, fa_tradeReceivablesCurrent = Some 50,
     fa_tradeReceivablesNoncurrent = None, fa_propertyPlantAndEquipment = Some 100, fa_capitalWorkInProgress = Some 10,
     fa_cashFromOperating = Some ocf, fa_faceValueShare = Some 10, fa_storedRoce = None, fa_storedDebtToEquity = None,
     fa_storedInterestCoverage = None, fa_storedReceivablesDays = None, fa_storedAssetTurnover = None, fa_storedOperatingMargin = Some 20\<rparr>"

definition four_weak_years :: filing_context where
  "four_weak_years = filing_sample [] [annual_row 1 (Some 10) 40 20, annual_row 2 (Some 10) 40 20, annual_row 3 (Some 10) 40 20, annual_row 4 (Some 10) 40 20]"

lemma earnings_flag_ignores_gaps_witness:
  \<comment> \<open>five years apart, the four years are still a run\<close>
  "fires (ruleR3 f64 (relabel_years (\<lambda>n. 5 * n) four_weak_years))"
proof -
  have "strict_mono ((*) 5 :: int \<Rightarrow> int)" by (auto simp: strict_mono_def)
  moreover have "fires (ruleR3 f64 four_weak_years)" by code_simp
  ultimately show ?thesis using earnings_flag_ignores_gaps[of "(*) 5" f64 four_weak_years] by simp
qed

subsection \<open>Debt that is not disclosed\<close>

lemma n3_run_above:
  assumes "p \<in> set (n3_run R newer rows)"
  shows "(\<exists>x. snd p = R x) \<and> (case newer of None \<Rightarrow> True | Some d \<Rightarrow> d < snd p)"
  using assms
proof (induction R newer rows rule: n3_run.induct)
  case (2 R newer r rest)
  then show ?case by (fastforce simp: Let_def split: option.splits if_splits)
qed simp

definition steady_fall :: "foundation_annual list \<Rightarrow> bool" where
  \<comment> \<open>years newest first, one apart, with positive net worth and a debt ratio that fell every year to something above 0\<close>
  "steady_fall rows \<longleftrightarrow> (case rows of [c, b, a] \<Rightarrow>
     fa_fyOrdinal c = fa_fyOrdinal b + 1 \<and> fa_fyOrdinal b = fa_fyOrdinal a + 1 \<and>
     (case (deRatio f64 a, deRatio f64 b, deRatio f64 c) of (Some da, Some db, Some dc) \<Rightarrow> db < da \<and> dc < db \<and> 0 < dc | _ \<Rightarrow> False)
   | _ \<Rightarrow> False)"

lemma deRatio_Some: "deRatio R r = Some d \<longleftrightarrow> (\<exists>w. netWorthFrom R r = Some w \<and> 0 < w \<and> d = R (debtOf R r / w))"
  by (auto simp: deRatio_alt split: option.splits)

text \<open>N3 takes a borrowing line that is not disclosed for zero.  A company whose debt ratio fell for two
  years and whose latest filing has no borrowing line at all gets the finding of deleveraging, while the metric F4
  of the same filing is unavailable.\<close>

theorem undisclosed_debt_is_repaid:
  assumes "fx_industry ctx = Ind_non_financial" "annual_sorted ctx = older @ [a, b, c, r]" "steady_fall [c, b, a]"
    and "fa_fyOrdinal r = fa_fyOrdinal c + 1" "netWorthFrom f64 r = Some w" "0 < w"
    and "fa_borrowingsCurrent r = None" "fa_borrowingsNoncurrent r = None"
  shows "fires (ruleN3 f64 ctx) \<and> mv_reason (f4DebtEquity f64 r) = Some Missing_line_item"
proof -
  from assms(3) obtain da db dc where d: "deRatio f64 a = Some da" "deRatio f64 b = Some db" "deRatio f64 c = Some dc"
    "db < da" "dc < db" "0 < dc" and o: "fa_fyOrdinal c = fa_fyOrdinal b + 1" "fa_fyOrdinal b = fa_fyOrdinal a + 1"
    by (auto simp: steady_fall_def split: option.splits)
  have z: "debtOf f64 r = 0" using assms(7,8) by (simp add: debtOf_def)
  define win where "win = contiguous_years r (c # b # a # rev older)"
  obtain more where w: "win = r # c # b # a # more"
  proof -
    have "\<exists>more. contiguous_years a (rev older) = a # more" by (cases "rev older") simp_all
    then show ?thesis using o assms(4) that by (auto simp: win_def)
  qed
  obtain run where run: "n3_run f64 None win = (fa_fiscalYear r, 0) # (fa_fiscalYear c, dc) # (fa_fiscalYear b, db) # (fa_fiscalYear a, da) # run"
    using d assms(5,6) z by (auto simp: w Let_def deRatio_Some)
  have fall: "0 < snd p \<and> f64 (snd p) = snd p" if "p \<in> set (n3_run f64 (Some 0) (c # b # a # more))" for p
    using n3_run_above[OF that] by (auto simp: f64_idem)
  have "last (n3_run f64 None win) \<in> set (n3_run f64 (Some 0) (c # b # a # more))"
    using assms(5,6) z run by (auto simp: w Let_def split: if_splits)
  from fall[OF this] have f: "0 < snd (last (n3_run f64 None win))" "f64 (snd (last (n3_run f64 None win))) = snd (last (n3_run f64 None win))"
    by auto
  have l: "\<not> length (fx_annualFundamentals ctx) < 4" using arg_cong[OF assms(2), of length] by simp
  have pos: "\<not> list_ex (\<lambda>r. case netWorthFrom f64 r of None \<Rightarrow> False | Some nw \<Rightarrow> nw \<le> 0) (take 4 win)"
    using d assms(5,6) by (auto simp: w deRatio_Some)
  have hd0: "snd (hd (n3_run f64 None win)) = 0" using run by simp
  have len: "\<not> length win < 4" "\<not> length (n3_run f64 None win) - 1 < 3" using w run by auto
  have one: "f64 1 = 1" using f64_of_int[of 1] by simp
  have nr: "rev (annual_sorted ctx) = r # c # b # a # rev older" using assms(2) by simp
  have "fires (ruleN3 f64 ctx)"
    unfolding ruleN3_def nr Let_def list.sel win_def[symmetric] N3_MIN_YEARS_def
    using assms(1) l pos len f hd0 one by (simp add: isFinancialIndustry_def N3_MIN_REL_DECLINE_def)
  moreover have "mv_reason (f4DebtEquity f64 r) = Some Missing_line_item"
    using assms(5-8) by (simp add: f4DebtEquity_def totalDebtFrom_def sumNonNull_def unavailable_def)
  ultimately show ?thesis by blast
qed

definition silent_on_debt :: filing_context where
  "silent_on_debt = filing_sample [] [annual_row 1 (Some 120) 40 40, annual_row 2 (Some 110) 40 40, annual_row 3 (Some 100) 40 40, annual_row 4 None 40 40]"

lemma undisclosed_debt_is_repaid_witness: "fires (ruleN3 f64 silent_on_debt)"
proof -
  have a: "annual_sorted silent_on_debt = [] @ [annual_row 1 (Some 120) 40 40, annual_row 2 (Some 110) 40 40, annual_row 3 (Some 100) 40 40, annual_row 4 None 40 40]"
    by (simp add: annual_sorted_def silent_on_debt_def filing_sample_def annual_row_def)
  have "steady_fall [annual_row 3 (Some 100) 40 40, annual_row 2 (Some 110) 40 40, annual_row 1 (Some 120) 40 40]" by code_simp
  from undisclosed_debt_is_repaid[OF _ a this] show ?thesis
    by (simp add: silent_on_debt_def filing_sample_def annual_row_def netWorthFrom_def)
qed

subsection \<open>The promoter's share count\<close>

definition bought :: "ownership_quarter \<Rightarrow> ownership_quarter \<Rightarrow> bool" where
  \<comment> \<open>the promoter holds more shares than in the filing of the quarter before\<close>
  "bought newer older \<longleftrightarrow> \<not> isPriorQuarterGap (oq_asOnDate newer) (oq_asOnDate older) \<and>
     (case (oq_promoterShares newer, oq_promoterShares older) of (Some n, Some m) \<Rightarrow> m < n | _ \<Rightarrow> False)"

lemma n6_run_step:
  "n6_run newer rows = (case rows of [] \<Rightarrow> [newer] | older # rest \<Rightarrow> if bought newer older then newer # n6_run older rest else [newer])"
  by (cases rows) (auto simp: bought_def split: option.splits)

text \<open>The finding of promoter accumulation never comes from a buyback: it fires only when the number of
  shares the promoter holds rose in two consecutive quarters.\<close>

theorem accumulation_is_bought:
  assumes "fires (ruleN6 R ctx)"
  shows "\<exists>rest a b c. fx_shareholding ctx = rest @ [a, b, c] \<and> bought b a \<and> bought c b"
proof -
  let ?rows = "fx_shareholding ctx"
  have l: "3 \<le> length ?rows" "2 \<le> length (n6_run (sh_last ?rows) (rev (butlast ?rows))) - 1"
    using assms by (auto simp: ruleN6_def Let_def N6_MIN_QUARTERS_def split: if_splits)
  from l(1) obtain c b a rest where r: "rev ?rows = c # b # a # rest"
    by (cases "rev ?rows"; cases "tl (rev ?rows)"; cases "tl (tl (rev ?rows))") (auto simp: Suc_le_eq)
  then have rows: "?rows = rev rest @ [a, b, c]" by (metis append.assoc append_Cons append_Nil rev.simps(2) rev_rev_ident)
  then have "sh_last ?rows = c" "rev (butlast ?rows) = b # a # rest" by (auto simp: sh_last_def nth_append butlast_append)
  with l(2) have "2 \<le> length (n6_run c (b # a # rest)) - 1" by simp
  then have "bought c b" "bought b a" by (auto simp: n6_run_step[of c] n6_run_step[of b] simp del: n6_run.simps split: if_splits)
  with rows show ?thesis by blast
qed

definition buying_promoter :: filing_context where
  "buying_promoter = filing_sample
     [(share_row ''Q1'' 1751241600000 0 10)\<lparr>oq_promoterShares := Some 90, oq_promoterPct := Some 45\<rparr>,
      (share_row ''Q2'' 1759190400000 0 10)\<lparr>oq_promoterShares := Some 95, oq_promoterPct := Some 47\<rparr>,
      share_row ''Q3'' 1767139200000 0 10] []"

lemma accumulation_is_bought_witness: "\<exists>rest a b c. fx_shareholding buying_promoter = rest @ [a, b, c] \<and> bought b a \<and> bought c b"
proof -
  have "fires (ruleN6 f64 buying_promoter)" by code_simp
  then show ?thesis by (rule accumulation_is_bought)
qed

end
