(* ===== verification/FilingPass.thy ===== *)
theory FilingPass
  imports FilingRules
begin

text \<open>
  The pass that keeps the filing findings, \<open>src/filing\<close>: the periods (\<open>period.ts\<close>), the registry of
  the 22 rules (\<open>registry.ts\<close>), the pass and its upserts into \<open>stock_findings\<close> (\<open>pass.ts\<close>, with the
  unique key and the date column of \<open>prisma/schema.prisma\<close>) and the readers that reduce the table to
  what stands now (\<open>read.ts\<close>).  The context of a stock is given.  A column of type
  \<open>@db.Date\<close> keeps the UTC day of the \<open>Date\<close> it is written with (\<open>stored_date\<close>).  Rows that share
  \<open>period_end\<close> come back in table order; the database fixes no order for them.
\<close>

subsection \<open>Periods (\<open>period.ts\<close>)\<close>

datatype filing_grain = Grain_A | Grain_Q | Grain_S | Grain_W

definition ALL_GRAINS :: "(filing_grain \<times> char) list" where
  "ALL_GRAINS = [(Grain_A, CHR ''A''), (Grain_Q, CHR ''Q''), (Grain_S, CHR ''S''), (Grain_W, CHR ''W'')]"

definition grain_char :: "filing_grain \<Rightarrow> char" where
  "grain_char g = the (map_of ALL_GRAINS g)"

record resolved_period =
  rp_periodKey :: string
  rp_periodEnd :: instant
  rp_label :: string

record filing_periods =
  fp_A :: "resolved_period option"
  fp_Q :: "resolved_period option"
  fp_S :: "resolved_period option"
  fp_W :: resolved_period

definition makePeriod :: "filing_grain \<Rightarrow> string \<Rightarrow> instant \<Rightarrow> resolved_period" where
  "makePeriod g label end_at = \<lparr>rp_periodKey = grain_char g # CHR '':'' # label, rp_periodEnd = end_at, rp_label = label\<rparr>"

definition parsePeriodKey :: "string \<Rightarrow> (filing_grain \<times> string) option" where
  \<comment> \<open>\<open>/^([AQSW]):(.+)$/\<close>; the dot matches no line end\<close>
  "parsePeriodKey s = (case s of
     g # c # label \<Rightarrow>
       if c \<noteq> CHR '':'' \<or> label = [] \<or> list_ex (\<lambda>x. x = CHR 0x0A \<or> x = CHR 0x0D) label then None
       else map_option (\<lambda>p. (fst p, label)) (find (\<lambda>p. snd p = g) ALL_GRAINS)
   | _ \<Rightarrow> None)"

fun nat_text :: "nat \<Rightarrow> string" where
  "nat_text n = (if n < 10 then [char_of (48 + n)] else nat_text (n div 10) @ [char_of (48 + n mod 10)])"

declare nat_text.simps [simp del]

definition rollingWindowPeriod :: "instant \<Rightarrow> resolved_period" where
  "rollingWindowPeriod evaluatedAt =
    (let m = utcMonth evaluatedAt; y = utcFullYear evaluatedAt;
         q = (if 3 \<le> m then (m - 3) div 3 + 1 else 4);
         fyEndYear = (if 3 \<le> m then y + 1 else y)
     in makePeriod Grain_W (''FY'' @ drop 2 (nat_text (nat fyEndYear)) @ ''Q'' @ nat_text (nat q)) evaluatedAt)"

definition period_for :: "filing_periods \<Rightarrow> filing_grain \<Rightarrow> resolved_period option" where
  "period_for ps g = (case g of Grain_A \<Rightarrow> fp_A ps | Grain_Q \<Rightarrow> fp_Q ps | Grain_S \<Rightarrow> fp_S ps | Grain_W \<Rightarrow> Some (fp_W ps))"

subsection \<open>Registry (\<open>registry.ts\<close>)\<close>

datatype filing_feed = Feed_shareholding | Feed_annual | Feed_quarterly | Feed_insider | Feed_blocks

record registry_entry =
  re_rule :: rule_ref
  re_ruleKey :: string
  re_kind :: finding_kind
  re_grain :: filing_grain
  re_feed :: filing_feed

definition entry :: "rule_ref \<Rightarrow> string \<Rightarrow> finding_kind \<Rightarrow> filing_grain \<Rightarrow> filing_feed \<Rightarrow> registry_entry" where
  "entry rule key kind grain feed = \<lparr>re_rule = rule, re_ruleKey = key, re_kind = kind, re_grain = grain, re_feed = feed\<rparr>"

definition FILING_REGISTRY :: "registry_entry list" where
  "FILING_REGISTRY =
    [entry Rule_R1 ''ownership_R1_pledge'' Red_flag Grain_S Feed_shareholding,
     entry Rule_R2 ''ownership_R2_promoter_exit'' Red_flag Grain_S Feed_shareholding,
     entry Rule_R6 ''ownership_R6_distribution'' Red_flag Grain_S Feed_shareholding,
     entry Rule_P1 ''ownership_P1_clean_rotation'' Pattern_finding Grain_S Feed_shareholding,
     entry Rule_P4 ''ownership_P4_dual_exit'' Pattern_finding Grain_S Feed_shareholding,
     entry Rule_N5 ''ownership_N5_dual_institutional_build'' Pattern_finding Grain_S Feed_shareholding,
     entry Rule_N6 ''ownership_N6_promoter_accumulation'' Pattern_finding Grain_S Feed_shareholding,
     entry Rule_N7 ''ownership_N7_pledge_release'' Pattern_finding Grain_S Feed_shareholding,
     entry Rule_R3 ''foundation_R3_earnings_quality'' Red_flag Grain_A Feed_annual,
     entry Rule_R4 ''foundation_R4_debt_explosion'' Red_flag Grain_A Feed_annual,
     entry Rule_P7 ''foundation_P7_accruals'' Pattern_finding Grain_A Feed_annual,
     entry Rule_P8 ''foundation_P8_receivables'' Pattern_finding Grain_A Feed_annual,
     entry Rule_N1 ''foundation_N1_cash_backed_earnings'' Pattern_finding Grain_A Feed_annual,
     entry Rule_N2 ''foundation_N2_working_capital'' Pattern_finding Grain_A Feed_annual,
     entry Rule_N3 ''foundation_N3_deleveraging'' Pattern_finding Grain_A Feed_annual,
     entry Rule_R5 ''foundation_R5_interest_coverage'' Red_flag Grain_Q Feed_quarterly,
     entry Rule_N4 ''foundation_N4_coverage_strengthening'' Pattern_finding Grain_Q Feed_quarterly,
     entry Rule_P11 ''momentum_P11_margin_compression'' Pattern_finding Grain_Q Feed_quarterly,
     entry Rule_P12 ''momentum_P12_margin_recovery'' Pattern_finding Grain_Q Feed_quarterly,
     entry Rule_P13 ''momentum_P13_revenue_inflection'' Pattern_finding Grain_Q Feed_quarterly,
     entry Rule_P6 ''ownership_P6_insider_conviction'' Pattern_finding Grain_W Feed_insider,
     entry Rule_H ''ownership_H_block_events'' Pattern_finding Grain_W Feed_blocks]"

definition filingRulesForFeeds :: "filing_feed list \<Rightarrow> registry_entry list" where
  "filingRulesForFeeds feeds = filter (\<lambda>e. re_feed e \<in> set feeds) FILING_REGISTRY"

definition grain_of_group :: "rule_ref \<Rightarrow> filing_grain" where
  \<comment> \<open>\<open>GRAIN_BY_GROUP\<close>: the grain of the group of \<open>engine.ts\<close> that lists the rule\<close>
  "grain_of_group r = (if r \<in> set SHAREHOLDING_RULES \<and> r \<notin> set FEED_RULES then Grain_S else if r \<in> set ANNUAL_RULES then Grain_A
     else if r \<in> set QUARTERLY_RULES then Grain_Q else Grain_W)"

definition registry_errors :: "rule_ref list \<Rightarrow> registry_entry list \<Rightarrow> string list" where
  \<comment> \<open>the checks at module load, which throw when one of these lists is not empty\<close>
  "registry_errors rules entries =
     (if list_all (\<lambda>r. r \<in> set (map re_rule entries)) rules then [] else [''missing'']) @
     (if length entries \<noteq> length rules then [''count''] else []) @
     (if distinct (map re_ruleKey entries) then [] else [''duplicate'']) @
     (if list_ex (\<lambda>r. case find (\<lambda>e. re_rule e = r) entries of None \<Rightarrow> False | Some e \<Rightarrow> re_grain e \<noteq> grain_of_group r) rules
      then [''grain''] else [])"

subsection \<open>The pass (\<open>pass.ts\<close>)\<close>

datatype standing_state = Newly_standing | Continuing | Resolved | Not_standing

definition resolveStanding :: "evaluation_state \<Rightarrow> bool \<Rightarrow> standing_state option" where
  "resolveStanding st priorFired = (case st of
     State_not_evaluable \<Rightarrow> None
   | State_fired \<Rightarrow> Some (if priorFired then Continuing else Newly_standing)
   | State_not_fired \<Rightarrow> Some (if priorFired then Resolved else Not_standing))"

record finding_row =
  fr_rule :: rule_ref
  fr_ruleKey :: string
  fr_kind :: finding_kind
  fr_periodKey :: string
  fr_periodEnd :: instant
  fr_evaluationState :: evaluation_state
  fr_standingState :: "standing_state option"
  fr_notEvaluableReason :: "outcome_reason option"
  fr_severity :: "string option"
  fr_direction :: "finding_direction option"
  fr_magnitude :: "int option"
  fr_displayState :: string
  fr_evidence :: "(string \<times> evidence_value) list option"

record stock_finding =
  sf_stockId :: string
  sf_ruleKey :: string
  sf_periodKey :: string
  sf_createdAt :: instant
  sf_symbol :: string
  sf_rule :: rule_ref
  sf_periodEnd :: instant
  sf_evaluationState :: evaluation_state
  sf_standingState :: "standing_state option"
  sf_notEvaluableReason :: "outcome_reason option"
  sf_kind :: finding_kind
  sf_severity :: "string option"
  sf_direction :: "finding_direction option"
  sf_magnitude :: "int option"
  sf_displayState :: string
  sf_evidence :: "(string \<times> evidence_value) list option"

type_synonym findings_table = "stock_finding list"

definition stored_date :: "instant \<Rightarrow> instant" where
  "stored_date t = day_of t * DAY_MS"

definition by_period_desc :: "findings_table \<Rightarrow> findings_table" where
  "by_period_desc rows = sort_key (\<lambda>r. - sf_periodEnd r) rows"

definition prior_fired :: "findings_table \<Rightarrow> string \<Rightarrow> instant \<Rightarrow> bool" where
  \<comment> \<open>\<open>prior?.evaluationState === "fired"\<close> over the rows of the stock, latest first\<close>
  "prior_fired priorRows key end_at =
    (case find (\<lambda>r. sf_ruleKey r = key \<and> sf_periodEnd r < end_at) priorRows of
       None \<Rightarrow> False | Some r \<Rightarrow> sf_evaluationState r = State_fired)"

definition row_of_entry :: "findings_table \<Rightarrow> registry_entry \<Rightarrow> filing_outcome \<Rightarrow> resolved_period \<Rightarrow> finding_row" where
  "row_of_entry priorRows e outcome period =
    (let f = fo_finding outcome
     in \<lparr>fr_rule = re_rule e, fr_ruleKey = re_ruleKey e, fr_kind = re_kind e, fr_periodKey = rp_periodKey period,
         fr_periodEnd = rp_periodEnd period, fr_evaluationState = fo_state outcome,
         fr_standingState = resolveStanding (fo_state outcome) (prior_fired priorRows (re_ruleKey e) (rp_periodEnd period)),
         fr_notEvaluableReason = fo_reason outcome, fr_severity = map_option ff_severity f,
         fr_direction = Option.bind f ff_direction, fr_magnitude = Option.bind f ff_magnitude,
         fr_displayState = nullish (Option.bind f ff_displayState) ''active'', fr_evidence = map_option ff_evidence f\<rparr>)"

definition outcome_for :: "filing_outcome list \<Rightarrow> rule_ref \<Rightarrow> filing_outcome option" where
  \<comment> \<open>\<open>byRef.get\<close>: the last of equal keys\<close>
  "outcome_for outcomes ref = find (\<lambda>o1. fo_rule o1 = ref) (rev outcomes)"

record filing_pass_result =
  fpr_rows :: "finding_row list"
  fpr_skippedNoPeriod :: "(rule_ref \<times> filing_grain) list"

definition registry_of :: "filing_feed list option \<Rightarrow> registry_entry list" where
  "registry_of feeds = (case feeds of None \<Rightarrow> FILING_REGISTRY | Some fs \<Rightarrow> filingRulesForFeeds fs)"

definition pass_rows :: "registry_entry list \<Rightarrow> filing_outcome list \<Rightarrow> filing_periods \<Rightarrow> findings_table \<Rightarrow> finding_row list" where
  \<comment> \<open>the rows of the loop over the registry\<close>
  "pass_rows registry outcomes periods priorRows =
     concat (map (\<lambda>e. case (outcome_for outcomes (re_rule e), period_for periods (re_grain e)) of
       (Some out, Some p) \<Rightarrow> [row_of_entry priorRows e out p] | _ \<Rightarrow> []) registry)"

definition computeFilingPass :: "(num \<Rightarrow> num) \<Rightarrow> filing_context \<Rightarrow> filing_periods \<Rightarrow> filing_feed list option \<Rightarrow> findings_table \<Rightarrow> filing_pass_result" where
  "computeFilingPass R ctx periods feeds tbl =
    (let registry = registry_of feeds;
         outcomes = runFilingRules R ctx (map re_rule registry);
         priorRows = by_period_desc (filter (\<lambda>r. sf_stockId r = fx_stockId ctx) tbl)
     in \<lparr>fpr_rows = pass_rows registry outcomes periods priorRows,
         fpr_skippedNoPeriod = concat (map (\<lambda>e. case (outcome_for outcomes (re_rule e), period_for periods (re_grain e)) of
           (Some _, None) \<Rightarrow> [(re_rule e, re_grain e)] | _ \<Rightarrow> []) registry)\<rparr>)"

definition data_of :: "string \<Rightarrow> finding_row \<Rightarrow> stock_finding \<Rightarrow> stock_finding" where
  \<comment> \<open>\<open>data\<close> written over a row; an \<open>undefined\<close> evidence leaves the column as it is\<close>
  "data_of symbol r old = old\<lparr>sf_symbol := symbol, sf_rule := fr_rule r, sf_periodEnd := stored_date (fr_periodEnd r),
     sf_evaluationState := fr_evaluationState r, sf_standingState := fr_standingState r,
     sf_notEvaluableReason := fr_notEvaluableReason r, sf_kind := fr_kind r, sf_severity := fr_severity r,
     sf_direction := fr_direction r, sf_magnitude := fr_magnitude r, sf_displayState := fr_displayState r,
     sf_evidence := (case fr_evidence r of None \<Rightarrow> sf_evidence old | Some ev \<Rightarrow> Some ev)\<rparr>"

definition new_row :: "instant \<Rightarrow> string \<Rightarrow> string \<Rightarrow> finding_row \<Rightarrow> stock_finding" where
  "new_row now stock symbol r = data_of symbol r \<lparr>sf_stockId = stock, sf_ruleKey = fr_ruleKey r, sf_periodKey = fr_periodKey r,
     sf_createdAt = now, sf_symbol = symbol, sf_rule = fr_rule r, sf_periodEnd = stored_date (fr_periodEnd r),
     sf_evaluationState = fr_evaluationState r, sf_standingState = None, sf_notEvaluableReason = None, sf_kind = fr_kind r,
     sf_severity = None, sf_direction = None, sf_magnitude = None, sf_displayState = [], sf_evidence = None\<rparr>"

definition row_key :: "stock_finding \<Rightarrow> string \<times> string \<times> string" where
  \<comment> \<open>\<open>@@unique([stockId, ruleKey, periodKey])\<close>\<close>
  "row_key r = (sf_stockId r, sf_ruleKey r, sf_periodKey r)"

fun upsert_finding :: "instant \<Rightarrow> string \<Rightarrow> string \<Rightarrow> finding_row \<Rightarrow> findings_table \<Rightarrow> findings_table" where
  "upsert_finding now stock symbol r [] = [new_row now stock symbol r]"
| "upsert_finding now stock symbol r (s # tbl) =
    (if row_key s = (stock, fr_ruleKey r, fr_periodKey r) then data_of symbol r s # tbl
     else s # upsert_finding now stock symbol r tbl)"

definition persistFilingPass :: "instant \<Rightarrow> filing_context \<Rightarrow> filing_pass_result \<Rightarrow> findings_table \<Rightarrow> nat \<times> findings_table" where
  "persistFilingPass now ctx res tbl =
    (length (fpr_rows res), foldl (\<lambda>t r. upsert_finding now (fx_stockId ctx) (fx_symbol ctx) r t) tbl (fpr_rows res))"


subsection \<open>Contexts and the backfill (\<open>context.ts\<close>, \<open>pass.ts\<close>)\<close>

record filing_subject =
  fs_stockId :: string
  fs_symbol :: string
  fs_industry :: industry_type

record filed_data =
  \<comment> \<open>what the queries of \<open>loadFilingContext\<close> return: one shareholding row per quarter, and the ends of the filed periods\<close>
  fd_shareholding :: "ownership_quarter list"
  fd_annual :: "foundation_annual list"
  fd_quarterly :: "momentum_quarter list"
  fd_annualPeriodEnd :: "(string \<times> instant) list"
  fd_quarterlyPeriodEnd :: "(string \<times> instant) list"
  fd_feeds :: flow_feeds

definition context_of :: "(num \<Rightarrow> num) \<Rightarrow> filing_subject \<Rightarrow> instant \<Rightarrow> filed_data \<Rightarrow> filing_context" where
  "context_of R subj asOf d = \<lparr>fx_stockId = fs_stockId subj, fx_symbol = fs_symbol subj, fx_asOfDate = asOf, fx_industry = fs_industry subj,
     fx_shareholding = fd_shareholding d, fx_annualFundamentals = fd_annual d,
     fx_quarterlyOpm = (if isFinancialIndustry (fs_industry subj) \<or> fd_quarterly d = [] then None
       else Some (opmSeriesFromQuarters R (fd_quarterly d))),
     fx_quarterlyResults = fd_quarterly d, fx_feeds = fd_feeds d\<rparr>"

definition periods_of :: "instant \<Rightarrow> filed_data \<Rightarrow> filing_periods" where
  "periods_of asOf d = \<lparr>
     fp_A = (if fd_annual d = [] then None
       else map_option (makePeriod Grain_A (fa_fiscalYear (last (fd_annual d))))
         (map_of (fd_annualPeriodEnd d) (fa_fiscalYear (last (fd_annual d))))),
     fp_Q = (if fd_quarterly d = [] then None
       else map_option (makePeriod Grain_Q (quarter_key (last (fd_quarterly d))))
         (map_of (fd_quarterlyPeriodEnd d) (quarter_key (last (fd_quarterly d))))),
     fp_S = (if fd_shareholding d = [] then None
       else Some (makePeriod Grain_S (periodKeyOf (last (fd_shareholding d))) (oq_asOnDate (last (fd_shareholding d))))),
     fp_W = rollingWindowPeriod asOf\<rparr>"

record backfill_result =
  bf_stocks :: nat
  bf_written :: nat
  bf_failed :: "string list"
  bf_skippedNoPeriod :: nat

definition delete_rules :: "string list \<Rightarrow> string list option \<Rightarrow> findings_table \<Rightarrow> findings_table" where
  \<comment> \<open>the \<open>deleteMany\<close> of a reset: of the given stocks, or of all\<close>
  "delete_rules keys stocks tbl = filter (\<lambda>s. \<not> (sf_ruleKey s \<in> set keys \<and>
     (case stocks of None \<Rightarrow> True | Some ids \<Rightarrow> sf_stockId s \<in> set ids))) tbl"

definition backfill_step :: "(num \<Rightarrow> num) \<Rightarrow> (filing_subject \<Rightarrow> (string, filed_data) result) \<Rightarrow> instant \<Rightarrow> instant \<Rightarrow> filing_feed list option \<Rightarrow>
    backfill_result \<times> findings_table \<Rightarrow> filing_subject \<Rightarrow> backfill_result \<times> findings_table" where
  \<comment> \<open>one stock; a load that throws is recorded and the loop goes on\<close>
  "backfill_step R load now asOf feeds = (\<lambda>(res, tbl) subj. case load subj of
     Inl e \<Rightarrow> (res\<lparr>bf_failed := bf_failed res @ [fs_symbol subj]\<rparr>, tbl)
   | Inr d \<Rightarrow> (let ctx = context_of R subj asOf d; pass = computeFilingPass R ctx (periods_of asOf d) feeds tbl;
                   out = persistFilingPass now ctx pass tbl
               in (res\<lparr>bf_written := bf_written res + fst out,
                       bf_skippedNoPeriod := bf_skippedNoPeriod res + length (fpr_skippedNoPeriod pass)\<rparr>, snd out)))"

definition runFilingBackfill :: "(num \<Rightarrow> num) \<Rightarrow> (filing_subject \<Rightarrow> (string, filed_data) result) \<Rightarrow> instant \<Rightarrow> instant \<Rightarrow> filing_subject list \<Rightarrow>
    string list option \<Rightarrow> filing_feed list option \<Rightarrow> rule_ref list \<Rightarrow> findings_table \<Rightarrow> backfill_result \<times> findings_table" where
  \<comment> \<open>with the rules to reset already read from their names\<close>
  "runFilingBackfill R load now asOf universe symbols feeds resetRules tbl =
    (let only = (case symbols of None \<Rightarrow> [] | Some xs \<Rightarrow> xs);
         subjects = (if only = [] then universe else filter (\<lambda>s. fs_symbol s \<in> set only) universe);
         keys = map re_ruleKey (filter (\<lambda>e. re_rule e \<in> set resetRules) FILING_REGISTRY);
         clean = (if resetRules = [] then tbl
           else delete_rules keys (if only = [] then None else Some (map fs_stockId subjects)) tbl)
     in foldl (backfill_step R load now asOf feeds)
          (\<lparr>bf_stocks = length subjects, bf_written = 0, bf_failed = [], bf_skippedNoPeriod = 0\<rparr>, clean) subjects)"

subsection \<open>Readers (\<open>read.ts\<close>)\<close>

definition current_rows :: "findings_table \<Rightarrow> string \<Rightarrow> findings_table" where
  \<comment> \<open>the first row of each rule over the stock's rows, latest period first\<close>
  "current_rows tbl stock = foldl (\<lambda>cur r. if sf_ruleKey r \<in> set (map sf_ruleKey cur) then cur else cur @ [r]) []
     (by_period_desc (filter (\<lambda>r. sf_stockId r = stock) tbl))"

record filing_coverage =
  cv_evaluated :: nat
  cv_fired :: nat
  cv_notFired :: nat
  cv_notEvaluable :: nat
  cv_notRun :: nat
  cv_fullyEvaluated :: bool

definition coverage_of :: "findings_table \<Rightarrow> filing_coverage" where
  \<comment> \<open>the counts of \<open>readFilingFindings\<close> over the current rows of a stock\<close>
  "coverage_of current =
    (let count_state = (\<lambda>st. length (filter (\<lambda>r. sf_evaluationState r = st) current)); evaluated = length current;
         notRun = length FILING_REGISTRY - evaluated
     in \<lparr>cv_evaluated = evaluated, cv_fired = count_state State_fired, cv_notFired = count_state State_not_fired,
         cv_notEvaluable = count_state State_not_evaluable, cv_notRun = notRun,
         cv_fullyEvaluated = (0 < evaluated \<and> count_state State_not_evaluable = 0 \<and> notRun = 0)\<rparr>)"

fun newly_loop :: "string list \<Rightarrow> (string \<times> instant) list \<Rightarrow> findings_table \<Rightarrow> (string \<times> instant) list" where
  \<comment> \<open>rule keys seen, candidates, rows left\<close>
  "newly_loop seen newly [] = []"
| "newly_loop seen newly (r # rows) =
    (if sf_ruleKey r \<notin> set seen
     then newly_loop (sf_ruleKey r # seen)
            (if sf_evaluationState r = State_fired \<and> sf_standingState r = Some Newly_standing
             then (sf_ruleKey r, sf_createdAt r) # newly else newly) rows
     else (case map_of newly (sf_ruleKey r) of
         None \<Rightarrow> newly_loop seen newly rows
       | Some created \<Rightarrow> (sf_ruleKey r, created) # newly_loop seen (filter (\<lambda>p. fst p \<noteq> sf_ruleKey r) newly) rows))"

definition readNewlyStandingFilingDetail :: "findings_table \<Rightarrow> string \<Rightarrow> (string \<times> instant) list" where
  "readNewlyStandingFilingDetail tbl stock = newly_loop [] [] (by_period_desc (filter (\<lambda>r. sf_stockId r = stock) tbl))"

definition readResolvedFilingKeys :: "findings_table \<Rightarrow> string \<Rightarrow> string list" where
  "readResolvedFilingKeys tbl stock = map sf_ruleKey (filter (\<lambda>r. sf_standingState r = Some Resolved) (current_rows tbl stock))"

definition readStandingRedFlags :: "findings_table \<Rightarrow> string \<Rightarrow> stock_finding list" where
  \<comment> \<open>the code keeps id, rule key, severity and evidence of each row\<close>
  "readStandingRedFlags tbl stock = filter (\<lambda>r. sf_evaluationState r = State_fired)
     (current_rows (filter (\<lambda>r. sf_kind r = Red_flag) tbl) stock)"

subsection \<open>The registry and the rules\<close>

definition keyed :: "string \<Rightarrow> finding_kind \<Rightarrow> rule_result \<Rightarrow> bool" where
  "keyed key kind r \<longleftrightarrow> (case r of Fired f \<Rightarrow> ff_key f = key \<and> ff_kind f = kind | _ \<Rightarrow> True)"

lemma keyed_leaf:
  "keyed key kind (Not_evaluable why)" "keyed key kind Not_fired" "keyed key Red_flag (red_flag key sev ev)"
  "keyed key Pattern_finding (pattern_finding key sev dir mag ev)" "keyed key Pattern_finding (notable_finding key ev)"
  by (simp_all add: keyed_def red_flag_def pattern_finding_def notable_finding_def)

lemma keyed_if: "keyed key kind x \<Longrightarrow> keyed key kind y \<Longrightarrow> keyed key kind (if b then x else y)"
  by simp

lemma keyed_option: "keyed key kind x \<Longrightarrow> (\<And>v. keyed key kind (f v)) \<Longrightarrow> keyed key kind (case v of None \<Rightarrow> x | Some w \<Rightarrow> f w)"
  by (cases v) simp_all

lemma keyed_pair: "(\<And>a b. keyed key kind (f a b)) \<Longrightarrow> keyed key kind (case p of (a, b) \<Rightarrow> f a b)"
  by (cases p) simp

lemma keyed_list: "keyed key kind x \<Longrightarrow> (\<And>a b. keyed key kind (f a b)) \<Longrightarrow> keyed key kind (case xs of [] \<Rightarrow> x | a # b \<Rightarrow> f a b)"
  by (cases xs) simp_all

lemmas keyed_intros = keyed_leaf keyed_if keyed_option keyed_pair keyed_list

lemma r5_loop_keyed: "r5_loop R rows is ttms = Inl out \<Longrightarrow> keyed key kind out"
  by (induction R rows "is" ttms rule: r5_loop.induct) (auto simp: keyed_leaf split: ttm_result.splits if_splits)

lemma keyed_sum:
  "(\<And>out. x = Inl out \<Longrightarrow> keyed key kind (f out)) \<Longrightarrow> (\<And>t. keyed key kind (g t)) \<Longrightarrow> keyed key kind (case x of Inl out \<Rightarrow> f out | Inr t \<Rightarrow> g t)"
  by (cases x) simp_all

lemma ruleR5_keyed: "keyed ''foundation_R5_interest_coverage'' Red_flag (ruleR5 R ctx)"
  unfolding ruleR5_def Let_def by (intro keyed_if keyed_leaf keyed_sum) (erule r5_loop_keyed)

lemma rules_keyed:
  "keyed ''ownership_R1_pledge'' Red_flag (ruleR1 R ctx)" "keyed ''ownership_R2_promoter_exit'' Red_flag (ruleR2 R ctx)"
  "keyed ''ownership_R6_distribution'' Red_flag (ruleR6 R ctx)" "keyed ''ownership_P1_clean_rotation'' Pattern_finding (ruleP1 R ctx)"
  "keyed ''ownership_P4_dual_exit'' Pattern_finding (ruleP4 R ctx)" "keyed ''ownership_N5_dual_institutional_build'' Pattern_finding (ruleN5 R ctx)"
  "keyed ''ownership_N6_promoter_accumulation'' Pattern_finding (ruleN6 R ctx)" "keyed ''ownership_N7_pledge_release'' Pattern_finding (ruleN7 R ctx)"
  "keyed ''foundation_R3_earnings_quality'' Red_flag (ruleR3 R ctx)" "keyed ''foundation_R4_debt_explosion'' Red_flag (ruleR4 R ctx)"
  "keyed ''foundation_P7_accruals'' Pattern_finding (ruleP7 R ctx)" "keyed ''foundation_P8_receivables'' Pattern_finding (ruleP8 R ctx)"
  "keyed ''foundation_N1_cash_backed_earnings'' Pattern_finding (ruleN1 R ctx)" "keyed ''foundation_N2_working_capital'' Pattern_finding (ruleN2 R ctx)"
  "keyed ''foundation_N3_deleveraging'' Pattern_finding (ruleN3 R ctx)" "keyed ''foundation_N4_coverage_strengthening'' Pattern_finding (ruleN4 R ctx)"
  "keyed ''momentum_P11_margin_compression'' Pattern_finding (ruleP11 R ctx)" "keyed ''momentum_P12_margin_recovery'' Pattern_finding (ruleP12 R ctx)"
  "keyed ''momentum_P13_revenue_inflection'' Pattern_finding (ruleP13 R ctx)" "keyed ''ownership_P6_insider_conviction'' Pattern_finding (ruleP6 R ctx)"
  "keyed ''ownership_H_block_events'' Pattern_finding (ruleH R ctx)"
  unfolding ruleR1_def ruleR2_def ruleR6_def ruleP1_def ruleP4_def ruleN5_def ruleN6_def ruleN7_def ruleR3_def ruleR4_def ruleP7_def
    ruleP8_def ruleN1_def ruleN2_def ruleN3_def ruleN4_def ruleP11_def ruleP12_def ruleP13_def ruleP6_def ruleH_def Let_def
  by (intro keyed_intros)+

lemma registry_keyed:
  assumes "e \<in> set FILING_REGISTRY"
  shows "keyed (re_ruleKey e) (re_kind e) (filing_rule_of R (re_rule e) ctx)"
  using assms unfolding FILING_REGISTRY_def
  by (simp only: list.set insert_iff empty_iff, elim disjE) (simp_all add: entry_def rules_keyed ruleR5_keyed)

lemma registry_facts:
  "registry_errors FILING_RULES FILING_REGISTRY = []" "map re_rule FILING_REGISTRY = FILING_RULES"
  "distinct (map re_ruleKey FILING_REGISTRY)" "distinct (map re_rule FILING_REGISTRY)"
  by code_simp+

lemma registry_agrees:
  assumes "out \<in> set (runFilingRules R ctx FILING_RULES)" "fo_finding out = Some f"
    and "e \<in> set FILING_REGISTRY" "re_rule e = fo_rule out"
  shows "ff_key f = re_ruleKey e \<and> ff_kind f = re_kind e \<and> fo_state out = State_fired \<and>
    re_grain e = grain_of_group (re_rule e) \<and> registry_errors FILING_RULES FILING_REGISTRY = []"
proof -
  from assms(1) obtain ref where ref: "out = outcome_of_rule ref (Inr (filing_rule_of R ref ctx))"
    by (auto simp: runFilingRules_def run_rules_def)
  have "filing_rule_of R (fo_rule out) ctx = Fired f \<and> fo_state out = State_fired"
    using assms(2) unfolding ref by (cases "filing_rule_of R ref ctx") (simp_all add: outcome_of_rule_def)
  moreover have "re_grain e = grain_of_group (re_rule e)"
    using assms(3) unfolding FILING_REGISTRY_def
    by (simp only: list.set insert_iff empty_iff, elim disjE)
      (simp_all add: entry_def grain_of_group_def SHAREHOLDING_RULES_def ANNUAL_RULES_def QUARTERLY_RULES_def FEED_RULES_def)
  ultimately show ?thesis using registry_keyed[OF assms(3), of R ctx] registry_facts(1) by (simp add: assms(4) keyed_def)
qed

lemma registry_agrees_witness:
  "\<exists>f. fo_finding (outcome_of_rule Rule_P4 (Inr (ruleP4 f64 dual_exit))) = Some f \<and> ff_key f = ''ownership_P4_dual_exit''"
proof -
  obtain f where f: "ruleP4 f64 dual_exit = Fired f"
    using dual_exit_fires by (auto simp: fires_def split: rule_result.splits)
  have "outcome_of_rule Rule_P4 (Inr (filing_rule_of f64 Rule_P4 dual_exit)) \<in> set (runFilingRules f64 dual_exit FILING_RULES)"
    by (rule outcome_in) (simp add: FILING_RULES_def SHAREHOLDING_RULES_def)
  moreover have "entry Rule_P4 ''ownership_P4_dual_exit'' Pattern_finding Grain_S Feed_shareholding \<in> set FILING_REGISTRY"
    by (simp add: FILING_REGISTRY_def)
  ultimately have "ff_key f = ''ownership_P4_dual_exit''"
    using registry_agrees[of "outcome_of_rule Rule_P4 (Inr (filing_rule_of f64 Rule_P4 dual_exit))" f64 dual_exit f
      "entry Rule_P4 ''ownership_P4_dual_exit'' Pattern_finding Grain_S Feed_shareholding"] f
    by (simp add: outcome_of_rule_def entry_def)
  with f show ?thesis by (simp add: outcome_of_rule_def)
qed

subsection \<open>One row per key\<close>

definition key_of :: "string \<Rightarrow> finding_row \<Rightarrow> string \<times> string \<times> string" where
  "key_of stock r = (stock, fr_ruleKey r, fr_periodKey r)"


lemma data_of_simps [simp]:
  "row_key (data_of symbol r s) = row_key s" "sf_stockId (data_of symbol r s) = sf_stockId s"
  "sf_ruleKey (data_of symbol r s) = sf_ruleKey s" "data_of symbol r (data_of symbol r s) = data_of symbol r s"
  "sf_periodEnd (data_of symbol r s) = stored_date (fr_periodEnd r)" "sf_standingState (data_of symbol r s) = fr_standingState r"
  "sf_evaluationState (data_of symbol r s) = fr_evaluationState r" "sf_periodKey (data_of symbol r s) = sf_periodKey s"
  by (simp_all add: data_of_def row_key_def split: option.splits)

lemma new_row_simps [simp]:
  "row_key (new_row now stock symbol r) = key_of stock r" "data_of symbol r (new_row now stock symbol r) = new_row now stock symbol r"
  "sf_periodEnd (new_row now stock symbol r) = stored_date (fr_periodEnd r)" "sf_ruleKey (new_row now stock symbol r) = fr_ruleKey r"
  "sf_standingState (new_row now stock symbol r) = fr_standingState r" "sf_stockId (new_row now stock symbol r) = stock"
  "sf_evaluationState (new_row now stock symbol r) = fr_evaluationState r"
  by (simp_all add: new_row_def key_of_def) (simp_all add: row_key_def data_of_def)




definition upsert_all :: "instant \<Rightarrow> string \<Rightarrow> string \<Rightarrow> finding_row list \<Rightarrow> findings_table \<Rightarrow> findings_table" where
  "upsert_all now stock symbol rows tbl = foldl (\<lambda>t r. upsert_finding now stock symbol r t) tbl rows"

lemma upsert_all_simps [simp]:
  "upsert_all now stock symbol [] tbl = tbl"
  "upsert_all now stock symbol (r # rows) tbl = upsert_all now stock symbol rows (upsert_finding now stock symbol r tbl)"
  by (simp_all add: upsert_all_def)






subsection \<open>What the standing is read from\<close>






subsection \<open>Running the pass again\<close>


definition stock_rows :: "string \<Rightarrow> findings_table \<Rightarrow> findings_table" where
  "stock_rows stock tbl = by_period_desc (filter (\<lambda>r. sf_stockId r = stock) tbl)"

definition row_for :: "(num \<Rightarrow> num) \<Rightarrow> filing_context \<Rightarrow> findings_table \<Rightarrow> registry_entry \<Rightarrow> resolved_period \<Rightarrow> finding_row" where
  "row_for R ctx tbl e p = row_of_entry (stock_rows (fx_stockId ctx) tbl) e
     (outcome_of_rule (re_rule e) (Inr (filing_rule_of R (re_rule e) ctx))) p"






lemma row_for_simps [simp]:
  "fr_ruleKey (row_for R ctx tbl e p) = re_ruleKey e" "fr_periodEnd (row_for R ctx tbl e p) = rp_periodEnd p"
  "fr_periodKey (row_for R ctx tbl e p) = rp_periodKey p"
  by (simp_all add: row_for_def row_of_entry_def Let_def)





subsection \<open>The rolling window\<close>










subsection \<open>A backfill of some stocks leaves the others alone\<close>

lemma upsert_other_stock:
  "filter (\<lambda>s. sf_stockId s \<in> others) (upsert_finding now stock symbol r tbl) = filter (\<lambda>s. sf_stockId s \<in> others) tbl"
  if "stock \<notin> others"
  using that by (induction tbl) (auto simp: row_key_def)

lemma backfill_step_other:
  assumes "fs_stockId subj \<notin> others"
  shows "filter (\<lambda>s. sf_stockId s \<in> others) (snd (backfill_step R load now asOf feeds (res, tbl) subj)) = filter (\<lambda>s. sf_stockId s \<in> others) tbl"
proof -
  have "filter (\<lambda>s. sf_stockId s \<in> others) (upsert_all now (fs_stockId subj) symbol rows t) = filter (\<lambda>s. sf_stockId s \<in> others) t" for symbol rows t
    using upsert_other_stock[OF assms] by (induction rows arbitrary: t) simp_all
  then show ?thesis
    by (simp add: backfill_step_def Let_def persistFilingPass_def upsert_all_def[symmetric] context_of_def split: sum.split)
qed

lemma backfill_other_stocks:
  assumes "symbols = Some only" "only \<noteq> []" "\<And>subj. subj \<in> set universe \<Longrightarrow> fs_symbol subj \<in> set only \<Longrightarrow> fs_stockId subj \<notin> others"
  shows "filter (\<lambda>s. sf_stockId s \<in> others) (snd (runFilingBackfill R load now asOf universe symbols feeds resetRules tbl))
    = filter (\<lambda>s. sf_stockId s \<in> others) tbl"
proof -
  have loop: "filter (\<lambda>s. sf_stockId s \<in> others) (snd (foldl (backfill_step R load now asOf feeds) st subjects))
      = filter (\<lambda>s. sf_stockId s \<in> others) (snd st)" if "\<And>subj. subj \<in> set subjects \<Longrightarrow> fs_stockId subj \<notin> others" for st subjects
    using that
  proof (induction subjects arbitrary: st)
    case (Cons subj subjects)
    then show ?case using backfill_step_other[of subj others R load now asOf feeds "fst st" "snd st"] by simp
  qed simp
  have "filter (\<lambda>s. sf_stockId s \<in> others) (delete_rules keys (Some (map fs_stockId (filter (\<lambda>s. fs_symbol s \<in> set only) universe))) tbl)
      = filter (\<lambda>s. sf_stockId s \<in> others) tbl" for keys
    unfolding delete_rules_def filter_filter by (rule filter_cong[OF refl]) (use assms(3) in auto)
  moreover have "filter (\<lambda>s. sf_stockId s \<in> others) (snd (foldl (backfill_step R load now asOf feeds) st (filter (\<lambda>s. fs_symbol s \<in> set only) universe)))
      = filter (\<lambda>s. sf_stockId s \<in> others) (snd st)" for st
    by (rule loop) (use assms(3) in auto)
  ultimately show ?thesis using assms(1,2) by (simp add: runFilingBackfill_def Let_def)
qed

subsection \<open>What the readers see\<close>

definition keep_first :: "findings_table \<Rightarrow> findings_table" where
  "keep_first rows = foldl (\<lambda>cur r. if sf_ruleKey r \<in> set (map sf_ruleKey cur) then cur else cur @ [r]) [] rows"

lemma keep_first_snoc:
  "keep_first (xs @ [r]) = (if sf_ruleKey r \<in> sf_ruleKey ` set (keep_first xs) then keep_first xs else keep_first xs @ [r])"
  by (simp add: keep_first_def)

lemma keep_first_spec:
  "sf_ruleKey ` set (keep_first xs) = sf_ruleKey ` set xs \<and> set (keep_first xs) \<subseteq> set xs \<and> distinct (map sf_ruleKey (keep_first xs)) \<and>
    (sorted (map (\<lambda>r. - sf_periodEnd r) xs) \<longrightarrow>
      (\<forall>r \<in> set (keep_first xs). \<forall>s \<in> set xs. sf_ruleKey s = sf_ruleKey r \<longrightarrow> sf_periodEnd s \<le> sf_periodEnd r))"
proof (induction xs rule: rev_induct)
  case Nil
  then show ?case by (simp add: keep_first_def)
next
  case (snoc x xs)
  have "sf_periodEnd x \<le> sf_periodEnd s" if "sorted (map (\<lambda>r. - sf_periodEnd r) (xs @ [x]))" "s \<in> set xs" for s
    using that by (auto simp: sorted_append)
  moreover have "sorted (map (\<lambda>r. - sf_periodEnd r) xs)" if "sorted (map (\<lambda>r. - sf_periodEnd r) (xs @ [x]))"
    using that by (simp add: sorted_append)
  ultimately show ?case using snoc by (auto simp: keep_first_snoc) (metis imageI)
qed

lemma current_rows_latest:
  assumes "r \<in> set (current_rows tbl stock)"
  shows "r \<in> set tbl" "sf_stockId r = stock"
    "\<And>s. s \<in> set tbl \<Longrightarrow> sf_stockId s = stock \<Longrightarrow> sf_ruleKey s = sf_ruleKey r \<Longrightarrow> sf_periodEnd s \<le> sf_periodEnd r"
proof -
  let ?xs = "by_period_desc (filter (\<lambda>r. sf_stockId r = stock) tbl)"
  have c: "current_rows tbl stock = keep_first ?xs" by (simp add: current_rows_def keep_first_def)
  have "set ?xs = {r \<in> set tbl. sf_stockId r = stock}" "sorted (map (\<lambda>r. - sf_periodEnd r) ?xs)"
    by (auto simp: by_period_desc_def)
  with keep_first_spec[of ?xs] assms show "r \<in> set tbl" "sf_stockId r = stock"
    "\<And>s. s \<in> set tbl \<Longrightarrow> sf_stockId s = stock \<Longrightarrow> sf_ruleKey s = sf_ruleKey r \<Longrightarrow> sf_periodEnd s \<le> sf_periodEnd r"
    unfolding c by auto
qed

lemma current_rows_keys:
  "distinct (map sf_ruleKey (current_rows tbl stock))"
  "sf_ruleKey ` set (current_rows tbl stock) = sf_ruleKey ` {r \<in> set tbl. sf_stockId r = stock}"
  using keep_first_spec[of "by_period_desc (filter (\<lambda>r. sf_stockId r = stock) tbl)"]
  by (simp_all add: current_rows_def keep_first_def by_period_desc_def)

lemma coverage_adds_up:
  "cv_fired (coverage_of rows) + cv_notFired (coverage_of rows) + cv_notEvaluable (coverage_of rows) = cv_evaluated (coverage_of rows)"
proof -
  have "length (filter (\<lambda>r. sf_evaluationState r = State_fired) rows) + length (filter (\<lambda>r. sf_evaluationState r = State_not_fired) rows)
      + length (filter (\<lambda>r. sf_evaluationState r = State_not_evaluable) rows) = length rows"
  proof (induction rows)
    case (Cons r rows)
    then show ?case by (cases "sf_evaluationState r") simp_all
  qed simp
  then show ?thesis by (simp add: coverage_of_def Let_def)
qed

lemma parse_period_key:
  assumes "label \<noteq> []" "CHR 0x0A \<notin> set label" "CHR 0x0D \<notin> set label"
  shows "parsePeriodKey (rp_periodKey (makePeriod g label end_at)) = Some (g, label)"
  using assms by (cases g) (auto simp: parsePeriodKey_def makePeriod_def grain_char_def ALL_GRAINS_def list_ex_iff)

end
