(* ===== verification/OwnershipV2.thy ===== *)
theory OwnershipV2
  imports OwnershipPrimary
begin

text \<open>
  The rebuilt Ownership pillar, which the composite uses: one row per quarter
  (\<open>src/scoring/ownership/collapse-quarters.ts\<close>), the yearly readings and the pools of the universe
  (\<open>v2-flow.ts\<close>), and the three graded readings and their weighting (\<open>v2-pillar.ts\<close>).
\<close>

subsection \<open>One row per quarter (\<open>collapse-quarters.ts\<close>)\<close>

definition collapseToOneRowPerQuarter :: "ownership_quarter list \<Rightarrow> ownership_quarter list" where
  \<comment> \<open>the \<open>Map\<close> keeps the place of a key's first row and the value of its last\<close>
  "collapseToOneRowPerQuarter rows =
    map snd (foldl (\<lambda>m r. upsert (oq_fiscalYear r @ ''|'' @ oq_quarter r) (\<lambda>_. r) m) [] rows)"

definition collapsedCount :: "ownership_quarter list \<Rightarrow> nat" where
  "collapsedCount rows = length rows - length (collapseToOneRowPerQuarter rows)"

subsection \<open>Readings and pools (\<open>v2-flow.ts\<close>)\<close>

definition YEAR_BACK :: nat where "YEAR_BACK = 4"

record ownership_readings =
  rd_pledgePctNow :: "num option"
  rd_pledgePctYearAgo :: "num option"
  rd_promoterChange :: "num option"
  rd_institutionalChange :: "num option"

definition institutional_of :: "(num \<Rightarrow> num) \<Rightarrow> ownership_quarter \<Rightarrow> num option" where
  "institutional_of R q = (if oq_fiiPct q = None \<and> oq_diiPct q = None then None
     else Some (R (nullish (oq_fiiPct q) 0 + nullish (oq_diiPct q) 0)))"

definition readingsAt :: "(num \<Rightarrow> num) \<Rightarrow> ownership_quarter list \<Rightarrow> int \<Rightarrow> ownership_readings" where
  "readingsAt R rows idx =
    (let row = (\<lambda>i. if 0 \<le> i \<and> i < int (length rows) then Some (rows ! nat i) else None)
     in case row idx of
        None \<Rightarrow> \<lparr>rd_pledgePctNow = None, rd_pledgePctYearAgo = None, rd_promoterChange = None, rd_institutionalChange = None\<rparr>
      | Some cur \<Rightarrow>
        (let prior = row (idx - int YEAR_BACK); back = (\<lambda>f. case prior of None \<Rightarrow> None | Some p \<Rightarrow> f p)
         in \<lparr>rd_pledgePctNow = pledgeRatio R cur, rd_pledgePctYearAgo = back (pledgeRatio R),
             rd_promoterChange = delta_of R (oq_promoterPct cur) (back oq_promoterPct),
             rd_institutionalChange = delta_of R (institutional_of R cur) (back (institutional_of R))\<rparr>))"

record flow_pools =
  fp_promoter :: "num list"
  fp_institutional :: "num list"
  fp_stocks :: nat

definition by_stock :: "('s \<times> ownership_quarter) list \<Rightarrow> ('s \<times> ownership_quarter list) list" where
  "by_stock rows = foldl (\<lambda>m (stock, r). upsert stock (\<lambda>g. nullish g [] @ [r]) m) [] rows"

definition build_pools :: "(num \<Rightarrow> num) \<Rightarrow> ('s \<times> ownership_quarter) list \<Rightarrow> flow_pools" where
  \<comment> \<open>\<open>build\<close> after its two queries: rows of scored stocks up to the cutoff, in date order\<close>
  "build_pools R rows =
    (let series = filter (\<lambda>q. q \<noteq> []) (map (\<lambda>(_, raw). collapseToOneRowPerQuarter raw) (by_stock rows));
         readings = map (\<lambda>q. readingsAt R q (int (length q) - 1)) series
     in \<lparr>fp_promoter = List.map_filter rd_promoterChange readings,
         fp_institutional = List.map_filter rd_institutionalChange readings, fp_stocks = length series\<rparr>)"

subsection \<open>The pillar (\<open>v2-pillar.ts\<close>)\<close>

definition PLEDGE_WEIGHT :: "(num \<Rightarrow> num) \<Rightarrow> num" where "PLEDGE_WEIGHT R = R (2 / 5)"
definition PROMOTER_WEIGHT :: "(num \<Rightarrow> num) \<Rightarrow> num" where "PROMOTER_WEIGHT R = R (7 / 20)"
definition INSTITUTIONAL_WEIGHT :: num where "INSTITUTIONAL_WEIGHT = 1 / 4"
definition FLOW_MIN_POOL :: nat where "FLOW_MIN_POOL = 8"
definition PLEDGE_DIRECTION_BOUND :: num where "PLEDGE_DIRECTION_BOUND = 12"
definition PLEDGE_CAP_CRITICAL :: num where "PLEDGE_CAP_CRITICAL = 8"
definition PLEDGE_CAP_NORMAL :: num where "PLEDGE_CAP_NORMAL = 15"

definition clamp100 :: "num \<Rightarrow> num" where
  "clamp100 v = max 0 (min 100 v)"

definition pledgeLevel :: "(num \<Rightarrow> num) \<Rightarrow> num \<Rightarrow> num" where
  \<comment> \<open>of a finite reading; a missing one has no level\<close>
  "pledgeLevel R pledgePct =
    (let x = max 0 pledgePct
     in if x \<le> 1 / 2 then 95
        else if x \<le> 5 then R (95 - R (R (x - 1 / 2) * R (15 / (9 / 2))))
        else if x \<le> 10 then R (80 - R (R (x - 5) * 4))
        else if x \<le> 25 then R (60 - R (R (x - 10) * 2))
        else if x \<le> 50 then R (30 - R (R (x - 25) * R (20 / 25)))
        else max 0 (R (10 - R (R (x - 50) * R (10 / 50)))))"

record pledge_score =
  pgs_score :: "num option"
  pgs_level :: "num option"
  pgs_adjustment :: num

definition pledge_adjustment :: "(num \<Rightarrow> num) \<Rightarrow> num \<Rightarrow> num \<Rightarrow> num \<Rightarrow> num" where
  \<comment> \<open>direction, bounded, then capped by the level\<close>
  "pledge_adjustment R level now yearAgo =
    (let raw = R (- R (now - yearAgo) * (3 / 2));
         bounded = max (- PLEDGE_DIRECTION_BOUND) (min PLEDGE_DIRECTION_BOUND raw);
         cap = (if level \<le> 30 then PLEDGE_CAP_CRITICAL else PLEDGE_CAP_NORMAL)
     in max (- cap) (min cap bounded))"

definition pledgeScore :: "(num \<Rightarrow> num) \<Rightarrow> num option \<Rightarrow> num option \<Rightarrow> pledge_score" where
  "pledgeScore R pledgePctNow pledgePctYearAgo = (case pledgePctNow of
     None \<Rightarrow> \<lparr>pgs_score = None, pgs_level = None, pgs_adjustment = 0\<rparr>
   | Some now \<Rightarrow>
     (let level = pledgeLevel R now
      in case pledgePctYearAgo of
         None \<Rightarrow> \<lparr>pgs_score = Some (clamp100 level), pgs_level = Some level, pgs_adjustment = 0\<rparr>
       | Some yearAgo \<Rightarrow>
         (let adjustment = pledge_adjustment R level now yearAgo
          in \<lparr>pgs_score = Some (clamp100 (R (level + adjustment))), pgs_level = Some level, pgs_adjustment = adjustment\<rparr>)))"

definition z_grade :: "(num \<Rightarrow> num) \<Rightarrow> num \<Rightarrow> num" where
  "z_grade R z =
    (if 2 \<le> z then clamp100 (R (90 + R (5 * R (z - 2))))
     else if z \<le> - 2 then clamp100 (R (30 + R (5 * R (z + 2))))
     else clamp100 (R (60 + R (15 * z))))"

definition gradeFlow :: "(num \<Rightarrow> num) \<Rightarrow> num option \<Rightarrow> num list \<Rightarrow> num option" where
  "gradeFlow R value pool = (case value of None \<Rightarrow> None
   | Some v \<Rightarrow>
     if length pool < FLOW_MIN_POOL then None
     else (let st = computePeerStats R pool
           in if ps_stdDev st = 0 then Some 60
              else Some (z_grade R (R (R (v - ps_mean st) / ps_stdDev st)))))"

record ownership_v2_input = ownership_readings +
  oi_promoterPool :: "num list"
  oi_institutionalPool :: "num list"

record ownership_v2_result =
  ov_subtotal :: "num option"
  ov_pledgePct :: "num option"
  ov_pledgeScore :: "num option"
  ov_pledgeLevelScore :: "num option"
  ov_pledgeAdjustment :: num
  ov_promoterScore :: "num option"
  ov_institutionalScore :: "num option"
  ov_promoterChange :: "num option"
  ov_institutionalChange :: "num option"
  ov_weightPledge :: num
  ov_weightPromoter :: num
  ov_weightInstitutional :: num

definition ownership_legs :: "(num \<Rightarrow> num) \<Rightarrow> num option \<Rightarrow> num option \<Rightarrow> num option \<Rightarrow> (num \<times> num) list" where
  \<comment> \<open>the legs that are present, each with its nominal weight\<close>
  "ownership_legs R pl prom inst = List.map_filter (\<lambda>(s, w). map_option (\<lambda>v. (v, w)) s)
     [(pl, PLEDGE_WEIGHT R), (prom, PROMOTER_WEIGHT R), (inst, INSTITUTIONAL_WEIGHT)]"

definition legs_subtotal :: "(num \<Rightarrow> num) \<Rightarrow> (num \<times> num) list \<Rightarrow> num option" where
  \<comment> \<open>the weighted mean of the legs\<close>
  "legs_subtotal R present = (if 0 < rsum R snd present
     then Some (R (rsum R (\<lambda>(v, w). R (v * w)) present / rsum R snd present)) else None)"

definition computeOwnershipV2 :: "(num \<Rightarrow> num) \<Rightarrow> ownership_v2_input \<Rightarrow> ownership_v2_result" where
  "computeOwnershipV2 R input =
    (let pl = pledgeScore R (rd_pledgePctNow input) (rd_pledgePctYearAgo input);
         prom = gradeFlow R (rd_promoterChange input) (oi_promoterPool input);
         inst = gradeFlow R (rd_institutionalChange input) (oi_institutionalPool input);
         present = ownership_legs R (pgs_score pl) prom inst;
         wsum = rsum R snd present;
         subtotal = legs_subtotal R present;
         weight = (\<lambda>v nominal. if v \<noteq> None \<and> 0 < wsum then R (nominal / wsum) else 0)
     in \<lparr>ov_subtotal = subtotal, ov_pledgePct = rd_pledgePctNow input, ov_pledgeScore = pgs_score pl,
         ov_pledgeLevelScore = pgs_level pl, ov_pledgeAdjustment = pgs_adjustment pl, ov_promoterScore = prom,
         ov_institutionalScore = inst, ov_promoterChange = rd_promoterChange input,
         ov_institutionalChange = rd_institutionalChange input,
         ov_weightPledge = weight (pgs_score pl) (PLEDGE_WEIGHT R),
         ov_weightPromoter = weight prom (PROMOTER_WEIGHT R),
         ov_weightInstitutional = weight inst INSTITUTIONAL_WEIGHT\<rparr>)"

subsection \<open>The pledge ladder\<close>

lemma clamp100_range [simp]: "0 \<le> clamp100 v" "clamp100 v \<le> 100"
  by (simp_all add: clamp100_def)

lemma clamp100_mono: "x \<le> y \<Longrightarrow> clamp100 x \<le> clamp100 y"
  by (auto simp: clamp100_def)

context rounding
begin

lemma fall_antimono: "x \<le> y \<Longrightarrow> 0 \<le> c \<Longrightarrow> R (h - R (R (y - a) * c)) \<le> R (h - R (R (x - a) * c))"
  by (intro mono diff_left_mono mult_right_mono) simp_all

lemma fall_top: "a \<le> x \<Longrightarrow> 0 \<le> c \<Longrightarrow> R h = h \<Longrightarrow> R (h - R (R (x - a) * c)) \<le> h"
  using mono[of "h - R (R (x - a) * c)" h] nonneg[of "R (x - a) * c"] nonneg[of "x - a"] by simp

end

definition pledge_piece :: "num \<Rightarrow> nat" where
  \<comment> \<open>the segment of the ladder a percentage is on\<close>
  "pledge_piece x = (if x \<le> 1 / 2 then 0 else if x \<le> 5 then 1 else if x \<le> 10 then 2 else if x \<le> 25 then 3 else if x \<le> 50 then 4 else 5)"

definition piece_top :: "nat \<Rightarrow> num" where
  "piece_top k = [95, 95, 80, 60, 30, 10, 0] ! k"

lemma ladder_constants:
  "f64 (9 / 2 * f64 (15 / (9 / 2))) = 15" "f64 (25 * f64 (20 / 25)) = 20" "f64 (50 * f64 (10 / 50)) = 10"
  "f64 (9 / 2) = 9 / 2"
  by code_simp+

lemma pledge_piece_range:
  assumes "0 \<le> x"
  shows "piece_top (Suc (pledge_piece x)) \<le> pledgeLevel f64 x \<and> pledgeLevel f64 x \<le> piece_top (pledge_piece x)"
proof -
  note m = f64.fall_antimono[of x _ _]
  consider "x \<le> 1 / 2" | "1 / 2 < x" "x \<le> 5" | "5 < x" "x \<le> 10" | "10 < x" "x \<le> 25" | "25 < x" "x \<le> 50" | "50 < x"
    by linarith
  then show ?thesis
  proof cases
    case 2
    have "f64 (95 - f64 (f64 (5 - 1 / 2) * f64 (15 / (9 / 2)))) \<le> f64 (95 - f64 (f64 (x - 1 / 2) * f64 (15 / (9 / 2))))"
      using 2 by (intro f64.fall_antimono) (simp_all add: f64.nonneg)
    moreover have "f64 (95 - f64 (f64 (x - 1 / 2) * f64 (15 / (9 / 2)))) \<le> 95"
      using 2 by (intro f64.fall_top) (simp_all add: f64.nonneg f64.fix_num)
    moreover have "f64 (95 - f64 (f64 (5 - 1 / 2) * f64 (15 / (9 / 2)))) = 80"
    proof -
      have "(5 - 1 / 2 :: num) = 9 / 2" by simp
      then show ?thesis by (simp only: ladder_constants) (simp add: f64.fix_num)
    qed
    ultimately show ?thesis using 2 by (simp add: pledgeLevel_def Let_def pledge_piece_def piece_top_def)
  next
    case 3
    then show ?thesis
      using m[of 10 4 80 5] f64.fall_top[of 5 x 4 80]
      by (simp add: pledgeLevel_def Let_def pledge_piece_def piece_top_def f64.fix_num)
  next
    case 4
    then show ?thesis
      using m[of 25 2 60 10] f64.fall_top[of 10 x 2 60]
      by (simp add: pledgeLevel_def Let_def pledge_piece_def piece_top_def f64.fix_num)
  next
    case 5
    then show ?thesis
      using m[of 50 "f64 (20 / 25)" 30 25] f64.fall_top[of 25 x "f64 (20 / 25)" 30] ladder_constants
      by (simp add: pledgeLevel_def Let_def pledge_piece_def piece_top_def f64.fix_num f64.nonneg)
  next
    case 6
    then show ?thesis
      using f64.fall_top[of 50 x "f64 (10 / 50)" 10]
      by (simp add: pledgeLevel_def Let_def pledge_piece_def piece_top_def f64.fix_num f64.nonneg)
  qed (use assms in \<open>simp add: pledgeLevel_def pledge_piece_def piece_top_def\<close>)
qed

lemma pledgeLevel_antimono:
  assumes "x \<le> y"
  shows "pledgeLevel f64 y \<le> pledgeLevel f64 x"
proof -
  define a b where "a = max 0 x" and "b = max 0 y"
  have ab: "0 \<le> a" "a \<le> b" "pledgeLevel f64 x = pledgeLevel f64 a" "pledgeLevel f64 y = pledgeLevel f64 b"
    using assms by (auto simp: a_def b_def pledgeLevel_def Let_def)
  have le: "pledge_piece a \<le> pledge_piece b" using ab(2) by (simp add: pledge_piece_def)
  show ?thesis
  proof (cases "pledge_piece a = pledge_piece b")
    case same: True
    note anti = f64.fall_antimono[OF ab(2)]
    consider "b \<le> 1 / 2" | "1 / 2 < a" "b \<le> 5" | "5 < a" "b \<le> 10" | "10 < a" "b \<le> 25" | "25 < a" "b \<le> 50" | "50 < a"
      using same ab(2) by (auto simp: pledge_piece_def split: if_splits)
    then show ?thesis
    proof cases
      case 1
      then show ?thesis using ab by (simp add: pledgeLevel_def)
    next
      case 2
      then show ?thesis using ab anti[of "f64 (15 / (9 / 2))" 95 "1/2"] by (simp add: pledgeLevel_def Let_def f64.nonneg)
    next
      case 3
      then show ?thesis using ab anti[of 4 80 5] by (simp add: pledgeLevel_def Let_def)
    next
      case 4
      then show ?thesis using ab anti[of 2 60 10] by (simp add: pledgeLevel_def Let_def)
    next
      case 5
      then show ?thesis using ab anti[of "f64 (20 / 25)" 30 25] by (simp add: pledgeLevel_def Let_def f64.nonneg)
    next
      case 6
      then show ?thesis using ab anti[of "f64 (10 / 50)" 10 50]
        by (simp add: pledgeLevel_def Let_def f64.nonneg max.coboundedI2)
    qed
  next
    case False
    then have lt: "Suc (pledge_piece a) \<le> pledge_piece b" using le by simp
    have "pledge_piece b \<le> 5" by (simp add: pledge_piece_def)
    then have "piece_top (pledge_piece b) \<le> piece_top (Suc (pledge_piece a))"
      using lt by (auto simp: piece_top_def numeral_eq_Suc le_Suc_eq nth_Cons')
    then show ?thesis using pledge_piece_range[of a] pledge_piece_range[of b] ab by simp
  qed
qed


subsection \<open>Direction\<close>

lemma pledge_adjustment_range:
  "\<bar>pledge_adjustment R level now ya\<bar> \<le> (if level \<le> 30 then 8 else 12)"
  by (auto simp: pledge_adjustment_def Let_def PLEDGE_CAP_CRITICAL_def PLEDGE_CAP_NORMAL_def PLEDGE_DIRECTION_BOUND_def
    max_def min_def)

context rounding
begin

lemma pledge_adjustment_antimono:
  assumes "now \<le> now'" "level \<le> 30 \<longleftrightarrow> level' \<le> 30"
  shows "pledge_adjustment R level' now' ya \<le> pledge_adjustment R level now ya"
proof -
  have "R (now - ya) \<le> R (now' - ya)" using assms(1) by (intro mono) simp
  then have "R (- R (now' - ya) * (3 / 2)) \<le> R (- R (now - ya) * (3 / 2))" by (intro mono) simp
  then show ?thesis
    using assms(2) unfolding pledge_adjustment_def Let_def by (intro max.mono min.mono) simp_all
qed

end

lemma pledge_cap_cliff:
  "pgs_score (pledgeScore f64 (Some 24) (Some 0)) = Some 20" "pgs_score (pledgeScore f64 (Some 25) (Some 0)) = Some 22"
  by code_simp+

text \<open>C22. In machine arithmetic, with the same pledge a year ago, a larger pledge today never
  scores higher as long as both levels are on the same side of the critical level 30, and from a
  critical level direction lifts the score to at most 38. Across that level the cap on direction
  drops from 15 to 8, so a pledge built from 0 to 25 percent scores 22 and one built to 24 percent
  only 20.\<close>

theorem pledge_direction:
  assumes "now \<le> now'" "pledgeLevel f64 now \<le> 30 \<longleftrightarrow> pledgeLevel f64 now' \<le> 30"
    "pgs_score (pledgeScore f64 (Some now) yearAgo) = Some s" "pgs_score (pledgeScore f64 (Some now') yearAgo) = Some s'"
  shows "s' \<le> s \<and> 0 \<le> s' \<and> s \<le> 100 \<and> (pledgeLevel f64 now \<le> 30 \<longrightarrow> s \<le> 38) \<and>
    pgs_score (pledgeScore f64 (Some 24) (Some 0)) = Some 20 \<and> pgs_score (pledgeScore f64 (Some 25) (Some 0)) = Some 22"
proof -
  have l: "pledgeLevel f64 now' \<le> pledgeLevel f64 now" by (rule pledgeLevel_antimono[OF assms(1)])
  have "s' \<le> s \<and> 0 \<le> s' \<and> s \<le> 100 \<and> (pledgeLevel f64 now \<le> 30 \<longrightarrow> s \<le> 38)"
  proof (cases yearAgo)
    case None
    then show ?thesis using assms l clamp100_mono[OF l] by (auto simp: pledgeScore_def Let_def clamp100_def)
  next
    case (Some ya)
    let ?x = "\<lambda>n. pledgeLevel f64 n + pledge_adjustment f64 (pledgeLevel f64 n) n ya"
    have "?x now' \<le> ?x now" using l f64.pledge_adjustment_antimono[OF assms(1,2), of ya] by linarith
    then have "clamp100 (f64 (?x now')) \<le> clamp100 (f64 (?x now))" by (intro clamp100_mono f64_mono)
    moreover have "clamp100 (f64 (?x now)) \<le> 38" if "pledgeLevel f64 now \<le> 30"
    proof -
      have "?x now \<le> 38" using pledge_adjustment_range[of f64 "pledgeLevel f64 now" now ya] that by simp
      then have "f64 (?x now) \<le> 38" by (intro f64.le_num) simp_all
      then show ?thesis by (simp add: clamp100_def)
    qed
    moreover have "s = clamp100 (f64 (?x now))" "s' = clamp100 (f64 (?x now'))"
      using assms(3,4) Some by (simp_all add: pledgeScore_def Let_def)
    ultimately show ?thesis by simp
  qed
  then show ?thesis using pledge_cap_cliff by simp
qed

theorem pledge_direction_witness:
  "pgs_score (pledgeScore f64 (Some 30) (Some 20)) = Some 18 \<and> pgs_score (pledgeScore f64 (Some 40) (Some 20)) = Some 10 \<and> (10::num) \<le> 18"
proof -
  have v: "pgs_score (pledgeScore f64 (Some 30) (Some 20)) = Some 18" "pgs_score (pledgeScore f64 (Some 40) (Some 20)) = Some 10"
    "pledgeLevel f64 30 \<le> 30 \<longleftrightarrow> pledgeLevel f64 40 \<le> 30" by code_simp+
  then show ?thesis using pledge_direction[of 30 40 "Some 20" 18 10] by simp
qed

subsection \<open>Graded flows\<close>

lemma z_grade_range: "0 \<le> z_grade R z" "z_grade R z \<le> 100"
  by (simp_all add: z_grade_def)

context rounding
begin

lemma z_grade_mono:
  assumes "x \<le> y" shows "z_grade R x \<le> z_grade R y"
proof -
  have mid: "R (60 + R (15 * x)) \<le> R (60 + R (15 * y))" using assms by (intro mono add_left_mono) simp
  have hi: "R (90 + R (5 * R (x - 2))) \<le> R (90 + R (5 * R (y - 2)))"
    using assms by (intro mono add_left_mono mult_left_mono) simp_all
  have lo: "R (30 + R (5 * R (x + 2))) \<le> R (30 + R (5 * R (y + 2)))"
    using assms by (intro mono add_left_mono mult_left_mono) simp_all
  have cut_hi: "R (60 + R (15 * x)) \<le> R (90 + R (5 * R (y - 2)))" if "x \<le> 2" "2 \<le> y"
  proof -
    have "R (15 * x) \<le> 30" using that by (intro le_num) simp_all
    moreover have "0 \<le> R (5 * R (y - 2))" using that by (intro nonneg mult_nonneg_nonneg) simp_all
    ultimately show ?thesis by (intro mono) linarith
  qed
  have cut_lo: "R (30 + R (5 * R (x + 2))) \<le> R (60 + R (15 * y))" if "x \<le> - 2" "- 2 \<le> y"
  proof -
    have "R (- (15 * y)) \<le> 30" using that by (intro le_num) simp_all
    then have "- 30 \<le> R (15 * y)" by (simp add: minus)
    moreover have "R (5 * R (x + 2)) \<le> 0" using that by (intro nonpos mult_nonneg_nonpos) simp_all
    ultimately show ?thesis by (intro mono) linarith
  qed
  have cut: "R (30 + R (5 * R (x + 2))) \<le> R (90 + R (5 * R (y - 2)))" if "x \<le> - 2" "2 \<le> y"
  proof -
    have "R (5 * R (x + 2)) \<le> 0" using that by (intro nonpos mult_nonneg_nonpos) simp_all
    moreover have "0 \<le> R (5 * R (y - 2))" using that by (intro nonneg mult_nonneg_nonneg) simp_all
    ultimately show ?thesis by (intro mono) linarith
  qed
  show ?thesis
    using assms clamp100_mono[OF mid] clamp100_mono[OF hi] clamp100_mono[OF lo] clamp100_mono[OF cut_hi]
      clamp100_mono[OF cut_lo] clamp100_mono[OF cut]
    by (simp add: z_grade_def)
qed

end

lemma gradeFlow_range: "gradeFlow R v pool = Some s \<Longrightarrow> 0 \<le> s \<and> s \<le> 100"
  by (auto simp: gradeFlow_def Let_def z_grade_range split: option.splits if_splits)

context rounding
begin

lemma gradeFlow_mono:
  assumes "x \<le> y"
  shows "rel_option (\<le>) (gradeFlow R (Some x) pool) (gradeFlow R (Some y) pool)"
proof -
  have "R (R (x - m) / d) \<le> R (R (y - m) / d)" if "0 \<le> d" for m d
    using assms that by (intro mono divide_right_mono) simp_all
  then show ?thesis
    by (auto simp: gradeFlow_def Let_def intro!: z_grade_mono computePeerStats_sd_nonneg)
qed

end

subsection \<open>The subtotal\<close>

definition leg_le :: "num \<times> num \<Rightarrow> num \<times> num \<Rightarrow> bool" where
  "leg_le p q \<longleftrightarrow> fst p \<le> fst q \<and> snd p = snd q \<and> 0 \<le> snd p"

lemma legs_mono:
  assumes "rel_option (\<le>) a a'" "rel_option (\<le>) b b'" "rel_option (\<le>) c c'" "0 \<le> PLEDGE_WEIGHT R" "0 \<le> PROMOTER_WEIGHT R"
  shows "list_all2 leg_le (ownership_legs R a b c) (ownership_legs R a' b' c')"
  using assms by (auto simp: ownership_legs_def List.map_filter_simps leg_le_def INSTITUTIONAL_WEIGHT_def elim!: option.rel_cases)

context rounding
begin

lemma foldl_legs:
  "list_all2 leg_le xs ys \<Longrightarrow> s \<le> t \<Longrightarrow>
    foldl (\<lambda>s (v, w). R (s + R (v * w))) s xs \<le> foldl (\<lambda>s (v, w). R (s + R (v * w))) t ys"
proof (induction xs ys arbitrary: s t rule: list_all2_induct)
  case (Cons x xs y ys)
  obtain v w where x: "x = (v, w)" by (cases x)
  obtain v' where y: "y = (v', w)" "v \<le> v'" "0 \<le> w" using Cons.hyps x by (cases y) (simp add: leg_le_def)
  have "R (v * w) \<le> R (v' * w)" using y by (intro mono mult_right_mono)
  then have "R (s + R (v * w)) \<le> R (t + R (v' * w))" using Cons.prems by (intro mono) linarith
  then show ?case using Cons.IH by (simp add: x y)
qed simp

end

lemma leg_weights: "list_all2 leg_le xs ys \<Longrightarrow> map snd xs = map snd ys"
  by (induction rule: list_all2_induct) (simp_all add: leg_le_def)

lemma rsum_map: "rsum R f (map g xs) = rsum R (\<lambda>x. f (g x)) xs"
  by (simp add: rsum_def foldl_map)

context rounding
begin

lemma legs_subtotal_mono:
  assumes "list_all2 leg_le xs ys"
  shows "rel_option (\<le>) (legs_subtotal R xs) (legs_subtotal R ys)"
proof -
  have w: "rsum R snd xs = rsum R snd ys"
    using rsum_map[of R "\<lambda>x. x" snd xs] rsum_map[of R "\<lambda>x. x" snd ys] leg_weights[OF assms] by simp
  have "rsum R (\<lambda>(v, w). R (v * w)) xs \<le> rsum R (\<lambda>(v, w). R (v * w)) ys"
    using foldl_legs[OF assms, of 0 0] by (simp add: rsum_def case_prod_unfold)
  then have "R (rsum R (\<lambda>(v, w). R (v * w)) xs / d) \<le> R (rsum R (\<lambda>(v, w). R (v * w)) ys / d)" if "0 < d" for d
    using that by (intro mono divide_right_mono) simp_all
  then show ?thesis by (simp add: legs_subtotal_def w)
qed

end

lemma ownership_weights_nonneg: "0 \<le> PLEDGE_WEIGHT f64" "0 \<le> PROMOTER_WEIGHT f64"
  by (simp_all add: PLEDGE_WEIGHT_def PROMOTER_WEIGHT_def f64.nonneg)

lemma full_legs:
  "legs_subtotal f64 (ownership_legs f64 (Some 100) (Some 100) (Some 100)) = Some 100"
  "legs_subtotal f64 (ownership_legs f64 (Some 100) (Some 100) None) = Some 100"
  "legs_subtotal f64 (ownership_legs f64 (Some 100) None (Some 100)) = Some 100"
  "legs_subtotal f64 (ownership_legs f64 (Some 100) None None) = Some 100"
  "legs_subtotal f64 (ownership_legs f64 None (Some 100) (Some 100)) = Some 100"
  "legs_subtotal f64 (ownership_legs f64 None (Some 100) None) = Some 100"
  "legs_subtotal f64 (ownership_legs f64 None None (Some 100)) = Some 100"
  "legs_subtotal f64 (ownership_legs f64 None None None) = None"
  by code_simp+

lemma legs_range:
  assumes "\<And>s. a = Some s \<or> b = Some s \<or> c = Some s \<Longrightarrow> 0 \<le> s \<and> s \<le> 100"
  shows "case legs_subtotal f64 (ownership_legs f64 a b c) of None \<Rightarrow> a = None \<and> b = None \<and> c = None
     | Some s \<Rightarrow> (a \<noteq> None \<or> b \<noteq> None \<or> c \<noteq> None) \<and> 0 \<le> s \<and> s \<le> 100"
proof -
  let ?top = "map_option (\<lambda>_. 100 :: num)"
  have up: "rel_option (\<le>) x (?top x)" if "x = a \<or> x = b \<or> x = c" for x using that assms by (cases x) auto
  have "rel_option (\<le>) (legs_subtotal f64 (ownership_legs f64 a b c)) (legs_subtotal f64 (ownership_legs f64 (?top a) (?top b) (?top c)))"
    by (intro f64.legs_subtotal_mono legs_mono up) (simp_all add: ownership_weights_nonneg)
  moreover have "0 \<le> s" if "legs_subtotal f64 (ownership_legs f64 a b c) = Some s" for s
  proof -
    have "0 \<le> rsum f64 (\<lambda>(v, w). f64 (v * w)) (ownership_legs f64 a b c)"
      using assms by (intro f64.rsum_nonneg)
        (auto simp: ownership_legs_def List.map_filter_simps INSTITUTIONAL_WEIGHT_def ownership_weights_nonneg f64.nonneg split: option.splits)
    then show ?thesis using that by (auto simp: legs_subtotal_def f64.nonneg split: if_splits)
  qed
  ultimately show ?thesis
    by (cases a; cases b; cases c) (auto simp: full_legs option_rel_Some2 split: option.splits)
qed

text \<open>The Ownership pillar that enters the composite, in machine arithmetic and for every
  input: it has a subtotal exactly when at least one of its readings (pledge, promoter flow,
  institutional flow) could be formed, the pledge reading being formed exactly when there is a
  pledge percentage, and the subtotal, reweighted over the readings present, is in 0 to 100.\<close>

theorem ownership_pillar:
  shows "case ov_subtotal (computeOwnershipV2 f64 i) of
      None \<Rightarrow> ov_pledgeScore (computeOwnershipV2 f64 i) = None \<and> ov_promoterScore (computeOwnershipV2 f64 i) = None \<and>
              ov_institutionalScore (computeOwnershipV2 f64 i) = None
    | Some s \<Rightarrow> \<not> (rd_pledgePctNow i = None \<and> ov_promoterScore (computeOwnershipV2 f64 i) = None \<and>
              ov_institutionalScore (computeOwnershipV2 f64 i) = None) \<and> 0 \<le> s \<and> s \<le> 100"
proof -
  let ?p = "pgs_score (pledgeScore f64 (rd_pledgePctNow i) (rd_pledgePctYearAgo i))"
  have p: "0 \<le> s \<and> s \<le> 100" if "?p = Some s" for s
    using that by (auto simp: pledgeScore_def Let_def split: option.splits)
  have none: "?p = None \<longleftrightarrow> rd_pledgePctNow i = None" by (auto simp: pledgeScore_def Let_def split: option.splits)
  let ?a = "gradeFlow f64 (rd_promoterChange i) (oi_promoterPool i)"
  let ?b = "gradeFlow f64 (rd_institutionalChange i) (oi_institutionalPool i)"
  have "case legs_subtotal f64 (ownership_legs f64 ?p ?a ?b) of None \<Rightarrow> ?p = None \<and> ?a = None \<and> ?b = None
     | Some s \<Rightarrow> (?p \<noteq> None \<or> ?a \<noteq> None \<or> ?b \<noteq> None) \<and> 0 \<le> s \<and> s \<le> 100"
    by (rule legs_range) (use p gradeFlow_range in blast)
  then show ?thesis using none
    by (simp add: computeOwnershipV2_def Let_def cong: option.case_cong)
qed

text \<open>Against the same pools, a larger yearly change of the promoter stake and of the
  institutional stake never lowers the Ownership subtotal, in machine arithmetic, and never makes it
  unavailable.\<close>

theorem ownership_flow_monotone:
  assumes "x \<le> x'" "y \<le> y'"
  shows "rel_option (\<le>) (ov_subtotal (computeOwnershipV2 f64 (i\<lparr>rd_promoterChange := Some x, rd_institutionalChange := Some y\<rparr>)))
     (ov_subtotal (computeOwnershipV2 f64 (i\<lparr>rd_promoterChange := Some x', rd_institutionalChange := Some y'\<rparr>)))"
  unfolding computeOwnershipV2_def Let_def
  by (simp, intro f64.legs_subtotal_mono legs_mono f64.gradeFlow_mono assms option.rel_refl)
    (simp_all add: ownership_weights_nonneg)

definition sample_reading :: ownership_v2_input where
  "sample_reading = \<lparr>rd_pledgePctNow = Some 3, rd_pledgePctYearAgo = None, rd_promoterChange = None, rd_institutionalChange = None,
     oi_promoterPool = [- 3, - 2, - 1, 0, 0, 1, 2, 3], oi_institutionalPool = [- 3, - 2, - 1, 0, 0, 1, 2, 3]\<rparr>"

theorem ownership_flow_monotone_witness:
  "rel_option (\<le>) (ov_subtotal (computeOwnershipV2 f64 (sample_reading\<lparr>rd_promoterChange := Some (- 2), rd_institutionalChange := Some 0\<rparr>)))
     (ov_subtotal (computeOwnershipV2 f64 (sample_reading\<lparr>rd_promoterChange := Some 1, rd_institutionalChange := Some 0\<rparr>)))"
  by (rule ownership_flow_monotone) simp_all

subsection \<open>Collapsing filings to quarters\<close>

definition quarter_of :: "ownership_quarter \<Rightarrow> string" where
  "quarter_of r = oq_fiscalYear r @ ''|'' @ oq_quarter r"

definition last_of_quarters :: "ownership_quarter list \<Rightarrow> (string \<times> ownership_quarter) list" where
  "last_of_quarters rows = foldl (\<lambda>m r. upsert (quarter_of r) (\<lambda>_. r) m) [] rows"

lemma collapse_eq: "collapseToOneRowPerQuarter rows = map snd (last_of_quarters rows)"
  by (simp add: collapseToOneRowPerQuarter_def last_of_quarters_def quarter_of_def)

lemma last_of_quarters_snoc: "last_of_quarters (rows @ [r]) = upsert (quarter_of r) (\<lambda>_. r) (last_of_quarters rows)"
  by (simp add: last_of_quarters_def)

lemma set_upsert: "distinct (map fst m) \<Longrightarrow> set (upsert k (\<lambda>_. v) m) = insert (k, v) {p \<in> set m. fst p \<noteq> k}"
proof (induction m)
  case (Cons p m)
  then show ?case by (cases p) (force simp: image_iff)
qed simp

lemma last_of_quarters_keys: "distinct (map fst (last_of_quarters rows))"
proof (induction rows rule: rev_induct)
  case (snoc r rows)
  then show ?case by (simp add: last_of_quarters_snoc upsert_keys del: set_map)
qed (simp add: last_of_quarters_def)

lemma last_of_quarters_set:
  "(k, r) \<in> set (last_of_quarters rows) \<longleftrightarrow>
    k = quarter_of r \<and> (\<exists>us vs. rows = us @ r # vs \<and> quarter_of r \<notin> quarter_of ` set vs)"
proof (induction rows rule: rev_induct)
  case (snoc x rows)
  have ex: "(\<exists>us vs. rows @ [x] = us @ r # vs \<and> quarter_of r \<notin> quarter_of ` set vs) \<longleftrightarrow>
      x = r \<or> quarter_of r \<noteq> quarter_of x \<and> (\<exists>us vs. rows = us @ r # vs \<and> quarter_of r \<notin> quarter_of ` set vs)" (is "?l \<longleftrightarrow> ?r")
  proof
    assume ?l
    then obtain us vs where e: "rows @ [x] = us @ r # vs" "quarter_of r \<notin> quarter_of ` set vs" by blast
    show ?r
    proof (cases vs rule: rev_cases)
      case Nil
      then show ?thesis using e by simp
    next
      case (snoc ws w)
      then have "rows = us @ r # ws" "w = x" using e(1) by simp_all
      then show ?thesis using e(2) snoc by auto
    qed
  next
    assume ?r
    then show ?l
    proof
      assume "x = r"
      then show ?l by (intro exI[of _ rows] exI[of _ "[]"]) simp
    next
      assume "quarter_of r \<noteq> quarter_of x \<and> (\<exists>us vs. rows = us @ r # vs \<and> quarter_of r \<notin> quarter_of ` set vs)"
      then obtain us vs where "rows = us @ r # vs" "quarter_of r \<notin> quarter_of ` set vs" "quarter_of r \<noteq> quarter_of x" by blast
      then show ?l by (intro exI[of _ us] exI[of _ "vs @ [x]"]) simp
    qed
  qed
  have "(k, r) \<in> set (last_of_quarters (rows @ [x])) \<longleftrightarrow>
      k = quarter_of x \<and> r = x \<or> (k, r) \<in> set (last_of_quarters rows) \<and> k \<noteq> quarter_of x"
    by (simp add: last_of_quarters_snoc set_upsert last_of_quarters_keys del: set_map)
  then show ?case unfolding ex snoc.IH by auto
qed (simp add: last_of_quarters_def)

lemma upsert_last:
  "distinct (map fst (m @ [(k, u)])) \<Longrightarrow> upsert k (\<lambda>_. v) (m @ [(k, u)]) = m @ [(k, v)]"
  by (induction m) auto

lemma upsert_new: "k \<notin> fst ` set m \<Longrightarrow> upsert k (\<lambda>_. v) m = m @ [(k, v)]"
  by (induction m) auto

lemma remdups_adj_snoc:
  "remdups_adj (xs @ [x]) = (if xs \<noteq> [] \<and> last xs = x then remdups_adj xs else remdups_adj xs @ [x])"
proof (cases xs rule: rev_cases)
  case (snoc ys y)
  then show ?thesis using remdups_adj_append_two[of ys y x] by auto
qed simp

lemma last_remdups_adj: "xs \<noteq> [] \<Longrightarrow> last (remdups_adj xs) = last xs"
  by (induction xs rule: rev_induct) (simp_all add: remdups_adj_snoc)

lemma last_of_quarters_adjacent:
  assumes "distinct (remdups_adj (map quarter_of rows))" "sorted (map oq_asOnDate rows)"
  shows "map fst (last_of_quarters rows) = remdups_adj (map quarter_of rows) \<and>
    sorted (map oq_asOnDate (map snd (last_of_quarters rows))) \<and>
    (rows \<noteq> [] \<longrightarrow> last_of_quarters rows \<noteq> [] \<and> snd (last (last_of_quarters rows)) = last rows)"
  using assms
proof (induction rows rule: rev_induct)
  case (snoc r rows)
  define m where "m = last_of_quarters rows"
  have d: "distinct (remdups_adj (map quarter_of rows))" using snoc.prems(1) by (auto simp: remdups_adj_snoc split: if_splits)
  have srt: "sorted (map oq_asOnDate rows)" "\<forall>x \<in> set rows. oq_asOnDate x \<le> oq_asOnDate r"
    using snoc.prems(2) by (simp_all add: sorted_append)
  have ih: "map fst m = remdups_adj (map quarter_of rows)" "sorted (map oq_asOnDate (map snd m))"
    "rows \<noteq> [] \<longrightarrow> m \<noteq> [] \<and> snd (last m) = last rows"
    using snoc.IH[OF d srt(1)] unfolding m_def by blast+
  have sub: "snd ` set m \<subseteq> set rows" using last_of_quarters_set[of _ _ rows] unfolding m_def by fastforce
  have dm: "distinct (map fst m)" unfolding m_def by (rule last_of_quarters_keys)
  show ?case
  proof (cases "rows \<noteq> [] \<and> quarter_of (last rows) = quarter_of r")
    case True
    then obtain m' k u where m: "m = m' @ [(k, u)]" using ih(3) by (cases m rule: rev_cases) auto
    have "k = last (map fst m)" using m by simp
    then have k: "k = quarter_of r" using True by (simp add: ih(1) last_remdups_adj last_map)
    then have e: "upsert (quarter_of r) (\<lambda>_. r) m = m' @ [(quarter_of r, r)]" using dm m upsert_last[of m' k u r] by simp
    have "sorted (map oq_asOnDate (map snd m'))" "\<forall>x \<in> set (map snd m'). oq_asOnDate x \<le> oq_asOnDate r"
      using ih(2) sub srt(2) m by (auto simp: sorted_append)
    then show ?thesis
      unfolding last_of_quarters_snoc m_def[symmetric] e
      using True ih(1) m k by (simp add: remdups_adj_snoc last_map sorted_append)
  next
    case False
    have "quarter_of r \<notin> fst ` set m"
      using snoc.prems(1) False arg_cong[OF ih(1), of set] by (auto simp: remdups_adj_snoc last_map split: if_splits)
    then have e: "upsert (quarter_of r) (\<lambda>_. r) m = m @ [(quarter_of r, r)]" by (rule upsert_new)
    show ?thesis
      using False ih sub srt(2) by (auto simp: last_of_quarters_snoc m_def[symmetric] e remdups_adj_snoc last_map sorted_append)
  qed
qed (simp add: last_of_quarters_def)

text \<open>Collapsing filings to quarters leaves one row for each fiscal quarter that occurs,
  namely the last one filed for it; and when filings are in date order and the filings of a quarter
  are not separated by another quarter's, the result is in date order again, so that adjacent
  elements are successive quarters.\<close>

theorem one_row_per_quarter:
  "distinct (map quarter_of (collapseToOneRowPerQuarter rows)) \<and>
   (r \<in> set (collapseToOneRowPerQuarter rows) \<longleftrightarrow> (\<exists>us vs. rows = us @ r # vs \<and> quarter_of r \<notin> quarter_of ` set vs)) \<and>
   \<not> (sorted (map oq_asOnDate rows) \<and> distinct (remdups_adj (map quarter_of rows)) \<and>
      \<not> sorted (map oq_asOnDate (collapseToOneRowPerQuarter rows)))"
proof -
  have "map quarter_of (map snd (last_of_quarters rows)) = map fst (last_of_quarters rows)"
    using last_of_quarters_set[of _ _ rows] by (auto simp: comp_def)
  then have "distinct (map quarter_of (map snd (last_of_quarters rows)))" using last_of_quarters_keys[of rows] by metis
  moreover have "r \<in> snd ` set (last_of_quarters rows) \<longleftrightarrow> (\<exists>k. (k, r) \<in> set (last_of_quarters rows))" by force
  ultimately show ?thesis
    using last_of_quarters_adjacent[of rows]
    by (simp add: collapse_eq last_of_quarters_set)
qed

end
