(* ===== verification/Fifo.thy ===== *)
theory Fifo
  imports Text "HOL-Library.Product_Lexorder"
begin

text \<open>
  The lot register of a portfolio, \<open>src/portfolio/fifo-engine.ts\<close>: replay of an instrument's ledger
  through a FIFO queue of open lots.  The code computes with \<open>Prisma.Decimal\<close>, which is not under
  \<open>src/\<close>: every arithmetic result passes through the parameter \<open>D\<close>, its rounding, and the results
  on conservation are stated for exact decimals, \<open>D = (\<lambda>x. x)\<close>.  A buy of quantity 0 with a fee
  divides by zero in the code; the properties that depend on it assume positive quantities, which the
  write path validates.
\<close>

subsection \<open>Ledger and register\<close>

datatype txn_type = T_buy | T_sell | T_split | T_bonus | T_dividend

record ledger_txn =
  t_id :: string
  t_type :: txn_type
  t_quantity :: "num option"
  t_price :: "num option"
  t_fees :: "num option"
  t_tradeDate :: int
  t_ratio :: "string option"
  t_createdAt :: int

record open_lot =
  ol_quantity :: num
  ol_costPerShare :: num
  ol_buyDate :: int
  ol_sourceTxnId :: string

record replay_result =
  rr_quantity :: num
  rr_avgCost :: num
  rr_investedValue :: num
  rr_realizedPnl :: num
  rr_lots :: "open_lot list"

datatype ledger_error =
    Missing_quantity_price txn_type string
  | Oversell string num num
  | Ratio_required
  | Ratio_format string
  | Ratio_range string
  | Empty_register
  | Loop_bound

subsection \<open>Corporate-action ratio\<close>

definition parse_decimal :: "string \<Rightarrow> (num \<times> string) option" where
  \<comment> \<open>\<open>\d+(?:\.\d+)?\<close> at the head of the string, with what follows it\<close>
  "parse_decimal s =
    (let ds = takeWhile digit_char s; r = dropWhile digit_char s
     in if ds = [] then None
        else case r of
          (c # r1) \<Rightarrow>
            (let fs = takeWhile digit_char r1
             in if c = CHR ''.'' \<and> fs \<noteq> []
                then Some (digits_value ds + digits_value fs / 10 ^ length fs, dropWhile digit_char r1)
                else Some (digits_value ds, r))
        | [] \<Rightarrow> Some (digits_value ds, []))"

definition parse_ratio :: "string \<Rightarrow> (num \<times> num) option" where
  "parse_ratio s =
    (case parse_decimal (dropWhile ws_char s) of None \<Rightarrow> None
     | Some (a, r) \<Rightarrow>
        (case dropWhile ws_char r of [] \<Rightarrow> None
         | c # r2 \<Rightarrow> if c \<noteq> CHR '':'' then None
            else (case parse_decimal (dropWhile ws_char r2) of None \<Rightarrow> None
                  | Some (b, r3) \<Rightarrow> if dropWhile ws_char r3 = [] then Some (a, b) else None)))"

definition corporateActionFactor :: "(num \<Rightarrow> num) \<Rightarrow> string option \<Rightarrow> (ledger_error, num) result" where
  "corporateActionFactor D ratio =
    (case ratio of None \<Rightarrow> Inl Ratio_required
     | Some s \<Rightarrow> if s = [] then Inl Ratio_required
        else (case parse_ratio s of None \<Rightarrow> Inl (Ratio_format s)
              | Some (a, b) \<Rightarrow> if b \<le> 0 \<or> a < 0 then Inl (Ratio_range s) else Inr (D (D (a + b) / b))))"

subsection \<open>Replay\<close>

fun sell_loop :: "(num \<Rightarrow> num) \<Rightarrow> num \<Rightarrow> nat \<Rightarrow> open_lot list \<Rightarrow> num \<Rightarrow> num \<Rightarrow>
    (ledger_error, open_lot list \<times> num) result" where
  \<comment> \<open>the fuel bounds the rounds of the \<open>while\<close> loop\<close>
  "sell_loop D price 0 queue remaining realized = (if 0 < remaining then Inl Loop_bound else Inr (queue, realized))"
| "sell_loop D price (Suc k) queue remaining realized =
    (if remaining \<le> 0 then Inr (queue, realized)
     else case queue of [] \<Rightarrow> Inl Empty_register
       | lot # rest \<Rightarrow>
          (let consumed = (if ol_quantity lot \<le> remaining then ol_quantity lot else remaining);
               realized' = D (realized + D (D (price - ol_costPerShare lot) * consumed));
               lot' = lot\<lparr>ol_quantity := D (ol_quantity lot - consumed)\<rparr>;
               remaining' = D (remaining - consumed)
           in if ol_quantity lot' \<le> 0 then sell_loop D price k rest remaining' realized'
              else sell_loop D price k (lot' # rest) remaining' realized'))"

definition held :: "(num \<Rightarrow> num) \<Rightarrow> open_lot list \<Rightarrow> num" where
  "held D queue = foldl (\<lambda>s l. D (s + ol_quantity l)) 0 queue"

definition scale_lot :: "(num \<Rightarrow> num) \<Rightarrow> num \<Rightarrow> open_lot \<Rightarrow> open_lot" where
  "scale_lot D factor lot = lot\<lparr>ol_quantity := D (ol_quantity lot * factor),
     ol_costPerShare := D (ol_costPerShare lot / factor)\<rparr>"

definition replay_step :: "(num \<Rightarrow> num) \<Rightarrow> ledger_txn \<Rightarrow> open_lot list \<times> num \<Rightarrow> (ledger_error, open_lot list \<times> num) result" where
  "replay_step D t st = (case st of (queue, realized) \<Rightarrow>
    (case t_type t of
       T_buy \<Rightarrow> (case (t_quantity t, t_price t) of
           (Some q, Some p) \<Rightarrow>
             (let feePerShare = D (nullish (t_fees t) 0 / q)
              in Inr (queue @ [\<lparr>ol_quantity = q, ol_costPerShare = D (p + feePerShare),
                                ol_buyDate = t_tradeDate t, ol_sourceTxnId = t_id t\<rparr>], realized))
         | _ \<Rightarrow> Inl (Missing_quantity_price T_buy (t_id t)))
     | T_sell \<Rightarrow> (case (t_quantity t, t_price t) of
           (Some q, Some p) \<Rightarrow>
             (let available = held D queue
              in if available < q then Inl (Oversell (t_id t) q available)
                 else bindR (sell_loop D p (Suc (length queue)) queue q realized)
                        (\<lambda>(queue', realized'). Inr (queue', D (realized' - nullish (t_fees t) 0))))
         | _ \<Rightarrow> Inl (Missing_quantity_price T_sell (t_id t)))
     | T_dividend \<Rightarrow> Inr (queue, realized)
     | _ \<Rightarrow> bindR (corporateActionFactor D (t_ratio t))
              (\<lambda>factor. Inr (map (scale_lot D factor) queue, realized))))"

definition ledger_key :: "ledger_txn \<Rightarrow> int \<times> int" where
  \<comment> \<open>the comparator \<open>ledgerOrder\<close>: trade date, then creation time\<close>
  "ledger_key t = (t_tradeDate t, t_createdAt t)"

definition replayFifo :: "(num \<Rightarrow> num) \<Rightarrow> ledger_txn list \<Rightarrow> (ledger_error, replay_result) result" where
  "replayFifo D txns =
    bindR (runR (replay_step D) (sort_key ledger_key txns) ([], 0))
      (\<lambda>(queue, realized).
        let quantity = held D queue;
            investedValue = foldl (\<lambda>s l. D (s + D (ol_quantity l * ol_costPerShare l))) 0 queue;
            avgCost = (if 0 < quantity then D (investedValue / quantity) else 0)
        in Inr \<lparr>rr_quantity = quantity, rr_avgCost = avgCost, rr_investedValue = investedValue,
                rr_realizedPnl = realized, rr_lots = queue\<rparr>)"

subsection \<open>The position a ledger describes\<close>

text \<open>
  What a ledger means without lots: the number of shares, and the book value, which is all money paid
  in (price and fee of every buy) less all money taken out (price less fee of every sell).
\<close>

definition pos_step :: "ledger_txn \<Rightarrow> num \<times> num \<Rightarrow> (ledger_error, num \<times> num) result" where
  "pos_step t st = (case st of (shares, book) \<Rightarrow>
    (case t_type t of
       T_buy \<Rightarrow> (case (t_quantity t, t_price t) of
           (Some q, Some p) \<Rightarrow> Inr (shares + q, book + (q * p + nullish (t_fees t) 0))
         | _ \<Rightarrow> Inl (Missing_quantity_price T_buy (t_id t)))
     | T_sell \<Rightarrow> (case (t_quantity t, t_price t) of
           (Some q, Some p) \<Rightarrow> if shares < q then Inl (Oversell (t_id t) q shares)
                             else Inr (shares - q, book - (q * p - nullish (t_fees t) 0))
         | _ \<Rightarrow> Inl (Missing_quantity_price T_sell (t_id t)))
     | T_dividend \<Rightarrow> Inr (shares, book)
     | _ \<Rightarrow> bindR (corporateActionFactor (\<lambda>x. x) (t_ratio t)) (\<lambda>f. Inr (shares * f, book))))"

definition lots_cost :: "open_lot list \<Rightarrow> num" where
  "lots_cost queue = sum_list (map (\<lambda>l. ol_quantity l * ol_costPerShare l) queue)"

definition lots_held :: "open_lot list \<Rightarrow> num" where
  "lots_held queue = sum_list (map ol_quantity queue)"

definition position_of :: "open_lot list \<times> num \<Rightarrow> num \<times> num" where
  "position_of st = (lots_held (fst st), lots_cost (fst st) - snd st)"

definition lots_pos :: "open_lot list \<times> num \<Rightarrow> bool" where
  "lots_pos st \<longleftrightarrow> (\<forall>l \<in> set (fst st). 0 < ol_quantity l)"

definition txn_ok :: "ledger_txn \<Rightarrow> bool" where
  "txn_ok t \<longleftrightarrow> (case t_quantity t of None \<Rightarrow> True | Some q \<Rightarrow> (if t_type t = T_buy then 0 < q else 0 \<le> q))"

lemma foldl_plus_num: "foldl (\<lambda>a x. a + g x) s xs = s + sum_list (map g xs)" for s :: num
  by (induction xs arbitrary: s) (simp_all add: add.assoc)

lemma held_exact: "held (\<lambda>x. x) queue = lots_held queue"
  by (simp add: held_def lots_held_def foldl_plus_num)

lemma lots_held_nonneg: "lots_pos (queue, r) \<Longrightarrow> 0 \<le> lots_held queue"
  unfolding lots_held_def lots_pos_def by (rule sum_list_nonneg) auto

lemma lots_simps [simp]:
  "lots_held [] = 0" "lots_cost [] = 0"
  "lots_held (l # q) = ol_quantity l + lots_held q" "lots_cost (l # q) = ol_quantity l * ol_costPerShare l + lots_cost q"
  "lots_held (q @ q') = lots_held q + lots_held q'" "lots_cost (q @ q') = lots_cost q + lots_cost q'"
  "lots_pos ([], r)" "lots_pos (l # q, r) \<longleftrightarrow> 0 < ol_quantity l \<and> lots_pos (q, r)"
  by (simp_all add: lots_held_def lots_cost_def lots_pos_def)

lemma lots_pos_realized: "lots_pos (q, r) \<longleftrightarrow> lots_pos (q, r')"
  by (simp add: lots_pos_def)

text \<open>
  The sell loop never runs dry and never runs out of rounds: it takes exactly the requested shares,
  from the front, and realises their price less their cost.
\<close>

definition sold_ok :: "num \<Rightarrow> open_lot list \<Rightarrow> num \<Rightarrow> num \<Rightarrow> open_lot list \<Rightarrow> num \<Rightarrow> bool" where
  "sold_ok price queue remaining realized queue' realized' \<longleftrightarrow>
     lots_pos (queue', realized') \<and> lots_held queue' = lots_held queue - remaining \<and>
     lots_cost queue' - realized' = lots_cost queue - realized - remaining * price \<and>
     (\<exists>k. map ol_buyDate queue' = drop k (map ol_buyDate queue))"

lemma sell_loop_exact:
  assumes "lots_pos (queue, realized)" "0 \<le> remaining" "remaining \<le> lots_held queue" "length queue < fuel"
  shows "\<exists>queue' realized'. sell_loop (\<lambda>x. x) price fuel queue remaining realized = Inr (queue', realized') \<and>
     sold_ok price queue remaining realized queue' realized'"
  using assms
proof (induction fuel arbitrary: queue remaining realized)
  case (Suc fuel)
  show ?case
  proof (cases "remaining = 0")
    case True
    have "sold_ok price queue 0 realized queue realized"
      using Suc.prems(1) unfolding sold_ok_def by (auto intro: exI[of _ 0])
    then show ?thesis using True by simp
  next
    case False
    then have rem: "0 < remaining" using Suc.prems(2) by simp
    then obtain lot rest where q: "queue = lot # rest" using Suc.prems(3) by (cases queue) auto
    have pos: "0 < ol_quantity lot" "lots_pos (rest, r)" for r using Suc.prems(1) q lots_pos_realized by auto
    show ?thesis
    proof (cases "ol_quantity lot \<le> remaining")
      case True
      let ?r = "realized + (price - ol_costPerShare lot) * ol_quantity lot"
      have "\<exists>queue' realized'. sell_loop (\<lambda>x. x) price fuel rest (remaining - ol_quantity lot) ?r = Inr (queue', realized') \<and>
         sold_ok price rest (remaining - ol_quantity lot) ?r queue' realized'"
        by (rule Suc.IH) (use Suc.prems True pos q in auto)
      then obtain queue' realized' where ih:
        "sell_loop (\<lambda>x. x) price fuel rest (remaining - ol_quantity lot) ?r = Inr (queue', realized')"
        "sold_ok price rest (remaining - ol_quantity lot) ?r queue' realized'" by blast
      obtain k where k: "map ol_buyDate queue' = drop k (map ol_buyDate rest)" using ih(2) by (auto simp: sold_ok_def)
      then have "drop (Suc k) (map ol_buyDate queue) = map ol_buyDate queue'" using q by simp
      then have "sold_ok price queue remaining realized queue' realized'"
        using ih(2) unfolding sold_ok_def q by (auto simp: algebra_simps intro!: exI[of _ "Suc k"])
      then show ?thesis using ih(1) True rem q by (simp add: Let_def)
    next
      case False
      let ?lot = "lot\<lparr>ol_quantity := ol_quantity lot - remaining\<rparr>"
      have s: "sell_loop (\<lambda>x. x) price (Suc fuel) queue remaining realized =
          Inr (?lot # rest, realized + (price - ol_costPerShare lot) * remaining)"
        using False rem q by (cases fuel) (simp_all add: Let_def)
      have "sold_ok price queue remaining realized (?lot # rest) (realized + (price - ol_costPerShare lot) * remaining)"
        using False pos unfolding sold_ok_def q by (auto simp: algebra_simps intro: exI[of _ 0])
      then show ?thesis unfolding s by blast
    qed
  qed
qed simp


lemma digits_value_nonneg: "(\<And>c. c \<in> set ds \<Longrightarrow> digit_char c) \<Longrightarrow> 0 \<le> digits_value ds"
proof -
  have "0 \<le> v \<Longrightarrow> (\<And>c. c \<in> set ds \<Longrightarrow> digit_char c) \<Longrightarrow> 0 \<le> foldl (\<lambda>v c. 10 * v + (of_nat (of_char c) - 48)) v ds" for v :: num
  proof (induction ds arbitrary: v)
    case (Cons c ds)
    have "48 \<le> (of_char c :: nat)" using Cons.prems(2)[of c] by (simp add: digit_char_def)
    then have "(of_nat 48 :: num) \<le> of_nat (of_char c)" by (simp only: of_nat_le_iff)
    then show ?case using Cons by simp
  qed simp
  then show "(\<And>c. c \<in> set ds \<Longrightarrow> digit_char c) \<Longrightarrow> 0 \<le> digits_value ds" by (simp add: digits_value_def)
qed

lemma factor_ge_1: "corporateActionFactor (\<lambda>x. x) ratio = Inr f \<Longrightarrow> 1 \<le> f"
proof -
  assume f: "corporateActionFactor (\<lambda>x. x) ratio = Inr f"
  have "0 < b \<Longrightarrow> 0 \<le> a \<Longrightarrow> 1 \<le> (a + b) / b" for a b :: num by (simp add: le_divide_eq)
  then show ?thesis using f by (auto simp: corporateActionFactor_def split: option.splits if_splits)
qed

lemma scale_lots:
  assumes "0 < f"
  shows "lots_held (map (scale_lot (\<lambda>x. x) f) queue) = lots_held queue * f"
    and "lots_cost (map (scale_lot (\<lambda>x. x) f) queue) = lots_cost queue"
    and "lots_pos (queue, r) \<Longrightarrow> lots_pos (map (scale_lot (\<lambda>x. x) f) queue, r)"
    and "map ol_buyDate (map (scale_lot (\<lambda>x. x) f) queue) = map ol_buyDate queue"
  using assms by (induction queue) (auto simp: scale_lot_def field_simps)

lemma replay_step_position:
  assumes ok: "txn_ok t" and st: "lots_pos st"
  shows "case replay_step (\<lambda>x. x) t st of Inl e \<Rightarrow> pos_step t (position_of st) = Inl e
    | Inr st' \<Rightarrow> lots_pos st' \<and> pos_step t (position_of st) = Inr (position_of st')"
proof -
  obtain queue realized where s: "st = (queue, realized)" by (cases st)
  have action: "case bindR (corporateActionFactor (\<lambda>x. x) (t_ratio t)) (\<lambda>f. Inr (map (scale_lot (\<lambda>x. x) f) queue, realized)) of
      Inl e \<Rightarrow> bindR (corporateActionFactor (\<lambda>x. x) (t_ratio t)) (\<lambda>f. Inr (lots_held queue * f, lots_cost queue - realized)) = Inl e
    | Inr st' \<Rightarrow> lots_pos st' \<and> bindR (corporateActionFactor (\<lambda>x. x) (t_ratio t)) (\<lambda>f. Inr (lots_held queue * f, lots_cost queue - realized)) = Inr (position_of st')"
  proof (cases "corporateActionFactor (\<lambda>x. x) (t_ratio t)")
    case (Inr f)
    then have "0 < f" using factor_ge_1 by fastforce
    then show ?thesis using Inr st s by (simp add: scale_lots position_of_def)
  qed simp
  show ?thesis
  proof (cases "t_type t")
    case T_buy
    then show ?thesis using ok st s
      by (auto simp: replay_step_def pos_step_def txn_ok_def position_of_def lots_pos_def Let_def field_simps split: option.splits)
  next
    case T_sell
    show ?thesis
    proof (cases "\<exists>q p. t_quantity t = Some q \<and> t_price t = Some p \<and> q \<le> lots_held queue")
      case True
      then obtain q p where qp: "t_quantity t = Some q" "t_price t = Some p" "q \<le> lots_held queue" by blast
      have q0: "0 \<le> q" using ok qp T_sell by (simp add: txn_ok_def)
      obtain queue' realized' where r:
        "sell_loop (\<lambda>x. x) p (Suc (length queue)) queue q realized = Inr (queue', realized')"
        "sold_ok p queue q realized queue' realized'"
        using sell_loop_exact[of queue realized q "Suc (length queue)" p] st s q0 qp by auto
      let ?st' = "(queue', realized' - nullish (t_fees t) 0)"
      have c: "replay_step (\<lambda>x. x) t st = Inr ?st'"
        using T_sell qp r(1) s by (simp add: replay_step_def held_exact del: sell_loop.simps)
      have i: "lots_pos ?st'" using r(2) by (simp add: sold_ok_def lots_pos_def)
      have "lots_held queue' = lots_held queue - q"
        "lots_cost queue' - realized' = lots_cost queue - realized - q * p"
        using r(2) by (simp_all add: sold_ok_def)
      then have "position_of ?st' = (lots_held queue - q, lots_cost queue - realized - (q * p - nullish (t_fees t) 0))"
        by (simp add: position_of_def)
      moreover have "pos_step t (position_of st) = Inr (lots_held queue - q, lots_cost queue - realized - (q * p - nullish (t_fees t) 0))"
        using T_sell qp s by (simp add: pos_step_def position_of_def)
      ultimately show ?thesis using c i by simp
    next
      case False
      then show ?thesis using T_sell s
        by (auto simp: replay_step_def pos_step_def position_of_def held_exact simp del: sell_loop.simps split: option.splits)
    qed
  next
    case T_split
    then show ?thesis using action s by (auto simp: replay_step_def pos_step_def position_of_def split: sum.splits)
  next
    case T_bonus
    then show ?thesis using action s by (auto simp: replay_step_def pos_step_def position_of_def split: sum.splits)
  next
    case T_dividend
    then show ?thesis using st s by (simp add: replay_step_def pos_step_def position_of_def)
  qed
qed

interpretation fifo: simulation "replay_step (\<lambda>x. x)" pos_step position_of lots_pos txn_ok
  by unfold_locales (rule replay_step_position)


definition sample_ledger :: "ledger_txn list" where
  "sample_ledger =
    [\<lparr>t_id = ''c'', t_type = T_sell, t_quantity = Some 3, t_price = Some 90, t_fees = None, t_tradeDate = 30, t_ratio = None, t_createdAt = 0\<rparr>,
     \<lparr>t_id = ''a'', t_type = T_buy, t_quantity = Some 2, t_price = Some 100, t_fees = Some 4, t_tradeDate = 10, t_ratio = None, t_createdAt = 0\<rparr>,
     \<lparr>t_id = ''b'', t_type = T_split, t_quantity = None, t_price = None, t_fees = None, t_tradeDate = 20, t_ratio = Some ''1:1'', t_createdAt = 0\<rparr>]"

lemma sample_replay: "replayFifo (\<lambda>x. x) sample_ledger =
    Inr \<lparr>rr_quantity = 1, rr_avgCost = 51, rr_investedValue = 51, rr_realizedPnl = 117,
      rr_lots = [\<lparr>ol_quantity = 1, ol_costPerShare = 51, ol_buyDate = 10, ol_sourceTxnId = ''a''\<rparr>]\<rparr>"
  by code_simp

lemma sample_ok: "\<forall>t \<in> set sample_ledger. txn_ok t"
  by code_simp

text \<open>C34. The lot register implements the plain position: replaying a ledger through FIFO
  lots gives, in exact decimals, the same errors in the same place and the same number of shares as
  adding up the ledger, and book value less realized profit is all money paid in less all money
  taken out, through every split and bonus.\<close>

theorem replay_refines_position:
  assumes "\<forall>t \<in> set txns. txn_ok t"
  shows "bindR (replayFifo (\<lambda>x. x) txns) (\<lambda>r. Inr (rr_quantity r, rr_investedValue r - rr_realizedPnl r)) =
    runR pos_step (sort_key ledger_key txns) (0, 0)"
proof -
  have "bindR (runR (replay_step (\<lambda>x. x)) (sort_key ledger_key txns) ([], 0)) (\<lambda>st. Inr (position_of st)) =
      runR pos_step (sort_key ledger_key txns) (position_of ([], 0))"
    by (rule fifo.run_eq) (use assms in auto)
  moreover have "bindR (replayFifo (\<lambda>x. x) txns) (\<lambda>r. Inr (rr_quantity r, rr_investedValue r - rr_realizedPnl r)) =
      bindR (runR (replay_step (\<lambda>x. x)) (sort_key ledger_key txns) ([], 0)) (\<lambda>st. Inr (position_of st))"
    unfolding replayFifo_def
    by (cases "runR (replay_step (\<lambda>x. x)) (sort_key ledger_key txns) ([], 0)")
      (auto simp: Let_def held_exact foldl_plus_num position_of_def lots_cost_def)
  ultimately show ?thesis by (simp add: position_of_def)
qed

lemma replay_refines_position_witness:
  "bindR (replayFifo (\<lambda>x. x) sample_ledger)
     (\<lambda>r. Inr (rr_quantity r, rr_investedValue r - rr_realizedPnl r)) = Inr (1, - 66)"
  by (subst replay_refines_position[OF sample_ok]) code_simp

lemma sold_dates_sorted:
  assumes "sold_ok price queue remaining realized queue' realized'" "sorted (map ol_buyDate queue)"
  shows "sorted (map ol_buyDate queue')" "set (map ol_buyDate queue') \<subseteq> set (map ol_buyDate queue)"
  using assms by (auto simp: sold_ok_def sorted_wrt_drop dest: in_set_dropD) (metis in_set_dropD image_eqI list.set_map)

definition lots_in_order :: "int \<Rightarrow> open_lot list \<times> num \<Rightarrow> bool" where
  "lots_in_order d st \<longleftrightarrow> lots_pos st \<and> sorted (map ol_buyDate (fst st)) \<and> (\<forall>l \<in> set (fst st). ol_buyDate l \<le> d)"


lemma replay_step_order:
  assumes t: "txn_ok t" and st: "lots_in_order d st" and d: "d \<le> t_tradeDate t"
    and r: "replay_step (\<lambda>x. x) t st = Inr st'"
  shows "lots_in_order (t_tradeDate t) st'"
proof -
  obtain queue realized where s: "st = (queue, realized)" by (cases st)
  have pos: "lots_pos st'"
    using replay_step_position[OF t, of st] st r by (simp add: lots_in_order_def)
  have ord: "sorted (map ol_buyDate queue)" "\<forall>l \<in> set queue. ol_buyDate l \<le> t_tradeDate t"
    using st d s by (auto simp: lots_in_order_def)
  have "sorted (map ol_buyDate (fst st')) \<and> (\<forall>x \<in> set (map ol_buyDate (fst st')). x \<le> t_tradeDate t)"
  proof (cases "t_type t")
    case T_buy
    then show ?thesis using r s ord
      by (auto simp: replay_step_def Let_def sorted_append split: option.splits)
  next
    case T_sell
    then obtain q p where qp: "t_quantity t = Some q" "t_price t = Some p" "q \<le> lots_held queue"
      using r s by (auto simp: replay_step_def held_exact Let_def simp del: sell_loop.simps split: option.splits if_splits)
    have "0 \<le> q" using t qp T_sell by (simp add: txn_ok_def)
    then obtain queue' realized' where l:
      "sell_loop (\<lambda>x. x) p (Suc (length queue)) queue q realized = Inr (queue', realized')"
      "sold_ok p queue q realized queue' realized'"
      using sell_loop_exact[of queue realized q "Suc (length queue)" p] st s qp by (auto simp: lots_in_order_def)
    then have "fst st' = queue'"
      using r T_sell qp s by (auto simp: replay_step_def held_exact simp del: sell_loop.simps)
    then show ?thesis using sold_dates_sorted[OF l(2)] ord by auto
  next
    case T_split
    then show ?thesis using r s ord by (auto simp: replay_step_def bindR_Inr_iff scale_lot_def comp_def)
  next
    case T_bonus
    then show ?thesis using r s ord by (auto simp: replay_step_def bindR_Inr_iff scale_lot_def comp_def)
  next
    case T_dividend
    then show ?thesis using r s ord by (auto simp: replay_step_def)
  qed
  then show ?thesis using pos by (auto simp: lots_in_order_def)
qed

lemma runR_order:
  assumes "\<forall>t \<in> set ts. txn_ok t" "sorted (map t_tradeDate ts)" "lots_in_order d st"
    "\<forall>t \<in> set ts. d \<le> t_tradeDate t" "runR (replay_step (\<lambda>x. x)) ts st = Inr st'"
  shows "\<exists>d'. lots_in_order d' st'"
  using assms
proof (induction ts arbitrary: d st)
  case (Cons t ts)
  then obtain st1 where st1: "replay_step (\<lambda>x. x) t st = Inr st1" "runR (replay_step (\<lambda>x. x)) ts st1 = Inr st'"
    by (auto simp: bindR_Inr_iff)
  have "lots_in_order (t_tradeDate t) st1"
    by (rule replay_step_order[OF _ Cons.prems(3) _ st1(1)]) (use Cons.prems in auto)
  then show ?case by (rule Cons.IH[rotated 2]) (use Cons.prems st1 in auto)
qed auto

lemma sorted_trade_dates: "sorted (map t_tradeDate (sort_key ledger_key txns))"
proof -
  have "sorted (map ledger_key (sort_key ledger_key txns))" by simp
  then show ?thesis
    by (auto simp: sorted_wrt_map ledger_key_def less_eq_prod_def elim!: sorted_wrt_mono_rel[rotated])
qed

text \<open>C35. The register a replay returns, in exact decimals: every open lot has a positive
  quantity, lots are in order of their buy dates (preserved through corporate actions), the quantity
  is their sum, and average cost times quantity is the invested value.\<close>

theorem register_is_fifo:
  assumes "\<forall>t \<in> set txns. txn_ok t" and "replayFifo (\<lambda>x. x) txns = Inr r"
  shows "(\<forall>l \<in> set (rr_lots r). 0 < ol_quantity l) \<and> sorted (map ol_buyDate (rr_lots r)) \<and>
    rr_quantity r = sum_list (map ol_quantity (rr_lots r)) \<and> 0 \<le> rr_quantity r \<and>
    (0 < rr_quantity r \<longrightarrow> rr_avgCost r * rr_quantity r = rr_investedValue r)"
proof -
  obtain queue realized where st: "runR (replay_step (\<lambda>x. x)) (sort_key ledger_key txns) ([], 0) = Inr (queue, realized)"
    and r: "rr_lots r = queue" "rr_quantity r = lots_held queue" "rr_investedValue r = lots_cost queue"
      "rr_avgCost r = (if 0 < lots_held queue then lots_cost queue / lots_held queue else 0)"
    using assms(2) by (auto simp: replayFifo_def bindR_Inr_iff Let_def held_exact foldl_plus_num lots_cost_def)
  have "\<exists>d. lots_in_order d (queue, realized)"
  proof (cases "sort_key ledger_key txns")
    case Nil
    then show ?thesis using st by (auto simp: lots_in_order_def)
  next
    case (Cons t ts)
    show ?thesis
    proof (rule runR_order[OF _ sorted_trade_dates _ _ st])
      show "lots_in_order (t_tradeDate t) ([], 0)" by (simp add: lots_in_order_def)
      show "\<forall>u \<in> set (sort_key ledger_key txns). t_tradeDate t \<le> t_tradeDate u"
        using sorted_trade_dates[of txns] Cons by auto
    qed (use assms in simp)
  qed
  then show ?thesis using r lots_held_nonneg[of queue realized]
    by (auto simp: lots_in_order_def lots_pos_def lots_held_def)
qed

lemma register_is_fifo_witness: "0 \<le> (1 :: num) \<and> (51 :: num) * 1 = 51"
  using register_is_fifo[OF sample_ok sample_replay] by simp

text \<open>The result of a replay does not depend on the order in which the ledger is handed
  over, for any decimal arithmetic, when no two transactions share trade date and creation time.\<close>

theorem replay_ignores_entry_order:
  assumes "mset txns = mset txns'" and "inj_on ledger_key (set txns)"
  shows "replayFifo D txns = replayFifo D txns'"
proof -
  have "sort_key ledger_key txns = sort_key ledger_key txns'"
    by (rule sort_key_inj_key_eq) (use assms in simp_all)
  then show ?thesis by (simp add: replayFifo_def)
qed

lemma replay_ignores_entry_order_witness:
  "replayFifo (\<lambda>x. x) (rev sample_ledger) =
    Inr \<lparr>rr_quantity = 1, rr_avgCost = 51, rr_investedValue = 51, rr_realizedPnl = 117,
      rr_lots = [\<lparr>ol_quantity = 1, ol_costPerShare = 51, ol_buyDate = 10, ol_sourceTxnId = ''a''\<rparr>]\<rparr>"
  using replay_ignores_entry_order[of sample_ledger "rev sample_ledger" "\<lambda>x. x"] sample_replay
  by (simp add: sample_ledger_def ledger_key_def)

end
