(* ===== verification/Nav.thy ===== *)
theory Nav
  imports Fifo
begin

text \<open>
  The daily value of a portfolio and its returns: the walk over trading days of
  \<open>src/portfolio/nav/engine.ts\<close>, the time-weighted return of \<open>twr.ts\<close>, the pinning of the live value of
  \<open>assemble.ts\<close> and the money-weighted return of \<open>src/portfolio/xirr.ts\<close>.  A date text \<open>YYYY-MM-DD\<close> is
  its day number, which compares the same way; \<open>Math.pow\<close> is the parameter \<open>mpow\<close> and
  \<open>Prisma.Decimal\<close> the parameter \<open>D\<close> of \<open>corporateActionFactor\<close>.
\<close>

subsection \<open>Ledger and prices\<close>

datatype nav_txn_type = Nav_buy | Nav_sell | Nav_split | Nav_bonus | Nav_dividend

record nav_txn =
  nt_symbol :: string
  nt_type :: nav_txn_type
  nt_quantity :: "num option"
  nt_ratio :: "string option"
  nt_tradeDate :: int

record nav_price =
  np_date :: int
  np_close :: num

record walk_point =
  wp_date :: int
  wp_value :: num
  wp_cashFlow :: num

record walk_result =
  wr_series :: "walk_point list"
  wr_firstDate :: "int option"
  wr_lastDate :: "int option"
  wr_symbolsNoPrice :: "string list"

definition round2 :: "(num \<Rightarrow> num) \<Rightarrow> num \<Rightarrow> num" where
  "round2 R n = R (of_int (js_round (R (n * 100))) / 100)"

definition factorOf :: "(num \<Rightarrow> num) \<Rightarrow> (num \<Rightarrow> num) \<Rightarrow> string option \<Rightarrow> (ledger_error, num) result" where
  "factorOf R D ratio = bindR (corporateActionFactor D ratio) (\<lambda>f. Inr (R f))"

definition first_seen :: "'a list \<Rightarrow> 'a list" where
  \<comment> \<open>\<open>[...new Set(xs)]\<close>: the distinct elements in the order of their first occurrence\<close>
  "first_seen xs = rev (remdups (rev xs))"

subsection \<open>The walk\<close>

function advance :: "nav_price list \<Rightarrow> nat \<Rightarrow> int \<Rightarrow> nat" where
  \<comment> \<open>the \<open>while\<close> loop of the carry-forward pointer; the cursor is one more than \<open>idx\<close>\<close>
  "advance arr n day = (if n < length arr \<and> np_date (arr ! n) \<le> day then advance arr (Suc n) day else n)"
  by auto
termination by (relation "measure (\<lambda>(arr, n, _). length arr - n)") auto

declare advance.simps [simp del]

definition close_at :: "nav_price list \<Rightarrow> nat \<Rightarrow> num option" where
  "close_at arr n = (if n = 0 then None else Some (np_close (arr ! (n - 1))))"

type_synonym units = "string \<Rightarrow> num"

definition units_step :: "(num \<Rightarrow> num) \<Rightarrow> (num \<Rightarrow> num) \<Rightarrow> nav_txn \<Rightarrow> units \<Rightarrow> (ledger_error, units) result" where
  "units_step R D t h = (let cur = h (nt_symbol t); q = nullish (nt_quantity t) 0
     in case nt_type t of
        Nav_buy \<Rightarrow> Inr (h(nt_symbol t := R (cur + q)))
      | Nav_sell \<Rightarrow> Inr (h(nt_symbol t := max 0 (R (cur - q))))
      | Nav_dividend \<Rightarrow> Inr h
      | _ \<Rightarrow> bindR (factorOf R D (nt_ratio t)) (\<lambda>f. Inr (h(nt_symbol t := R (cur * f)))))"

definition cash_step :: "(num \<Rightarrow> num) \<Rightarrow> (string \<Rightarrow> num option) \<Rightarrow> num \<Rightarrow> nav_txn \<Rightarrow> num" where
  "cash_step R closeOf cashFlow t = (case closeOf (nt_symbol t) of None \<Rightarrow> cashFlow
     | Some c \<Rightarrow> (let amount = R (nullish (nt_quantity t) 0 * c)
        in case nt_type t of Nav_buy \<Rightarrow> R (cashFlow + amount) | Nav_sell \<Rightarrow> R (cashFlow - amount) | _ \<Rightarrow> cashFlow))"

fun apply_day :: "(num \<Rightarrow> num) \<Rightarrow> (num \<Rightarrow> num) \<Rightarrow> (string \<Rightarrow> num option) \<Rightarrow> int \<Rightarrow> nav_txn list \<Rightarrow> units \<Rightarrow> num \<Rightarrow>
    (ledger_error, nav_txn list \<times> units \<times> num) result" where
  \<comment> \<open>the \<open>while\<close> loop over the ledger cursor: what is left of the ledger, units and cash flow\<close>
  "apply_day R D closeOf day [] h cashFlow = Inr ([], h, cashFlow)"
| "apply_day R D closeOf day (t # ts) h cashFlow =
    (if nt_tradeDate t \<le> day
     then bindR (units_step R D t h) (\<lambda>h'. apply_day R D closeOf day ts h' (cash_step R closeOf cashFlow t))
     else Inr (t # ts, h, cashFlow))"

definition book_value :: "(num \<Rightarrow> num) \<Rightarrow> string list \<Rightarrow> (string \<Rightarrow> num option) \<Rightarrow> units \<Rightarrow> num" where
  "book_value R symbols closeOf h = foldl (\<lambda>value sym. if h sym \<le> 0 then value
     else (case closeOf sym of None \<Rightarrow> value | Some c \<Rightarrow> R (value + R (h sym * c)))) 0 symbols"

record walk_state =
  ws_cursor :: "string \<Rightarrow> nat"
  ws_held :: units
  ws_rest :: "nav_txn list"

definition walk_day :: "(num \<Rightarrow> num) \<Rightarrow> (num \<Rightarrow> num) \<Rightarrow> (string \<Rightarrow> nav_price list) \<Rightarrow> string list \<Rightarrow> int \<Rightarrow> walk_state \<Rightarrow>
    (ledger_error, walk_state \<times> walk_point) result" where
  "walk_day R D prices symbols day st =
    (let cursor = (\<lambda>s. if s \<in> set symbols then advance (prices s) (ws_cursor st s) day else ws_cursor st s);
         closeOf = (\<lambda>s. if s \<in> set symbols then close_at (prices s) (cursor s) else None)
     in bindR (apply_day R D closeOf day (ws_rest st) (ws_held st) 0) (\<lambda>(rest, h, cashFlow).
        Inr (\<lparr>ws_cursor = cursor, ws_held = h, ws_rest = rest\<rparr>,
             \<lparr>wp_date = day, wp_value = round2 R (book_value R symbols closeOf h), wp_cashFlow = round2 R cashFlow\<rparr>)))"

fun walk_days :: "(num \<Rightarrow> num) \<Rightarrow> (num \<Rightarrow> num) \<Rightarrow> (string \<Rightarrow> nav_price list) \<Rightarrow> string list \<Rightarrow> walk_state \<Rightarrow> int list \<Rightarrow>
    (ledger_error, walk_point list) result" where
  "walk_days R D prices symbols st [] = Inr []"
| "walk_days R D prices symbols st (day # days) =
    bindR (walk_day R D prices symbols day st) (\<lambda>(st', p).
      bindR (walk_days R D prices symbols st' days) (\<lambda>ps. Inr (p # ps)))"

definition trading_days :: "(string \<Rightarrow> nav_price list) \<Rightarrow> string list \<Rightarrow> int \<Rightarrow> int list" where
  "trading_days prices symbols firstBuyDate =
    sort (remdups (filter (\<lambda>d. firstBuyDate \<le> d) (concat (map (\<lambda>s. map np_date (prices s)) symbols))))"

definition nav_frame :: "nav_txn list \<Rightarrow> (string \<Rightarrow> nav_price list option) \<Rightarrow>
    (nav_txn list \<Rightarrow> (string \<Rightarrow> nav_price list) \<Rightarrow> string list \<Rightarrow> int list \<Rightarrow> (ledger_error, walk_point list) result) \<Rightarrow>
    (ledger_error, walk_result) result" where
  \<comment> \<open>everything of \<open>walkNav\<close> but the loop over the trading days\<close>
  "nav_frame ledger pricesBySymbol run =
    (let prices = (\<lambda>s. nullish (pricesBySymbol s) []);
         txns = sort_key nt_tradeDate ledger; symbols = first_seen (map nt_symbol txns);
         symbolsNoPrice = filter (\<lambda>s. prices s = []) symbols;
         none = \<lparr>wr_series = [], wr_firstDate = None, wr_lastDate = None, wr_symbolsNoPrice = symbolsNoPrice\<rparr>
     in case txns of [] \<Rightarrow> Inr none
        | t # _ \<Rightarrow>
          (let days = trading_days prices symbols (nt_tradeDate t)
           in if days = [] then Inr none
              else bindR (run txns prices symbols days) (\<lambda>series.
                Inr \<lparr>wr_series = series, wr_firstDate = Some (hd days), wr_lastDate = Some (last days),
                     wr_symbolsNoPrice = symbolsNoPrice\<rparr>)))"

definition walkNav :: "(num \<Rightarrow> num) \<Rightarrow> (num \<Rightarrow> num) \<Rightarrow> nav_txn list \<Rightarrow> (string \<Rightarrow> nav_price list option) \<Rightarrow>
    (ledger_error, walk_result) result" where
  "walkNav R D ledger pricesBySymbol = nav_frame ledger pricesBySymbol
    (\<lambda>txns prices symbols days. walk_days R D prices symbols
       \<lparr>ws_cursor = \<lambda>_. 0, ws_held = \<lambda>_. 0, ws_rest = txns\<rparr> days)"

record nav_series_result =
  ns_series :: "(int \<times> num) list"
  ns_firstDate :: "int option"
  ns_lastDate :: "int option"
  ns_points :: nat
  ns_symbolsNoPrice :: "string list"

definition computeNavSeries :: "(num \<Rightarrow> num) \<Rightarrow> (num \<Rightarrow> num) \<Rightarrow> nav_txn list \<Rightarrow> (string \<Rightarrow> nav_price list option) \<Rightarrow>
    (ledger_error, nav_series_result) result" where
  "computeNavSeries R D ledger pricesBySymbol = bindR (walkNav R D ledger pricesBySymbol) (\<lambda>w.
    Inr \<lparr>ns_series = map (\<lambda>p. (wp_date p, wp_value p)) (wr_series w), ns_firstDate = wr_firstDate w,
         ns_lastDate = wr_lastDate w, ns_points = length (wr_series w), ns_symbolsNoPrice = wr_symbolsNoPrice w\<rparr>)"

definition pinLive :: "(num \<Rightarrow> num) \<Rightarrow> walk_result \<Rightarrow> num option \<Rightarrow> int option \<Rightarrow> walk_result" where
  "pinLive R walk liveValue liveAsOf = (case liveValue of None \<Rightarrow> walk
   | Some v \<Rightarrow> if wr_series walk = [] then walk
     else (let lst = last (wr_series walk);
               series = (case liveAsOf of
                  Some d \<Rightarrow> if wp_date lst < d then wr_series walk @ [\<lparr>wp_date = d, wp_value = round2 R v, wp_cashFlow = 0\<rparr>]
                            else butlast (wr_series walk) @ [lst\<lparr>wp_value := round2 R v\<rparr>]
                | None \<Rightarrow> butlast (wr_series walk) @ [lst\<lparr>wp_value := round2 R v\<rparr>])
           in walk\<lparr>wr_series := series, wr_lastDate := Some (wp_date (last series))\<rparr>))"

subsection \<open>Time-weighted return (\<open>twr.ts\<close>)\<close>

record twr_result =
  tw_series :: "(int \<times> num) list"
  tw_firstDate :: "int option"
  tw_lastDate :: "int option"
  tw_totalTwrPct :: "num option"
  tw_annualizedPct :: "num option"
  tw_days :: int

definition round4 :: "(num \<Rightarrow> num) \<Rightarrow> num \<Rightarrow> num" where
  "round4 R n = R (of_int (js_round (R (n * 10000))) / 10000)"

definition link :: "(num \<Rightarrow> num) \<Rightarrow> num \<Rightarrow> num \<Rightarrow> walk_point \<Rightarrow> num" where
  \<comment> \<open>the index after a day, from the index and the value of the day before\<close>
  "link R idx vPrev p = (if 0 < vPrev then R (idx * R (R (wp_value p - wp_cashFlow p) / vPrev)) else idx)"

fun twr_points :: "(num \<Rightarrow> num) \<Rightarrow> num \<Rightarrow> num \<Rightarrow> walk_point list \<Rightarrow> (int \<times> num) list" where
  "twr_points R idx vPrev [] = []"
| "twr_points R idx vPrev (p # ps) =
    (let idx' = link R idx vPrev p in (wp_date p, round4 R idx') # twr_points R idx' (wp_value p) ps)"

definition computeTwr :: "(num \<Rightarrow> num) \<Rightarrow> (num \<Rightarrow> num \<Rightarrow> num) \<Rightarrow> walk_result \<Rightarrow> twr_result" where
  "computeTwr R mpow walk = (case wr_series walk of
     [] \<Rightarrow> \<lparr>tw_series = [], tw_firstDate = None, tw_lastDate = None, tw_totalTwrPct = None, tw_annualizedPct = None, tw_days = 0\<rparr>
   | p # ps \<Rightarrow>
     (let series = (wp_date p, 100) # twr_points R 100 (wp_value p) ps;
          firstDate = wp_date p; lastDate = wp_date (last (p # ps)); days = lastDate - firstDate;
          lastIndex = snd (last series); years = R (of_int days / (1461 / 4))
      in \<lparr>tw_series = series, tw_firstDate = Some firstDate, tw_lastDate = Some lastDate,
          tw_totalTwrPct = Some (round4 R (R (lastIndex - 100))),
          tw_annualizedPct = (if 30 \<le> days \<and> 0 < years
             then Some (round4 R (R (R (mpow (R (lastIndex / 100)) (R (1 / years)) - 1) * 100))) else None),
          tw_days = days\<rparr>))"

subsection \<open>The walk computes every day from scratch\<close>

text \<open>
  The reference: the units of a day are the whole ledger up to it replayed, the close of a symbol is its
  last one on or before the day, and the cash flow is that of the transactions since the trading day
  before.  The walk computes the same with one cursor into the ledger and one into each price list.
\<close>

definition last_close :: "nav_price list \<Rightarrow> int \<Rightarrow> num option" where
  "last_close arr day = (let ps = takeWhile (\<lambda>p. np_date p \<le> day) arr in if ps = [] then None else Some (np_close (last ps)))"

definition done_by :: "int option \<Rightarrow> int \<Rightarrow> bool" where
  "done_by before d \<longleftrightarrow> (case before of None \<Rightarrow> False | Some b \<Rightarrow> d \<le> b)"

definition nav_on :: "(num \<Rightarrow> num) \<Rightarrow> (num \<Rightarrow> num) \<Rightarrow> (string \<Rightarrow> nav_price list) \<Rightarrow> string list \<Rightarrow> nav_txn list \<Rightarrow>
    int option \<Rightarrow> int \<Rightarrow> (ledger_error, walk_point) result" where
  "nav_on R D prices symbols txns before day =
    (let closeOf = (\<lambda>s. if s \<in> set symbols then last_close (prices s) day else None)
     in bindR (runR (units_step R D) (filter (\<lambda>t. nt_tradeDate t \<le> day) txns) (\<lambda>_. 0)) (\<lambda>h.
        Inr \<lparr>wp_date = day, wp_value = round2 R (book_value R symbols closeOf h),
             wp_cashFlow = round2 R (foldl (cash_step R closeOf) 0
               (filter (\<lambda>t. \<not> done_by before (nt_tradeDate t) \<and> nt_tradeDate t \<le> day) txns))\<rparr>))"

fun nav_each :: "(num \<Rightarrow> num) \<Rightarrow> (num \<Rightarrow> num) \<Rightarrow> (string \<Rightarrow> nav_price list) \<Rightarrow> string list \<Rightarrow> nav_txn list \<Rightarrow>
    int option \<Rightarrow> int list \<Rightarrow> (ledger_error, walk_point list) result" where
  "nav_each R D prices symbols txns before [] = Inr []"
| "nav_each R D prices symbols txns before (day # days) =
    bindR (nav_on R D prices symbols txns before day) (\<lambda>p.
      bindR (nav_each R D prices symbols txns (Some day) days) (\<lambda>ps. Inr (p # ps)))"

lemma advance_takeWhile:
  "n \<le> length (takeWhile (\<lambda>p. np_date p \<le> day) arr) \<Longrightarrow> advance arr n day = length (takeWhile (\<lambda>p. np_date p \<le> day) arr)"
proof (induction arr n day rule: advance.induct)
  case (1 arr n day)
  let ?tw = "takeWhile (\<lambda>p. np_date p \<le> day) arr"
  show ?case
  proof (cases "n < length arr \<and> np_date (arr ! n) \<le> day")
    case True
    then have "n \<noteq> length ?tw" using nth_length_takeWhile[of "\<lambda>p. np_date p \<le> day" arr] by auto
    then have "advance arr (Suc n) day = length ?tw" using 1 True by simp
    then show ?thesis using True by (subst advance.simps) simp
  next
    case False
    have "n = length ?tw"
    proof (rule ccontr)
      assume "n \<noteq> length ?tw"
      then have lt: "n < length ?tw" using 1 by simp
      then have "np_date (?tw ! n) \<le> day" "n < length arr"
        using set_takeWhileD[of "?tw ! n" "\<lambda>p. np_date p \<le> day" arr] length_takeWhile_le[of "\<lambda>p. np_date p \<le> day" arr] by auto
      then show False using False takeWhile_nth[OF lt] by simp
    qed
    moreover have "advance arr n day = n" by (subst advance.simps) (use False in auto)
    ultimately show ?thesis by simp
  qed
qed

lemma close_at_takeWhile: "close_at arr (length (takeWhile (\<lambda>p. np_date p \<le> day) arr)) = last_close arr day"
proof (cases "takeWhile (\<lambda>p. np_date p \<le> day) arr = []")
  case True
  then show ?thesis by (simp add: close_at_def last_close_def)
next
  case False
  then have "arr ! (length (takeWhile (\<lambda>p. np_date p \<le> day) arr) - 1) = last (takeWhile (\<lambda>p. np_date p \<le> day) arr)"
    by (simp add: last_conv_nth takeWhile_nth)
  then show ?thesis using False by (simp add: close_at_def last_close_def)
qed

lemma apply_day_takeWhile:
  "apply_day R D closeOf day ts h c =
    bindR (runR (units_step R D) (takeWhile (\<lambda>t. nt_tradeDate t \<le> day) ts) h) (\<lambda>h'.
      Inr (dropWhile (\<lambda>t. nt_tradeDate t \<le> day) ts, h', foldl (cash_step R closeOf) c (takeWhile (\<lambda>t. nt_tradeDate t \<le> day) ts)))"
proof (induction ts arbitrary: h c)
  case (Cons t ts)
  then show ?case by (cases "units_step R D t h") simp_all
qed simp

lemma takeWhile_more: "(\<And>x. P x \<Longrightarrow> Q x) \<Longrightarrow> takeWhile Q xs = takeWhile P xs @ takeWhile Q (dropWhile P xs)"
  by (induction xs) auto

lemma takeWhile_none: "takeWhile (\<lambda>_. False) xs = []"
  by (cases xs) simp_all

lemma dropWhile_more: "(\<And>x. P x \<Longrightarrow> Q x) \<Longrightarrow> dropWhile Q (dropWhile P xs) = dropWhile Q xs"
  by (induction xs) auto

lemma sorted_filter_takeWhile:
  "sorted (map f xs) \<Longrightarrow> filter (\<lambda>x. f x \<le> (d :: int)) xs = takeWhile (\<lambda>x. f x \<le> d) xs"
proof (induction xs)
  case (Cons x xs)
  show ?case
  proof (cases "f x \<le> d")
    case False
    then have "filter (\<lambda>x. f x \<le> d) xs = []" using Cons.prems by (force simp: filter_empty_conv)
    then show ?thesis using False by simp
  qed (use Cons in simp)
qed simp

lemma sorted_filter_between:
  assumes "sorted (map f xs)"
  shows "filter (\<lambda>x. \<not> done_by before (f x) \<and> f x \<le> (d :: int)) xs = takeWhile (\<lambda>x. f x \<le> d) (dropWhile (\<lambda>x. done_by before (f x)) xs)"
  using assms
proof (induction xs)
  case (Cons x xs)
  show ?case
  proof (cases "done_by before (f x)")
    case False
    have "\<not> done_by before (f y)" if "y \<in> set xs" for y
      using False Cons.prems that by (auto simp: done_by_def split: option.splits)
    then have "filter (\<lambda>x. \<not> done_by before (f x) \<and> f x \<le> d) xs = filter (\<lambda>x. f x \<le> d) xs" by (intro filter_cong) auto
    then show ?thesis using False Cons.prems sorted_filter_takeWhile[of f xs d] sorted_filter_takeWhile[of f "x # xs" d]
      by (cases "f x \<le> d") simp_all
  qed (use Cons in simp)
qed simp

lemma runR_append: "runR step (xs @ ys) s = bindR (runR step xs s) (runR step ys)"
proof (induction xs arbitrary: s)
  case (Cons x xs)
  then show ?case by (cases "step x s") simp_all
qed simp

lemma walk_days_each:
  assumes "sorted (map nt_tradeDate txns)" "sorted_wrt (<) days" "\<forall>b. before = Some b \<longrightarrow> (\<forall>d \<in> set days. b < d)"
    "runR (units_step R D) (takeWhile (\<lambda>t. done_by before (nt_tradeDate t)) txns) (\<lambda>_. 0) = Inr (ws_held st)"
    "ws_rest st = dropWhile (\<lambda>t. done_by before (nt_tradeDate t)) txns"
    "\<forall>s \<in> set symbols. ws_cursor st s = length (takeWhile (\<lambda>p. done_by before (np_date p)) (prices s))"
  shows "walk_days R D prices symbols st days = nav_each R D prices symbols txns before days"
  using assms
proof (induction days arbitrary: before st)
  case (Cons day days)
  have up: "done_by before x \<Longrightarrow> x \<le> day" for x using Cons.prems(3) by (auto simp: done_by_def split: option.splits)
  have cur: "advance (prices s) (ws_cursor st s) day = length (takeWhile (\<lambda>p. np_date p \<le> day) (prices s))" if "s \<in> set symbols" for s
    using Cons.prems(6) that takeWhile_more[of "\<lambda>p. done_by before (np_date p)" "\<lambda>p. np_date p \<le> day" "prices s"] up
    by (intro advance_takeWhile) (auto simp: done_by_def)
  define closeOf where "closeOf = (\<lambda>s. if s \<in> set symbols then last_close (prices s) day else None)"
  have close: "(\<lambda>s. if s \<in> set symbols then close_at (prices s) (if s \<in> set symbols then advance (prices s) (ws_cursor st s) day else ws_cursor st s) else None) = closeOf"
    by (rule ext) (simp add: closeOf_def cur close_at_takeWhile)
  define txs where "txs = takeWhile (\<lambda>t. nt_tradeDate t \<le> day) (ws_rest st)"
  have all: "filter (\<lambda>t. nt_tradeDate t \<le> day) txns = takeWhile (\<lambda>t. done_by before (nt_tradeDate t)) txns @ txs"
    using sorted_filter_takeWhile[OF Cons.prems(1)] takeWhile_more[of "\<lambda>t. done_by before (nt_tradeDate t)" "\<lambda>t. nt_tradeDate t \<le> day" txns] up
    by (simp add: txs_def Cons.prems(5))
  have "runR (units_step R D) (filter (\<lambda>t. nt_tradeDate t \<le> day) txns) (\<lambda>_. 0) = runR (units_step R D) txs (ws_held st)"
    unfolding all runR_append Cons.prems(4) by simp
  moreover have "filter (\<lambda>t. \<not> done_by before (nt_tradeDate t) \<and> nt_tradeDate t \<le> day) txns = txs"
    using sorted_filter_between[OF Cons.prems(1)] by (simp add: txs_def Cons.prems(5))
  ultimately have on: "nav_on R D prices symbols txns before day = bindR (runR (units_step R D) txs (ws_held st)) (\<lambda>h.
      Inr \<lparr>wp_date = day, wp_value = round2 R (book_value R symbols closeOf h), wp_cashFlow = round2 R (foldl (cash_step R closeOf) 0 txs)\<rparr>)"
    by (simp add: nav_on_def closeOf_def[symmetric])
  show ?case
  proof (cases "runR (units_step R D) txs (ws_held st)")
    case (Inl e)
    then show ?thesis by (simp add: walk_day_def Let_def close on apply_day_takeWhile txs_def[symmetric])
  next
    case (Inr h)
    define st' where "st' = \<lparr>ws_cursor = (\<lambda>s. if s \<in> set symbols then advance (prices s) (ws_cursor st s) day else ws_cursor st s),
      ws_held = h, ws_rest = dropWhile (\<lambda>t. nt_tradeDate t \<le> day) (ws_rest st)\<rparr>"
    have sd: "(\<lambda>t. done_by (Some day) (f t)) = (\<lambda>t. f t \<le> day)" for f :: "'x \<Rightarrow> int" by (simp add: done_by_def)
    have "walk_days R D prices symbols st' days = nav_each R D prices symbols txns (Some day) days"
    proof (rule Cons.IH)
      show "sorted (map nt_tradeDate txns)" by (rule Cons.prems(1))
      show "sorted_wrt (<) days" "\<forall>b. Some day = Some b \<longrightarrow> (\<forall>d \<in> set days. b < d)" using Cons.prems(2) by simp_all
      show "runR (units_step R D) (takeWhile (\<lambda>t. done_by (Some day) (nt_tradeDate t)) txns) (\<lambda>_. 0) = Inr (ws_held st')"
        using all Inr Cons.prems(4) sorted_filter_takeWhile[OF Cons.prems(1), of day] by (simp add: sd st'_def runR_append)
      show "ws_rest st' = dropWhile (\<lambda>t. done_by (Some day) (nt_tradeDate t)) txns"
        using up by (simp add: sd st'_def Cons.prems(5) dropWhile_more)
      show "\<forall>s \<in> set symbols. ws_cursor st' s = length (takeWhile (\<lambda>p. done_by (Some day) (np_date p)) (prices s))"
        by (simp add: sd st'_def cur)
    qed
    then show ?thesis
      using Inr by (simp add: walk_day_def Let_def close on apply_day_takeWhile txs_def[symmetric] st'_def)
  qed
qed simp

text \<open>C36. The daily value walk of a portfolio, which moves a price cursor per symbol and a
  cursor into the ledger forward only, gives for every ledger and price table, in any arithmetic and
  with its errors, the series that results from evaluating each day on its own: the last close on or
  before the day of every symbol, the units of all transactions up to the day, and the cash of the
  transactions since the previous trading day.\<close>

theorem walk_from_scratch:
  "walkNav R D ledger pricesBySymbol = nav_frame ledger pricesBySymbol
     (\<lambda>txns prices symbols days. nav_each R D prices symbols txns None days)"
proof -
  have walk: "walk_days R D prices symbols \<lparr>ws_cursor = \<lambda>_. 0, ws_held = \<lambda>_. 0, ws_rest = sort_key nt_tradeDate ledger\<rparr> (trading_days prices symbols d) =
      nav_each R D prices symbols (sort_key nt_tradeDate ledger) None (trading_days prices symbols d)" for prices symbols d
  proof (rule walk_days_each)
    show "sorted_wrt (<) (trading_days prices symbols d)" unfolding trading_days_def strict_sorted_iff by simp
  qed (simp_all add: done_by_def takeWhile_none)
  show ?thesis
  proof (cases "sort_key nt_tradeDate ledger")
    case (Cons t ts)
    then show ?thesis using walk by (simp add: walkNav_def nav_frame_def Let_def)
  qed (simp add: walkNav_def nav_frame_def)
qed

subsection \<open>Deposits are not return\<close>

text \<open>
  A path of the book: each day the capital of the day before grows by a factor at the closes of the day,
  and then a cash flow enters or leaves at those closes.
\<close>

record market_day =
  md_date :: int
  md_growth :: num
  md_cash :: num

fun book_path :: "num \<Rightarrow> market_day list \<Rightarrow> walk_point list" where
  "book_path v [] = []"
| "book_path v (m # ms) =
    (let v' = v * md_growth m + md_cash m
     in \<lparr>wp_date = md_date m, wp_value = v', wp_cashFlow = md_cash m\<rparr> # book_path v' ms)"

lemma length_book_path [simp]: "length (book_path v ms) = length ms"
  by (induction ms arbitrary: v) (simp_all add: Let_def)

lemma twr_of_path:
  assumes "0 < v" "\<forall>p \<in> set (book_path v ms). 0 < wp_value p"
  shows "twr_points (\<lambda>x. x) idx v (book_path v ms) =
    map (\<lambda>k. (md_date (ms ! k), round4 (\<lambda>x. x) (idx * prod_list (map md_growth (take (Suc k) ms))))) [0 ..< length ms]"
  using assms
proof (induction ms arbitrary: v idx)
  case (Cons m ms)
  define v' where "v' = v * md_growth m + md_cash m"
  have v': "0 < v'" "\<forall>p \<in> set (book_path v' ms). 0 < wp_value p" using Cons.prems by (simp_all add: Let_def v'_def)
  have "link (\<lambda>x. x) idx v \<lparr>wp_date = md_date m, wp_value = v', wp_cashFlow = md_cash m\<rparr> = idx * md_growth m"
    using Cons.prems(1) by (simp add: link_def v'_def)
  then have "twr_points (\<lambda>x. x) idx v (book_path v (m # ms)) =
      (md_date m, round4 (\<lambda>x. x) (idx * md_growth m)) # twr_points (\<lambda>x. x) (idx * md_growth m) v' (book_path v' ms)"
    by (simp add: Let_def v'_def)
  then show ?case
    by (simp add: Cons.IH[OF v'] upt_conv_Cons map_Suc_upt[symmetric] comp_def mult.assoc del: upt_Suc map_Suc_upt)
qed simp

text \<open>C37. The time-weighted return is blind to deposits and withdrawals: for a book of
  positive value that grows by a factor each day before the day's cash moves, the series of
  computeTwr is, in exact arithmetic, 100 times the product of the growth factors so far, rounded to
  four places, whatever the cash flows.\<close>

theorem twr_is_growth:
  assumes "wr_series w = p # book_path (wp_value p) ms" "\<forall>q \<in> set (wr_series w). 0 < wp_value q"
  shows "tw_series (computeTwr (\<lambda>x. x) mpow w) = (wp_date p, 100) #
    map (\<lambda>k. (md_date (ms ! k), round4 (\<lambda>x. x) (100 * prod_list (map md_growth (take (Suc k) ms))))) [0 ..< length ms]"
  using twr_of_path[of "wp_value p" ms 100] assms by (simp add: computeTwr_def Let_def)

theorem twr_is_growth_witness:
  "tw_series (computeTwr (\<lambda>x. x) (\<lambda>x y. x) \<lparr>wr_series =
      [\<lparr>wp_date = 0, wp_value = 1000, wp_cashFlow = 1000\<rparr>, \<lparr>wp_date = 1, wp_value = 6100, wp_cashFlow = 5000\<rparr>,
       \<lparr>wp_date = 2, wp_value = 1050, wp_cashFlow = - 5050\<rparr>],
      wr_firstDate = Some 0, wr_lastDate = Some 2, wr_symbolsNoPrice = []\<rparr>) = [(0, 100), (1, 110), (2, 110)]"
proof -
  have r: "round4 (\<lambda>x. x) 110 = 110" by code_simp
  show ?thesis
    by (subst twr_is_growth[where p = "\<lparr>wp_date = 0, wp_value = 1000, wp_cashFlow = 1000\<rparr>" and
        ms = "[\<lparr>md_date = 1, md_growth = 11 / 10, md_cash = 5000\<rparr>, \<lparr>md_date = 2, md_growth = 1, md_cash = - 5050\<rparr>]"])
      (simp_all add: upt_rec r)
qed

end
