(* ===== verification/Xirr.thy ===== *)
theory Xirr
  imports Numbers
begin

text \<open>
  The money-weighted return of a portfolio, \<open>src/portfolio/xirr.ts\<close>: Newton's method with a bisection to
  fall back on.  A date is its day number.  \<open>Math.pow\<close> is the parameter \<open>mpow\<close>, with \<open>None\<close> for infinity;
  a sum that is not finite is \<open>None\<close>.
\<close>

record cashflow =
  cf_date :: int
  cf_amount :: num

datatype xirr_state = Xirr_ok | Xirr_empty | Single_cashflow | No_sign_change | Insufficient_history | Non_convergent

datatype xirr_method = Newton | Bisection

record xirr_result =
  xr_xirrPct :: "num option"
  xr_state :: xirr_state
  xr_method :: "xirr_method option"
  xr_flowCount :: nat
  xr_firstDate :: "int option"
  xr_lastDate :: "int option"
  xr_days :: int

definition MIN_SPAN_DAYS :: int where "MIN_SPAN_DAYS = 30"

definition dayDiff :: "int \<Rightarrow> int \<Rightarrow> int" where
  "dayDiff a b = b - a"

type_synonym pow = "num \<Rightarrow> num \<Rightarrow> num option"

definition js_div :: "(num \<Rightarrow> num) \<Rightarrow> num \<Rightarrow> num option \<Rightarrow> num option" where
  \<comment> \<open>a finite dividend: over infinity it is 0, over 0 it is not finite\<close>
  "js_div R a p = (case p of None \<Rightarrow> Some 0 | Some b \<Rightarrow> if b = 0 then None else Some (R (a / b)))"

fun finite_sum :: "(num \<Rightarrow> num) \<Rightarrow> num \<Rightarrow> num option list \<Rightarrow> num option" where
  "finite_sum R s [] = Some s"
| "finite_sum R s (None # xs) = None"
| "finite_sum R s (Some x # xs) = finite_sum R (R (s + x)) xs"

definition years_from :: "(num \<Rightarrow> num) \<Rightarrow> int \<Rightarrow> cashflow \<Rightarrow> num" where
  "years_from R t0 cf = R (of_int (dayDiff t0 (cf_date cf)) / 365)"

definition xnpv :: "(num \<Rightarrow> num) \<Rightarrow> pow \<Rightarrow> cashflow list \<Rightarrow> int \<Rightarrow> num \<Rightarrow> num option" where
  "xnpv R mpow flows t0 r = (let base = R (1 + r) in if base \<le> 0 then None
     else finite_sum R 0 (map (\<lambda>cf. js_div R (cf_amount cf) (mpow base (years_from R t0 cf))) flows))"

definition dxnpv :: "(num \<Rightarrow> num) \<Rightarrow> pow \<Rightarrow> cashflow list \<Rightarrow> int \<Rightarrow> num \<Rightarrow> num option" where
  "dxnpv R mpow flows t0 r = (let base = R (1 + r) in if base \<le> 0 then None
     else finite_sum R 0 (map (\<lambda>cf. let yrs = years_from R t0 cf
       in js_div R (R (- yrs * cf_amount cf)) (mpow base (R (yrs + 1)))) flows))"

fun newton_loop :: "(num \<Rightarrow> num) \<Rightarrow> pow \<Rightarrow> cashflow list \<Rightarrow> int \<Rightarrow> nat \<Rightarrow> num \<Rightarrow> num option" where
  "newton_loop R mpow flows t0 0 r = None"
| "newton_loop R mpow flows t0 (Suc n) r =
    (case (xnpv R mpow flows t0 r, dxnpv R mpow flows t0 r) of
       (Some f, Some df) \<Rightarrow>
         if \<bar>df\<bar> < R (1 / 10 ^ 10) then None
         else (let nxt = R (r - R (f / df))
               in if nxt \<le> - R (9999 / 10000) then None
                  else if \<bar>R (nxt - r)\<bar> < R (1 / 10 ^ 8) then Some nxt
                  else newton_loop R mpow flows t0 n nxt)
     | _ \<Rightarrow> None)"

definition solveNewton :: "(num \<Rightarrow> num) \<Rightarrow> pow \<Rightarrow> cashflow list \<Rightarrow> int \<Rightarrow> num option" where
  "solveNewton R mpow flows t0 = newton_loop R mpow flows t0 100 (R (1 / 10))"

fun expand_loop :: "(num \<Rightarrow> num) \<Rightarrow> (num \<Rightarrow> num option) \<Rightarrow> nat \<Rightarrow> num \<Rightarrow> num \<Rightarrow> num option \<Rightarrow> num \<times> num option" where
  \<comment> \<open>the upper end of the bracket, doubled up to 200 times\<close>
  "expand_loop R npv 0 flo hi fhi = (hi, fhi)"
| "expand_loop R npv (Suc n) flo hi fhi = (case fhi of None \<Rightarrow> (hi, fhi)
     | Some y \<Rightarrow> if 0 < R (flo * y) \<and> hi < 10000000
         then (let hi' = R (hi * 2) in expand_loop R npv n flo hi' (npv hi')) else (hi, fhi))"

fun bisect_loop :: "(num \<Rightarrow> num) \<Rightarrow> (num \<Rightarrow> num option) \<Rightarrow> nat \<Rightarrow> num \<Rightarrow> num \<Rightarrow> num \<Rightarrow> num \<Rightarrow> num option" where
  "bisect_loop R npv 0 lo hi flo fhi = Some (R (R (lo + hi) / 2))"
| "bisect_loop R npv (Suc n) lo hi flo fhi =
    (let mid = R (R (lo + hi) / 2)
     in case npv mid of None \<Rightarrow> None
        | Some fm \<Rightarrow> if \<bar>fm\<bar> < R (1 / 10 ^ 7) \<or> R (R (hi - lo) / 2) < R (1 / 10 ^ 9) then Some mid
            else if R (flo * fm) < 0 then bisect_loop R npv n lo mid flo fm
            else bisect_loop R npv n mid hi fm fhi)"

definition solveBisection :: "(num \<Rightarrow> num) \<Rightarrow> pow \<Rightarrow> cashflow list \<Rightarrow> int \<Rightarrow> num option" where
  "solveBisection R mpow flows t0 =
    (let npv = xnpv R mpow flows t0; lo = - R (9999 / 10000)
     in case npv lo of None \<Rightarrow> None
        | Some flo \<Rightarrow> (case expand_loop R npv 200 flo 1 (npv 1) of
            (hi, None) \<Rightarrow> None
          | (hi, Some fhi) \<Rightarrow> if 0 < R (flo * fhi) then None else bisect_loop R npv 200 lo hi flo fhi))"

definition computeXirr :: "(num \<Rightarrow> num) \<Rightarrow> pow \<Rightarrow> cashflow list \<Rightarrow> xirr_result" where
  "computeXirr R mpow cashflows =
    (let base = (\<lambda>st. \<lparr>xr_xirrPct = None, xr_state = st, xr_method = None, xr_flowCount = length cashflows,
            xr_firstDate = None, xr_lastDate = None, xr_days = 0\<rparr>);
         sorted = sort_key cf_date cashflows; t0 = cf_date (hd sorted); tN = cf_date (last sorted); days = dayDiff t0 tN;
         dated = (\<lambda>st. (base st)\<lparr>xr_firstDate := Some t0, xr_lastDate := Some tN, xr_days := days\<rparr>)
     in if cashflows = [] then base Xirr_empty
        else if length cashflows < 2 then base Single_cashflow
        else if days < MIN_SPAN_DAYS then dated Insufficient_history
        else if \<not> (list_ex (\<lambda>c. 0 < cf_amount c) sorted \<and> list_ex (\<lambda>c. cf_amount c < 0) sorted) then dated No_sign_change
        else (let newton = solveNewton R mpow sorted t0
              in case (case newton of Some r \<Rightarrow> Some r | None \<Rightarrow> solveBisection R mpow sorted t0) of
                 None \<Rightarrow> dated Non_convergent
               | Some rate \<Rightarrow> if rate \<le> - 1 then dated Non_convergent
                   else (dated Xirr_ok)\<lparr>xr_xirrPct := Some (R (rate * 100)),
                          xr_method := Some (if newton \<noteq> None then Newton else Bisection)\<rparr>))"

subsection \<open>A rate is reported only where one exists\<close>

lemma xirr_honest:
  "(xr_xirrPct (computeXirr R mpow flows) \<noteq> None \<longleftrightarrow> xr_state (computeXirr R mpow flows) = Xirr_ok) \<and>
   (xr_method (computeXirr R mpow flows) \<noteq> None \<longleftrightarrow> xr_state (computeXirr R mpow flows) = Xirr_ok) \<and>
   (xr_state (computeXirr R mpow flows) = Xirr_ok \<longrightarrow> 2 \<le> length flows \<and> 30 \<le> xr_days (computeXirr R mpow flows) \<and>
     (\<exists>c \<in> set flows. 0 < cf_amount c) \<and> (\<exists>c \<in> set flows. cf_amount c < 0))"
  by (auto simp: computeXirr_def Let_def MIN_SPAN_DAYS_def list_ex_iff split: option.splits)

subsection \<open>Bisection\<close>

definition near_sign_change :: "(num \<Rightarrow> num option) \<Rightarrow> num \<Rightarrow> bool" where
  \<comment> \<open>the value is small, or the sign changes within \<open>2e-9\<close> around the point\<close>
  "near_sign_change npv r \<longleftrightarrow> (\<exists>f. npv r = Some f \<and> \<bar>f\<bar> < 1 / 10 ^ 7) \<or>
    (\<exists>a b fa fb. a \<le> r \<and> r \<le> b \<and> b - a < 2 / 10 ^ 9 \<and> npv a = Some fa \<and> npv b = Some fb \<and> fa * fb \<le> 0)"

lemma bisect_sound:
  assumes "npv lo = Some flo" "npv hi = Some fhi" "flo * fhi \<le> 0" "flo \<noteq> 0" "lo \<le> hi"
    "0 < n" "(hi - lo) / 2 < 1 / 10 ^ 9 * 2 ^ (n - 1)" "bisect_loop (\<lambda>x. x) npv n lo hi flo fhi = Some r"
  shows "lo \<le> r \<and> r \<le> hi \<and> near_sign_change npv r"
  using assms
proof (induction n arbitrary: lo hi flo fhi)
  case (Suc n)
  define mid where "mid = (lo + hi) / 2"
  have mid: "lo \<le> mid" "mid \<le> hi" "mid - lo = (hi - lo) / 2" "hi - mid = (hi - lo) / 2"
    using Suc.prems(5) by (simp_all add: mid_def field_simps)
  obtain fm where fm: "npv mid = Some fm" using Suc.prems(8) by (auto simp: Let_def mid_def split: option.splits)
  show ?case
  proof (cases "\<bar>fm\<bar> < 1 / 10 ^ 7 \<or> (hi - lo) / 2 < 1 / 10 ^ 9")
    case True
    then have "r = mid" using Suc.prems(8) fm by (simp add: Let_def mid_def split: if_splits)
    moreover have "near_sign_change npv mid"
    proof (cases "\<bar>fm\<bar> < 1 / 10 ^ 7")
      case False
      then have "hi - lo < 2 / 10 ^ 9" using True by (simp add: field_simps)
      then show ?thesis using Suc.prems(1,2,3) mid unfolding near_sign_change_def by blast
    qed (use fm in \<open>auto simp: near_sign_change_def\<close>)
    ultimately show ?thesis using mid by simp
  next
    case False
    have n: "0 < n" using Suc.prems(7) False by (cases n) simp_all
    then have w: "(hi - lo) / 2 / 2 < 1 / 10 ^ 9 * 2 ^ (n - 1)" using Suc.prems(7) by (cases n) simp_all
    have nz: "fm \<noteq> 0" using False by auto
    show ?thesis
    proof (cases "flo * fm < 0")
      case True
      have "bisect_loop (\<lambda>x. x) npv n lo mid flo fm = Some r" using Suc.prems(8) fm False True by (simp add: Let_def mid_def)
      then have "lo \<le> r \<and> r \<le> mid \<and> near_sign_change npv r"
        using Suc.prems(1,4) fm True mid n w by (intro Suc.IH) simp_all
      then show ?thesis using mid by simp
    next
      case right: False
      have "bisect_loop (\<lambda>x. x) npv n mid hi fm fhi = Some r" using Suc.prems(8) fm False right by (simp add: Let_def mid_def)
      moreover have "fm * fhi \<le> 0"
        using right Suc.prems(3,4) nz by (auto simp: mult_le_0_iff zero_less_mult_iff mult_less_0_iff not_less)
      ultimately have "mid \<le> r \<and> r \<le> hi \<and> near_sign_change npv r"
        using Suc.prems(2) fm nz mid n w by (intro Suc.IH) simp_all
      then show ?thesis using mid by simp
    qed
  qed
qed simp

lemma expand_range:
  assumes "expand_loop (\<lambda>x. x) npv n flo hi fhi = (hi', fhi')" "npv hi = fhi" "1 \<le> hi" "hi \<le> 20000000"
  shows "npv hi' = fhi' \<and> 1 \<le> hi' \<and> hi' \<le> 20000000"
  using assms
proof (induction n arbitrary: hi fhi)
  case (Suc n)
  show ?case
  proof (cases "\<exists>y. fhi = Some y \<and> 0 < flo * y \<and> hi < 10000000")
    case True
    then have "expand_loop (\<lambda>x. x) npv n flo (hi * 2) (npv (hi * 2)) = (hi', fhi')" using Suc.prems(1) by (auto simp: Let_def)
    then show ?thesis by (rule Suc.IH) (use Suc.prems True in auto)
  next
    case False
    then show ?thesis using Suc.prems by (auto split: option.splits)
  qed
qed simp

lemma bisect_range:
  assumes "bisect_loop (\<lambda>x. x) npv n lo hi flo fhi = Some r" "lo \<le> hi"
  shows "lo \<le> r \<and> r \<le> hi"
  using assms
proof (induction n arbitrary: lo hi flo fhi)
  case 0
  then show ?case by (auto simp: field_simps)
next
  case (Suc n)
  have mid: "lo \<le> (lo + hi) / 2" "(lo + hi) / 2 \<le> hi" using Suc.prems(2) by (simp_all add: field_simps)
  obtain fm where fm: "npv ((lo + hi) / 2) = Some fm" using Suc.prems(1) by (auto simp: Let_def split: option.splits)
  consider "r = (lo + hi) / 2" | "bisect_loop (\<lambda>x. x) npv n lo ((lo + hi) / 2) flo fm = Some r"
    | "bisect_loop (\<lambda>x. x) npv n ((lo + hi) / 2) hi fm fhi = Some r"
    using Suc.prems(1) fm by (auto simp: Let_def split: if_splits)
  then show ?case using Suc.IH mid by cases (simp, fastforce+)
qed

text \<open>C38. The bisection that stands in for Newton's method in the money-weighted return, in
  exact arithmetic and for every power function: whenever it returns a rate, the rate is between
  -0.9999 and 2e7, and, unless the value at the left end -0.9999 is exactly zero, it is a point of
  value below 1e-7 or within 2e-9 of a change of sign. So neither the 200 rounds nor the widening of
  the bracket end too early; the excepted corner, a root exactly at the left end, is missed.\<close>

theorem bisection_finds_sign_change:
  assumes "solveBisection (\<lambda>x. x) mpow flows t0 = Some r"
  shows "- (9999 / 10000) \<le> r \<and> r \<le> 20000000 \<and>
    (xnpv (\<lambda>x. x) mpow flows t0 (- (9999 / 10000)) = Some 0 \<or> near_sign_change (xnpv (\<lambda>x. x) mpow flows t0) r)"
proof -
  let ?npv = "xnpv (\<lambda>x. x) mpow flows t0"
  obtain flo hi fhi where f: "?npv (- (9999 / 10000)) = Some flo" "expand_loop (\<lambda>x. x) ?npv 200 flo 1 (?npv 1) = (hi, Some fhi)"
    "flo * fhi \<le> 0" "bisect_loop (\<lambda>x. x) ?npv 200 (- (9999 / 10000)) hi flo fhi = Some r"
    using assms(1) by (auto simp: solveBisection_def Let_def not_less split: option.splits prod.splits if_splits)
  have hi: "?npv hi = Some fhi" "1 \<le> hi" "hi \<le> 20000000" using expand_range[OF f(2)] by auto
  have "- (9999 / 10000) \<le> hi" using hi(2) by simp
  from bisect_range[OF f(4) this] hi(3) have range: "- (9999 / 10000) \<le> r" "r \<le> 20000000" by auto
  have "(hi - - (9999 / 10000)) / 2 < 1 / 10 ^ 9 * 2 ^ (200 - 1 :: nat)" using hi(3) by (simp add: field_simps)
  then have "near_sign_change ?npv r" if "flo \<noteq> 0"
    using bisect_sound[OF f(1) hi(1) f(3) _ _ _ _ f(4)] that hi by auto
  with range f(1) show ?thesis by blast
qed

definition sample_pow :: pow where
  "sample_pow b y = Some (if y = 0 then 1 else b)"

lemma sample_bisection:
  "solveBisection (\<lambda>x. x) sample_pow [\<lparr>cf_date = 0, cf_amount = - 100\<rparr>, \<lparr>cf_date = 365, cf_amount = 20001 / 200\<rparr>] 0 \<noteq> None"
  by code_simp

theorem bisection_finds_sign_change_witness:
  "\<exists>r. solveBisection (\<lambda>x. x) sample_pow [\<lparr>cf_date = 0, cf_amount = - 100\<rparr>, \<lparr>cf_date = 365, cf_amount = 20001 / 200\<rparr>] 0 = Some r \<and>
     r \<le> 20000000"
  using sample_bisection
    bisection_finds_sign_change[of sample_pow "[\<lparr>cf_date = 0, cf_amount = - 100\<rparr>, \<lparr>cf_date = 365, cf_amount = 20001 / 200\<rparr>]" 0] by blast

text \<open>The corner that is left open does occur: a root exactly at the left end of the bracket is neither
  returned nor told apart from a sign change, and the search moves away from it.\<close>

lemma bisect_total:
  assumes "\<And>x. lo \<le> x \<Longrightarrow> x \<le> hi \<Longrightarrow> npv x \<noteq> None" "lo \<le> hi"
  shows "\<exists>r. bisect_loop (\<lambda>x. x) npv n lo hi flo fhi = Some r"
  using assms
proof (induction n arbitrary: lo hi flo fhi)
  case 0
  show ?case by (simp only: bisect_loop.simps) blast
next
  case (Suc n)
  define m where "m = (lo + hi) / 2"
  have mid: "lo \<le> m" "m \<le> hi" using Suc.prems(2) by (simp_all add: m_def field_simps)
  then obtain fm where fm: "npv m = Some fm" using Suc.prems(1)[of m] by auto
  have "\<exists>r. bisect_loop (\<lambda>x. x) npv n lo m flo fm = Some r"
    by (rule Suc.IH) (use Suc.prems(1) mid in fastforce)+
  moreover have "\<exists>r. bisect_loop (\<lambda>x. x) npv n m hi fm fhi = Some r"
    by (rule Suc.IH) (use Suc.prems(1) mid in fastforce)+
  ultimately show ?case using fm by (simp add: Let_def m_def[symmetric])
qed

definition near_total_loss :: "cashflow list" where
  "near_total_loss = [\<lparr>cf_date = 0, cf_amount = - 100\<rparr>, \<lparr>cf_date = 365, cf_amount = 1 / 100\<rparr>]"

lemma near_total_loss_npv:
  "- 1 < r \<Longrightarrow> xnpv (\<lambda>x. x) sample_pow near_total_loss 0 r = Some (- 100 + 1 / 100 / (1 + r))"
  by (simp add: xnpv_def near_total_loss_def years_from_def dayDiff_def sample_pow_def js_div_def)

lemma left_end_is_missed:
  "xnpv (\<lambda>x. x) sample_pow near_total_loss 0 (- (9999 / 10000)) = Some 0"
  "\<exists>r. solveBisection (\<lambda>x. x) sample_pow near_total_loss 0 = Some r \<and> 0 < r \<and>
     \<not> near_sign_change (xnpv (\<lambda>x. x) sample_pow near_total_loss 0) r"
proof -
  let ?npv = "xnpv (\<lambda>x. x) sample_pow near_total_loss 0"
  note v = near_total_loss_npv
  show left: "?npv (- (9999 / 10000)) = Some 0" by (simp add: v)
  have mid: "?npv (1 / 20000) = Some (- 100 + 1 / 100 / (1 + 1 / 20000))" by (rule v) simp
  have one: "?npv 1 = Some (- 100 + 1 / 200)" using v[of 1] by simp
  have n: "(200 :: nat) = Suc 199" by simp
  have e: "expand_loop (\<lambda>x. x) ?npv 200 0 1 (Some y) = (1, Some y)" for y unfolding n expand_loop.simps by simp
  have "solveBisection (\<lambda>x. x) sample_pow near_total_loss 0
      = bisect_loop (\<lambda>x. x) ?npv 200 (- (9999 / 10000)) 1 0 (- 100 + 1 / 200)"
    using left one e by (simp add: solveBisection_def)
  also have "\<dots> = bisect_loop (\<lambda>x. x) ?npv 199 (1 / 20000) 1 (- 100 + 1 / 100 / (1 + 1 / 20000)) (- 100 + 1 / 200)"
    unfolding n bisect_loop.simps using mid by (simp add: Let_def)
  finally have b: "solveBisection (\<lambda>x. x) sample_pow near_total_loss 0
      = bisect_loop (\<lambda>x. x) ?npv 199 (1 / 20000) 1 (- 100 + 1 / 100 / (1 + 1 / 20000)) (- 100 + 1 / 200)" .
  have "\<exists>r. solveBisection (\<lambda>x. x) sample_pow near_total_loss 0 = Some r"
    unfolding b by (rule bisect_total) (simp_all add: v)
  then obtain r where r: "solveBisection (\<lambda>x. x) sample_pow near_total_loss 0 = Some r" by blast
  have "1 / 20000 \<le> r" using bisect_range[OF r[unfolded b]] by simp
  have neg: "\<exists>f. ?npv x = Some f \<and> f < - 1" if "0 < x" for x
  proof -
    have "1 / 100 / (1 + x) \<le> 1 / 100" using that by (simp add: field_simps)
    then have "- 100 + 1 / 100 / (1 + x) < - 1" by linarith
    then show ?thesis using v[of x] that by simp
  qed
  have "\<not> near_sign_change ?npv r"
  proof
    assume "near_sign_change ?npv r"
    then consider f where "?npv r = Some f" "\<bar>f\<bar> < 1 / 10 ^ 7"
      | a b fa fb where "a \<le> r" "r \<le> b" "b - a < 2 / 10 ^ 9" "?npv a = Some fa" "?npv b = Some fb" "fa * fb \<le> 0"
      unfolding near_sign_change_def by blast
    then show False
    proof cases
      case 1
      with neg[of r] \<open>1 / 20000 \<le> r\<close> show False by auto
    next
      case 2
      have "0 < a" "0 < b" using 2(1,2,3) \<open>1 / 20000 \<le> r\<close> by simp_all
      with neg[of a] neg[of b] 2(4,5) have "fa < - 1" "fb < - 1" by auto
      then have "0 < fa * fb" by (simp add: mult_neg_neg)
      with 2(6) show False by simp
    qed
  qed
  moreover have "0 < r" using \<open>1 / 20000 \<le> r\<close> by simp
  ultimately show "\<exists>r. solveBisection (\<lambda>x. x) sample_pow near_total_loss 0 = Some r \<and> 0 < r \<and> \<not> near_sign_change ?npv r"
    using r by blast
qed

end
