(* ===== verification/PhsEntity.thy ===== *)
theory PhsEntity
  imports Numbers "HOL-Library.List_Lexorder" "HOL-Library.Char_ord" "HOL-Library.Product_Lexorder"
begin

text \<open>
  Portfolio construction, \<open>src/portfolio/phs/entity.ts\<close> with the constants of \<open>constants.ts\<close>: natures of
  holdings, the entity and basket ledgers, the sector resolution, the six construction rules and the net
  score.  Arithmetic goes through the rounding \<open>R\<close>.  \<open>localeCompare\<close> is the collation of the runtime: it
  compares positions given by the parameter \<open>coll\<close>.  The \<open>detail\<close> texts of the rules, which are copy for
  people only, are left out.
\<close>

subsection \<open>Constants\<close>

definition S1_THRESH :: num where "S1_THRESH = 15"
definition S1_FAIR_MULT :: num where "S1_FAIR_MULT = 3 / 2"
definition C1_FLOOR :: num where "C1_FLOOR = 15"
definition C1_FAIR_MULT :: num where "C1_FAIR_MULT = 3 / 2"
definition C1_RATE :: num where "C1_RATE = 3 / 2"
definition C1_TOTAL_CAP :: num where "C1_TOTAL_CAP = 30"
definition C2_TARGET :: num where "C2_TARGET = 8"
definition C2_RATE :: num where "C2_RATE = 7"
definition C3_UNKNOWN_KILL :: num where "C3_UNKNOWN_KILL = 1 / 2"
definition C3_THRESH :: num where "C3_THRESH = 40"
definition C3_RATE :: "(num \<Rightarrow> num) \<Rightarrow> num" where "C3_RATE R = R (6 / 5)"
definition C3_CAP :: num where "C3_CAP = 30"
definition C4_TARGET :: num where "C4_TARGET = 5"
definition C4_RATE :: num where "C4_RATE = 4"
definition C4_CAP :: num where "C4_CAP = 15"
definition C5_THRESH :: num where "C5_THRESH = 40"
definition C5_RATE :: "(num \<Rightarrow> num) \<Rightarrow> num" where "C5_RATE R = R (6 / 5)"
definition C5_CAP :: num where "C5_CAP = 25"
definition C5_HOUSE_UNKNOWN_KILL :: num where "C5_HOUSE_UNKNOWN_KILL = 1 / 2"
definition C6_THRESH :: nat where "C6_THRESH = 25"
definition C6_RATE :: num where "C6_RATE = 1 / 2"
definition C6_CAP :: num where "C6_CAP = 8"
definition ARCHETYPE_DEBT_MIN :: num where "ARCHETYPE_DEBT_MIN = 1 / 2"
definition ARCHETYPE_COMMODITY_MIN :: num where "ARCHETYPE_COMMODITY_MIN = 1 / 2"
definition ARCHETYPE_NAMERISK_MIN :: "(num \<Rightarrow> num) \<Rightarrow> num" where "ARCHETYPE_NAMERISK_MIN R = R (3 / 5)"
definition ARCHETYPE_BASKET_MIN :: "(num \<Rightarrow> num) \<Rightarrow> num" where "ARCHETYPE_BASKET_MIN R = R (3 / 5)"

definition s1ThresholdPct :: "(num \<Rightarrow> num) \<Rightarrow> nat \<Rightarrow> num" where
  "s1ThresholdPct R holdingCount =
    (let fairShare = (if 0 < holdingCount then R (100 / of_nat holdingCount) else 0)
     in max S1_THRESH (R (S1_FAIR_MULT * fairShare)))"

datatype construction_band = Well_built | Solid | Concentrated | Lopsided | Precarious

definition CBAND_WELLBUILT :: num where "CBAND_WELLBUILT = 85"
definition CBAND_SOLID :: num where "CBAND_SOLID = 70"
definition CBAND_CONCENTRATED :: num where "CBAND_CONCENTRATED = 55"
definition CBAND_LOPSIDED :: num where "CBAND_LOPSIDED = 40"

definition constructionBandOf :: "num \<Rightarrow> construction_band" where
  "constructionBandOf net =
    (if CBAND_WELLBUILT \<le> net then Well_built else if CBAND_SOLID \<le> net then Solid
     else if CBAND_CONCENTRATED \<le> net then Concentrated else if CBAND_LOPSIDED \<le> net then Lopsided
     else Precarious)"

subsection \<open>Holdings and their natures\<close>

datatype asset_class = Stock | Etf | Bond | Gsec | Sgb | Mutual_fund | Reit | Invit

datatype nature = Name_risk | Basket | Sovereign | Commodity

record entity_input =
  ei_symbol :: string
  ei_marketValue :: num
  ei_isin :: "string option"
  ei_assetClass :: "asset_class option"
  ei_category :: "string option"
  ei_sector :: "string option"
  ei_fundHouse :: "string option"
  ei_name :: "string option"

definition lower_char :: "char \<Rightarrow> char" where
  \<comment> \<open>letters of the Latin alphabet, as \<open>/i\<close> folds them\<close>
  "lower_char c = (if 65 \<le> (of_char c :: nat) \<and> (of_char c :: nat) \<le> 90 then char_of (of_char c + 32 :: nat) else c)"

definition word_char :: "char \<Rightarrow> bool" where
  "word_char c \<longleftrightarrow> (let n = (of_char c :: nat) in 48 \<le> n \<and> n \<le> 57 \<or> 65 \<le> n \<and> n \<le> 90 \<or> n = 95 \<or> 97 \<le> n \<and> n \<le> 122)"

fun has_word :: "string \<Rightarrow> bool \<Rightarrow> string \<Rightarrow> bool" where
  \<comment> \<open>\<open>/\bw\b/i\<close>, for a lower-case \<open>w\<close> that begins and ends with word characters; the flag tells whether
    the character before is one\<close>
  "has_word w prev [] = False"
| "has_word w prev (c # s) =
    (\<not> prev \<and> map lower_char (take (length w) (c # s)) = w \<and>
       (case drop (length w) (c # s) of [] \<Rightarrow> True | d # _ \<Rightarrow> \<not> word_char d)
     \<or> has_word w (word_char c) s)"

definition COMMODITY_CATEGORY :: "string \<Rightarrow> bool" where
  "COMMODITY_CATEGORY s \<longleftrightarrow> has_word ''gold'' False s \<or> has_word ''silver'' False s"

definition DEBT_CATEGORY :: "string \<Rightarrow> bool" where
  "DEBT_CATEGORY s \<longleftrightarrow> has_word ''debt scheme'' False s"

definition natureOf :: "asset_class option \<Rightarrow> string option \<Rightarrow> nature" where
  \<comment> \<open>\<open>None\<close> is the class \<open>unknown\<close>\<close>
  "natureOf assetClass category =
    (if assetClass \<in> {Some Stock, Some Bond, Some Reit, Some Invit} then Name_risk
     else if assetClass \<in> {Some Gsec, Some Sgb} then Sovereign
     else if assetClass = Some Etf \<and> (case category of None \<Rightarrow> False | Some c \<Rightarrow> COMMODITY_CATEGORY c) then Commodity
     else Basket)"

definition entityKeyOf :: "'a entity_input_scheme \<Rightarrow> string option" where
  "entityKeyOf h = (case (ei_assetClass h, ei_isin h) of
     (Some a, Some isin) \<Rightarrow>
       if natureOf (Some a) (ei_category h) \<noteq> Name_risk then None
       else if 7 \<le> length isin then Some (take 7 isin) else None
   | _ \<Rightarrow> None)"

definition share :: "(num \<Rightarrow> num) \<Rightarrow> num \<Rightarrow> num \<Rightarrow> num" where
  \<comment> \<open>\<open>totalValue > 0 ? v / totalValue : 0\<close>\<close>
  "share R v totalValue = (if 0 < totalValue then R (v / totalValue) else 0)"

subsection \<open>Ledgers\<close>

record basket_entry =
  be_isin :: string
  be_name :: string
  be_category :: "string option"
  be_fundHouse :: "string option"
  be_weight :: num

definition is_fund :: "'a entity_input_scheme \<Rightarrow> bool" where
  "is_fund h \<longleftrightarrow> natureOf (ei_assetClass h) (ei_category h) \<in> {Basket, Commodity}"

definition buildBasketLedger :: "(num \<Rightarrow> num) \<Rightarrow> 'a entity_input_scheme list \<Rightarrow> num \<Rightarrow> basket_entry list" where
  "buildBasketLedger R holdings totalValue =
    sort_key be_isin
      (map (\<lambda>h. \<lparr>be_isin = nullish (ei_isin h) (ei_symbol h), be_name = nullish (ei_name h) (ei_symbol h),
                 be_category = ei_category h, be_fundHouse = ei_fundHouse h,
                 be_weight = share R (ei_marketValue h) totalValue\<rparr>)
        (filter is_fund holdings))"

record entity_constituent =
  ec_symbol :: string
  ec_assetClass :: "asset_class option"
  ec_marketValue :: num

record entity_entry =
  ee_entityKey :: string
  ee_displayName :: string
  ee_weight :: num
  ee_constituents :: "entity_constituent list"
  ee_sector :: "string option"

definition displayNameFor :: "'a entity_input_scheme list \<Rightarrow> string" where
  "displayNameFor hs =
    (case find (\<lambda>h. ei_assetClass h = Some Stock) hs of Some h \<Rightarrow> ei_symbol h | None \<Rightarrow> ei_symbol (hd hs))"

definition by_entity :: "'a entity_input_scheme list \<Rightarrow> (string \<times> 'a entity_input_scheme list) list" where
  "by_entity holdings = foldl (\<lambda>m h. case entityKeyOf h of None \<Rightarrow> m
     | Some key \<Rightarrow> upsert key (\<lambda>g. nullish g [] @ [h]) m) [] holdings"

definition entity_entry_of :: "(num \<Rightarrow> num) \<Rightarrow> (string \<Rightarrow> rat) \<Rightarrow> num \<Rightarrow> string \<times> 'a entity_input_scheme list \<Rightarrow> entity_entry" where
  "entity_entry_of R coll totalValue kv = (case kv of (entityKey, hs) \<Rightarrow>
    \<lparr>ee_entityKey = entityKey, ee_displayName = displayNameFor hs,
     ee_weight = share R (rsum R ei_marketValue hs) totalValue,
     ee_constituents = sort_key (\<lambda>c. (coll (ec_symbol c), ec_marketValue c))
       (map (\<lambda>h. \<lparr>ec_symbol = ei_symbol h, ec_assetClass = ei_assetClass h, ec_marketValue = ei_marketValue h\<rparr>) hs),
     ee_sector = (case find (\<lambda>s. s \<noteq> None) (map ei_sector hs) of None \<Rightarrow> None | Some s \<Rightarrow> s)\<rparr>)"

definition buildEntityLedger :: "(num \<Rightarrow> num) \<Rightarrow> (string \<Rightarrow> rat) \<Rightarrow> 'a entity_input_scheme list \<Rightarrow> num \<Rightarrow> entity_entry list" where
  "buildEntityLedger R coll holdings totalValue =
    sort_key (\<lambda>e. coll (ee_entityKey e)) (map (entity_entry_of R coll totalValue) (by_entity holdings))"

subsection \<open>Exposures\<close>

record exposures =
  ex_nameRisk :: num
  ex_basket :: num
  ex_debt :: num
  ex_commodity :: num

definition is_debt :: "'a entity_input_scheme \<Rightarrow> bool" where
  "is_debt h \<longleftrightarrow> ei_assetClass h \<in> {Some Bond, Some Gsec} \<or>
     ei_assetClass h \<in> {Some Mutual_fund, Some Etf} \<and> DEBT_CATEGORY (nullish (ei_category h) [])"

definition add_exposure :: "(num \<Rightarrow> num) \<Rightarrow> num \<Rightarrow> exposures \<Rightarrow> 'a entity_input_scheme \<Rightarrow> exposures" where
  "add_exposure R totalValue e h =
    (let w = share R (ei_marketValue h) totalValue; nat = natureOf (ei_assetClass h) (ei_category h);
         e = (if nat = Name_risk then e\<lparr>ex_nameRisk := R (ex_nameRisk e + w)\<rparr>
              else if nat = Basket then e\<lparr>ex_basket := R (ex_basket e + w)\<rparr> else e);
         e = (if is_debt h then e\<lparr>ex_debt := R (ex_debt e + w)\<rparr> else e)
     in if nat = Commodity \<or> ei_assetClass h = Some Sgb then e\<lparr>ex_commodity := R (ex_commodity e + w)\<rparr> else e)"

definition buildExposures :: "(num \<Rightarrow> num) \<Rightarrow> 'a entity_input_scheme list \<Rightarrow> num \<Rightarrow> exposures" where
  "buildExposures R holdings totalValue =
    foldl (add_exposure R totalValue) \<lparr>ex_nameRisk = 0, ex_basket = 0, ex_debt = 0, ex_commodity = 0\<rparr> holdings"

record sleeves =
  sl_nameRisk :: num
  sl_basket :: num

definition sleevesOf :: "exposures \<Rightarrow> sleeves" where
  "sleevesOf e = \<lparr>sl_nameRisk = ex_nameRisk e, sl_basket = ex_basket e\<rparr>"

definition buildSleeves :: "(num \<Rightarrow> num) \<Rightarrow> 'a entity_input_scheme list \<Rightarrow> num \<Rightarrow> sleeves" where
  "buildSleeves R holdings totalValue = sleevesOf (buildExposures R holdings totalValue)"

datatype archetype = Income_led | Commodity_led | Stock_led | Fund_led | Blended

definition archetypeOf :: "(num \<Rightarrow> num) \<Rightarrow> exposures \<Rightarrow> archetype" where
  "archetypeOf R e =
    (if ARCHETYPE_DEBT_MIN \<le> ex_debt e then Income_led
     else if ARCHETYPE_COMMODITY_MIN \<le> ex_commodity e then Commodity_led
     else if ARCHETYPE_NAMERISK_MIN R \<le> ex_nameRisk e then Stock_led
     else if ARCHETYPE_BASKET_MIN R \<le> ex_basket e then Fund_led else Blended)"

subsection \<open>Sector resolution\<close>

datatype sector_state = Resolved | Unknown | Not_applicable

datatype phs_error = Sector_without_class string

definition sectorStateOf :: "asset_class option \<Rightarrow> string option \<Rightarrow> (phs_error, sector_state) result" where
  "sectorStateOf assetClass sector =
    (case (assetClass, sector) of
       (None, Some s) \<Rightarrow> Inl (Sector_without_class s)
     | _ \<Rightarrow> Inr (if assetClass = Some Stock then (if sector \<noteq> None then Resolved else Unknown)
                 else if assetClass = Some Bond then (if sector \<noteq> None then Resolved else Not_applicable)
                 else Not_applicable))"

record sector_acc =
  sa_resolvedValue :: num
  sa_unknownValue :: num
  sa_resolved :: nat
  sa_unknown :: nat
  sa_notApplicable :: nat
  sa_bySector :: "(string \<times> num) list"

record sector_resolution =
  sr_sectoredShare :: num
  sr_unknownRatio :: num
  sr_sectorableValue :: num
  sr_unknownSectorValue :: num
  sr_gateOpen :: bool
  sr_counts :: "nat \<times> nat \<times> nat"
  sr_sectorWeights :: "(string \<times> num) list"

definition add_sector :: "(num \<Rightarrow> num) \<Rightarrow> 'a entity_input_scheme \<Rightarrow> sector_acc \<Rightarrow> (phs_error, sector_acc) result" where
  "add_sector R h a = bindR (sectorStateOf (ei_assetClass h) (ei_sector h)) (\<lambda>st. Inr (case st of
     Resolved \<Rightarrow> a\<lparr>sa_resolvedValue := R (sa_resolvedValue a + ei_marketValue h), sa_resolved := sa_resolved a + 1,
        sa_bySector := upsert (nullish (ei_sector h) []) (\<lambda>v. R (nullish v 0 + ei_marketValue h)) (sa_bySector a)\<rparr>
   | Unknown \<Rightarrow> a\<lparr>sa_unknownValue := R (sa_unknownValue a + ei_marketValue h), sa_unknown := sa_unknown a + 1\<rparr>
   | Not_applicable \<Rightarrow> a\<lparr>sa_notApplicable := sa_notApplicable a + 1\<rparr>))"

definition buildSectorResolution :: "(num \<Rightarrow> num) \<Rightarrow> (string \<Rightarrow> rat) \<Rightarrow> 'a entity_input_scheme list \<Rightarrow> num \<Rightarrow>
    (phs_error, sector_resolution) result" where
  "buildSectorResolution R coll holdings totalValue =
    bindR (runR (add_sector R) holdings
        \<lparr>sa_resolvedValue = 0, sa_unknownValue = 0, sa_resolved = 0, sa_unknown = 0, sa_notApplicable = 0, sa_bySector = []\<rparr>)
      (\<lambda>a. let sectorableValue = R (sa_resolvedValue a + sa_unknownValue a);
               unknownRatio = (if 0 < sectorableValue then R (sa_unknownValue a / sectorableValue) else 0);
               sectorWeights = sort_key (\<lambda>p. coll (fst p)) (map (\<lambda>(sector, v). (sector, share R v totalValue)) (sa_bySector a))
           in Inr \<lparr>sr_sectoredShare = share R (sa_resolvedValue a) totalValue, sr_unknownRatio = unknownRatio,
                   sr_sectorableValue = sectorableValue, sr_unknownSectorValue = sa_unknownValue a,
                   sr_gateOpen = (unknownRatio \<le> C3_UNKNOWN_KILL),
                   sr_counts = (sa_resolved a, sa_unknown a, sa_notApplicable a), sr_sectorWeights = sectorWeights\<rparr>)"

subsection \<open>The construction rules\<close>

datatype rule = C1 | C2 | C3 | C4 | C5 | C6

datatype fired_subject =
    Fired_entity string num | Fired_sector string num | Fired_house string num | Fired_breadth | Fired_count nat

record c_metrics =
  cm_neff :: "num option"
  cm_target :: "num option"
  cm_neffUnit :: "num option"
  cm_houseUnknown :: "num option"
  cm_maxSectorPct :: "num option"
  cm_maxSectorName :: "string option"
  cm_maxHousePct :: "num option"
  cm_maxHouseName :: "string option"

definition no_metrics :: c_metrics where
  "no_metrics = \<lparr>cm_neff = None, cm_target = None, cm_neffUnit = None, cm_houseUnknown = None,
     cm_maxSectorPct = None, cm_maxSectorName = None, cm_maxHousePct = None, cm_maxHouseName = None\<rparr>"

record c_deduction =
  cd_rule :: rule
  cd_evaluable :: bool
  cd_points :: num
  cd_subjectShare :: num
  cd_firedSubject :: "fired_subject option"
  cd_metrics :: "c_metrics option"

definition c1_step :: "(num \<Rightarrow> num) \<Rightarrow> num \<Rightarrow> num \<times> entity_entry option \<Rightarrow> entity_entry \<Rightarrow> num \<times> entity_entry option" where
  "c1_step R threshold st e = (case st of (s, best) \<Rightarrow>
    (let pct = R (ee_weight e * 100)
     in if threshold < pct
        then (R (s + R (C1_RATE * R (pct - threshold))),
              (case best of None \<Rightarrow> Some e | Some t \<Rightarrow> if ee_weight t < ee_weight e then Some e else best))
        else (s, best)))"

definition c1Of :: "(num \<Rightarrow> num) \<Rightarrow> entity_entry list \<Rightarrow> nat \<Rightarrow> num \<Rightarrow> c_deduction" where
  "c1Of R entityLedger positionCount nameRiskShare =
    (if entityLedger = []
     then \<lparr>cd_rule = C1, cd_evaluable = False, cd_points = 0, cd_subjectShare = 0, cd_firedSubject = None, cd_metrics = None\<rparr>
     else (let fairShare = (if 0 < positionCount then R (100 / of_nat positionCount) else 0);
               threshold = max C1_FLOOR (R (C1_FAIR_MULT * fairShare))
           in case foldl (c1_step R threshold) (0, None) entityLedger of (s, best) \<Rightarrow>
              \<lparr>cd_rule = C1, cd_evaluable = True, cd_points = min s C1_TOTAL_CAP, cd_subjectShare = nameRiskShare,
               cd_firedSubject = map_option (\<lambda>t. Fired_entity (ee_displayName t) (ee_weight t)) best, cd_metrics = None\<rparr>))"

definition neff :: "(num \<Rightarrow> num) \<Rightarrow> num \<Rightarrow> num list \<Rightarrow> num" where
  \<comment> \<open>the effective number of parts of a share: 1 over the sum of the squared renormalised weights\<close>
  "neff R whole ws =
    (let sumW2 = rsum R (\<lambda>w. R (R (w / whole) * R (w / whole))) ws in if 0 < sumW2 then R (1 / sumW2) else 0)"

definition c2Of :: "(num \<Rightarrow> num) \<Rightarrow> entity_entry list \<Rightarrow> num \<Rightarrow> c_deduction" where
  "c2Of R entityLedger nameRiskShare =
    (if nameRiskShare \<le> 0 \<or> entityLedger = []
     then \<lparr>cd_rule = C2, cd_evaluable = False, cd_points = 0, cd_subjectShare = 0, cd_firedSubject = None, cd_metrics = None\<rparr>
     else (let n = neff R nameRiskShare (map ee_weight entityLedger);
               metrics = Some (no_metrics\<lparr>cm_neff := Some n, cm_target := Some C2_TARGET\<rparr>)
           in if C2_TARGET \<le> n
              then \<lparr>cd_rule = C2, cd_evaluable = True, cd_points = 0, cd_subjectShare = nameRiskShare,
                    cd_firedSubject = None, cd_metrics = metrics\<rparr>
              else \<lparr>cd_rule = C2, cd_evaluable = True, cd_points = R (R (C2_RATE * R (C2_TARGET - n)) * nameRiskShare),
                    cd_subjectShare = nameRiskShare, cd_firedSubject = Some Fired_breadth, cd_metrics = metrics\<rparr>))"

definition grossOf :: "(num \<Rightarrow> num) \<Rightarrow> c_deduction \<Rightarrow> c_deduction \<Rightarrow> num" where
  "grossOf R c1 c2 = max 0 (R (R (100 - cd_points c1) - cd_points c2))"

definition top_pct :: "(num \<Rightarrow> num) \<Rightarrow> (string \<times> num) list \<Rightarrow> num \<times> string" where
  \<comment> \<open>the largest weight in percent and its name, the first of equals\<close>
  "top_pct R ws = foldl (\<lambda>(maxPct, maxName) (name, w).
     let p = R (w * 100) in if maxPct < p then (p, name) else (maxPct, maxName)) (0, []) ws"

definition c3Of :: "(num \<Rightarrow> num) \<Rightarrow> sector_resolution \<Rightarrow> c_deduction" where
  "c3Of R sectors = (case top_pct R (sr_sectorWeights sectors) of (maxPct, maxName) \<Rightarrow>
    (let metrics = Some (no_metrics\<lparr>cm_maxSectorPct := Some maxPct, cm_maxSectorName := Some maxName\<rparr>);
         base = \<lparr>cd_rule = C3, cd_evaluable = True, cd_points = 0, cd_subjectShare = sr_sectoredShare sectors,
                 cd_firedSubject = None, cd_metrics = metrics\<rparr>
     in if sr_sectorWeights sectors = [] then base\<lparr>cd_evaluable := False, cd_metrics := None\<rparr>
        else if \<not> sr_gateOpen sectors then base\<lparr>cd_evaluable := False\<rparr>
        else if maxPct \<le> C3_THRESH then base
        else base\<lparr>cd_points := min (R (C3_RATE R * R (maxPct - C3_THRESH))) C3_CAP,
                  cd_firedSubject := Some (Fired_sector maxName (R (maxPct / 100)))\<rparr>))"

definition c4Of :: "(num \<Rightarrow> num) \<Rightarrow> entity_entry list \<Rightarrow> sector_resolution \<Rightarrow> c_deduction" where
  "c4Of R entityLedger sectors =
    (let sectoredShare = sr_sectoredShare sectors;
         base = \<lparr>cd_rule = C4, cd_evaluable = True, cd_points = 0, cd_subjectShare = sectoredShare,
                 cd_firedSubject = None, cd_metrics = None\<rparr>
     in if sectoredShare \<le> 0 \<or> sr_sectorWeights sectors = [] then base\<lparr>cd_evaluable := False\<rparr>
        else if \<not> sr_gateOpen sectors then base\<lparr>cd_evaluable := False\<rparr>
        else (let neffUnit = neff R sectoredShare (map ee_weight (filter (\<lambda>e. ee_sector e \<noteq> None) entityLedger));
                  neffSector = neff R sectoredShare (map snd (sr_sectorWeights sectors));
                  target = min C4_TARGET neffUnit;
                  metrics = Some (no_metrics\<lparr>cm_neff := Some neffSector, cm_target := Some target, cm_neffUnit := Some neffUnit\<rparr>)
              in if target \<le> neffSector then base\<lparr>cd_metrics := metrics\<rparr>
                 else base\<lparr>cd_points := R (min (R (C4_RATE * R (target - neffSector))) C4_CAP * sectoredShare),
                           cd_firedSubject := Some Fired_breadth, cd_metrics := metrics\<rparr>))"

record house_acc =
  ha_fundShare :: num
  ha_unknown :: num
  ha_byHouse :: "(string \<times> num) list"

definition add_house :: "(num \<Rightarrow> num) \<Rightarrow> num \<Rightarrow> house_acc \<Rightarrow> 'a entity_input_scheme \<Rightarrow> house_acc" where
  "add_house R totalValue a h =
    (if \<not> is_fund h then a
     else (let w = share R (ei_marketValue h) totalValue; a = a\<lparr>ha_fundShare := R (ha_fundShare a + w)\<rparr>
           in case ei_fundHouse h of
                None \<Rightarrow> a\<lparr>ha_unknown := R (ha_unknown a + w)\<rparr>
              | Some house \<Rightarrow> a\<lparr>ha_byHouse := upsert house (\<lambda>v. R (nullish v 0 + w)) (ha_byHouse a)\<rparr>))"

definition c5Of :: "(num \<Rightarrow> num) \<Rightarrow> 'a entity_input_scheme list \<Rightarrow> num \<Rightarrow> c_deduction" where
  "c5Of R holdings totalValue =
    (let a = foldl (add_house R totalValue) \<lparr>ha_fundShare = 0, ha_unknown = 0, ha_byHouse = []\<rparr> holdings;
         fundShare = ha_fundShare a
     in if fundShare \<le> 0
        then \<lparr>cd_rule = C5, cd_evaluable = False, cd_points = 0, cd_subjectShare = 0, cd_firedSubject = None, cd_metrics = None\<rparr>
        else (case top_pct R (ha_byHouse a) of (maxPct, maxHouse) \<Rightarrow>
          (let base = \<lparr>cd_rule = C5, cd_evaluable = True, cd_points = 0, cd_subjectShare = fundShare, cd_firedSubject = None,
                 cd_metrics = Some (no_metrics\<lparr>cm_houseUnknown := Some (ha_unknown a), cm_maxHousePct := Some maxPct,
                   cm_maxHouseName := Some maxHouse\<rparr>)\<rparr>
           in if R (C5_HOUSE_UNKNOWN_KILL * fundShare) < ha_unknown a then base\<lparr>cd_evaluable := False\<rparr>
              else if maxPct \<le> C5_THRESH then base
              else base\<lparr>cd_points := min (R (C5_RATE R * R (maxPct - C5_THRESH))) C5_CAP,
                        cd_firedSubject := Some (Fired_house maxHouse (R (maxPct / 100)))\<rparr>)))"

definition c6Of :: "(num \<Rightarrow> num) \<Rightarrow> nat \<Rightarrow> c_deduction" where
  "c6Of R positionCount =
    (let base = \<lparr>cd_rule = C6, cd_evaluable = True, cd_points = 0, cd_subjectShare = 1, cd_firedSubject = None, cd_metrics = None\<rparr>
     in if positionCount \<le> C6_THRESH then base
        else base\<lparr>cd_points := min (R (C6_RATE * of_nat (positionCount - C6_THRESH))) C6_CAP,
                  cd_firedSubject := Some (Fired_count positionCount)\<rparr>)"

definition netOf :: "(num \<Rightarrow> num) \<Rightarrow> num \<Rightarrow> c_deduction \<Rightarrow> c_deduction \<Rightarrow> c_deduction \<Rightarrow> c_deduction \<Rightarrow> num" where
  "netOf R gross c3 c4 c5 c6 =
    max 0 (R (R (R (R (gross - cd_points c3) - cd_points c4) - cd_points c5) - cd_points c6))"

record gross_result =
  gr_value :: num
  gr_c1 :: c_deduction
  gr_c2 :: c_deduction

record construction_result =
  cr_gross :: gross_result
  cr_c3 :: c_deduction
  cr_c4 :: c_deduction
  cr_c5 :: c_deduction
  cr_c6 :: c_deduction
  cr_net :: num
  cr_archetype :: archetype
  cr_exposures :: exposures

record construction_data =
  cdt_gross :: num
  cdt_net :: num
  cdt_archetype :: archetype
  cdt_exposures :: exposures
  cdt_rules :: "c_deduction list"
  cdt_entities :: "entity_entry list"
  cdt_baskets :: "basket_entry list"
  cdt_neff_entity :: "num option"
  cdt_neff_unitSectored :: "num option"
  cdt_neff_sector :: "num option"
  cdt_unknownSectorRatio :: num
  cdt_houseUnknown :: "num option"
  cdt_holdingCount :: nat
  cdt_scoredCount :: nat

definition constructionDataOf :: "construction_result \<Rightarrow> entity_entry list \<Rightarrow> basket_entry list \<Rightarrow> sector_resolution \<Rightarrow>
    nat \<Rightarrow> nat \<Rightarrow> construction_data" where
  "constructionDataOf c entities baskets sectors holdingCount scoredCount =
    (let rules = [gr_c1 (cr_gross c), gr_c2 (cr_gross c), cr_c3 c, cr_c4 c, cr_c5 c, cr_c6 c];
         m = (\<lambda>r. Option.bind (find (\<lambda>d. cd_rule d = r) rules) cd_metrics)
     in \<lparr>cdt_gross = gr_value (cr_gross c), cdt_net = cr_net c, cdt_archetype = cr_archetype c,
         cdt_exposures = cr_exposures c, cdt_rules = rules, cdt_entities = entities, cdt_baskets = baskets,
         cdt_neff_entity = Option.bind (m C2) cm_neff, cdt_neff_unitSectored = Option.bind (m C4) cm_neffUnit,
         cdt_neff_sector = Option.bind (m C4) cm_neff, cdt_unknownSectorRatio = sr_unknownRatio sectors,
         cdt_houseUnknown = Option.bind (m C5) cm_houseUnknown, cdt_holdingCount = holdingCount,
         cdt_scoredCount = scoredCount\<rparr>)"

end
