(* ===== verification/PhsEngine.thy ===== *)
theory PhsEngine
  imports PhsEntity
begin

text \<open>
  The health of a portfolio, \<open>src/portfolio/phs/engine.ts\<close>: quality over the scored holdings, the
  signals deduction, the pillar and lens profiles, and the assembly of one portfolio's result with the
  construction of \<open>PhsEntity\<close>.
\<close>

subsection \<open>Constants\<close>

definition W_SIGNAL :: "(num \<Rightarrow> num) \<Rightarrow> num" where "W_SIGNAL R = R (1 / 5)"
definition SIG_DISTRESS :: num where "SIG_DISTRESS = 120"
definition SIG_CRIT :: num where "SIG_CRIT = 150"
definition SIG_HIGH :: num where "SIG_HIGH = 80"
definition SIG_MED :: num where "SIG_MED = 30"
definition SIG_LP5 :: num where "SIG_LP5 = 50"
definition SIG_LP6 :: num where "SIG_LP6 = 30"
definition SIG_HOLDING_CAP :: num where "SIG_HOLDING_CAP = 200"
definition PROVISIONAL_BELOW :: "(num \<Rightarrow> num) \<Rightarrow> num" where "PROVISIONAL_BELOW R = R (2 / 5)"
definition CAPITAL_TIER_MODEST_MAX :: num where "CAPITAL_TIER_MODEST_MAX = 200000"
definition CAPITAL_TIER_SUBSTANTIAL_MIN :: num where "CAPITAL_TIER_SUBSTANTIAL_MIN = 1500000"
definition BAND_STRONG :: int where "BAND_STRONG = 80"
definition BAND_STEADY :: int where "BAND_STEADY = 65"
definition BAND_MIXED :: int where "BAND_MIXED = 50"
definition BAND_FRAGILE :: int where "BAND_FRAGILE = 35"

datatype lens_nature = Absolute | Peer | Trend

definition LENS_NATURE :: "string \<Rightarrow> lens_nature option" where
  "LENS_NATURE = map_of
    [(''LM1'', Absolute), (''LM7'', Absolute), (''LM8'', Absolute), (''LP1'', Absolute),
     (''LM3'', Peer), (''LM4'', Peer), (''LM6'', Peer), (''LP2'', Peer), (''LP3'', Peer),
     (''LM2'', Trend), (''LM5'', Trend), (''LP4'', Trend), (''LP5'', Trend), (''LP6'', Trend)]"

datatype capital_tier = Modest | Moderate | Substantial

definition capitalTierOf :: "num \<Rightarrow> capital_tier" where
  "capitalTierOf totalValue = (if CAPITAL_TIER_SUBSTANTIAL_MIN < totalValue then Substantial
     else if CAPITAL_TIER_MODEST_MAX \<le> totalValue then Moderate else Modest)"

datatype health_band = Strong | Steady | Mixed | Fragile | Weak

definition bandOf :: "int \<Rightarrow> health_band" where
  "bandOf health = (if BAND_STRONG \<le> health then Strong else if BAND_STEADY \<le> health then Steady
     else if BAND_MIXED \<le> health then Mixed else if BAND_FRAGILE \<le> health then Fragile else Weak)"

definition sampleStdDev :: "(num \<Rightarrow> num) \<Rightarrow> num list \<Rightarrow> num option" where
  "sampleStdDev R xs =
    (if length xs < 2 then None
     else (let mean = R (rsum R (\<lambda>x. x) xs / of_nat (length xs));
               ss = rsum R (\<lambda>b. R (R (b - mean) * R (b - mean))) xs
           in Some (js_sqrt (R (ss / of_nat (length xs - 1))))))"

subsection \<open>Holdings\<close>

datatype mcap_tier = Large | Mid | Small | Tier_unknown

datatype bucket = Scored | Recognized_unscored | Small_unscored

datatype finding_kind = Distress | Critical | High | Medium | Lp5 | Lp6

record holding_finding =
  hf_kind :: finding_kind
  hf_flagKey :: "string option"
  hf_title :: "string option"
  hf_read :: "string option"

record pillar_subtotals =
  ps_foundation :: num
  ps_momentum :: num
  ps_market :: num
  ps_ownership :: num

record lens_profile =
  lp_absolute :: num
  lp_peer :: num
  lp_trend :: num

record phs_holding = entity_input +
  ph_tier :: mcap_tier
  ph_health :: "num option"
  ph_findings :: "holding_finding list"
  ph_pillars :: "pillar_subtotals option"
  ph_lensNatures :: "lens_nature list"

definition bucketOf :: "phs_holding \<Rightarrow> bucket" where
  "bucketOf h = (if ph_health h \<noteq> None then Scored
     else if ph_tier h = Large \<or> ph_tier h = Mid then Recognized_unscored else Small_unscored)"

definition weight_of :: "(num \<Rightarrow> num) \<Rightarrow> num \<Rightarrow> phs_holding \<Rightarrow> num" where
  \<comment> \<open>the element of \<open>w\<close> that belongs to the holding\<close>
  "weight_of R totalValue h = share R (ei_marketValue h) totalValue"

subsection \<open>Signals\<close>

record signals_deduction =
  sd_symbol :: string
  sd_weight :: num
  sd_bookWeight :: num
  sd_source :: finding_kind
  sd_points :: num
  sd_flagKey :: "string option"
  sd_title :: "string option"
  sd_read :: "string option"

fun HEADLINE :: "finding_kind \<Rightarrow> num option" where
  "HEADLINE Distress = Some SIG_DISTRESS"
| "HEADLINE Critical = Some SIG_CRIT"
| "HEADLINE High = Some SIG_HIGH"
| "HEADLINE Medium = Some SIG_MED"
| "HEADLINE _ = None"

fun BREADTH :: "finding_kind \<Rightarrow> num option" where
  "BREADTH Lp5 = Some SIG_LP5"
| "BREADTH Lp6 = Some SIG_LP6"
| "BREADTH _ = None"

definition candidates :: "holding_finding list \<Rightarrow> (holding_finding \<times> num) list" where
  "candidates fs =
    (let hasHeadline = list_ex (\<lambda>f. HEADLINE (hf_kind f) \<noteq> None) fs
     in List.map_filter (\<lambda>f. case HEADLINE (hf_kind f) of
            Some b \<Rightarrow> Some (f, b)
          | None \<Rightarrow> if hasHeadline then None else map_option (\<lambda>b. (f, b)) (BREADTH (hf_kind f))) fs)"

fun winner :: "(holding_finding \<times> num) list \<Rightarrow> holding_finding \<times> num" where
  \<comment> \<open>\<open>reduce\<close> keeping the first of the largest; only called on a non-empty list\<close>
  "winner (c # cs) = foldl (\<lambda>a b. if snd a < snd b then b else a) c cs"
| "winner [] = (\<lparr>hf_kind = Lp6, hf_flagKey = None, hf_title = None, hf_read = None\<rparr>, 0)"

definition deduction_of :: "(num \<Rightarrow> num) \<Rightarrow> num \<Rightarrow> num \<Rightarrow> phs_holding \<Rightarrow> signals_deduction option" where
  "deduction_of R totalValue sumWSignals h =
    (if candidates (ph_findings h) = [] then None
     else (case winner (candidates (ph_findings h)) of (f, base) \<Rightarrow>
       (let w = weight_of R totalValue h;
            wSig = (if 0 < sumWSignals then R (w / sumWSignals) else 0)
        in Some \<lparr>sd_symbol = ei_symbol h, sd_weight = wSig, sd_bookWeight = w, sd_source = hf_kind f,
             sd_points = min (R (base * wSig)) (R (SIG_HOLDING_CAP * wSig)),
             sd_flagKey = hf_flagKey f, sd_title = hf_title f, sd_read = hf_read f\<rparr>)))"

subsection \<open>Profiles\<close>

definition computePillarProfile :: "(num \<Rightarrow> num) \<Rightarrow> phs_holding list \<Rightarrow> num \<Rightarrow> pillar_subtotals option" where
  "computePillarProfile R holdings totalValue =
    (let ws = List.map_filter (\<lambda>h. if bucketOf h = Scored
                then map_option (\<lambda>p. (weight_of R totalValue h, p)) (ph_pillars h) else None) holdings;
         total = (\<lambda>f. rsum R (\<lambda>(w, p). R (w * f p)) ws); wp = rsum R fst ws
     in if wp \<le> 0 then None
        else Some \<lparr>ps_foundation = R (total ps_foundation / wp), ps_momentum = R (total ps_momentum / wp),
                   ps_market = R (total ps_market / wp), ps_ownership = R (total ps_ownership / wp)\<rparr>)"

definition computeLensProfile :: "(num \<Rightarrow> num) \<Rightarrow> phs_holding list \<Rightarrow> num \<Rightarrow> lens_profile option" where
  "computeLensProfile R holdings totalValue =
    (let ns = concat (map (\<lambda>h. if bucketOf h = Scored then map (\<lambda>n. (weight_of R totalValue h, n)) (ph_lensNatures h) else [])
                holdings);
         total = (\<lambda>n. rsum R fst (filter (\<lambda>(w, m). m = n) ns));
         a = total Absolute; p = total Peer; t = total Trend; all = R (R (a + p) + t)
     in if all \<le> 0 then None
        else Some \<lparr>lp_absolute = R (a / all), lp_peer = R (p / all), lp_trend = R (t / all)\<rparr>)"

subsection \<open>One portfolio\<close>

record phs_result =
  pr_evaluable :: bool
  pr_health :: "int option"
  pr_band :: "health_band option"
  pr_provisional :: bool
  pr_quality :: "num option"
  pr_signals :: num
  pr_coverage :: num
  pr_totalValue :: num
  pr_scoredValue :: num
  pr_recognizedUnscoredValue :: num
  pr_smallUnscoredValue :: num
  pr_signalsLedger :: "signals_deduction list"
  pr_pillarProfile :: "pillar_subtotals option"
  pr_lensProfile :: "lens_profile option"
  pr_capitalTier :: capital_tier
  pr_entityLedger :: "entity_entry list"
  pr_basketLedger :: "basket_entry list"
  pr_sleeves :: sleeves
  pr_gross :: gross_result
  pr_sectors :: sector_resolution
  pr_construction :: construction_result

definition in_bucket :: "bucket \<Rightarrow> phs_holding list \<Rightarrow> phs_holding list" where
  "in_bucket b = filter (\<lambda>h. bucketOf h = b)"

definition construction_of :: "(num \<Rightarrow> num) \<Rightarrow> (string \<Rightarrow> rat) \<Rightarrow> phs_holding list \<Rightarrow> num \<Rightarrow> sector_resolution \<Rightarrow> construction_result" where
  "construction_of R coll holdings totalValue sectors =
    (let entityLedger = buildEntityLedger R coll holdings totalValue;
         exposures = buildExposures R holdings totalValue; sleeves = sleevesOf exposures;
         c1 = c1Of R entityLedger (length holdings) (sl_nameRisk sleeves);
         c2 = c2Of R entityLedger (sl_nameRisk sleeves);
         gross = grossOf R c1 c2;
         c3 = c3Of R sectors; c4 = c4Of R entityLedger sectors; c5 = c5Of R holdings totalValue;
         c6 = c6Of R (length holdings)
     in \<lparr>cr_gross = \<lparr>gr_value = gross, gr_c1 = c1, gr_c2 = c2\<rparr>, cr_c3 = c3, cr_c4 = c4, cr_c5 = c5, cr_c6 = c6,
         cr_net = netOf R gross c3 c4 c5 c6, cr_archetype = archetypeOf R exposures, cr_exposures = exposures\<rparr>)"

definition computePhs :: "(num \<Rightarrow> num) \<Rightarrow> (string \<Rightarrow> rat) \<Rightarrow> phs_holding list \<Rightarrow> (phs_error, phs_result) result" where
  "computePhs R coll holdings =
    (let totalValue = rsum R ei_marketValue holdings;
         w = weight_of R totalValue;
         value_in = (\<lambda>b. rsum R ei_marketValue (in_bucket b holdings));
         scoredValue = value_in Scored;
         coverage = share R scoredValue totalValue;
         scored = in_bucket Scored holdings;
         sumWScored = rsum R w scored;
         evaluable = (0 < sumWScored);
         quality = (if evaluable then Some (R (rsum R (\<lambda>h. R (w h * nullish (ph_health h) 0)) scored / sumWScored)) else None);
         sumWSignals = rsum R w (filter (\<lambda>h. ei_assetClass h = Some Stock) holdings);
         signalsLedger = List.map_filter (deduction_of R totalValue sumWSignals) holdings;
         signalsDed = rsum R sd_points signalsLedger;
         signals = max 0 (R (100 - signalsDed));
         pillarProfile = computePillarProfile R holdings totalValue;
         lensProfile = computeLensProfile R holdings totalValue;
         entityLedger = buildEntityLedger R coll holdings totalValue;
         basketLedger = buildBasketLedger R holdings totalValue
     in bindR (buildSectorResolution R coll holdings totalValue) (\<lambda>sectors.
        let construction = construction_of R coll holdings totalValue sectors;
            base = \<lparr>pr_evaluable = False, pr_health = None, pr_band = None, pr_provisional = False, pr_quality = None,
                    pr_signals = signals, pr_coverage = coverage, pr_totalValue = totalValue, pr_scoredValue = scoredValue,
                    pr_recognizedUnscoredValue = value_in Recognized_unscored,
                    pr_smallUnscoredValue = value_in Small_unscored, pr_signalsLedger = signalsLedger,
                    pr_pillarProfile = None, pr_lensProfile = None, pr_capitalTier = capitalTierOf totalValue,
                    pr_entityLedger = entityLedger, pr_basketLedger = basketLedger,
                    pr_sleeves = sleevesOf (cr_exposures construction), pr_gross = cr_gross construction,
                    pr_sectors = sectors, pr_construction = construction\<rparr>
        in case quality of None \<Rightarrow> Inr base
           | Some q \<Rightarrow> (let health = js_round (max 0 (R (q - R (W_SIGNAL R * R (100 - signals)))))
              in Inr (base\<lparr>pr_evaluable := True, pr_health := Some health, pr_band := Some (bandOf health),
                   pr_provisional := (coverage < PROVISIONAL_BELOW R), pr_quality := Some q,
                   pr_pillarProfile := pillarProfile, pr_lensProfile := lensProfile\<rparr>))))"

subsection \<open>Rounded sums\<close>

context rounding
begin

lemma share_nonneg: "0 \<le> v \<Longrightarrow> 0 \<le> share R v t"
  by (simp add: share_def nonneg)

lemma share_le_one: "v \<le> t \<Longrightarrow> share R v t \<le> 1"
  by (simp add: share_def le_one)

text \<open>
  A weighted sum of numbers up to \<open>c\<close> is at most \<open>c\<close> times the sum of the weights, up to one relative
  rounding error per operation.
\<close>

lemma weighted_sum_le:
  assumes "\<And>x. x \<in> set xs \<Longrightarrow> 0 \<le> w x \<and> h x \<le> c" and c: "0 \<le> c"
  shows "rsum R (\<lambda>x. R (w x * h x)) xs \<le>
    c * (1 + 1 / 2 ^ 53) * ((1 + 1 / 2 ^ 53) / (1 - 1 / 2 ^ 53)) ^ length xs * rsum R w xs"
  using assms(1)
proof (induction xs rule: rev_induct)
  case (snoc x xs)
  define u :: rat where "u = 1 / 2 ^ 53"
  have u: "0 < u" "u < 1" by (simp_all add: u_def)
  define r where "r = (1 + u) / (1 - u)"
  have r1: "1 \<le> r" using u by (simp add: r_def le_divide_eq)
  then have rn: "1 \<le> r ^ length xs" by simp
  let ?S = "rsum R (\<lambda>x. R (w x * h x)) xs" and ?W = "rsum R w xs"
  have W: "0 \<le> ?W" by (rule rsum_nonneg) (use snoc.prems in simp)
  have x: "0 \<le> w x" "h x \<le> c" using snoc.prems by simp_all
  have ih: "?S \<le> c * (1 + u) * r ^ length xs * ?W"
    using snoc unfolding u_def r_def by simp
  have "R (w x * h x) \<le> R (w x * c)" using x by (intro mono mult_left_mono)
  also have "\<dots> \<le> (1 + u) * (w x * c)" using err_up[of "w x * c"] x c by (simp add: u_def)
  also have "\<dots> \<le> c * (1 + u) * r ^ length xs * w x"
    using rn x c u mult_left_mono[of 1 "r ^ length xs" "c * (1 + u) * w x"] by (simp add: algebra_simps)
  finally have t: "?S + R (w x * h x) \<le> c * (1 + u) * r ^ length xs * (?W + w x)"
    using ih by (simp add: distrib_left)
  have nn: "0 \<le> c * (1 + u) * r ^ length xs * (?W + w x)" using c u rn W x by simp
  have "R (?S + R (w x * h x)) \<le> R (c * (1 + u) * r ^ length xs * (?W + w x))" by (rule mono[OF t])
  also have "\<dots> \<le> (1 + u) * (c * (1 + u) * r ^ length xs * (?W + w x))"
    using err_up[OF nn] by (simp add: u_def)
  also have "\<dots> = c * (1 + u) * r ^ Suc (length xs) * ((1 - u) * (?W + w x))"
    using u by (simp add: r_def field_simps)
  also have "\<dots> \<le> c * (1 + u) * r ^ Suc (length xs) * R (?W + w x)"
    using err_down[of "?W + w x"] W x c u r1 by (intro mult_left_mono) (simp_all add: u_def)
  finally show ?case unfolding u_def r_def by (simp add: rsum_snoc)
qed simp

lemma rounding_drift:
  assumes "n \<le> 1000000"
  shows "(1 + 1 / 2 ^ 53) * ((1 + 1 / 2 ^ 53) * ((1 + 1 / 2 ^ 53) / (1 - 1 / 2 ^ 53)) ^ n) \<le> (1 + 1 / 1000 :: rat)"
proof -
  define x :: rat where "x = 3 / 2 ^ 53"
  have "(1 + 1 / 2 ^ 53) / (1 - 1 / 2 ^ 53) \<le> (1 + x :: rat)" by (simp add: x_def field_simps)
  then have p: "((1 + 1 / 2 ^ 53) / (1 - 1 / 2 ^ 53)) ^ n \<le> (1 + x) ^ n" by (intro power_mono) simp_all
  have b: "1 + of_nat n * (- x) \<le> (1 - x) ^ n"
    using Bernoulli_inequality[of "- x" n] by (simp add: x_def)
  have nx: "of_nat n * x \<le> 1000000 * x" using assms by (intro mult_right_mono) (simp_all add: x_def)
  then have lo: "1 - 1000000 * x \<le> (1 - x) ^ n" using b by simp
  have "(1 + x) ^ n * (1 - x) ^ n = (1 - x * x) ^ n" by (simp add: power_mult_distrib[symmetric] algebra_simps)
  also have "\<dots> \<le> 1" by (intro power_le_one) (simp_all add: x_def)
  finally have "(1 + x) ^ n * (1 - x) ^ n \<le> 1" .
  moreover have "(1 + x) ^ n * (1 - 1000000 * x) \<le> (1 + x) ^ n * (1 - x) ^ n"
    using lo by (intro mult_left_mono) (simp_all add: x_def)
  ultimately have "(1 + x) ^ n * (1 - 1000000 * x) \<le> 1" by linarith
  then have "(1 + x) ^ n \<le> 1 / (1 - 1000000 * x)" by (simp add: x_def le_divide_eq)
  then have "((1 + 1 / 2 ^ 53) / (1 - 1 / 2 ^ 53)) ^ n \<le> 1 / (1 - 1000000 * x)" using p by linarith
  then have "(1 + 1 / 2 ^ 53) * ((1 + 1 / 2 ^ 53) * ((1 + 1 / 2 ^ 53) / (1 - 1 / 2 ^ 53)) ^ n) \<le>
      (1 + 1 / 2 ^ 53) * ((1 + 1 / 2 ^ 53) * (1 / (1 - 1000000 * x)))"
    by (intro mult_left_mono) simp_all
  also have "\<dots> \<le> 1 + 1 / 1000" by (simp add: x_def)
  finally show ?thesis .
qed


text \<open>The rules never pay out, and no rule charges more than its cap.\<close>

lemma c1_sum_nonneg: "0 \<le> fst st \<Longrightarrow> 0 \<le> fst (foldl (c1_step R t) st es)"
proof (induction es arbitrary: st)
  case (Cons e es)
  have "0 \<le> fst (c1_step R t st e)"
    using Cons.prems by (auto simp: c1_step_def Let_def C1_RATE_def intro!: nonneg add_nonneg_nonneg mult_nonneg_nonneg split: prod.splits)
  then show ?case using Cons.IH by simp
qed simp

lemma c1_points: "0 \<le> cd_points (c1Of R es n s) \<and> cd_points (c1Of R es n s) \<le> 30"
proof -
  let ?t = "max C1_FLOOR (R (C1_FAIR_MULT * (if 0 < n then R (100 / of_nat n) else 0)))"
  have "cd_points (c1Of R es n s) = (if es = [] then 0 else min (fst (foldl (c1_step R ?t) (0, None) es)) 30)"
    unfolding c1Of_def Let_def by (simp only: C1_TOTAL_CAP_def case_prod_beta c_deduction.simps split: if_split) simp
  then show ?thesis using c1_sum_nonneg[of "(0, None)" ?t es] by (auto simp: min_def)
qed

lemma neff_nonneg: "0 \<le> neff R s ws"
  by (auto simp: neff_def Let_def intro!: nonneg)

lemma c2_points: "0 \<le> cd_points (c2Of R es s)"
  by (auto simp: c2Of_def Let_def C2_RATE_def C2_TARGET_def intro!: nonneg mult_nonneg_nonneg)

lemma pct_points: "T \<le> m \<Longrightarrow> 0 \<le> c \<Longrightarrow> 0 \<le> k \<Longrightarrow> 0 \<le> min (R (k * R (m - T))) c"
  by (auto intro!: nonneg mult_nonneg_nonneg)

lemma c3_points: "0 \<le> cd_points (c3Of R sr) \<and> cd_points (c3Of R sr) \<le> 30"
  by (auto simp: c3Of_def Let_def C3_CAP_def C3_RATE_def C3_THRESH_def split: prod.splits
      intro!: pct_points nonneg mult_nonneg_nonneg)

lemma c4_points: "0 \<le> cd_points (c4Of R es sr)"
  by (auto simp: c4Of_def Let_def C4_CAP_def C4_RATE_def min_def intro!: nonneg mult_nonneg_nonneg)

lemma c5_points: "0 \<le> cd_points (c5Of R hs t) \<and> cd_points (c5Of R hs t) \<le> 25"
  by (auto simp: c5Of_def Let_def C5_CAP_def C5_RATE_def C5_THRESH_def split: prod.splits
      intro!: pct_points nonneg mult_nonneg_nonneg)

lemma c6_points: "0 \<le> cd_points (c6Of R n) \<and> cd_points (c6Of R n) \<le> 8"
  by (auto simp: c6Of_def Let_def C6_CAP_def C6_RATE_def intro!: nonneg)

lemma not_evaluable_free:
  "cd_evaluable (c1Of R es n s) \<or> cd_points (c1Of R es n s) = 0"
  "cd_evaluable (c2Of R es s) \<or> cd_points (c2Of R es s) = 0"
  "cd_evaluable (c3Of R sr) \<or> cd_points (c3Of R sr) = 0"
  "cd_evaluable (c4Of R es sr) \<or> cd_points (c4Of R es sr) = 0"
  "cd_evaluable (c5Of R hs t) \<or> cd_points (c5Of R hs t) = 0"
  by (auto simp: c1Of_def c2Of_def c3Of_def c4Of_def c5Of_def Let_def split: prod.splits if_splits)

lemma c6_evaluable [simp]: "cd_evaluable (c6Of R n)"
  by (simp add: c6Of_def Let_def)

lemma minus_points: "g \<le> c \<Longrightarrow> R c = c \<Longrightarrow> 0 \<le> p \<Longrightarrow> R (g - p) \<le> c"
  using mono[of "g - p" c] by simp

lemma gross_range: "0 \<le> grossOf R c1 c2 \<and> (0 \<le> cd_points c1 \<longrightarrow> 0 \<le> cd_points c2 \<longrightarrow> grossOf R c1 c2 \<le> 100)"
  by (auto simp: grossOf_def fix_num intro!: minus_points)

lemma gross_rounded: "R (grossOf R c1 c2) = grossOf R c1 c2"
  by (simp add: grossOf_def max_def idem zero)

lemma net_range:
  assumes "R g = g" "0 \<le> g" "0 \<le> cd_points c3" "0 \<le> cd_points c4" "0 \<le> cd_points c5" "0 \<le> cd_points c6"
  shows "0 \<le> netOf R g c3 c4 c5 c6 \<and> netOf R g c3 c4 c5 c6 \<le> g"
  using assms by (auto simp: netOf_def intro!: minus_points)

end


subsection \<open>Construction and health of a portfolio\<close>

lemma computePhs_sectors:
  "computePhs R coll hs = Inr r \<Longrightarrow> buildSectorResolution R coll hs (rsum R ei_marketValue hs) = Inr (pr_sectors r) \<and>
     pr_construction r = construction_of R coll hs (rsum R ei_marketValue hs) (pr_sectors r)"
  by (auto simp: computePhs_def Let_def bindR_Inr_iff split: option.splits if_splits)

definition deductions :: "construction_result \<Rightarrow> c_deduction list" where
  "deductions c = [gr_c1 (cr_gross c), gr_c2 (cr_gross c), cr_c3 c, cr_c4 c, cr_c5 c, cr_c6 c]"

text \<open>The construction score of every portfolio, in machine arithmetic: net is between 0
  and gross and gross at most 100, no deduction is negative, a rule that cannot be evaluated deducts
  nothing, and C1, C3, C5 and C6 deduct at most 30, 30, 25 and 8 points.\<close>

theorem construction_score:
  assumes "computePhs f64 coll hs = Inr r"
  shows "0 \<le> cr_net (pr_construction r) \<and> cr_net (pr_construction r) \<le> gr_value (cr_gross (pr_construction r)) \<and>
    gr_value (cr_gross (pr_construction r)) \<le> 100 \<and>
    list_all (\<lambda>d. 0 \<le> cd_points d \<and> (cd_evaluable d \<or> cd_points d = 0)) (deductions (pr_construction r)) \<and>
    cd_points (gr_c1 (cr_gross (pr_construction r))) \<le> 30 \<and> cd_points (cr_c3 (pr_construction r)) \<le> 30 \<and>
    cd_points (cr_c5 (pr_construction r)) \<le> 25 \<and> cd_points (cr_c6 (pr_construction r)) \<le> 8"
proof -
  define t where "t = rsum f64 ei_marketValue hs"
  define c where "c = pr_construction r"
  have c: "c = construction_of f64 coll hs t (pr_sectors r)"
    using computePhs_sectors[OF assms] by (simp add: c_def t_def)
  define es where "es = buildEntityLedger f64 coll hs t"
  define n where "n = ex_nameRisk (buildExposures f64 hs t)"
  have cs: "gr_c1 (cr_gross c) = c1Of f64 es (length hs) n" "gr_c2 (cr_gross c) = c2Of f64 es n"
    "cr_c3 c = c3Of f64 (pr_sectors r)" "cr_c4 c = c4Of f64 es (pr_sectors r)" "cr_c5 c = c5Of f64 hs t"
    "cr_c6 c = c6Of f64 (length hs)"
    "gr_value (cr_gross c) = grossOf f64 (c1Of f64 es (length hs) n) (c2Of f64 es n)"
    "cr_net c = netOf f64 (gr_value (cr_gross c)) (cr_c3 c) (cr_c4 c) (cr_c5 c) (cr_c6 c)"
    by (simp_all add: c construction_of_def Let_def es_def n_def sleevesOf_def)
  note p = f64.c1_points[of es "length hs" n] f64.c2_points[of es n] f64.c3_points[of "pr_sectors r"]
    f64.c4_points[of es "pr_sectors r"] f64.c5_points[of hs t] f64.c6_points[of "length hs"]
  have g: "0 \<le> gr_value (cr_gross c)" "gr_value (cr_gross c) \<le> 100" "f64 (gr_value (cr_gross c)) = gr_value (cr_gross c)"
    using f64.gross_range[of "c1Of f64 es (length hs) n" "c2Of f64 es n"] p f64.gross_rounded by (simp_all add: cs(7))
  have "0 \<le> cr_net c \<and> cr_net c \<le> gr_value (cr_gross c)"
    unfolding cs(8) by (rule f64.net_range) (use g p cs in simp_all)
  moreover have "list_all (\<lambda>d. 0 \<le> cd_points d \<and> (cd_evaluable d \<or> cd_points d = 0)) (deductions c)"
    using p by (simp add: deductions_def cs f64.not_evaluable_free)
  ultimately show ?thesis using g p unfolding c_def[symmetric] by (simp add: cs)
qed


definition holding_ok :: "phs_holding \<Rightarrow> bool" where
  "holding_ok h \<longleftrightarrow> 0 \<le> ei_marketValue h \<and> (case ph_health h of None \<Rightarrow> True | Some v \<Rightarrow> 0 \<le> v \<and> v \<le> 100)"

lemma winner_in: "cs \<noteq> [] \<Longrightarrow> winner cs \<in> set cs"
proof -
  have "foldl (\<lambda>a b. if snd a < snd b then b else a) c cs \<in> insert c (set cs)" for c and cs :: "(holding_finding \<times> num) list"
    by (induction cs arbitrary: c) auto
  then show "cs \<noteq> [] \<Longrightarrow> winner cs \<in> set cs" by (cases cs) force+
qed

lemma HEADLINE_nonneg: "HEADLINE k = Some b \<Longrightarrow> 0 \<le> b"
  by (cases k) (auto simp: SIG_DISTRESS_def SIG_CRIT_def SIG_HIGH_def SIG_MED_def)

lemma BREADTH_nonneg: "BREADTH k = Some b \<Longrightarrow> 0 \<le> b"
  by (cases k) (auto simp: SIG_LP5_def SIG_LP6_def)

lemma candidate_base: "c \<in> set (candidates fs) \<Longrightarrow> 0 \<le> snd c"
  unfolding candidates_def Let_def map_filter_def
  by (auto split: if_splits option.splits intro: HEADLINE_nonneg BREADTH_nonneg)

lemma deduction_points:
  assumes h: "0 \<le> ei_marketValue h" and d: "deduction_of f64 t sw h = Some d"
  shows "0 \<le> sd_points d"
proof -
  have c: "candidates (ph_findings h) \<noteq> []" using d by (auto simp: deduction_of_def)
  have b: "0 \<le> snd (winner (candidates (ph_findings h)))" by (rule candidate_base[OF winner_in[OF c]])
  have w: "0 \<le> (if 0 < sw then f64 (weight_of f64 t h / sw) else 0)"
    using h by (auto simp: weight_of_def intro!: f64.nonneg divide_nonneg_pos f64.share_nonneg)
  show ?thesis
    using d c b w by (auto simp: deduction_of_def Let_def SIG_HOLDING_CAP_def case_prod_beta
        intro!: f64.nonneg mult_nonneg_nonneg split: if_splits)
qed

lemma signals_range:
  assumes "\<forall>h \<in> set hs. holding_ok h"
  shows "0 \<le> max 0 (f64 (100 - rsum f64 sd_points (List.map_filter (deduction_of f64 t sw) hs))) \<and>
    max 0 (f64 (100 - rsum f64 sd_points (List.map_filter (deduction_of f64 t sw) hs))) \<le> 100"
proof -
  have "0 \<le> rsum f64 sd_points (List.map_filter (deduction_of f64 t sw) hs)"
    by (rule f64.rsum_nonneg) (use assms deduction_points in \<open>auto simp: map_filter_def holding_ok_def\<close>)
  then show ?thesis by (auto intro!: f64.minus_points f64.fix_num)
qed

text \<open>Rounding can lift the mean of a million scores above 100 by less than half a point.\<close>

lemma quality_le:
  assumes "\<forall>h \<in> set hs. holding_ok h" "length hs \<le> 1000000" "0 < rsum f64 (weight_of f64 t) hs"
  shows "f64 (rsum f64 (\<lambda>h. f64 (weight_of f64 t h * nullish (ph_health h) 0)) hs / rsum f64 (weight_of f64 t) hs) \<le> 100 + 1 / 10"
proof -
  define c :: rat where "c = (1 + 1 / 2 ^ 53) * ((1 + 1 / 2 ^ 53) / (1 - 1 / 2 ^ 53)) ^ length hs"
  have w: "0 \<le> weight_of f64 t h \<and> nullish (ph_health h) 0 \<le> 100" if "h \<in> set hs" for h
    using assms(1) that by (auto simp: weight_of_def holding_ok_def nullish_def intro!: f64.share_nonneg split: option.splits)
  have "rsum f64 (\<lambda>h. f64 (weight_of f64 t h * nullish (ph_health h) 0)) hs \<le> 100 * c * rsum f64 (weight_of f64 t) hs"
    using f64.weighted_sum_le[of hs "weight_of f64 t" "\<lambda>h. nullish (ph_health h) 0" 100] w by (simp add: c_def)
  then have "rsum f64 (\<lambda>h. f64 (weight_of f64 t h * nullish (ph_health h) 0)) hs / rsum f64 (weight_of f64 t) hs \<le> 100 * c"
    using assms(3) by (simp add: divide_le_eq)
  moreover have "0 \<le> c" by (simp add: c_def)
  ultimately have "f64 (rsum f64 (\<lambda>h. f64 (weight_of f64 t h * nullish (ph_health h) 0)) hs / rsum f64 (weight_of f64 t) hs) \<le>
      (1 + 1 / 2 ^ 53) * (100 * c)"
    using f64.mono f64.err_up[of "100 * c"] by (meson mult_nonneg_nonneg order_trans zero_le_numeral)
  also have "\<dots> = 100 * ((1 + 1 / 2 ^ 53) * c)" by simp
  also have "\<dots> \<le> 100 * (1 + 1 / 1000)"
    using f64.rounding_drift[OF assms(2)] by (intro mult_left_mono) (simp_all add: c_def)
  finally show ?thesis by simp
qed

lemma scored_weight_pos:
  assumes ok: "\<forall>h \<in> set hs. holding_ok h" and t: "t = rsum f64 ei_marketValue hs"
  shows "0 < rsum f64 (weight_of f64 t) (in_bucket Scored hs) \<longleftrightarrow> (\<exists>h \<in> set hs. ph_health h \<noteq> None \<and> 0 < ei_marketValue h)"
proof -
  have mv: "0 \<le> ei_marketValue h" if "h \<in> set hs" for h using ok that by (simp add: holding_ok_def)
  have w: "0 < weight_of f64 t h \<longleftrightarrow> 0 < ei_marketValue h" if h: "h \<in> set hs" for h
  proof
    assume "0 < ei_marketValue h"
    then have "0 < t" unfolding t using f64.rsum_pos[of h hs ei_marketValue] h mv by blast
    then show "0 < weight_of f64 t h" using \<open>0 < ei_marketValue h\<close> by (simp add: weight_of_def share_def f64.pos)
  next
    assume "0 < weight_of f64 t h"
    then show "0 < ei_marketValue h"
      using mv[OF h] by (cases "ei_marketValue h = 0") (auto simp: weight_of_def share_def split: if_splits)
  qed
  have "0 < rsum f64 (weight_of f64 t) (in_bucket Scored hs) \<longleftrightarrow> (\<exists>h \<in> set (in_bucket Scored hs). 0 < weight_of f64 t h)"
    by (rule f64.rsum_pos_iff) (use mv in \<open>auto simp: in_bucket_def weight_of_def intro: f64.share_nonneg\<close>)
  also have "\<dots> \<longleftrightarrow> (\<exists>h \<in> set hs. ph_health h \<noteq> None \<and> 0 < ei_marketValue h)"
    using w by (auto simp: in_bucket_def bucketOf_def split: if_splits)
  finally show ?thesis .
qed

lemma health_number:
  assumes q: "0 \<le> q" "q \<le> 100 + 1 / 10" and s: "0 \<le> s" "s \<le> 100"
  shows "0 \<le> js_round (max 0 (f64 (q - f64 (W_SIGNAL f64 * f64 (100 - s))))) \<and>
    js_round (max 0 (f64 (q - f64 (W_SIGNAL f64 * f64 (100 - s))))) \<le> 100"
proof -
  have d: "0 \<le> f64 (W_SIGNAL f64 * f64 (100 - s))"
    using s by (auto simp: W_SIGNAL_def intro!: f64.nonneg mult_nonneg_nonneg)
  have "f64 (q - f64 (W_SIGNAL f64 * f64 (100 - s))) \<le> f64 (401 / 4)" using q d by (intro f64.mono) simp
  also have "\<dots> = 401 / 4" using f64.fix_quarter[of 401] by simp
  finally have "max 0 (f64 (q - f64 (W_SIGNAL f64 * f64 (100 - s)))) < 100 + 1 / 2" by simp
  then show ?thesis by (simp add: js_round_def floor_less_iff less_le_not_le[symmetric] le_floor_iff floor_le_iff)
qed

text \<open>C39. The health of a portfolio of up to a million holdings, in machine arithmetic: the
  result is evaluable exactly when some holding with a health score has a positive market value;
  then the health is a whole number from 0 to 100 with its own band, and otherwise both are missing.
  The signals score is in 0 to 100 and the coverage in 0 to 1.\<close>

theorem portfolio_health:
  assumes ok: "\<forall>h \<in> set hs. holding_ok h" and n: "length hs \<le> 1000000" and r: "computePhs f64 coll hs = Inr r"
  shows "(pr_evaluable r \<longleftrightarrow> (\<exists>h \<in> set hs. ph_health h \<noteq> None \<and> 0 < ei_marketValue h)) \<and>
    (case pr_health r of None \<Rightarrow> \<not> pr_evaluable r \<and> pr_band r = None
     | Some v \<Rightarrow> pr_evaluable r \<and> 0 \<le> v \<and> v \<le> 100 \<and> pr_band r = Some (bandOf v)) \<and>
    0 \<le> pr_signals r \<and> pr_signals r \<le> 100 \<and> 0 \<le> pr_coverage r \<and> pr_coverage r \<le> 1"
proof -
  define t where "t = rsum f64 ei_marketValue hs"
  define sc where "sc = in_bucket Scored hs"
  define W where "W = rsum f64 (weight_of f64 t) sc"
  define S where "S = max 0 (f64 (100 - rsum f64 sd_points (List.map_filter
    (deduction_of f64 t (rsum f64 (weight_of f64 t) (filter (\<lambda>h. ei_assetClass h = Some Stock) hs))) hs)))"
  define Q where "Q = f64 (rsum f64 (\<lambda>h. f64 (weight_of f64 t h * nullish (ph_health h) 0)) sc / W)"
  define V where "V = rsum f64 ei_marketValue sc"
  have fields: "pr_signals r = S" "pr_coverage r = share f64 V t" "pr_evaluable r \<longleftrightarrow> 0 < W"
    "pr_health r = (if 0 < W then Some (js_round (max 0 (f64 (Q - f64 (W_SIGNAL f64 * f64 (100 - S)))))) else None)"
    "pr_band r = map_option bandOf (pr_health r)"
    using r by (auto simp: computePhs_def Let_def bindR_Inr_iff S_def V_def W_def Q_def sc_def t_def split: option.splits if_splits)
  have S: "0 \<le> S" "S \<le> 100" using signals_range[OF ok] unfolding S_def by blast+
  have scs: "set sc \<subseteq> set hs" "length sc \<le> length hs" by (auto simp: sc_def in_bucket_def)
  have mv: "0 \<le> ei_marketValue h" if "h \<in> set hs" for h using ok that by (simp add: holding_ok_def)
  have V: "0 \<le> V" unfolding V_def by (rule f64.rsum_nonneg) (use scs mv in auto)
  have "V \<le> t" unfolding V_def sc_def in_bucket_def t_def f64.rsum_filter by (rule f64.rsum_mono) (use mv in auto)
  then have cov: "0 \<le> share f64 V t \<and> share f64 V t \<le> 1" using V f64.share_nonneg f64.share_le_one by blast
  have Q: "0 \<le> Q \<and> Q \<le> 100 + 1 / 10" if "0 < W"
  proof
    have "0 \<le> rsum f64 (\<lambda>h. f64 (weight_of f64 t h * nullish (ph_health h) 0)) sc"
      by (rule f64.rsum_nonneg)
        (use scs ok in \<open>auto simp: holding_ok_def weight_of_def nullish_def intro!: f64.nonneg mult_nonneg_nonneg f64.share_nonneg split: option.splits\<close>)
    then show "0 \<le> Q" using that by (auto simp: Q_def intro!: f64.nonneg divide_nonneg_pos)
    show "Q \<le> 100 + 1 / 10" unfolding Q_def W_def
      by (rule quality_le) (use ok scs n that in \<open>auto simp: W_def\<close>)
  qed
  have ev: "0 < W \<longleftrightarrow> (\<exists>h \<in> set hs. ph_health h \<noteq> None \<and> 0 < ei_marketValue h)"
    unfolding W_def sc_def by (rule scored_weight_pos[OF ok t_def])
  show ?thesis
  proof (cases "0 < W")
    case True
    then show ?thesis using Q[OF True] health_number[OF _ _ S] S cov ev by (simp add: fields)
  next
    case False
    then have "pr_health r = None" "pr_band r = None" "\<not> pr_evaluable r" by (simp_all add: fields(3-5))
    then show ?thesis using False S cov ev by (simp add: fields(1,2))
  qed
qed


definition sample_holding :: "string \<Rightarrow> string \<Rightarrow> asset_class \<Rightarrow> num \<Rightarrow> num option \<Rightarrow> holding_finding list \<Rightarrow> phs_holding" where
  "sample_holding symbol isin a mv health fs = \<lparr>ei_symbol = symbol, ei_marketValue = mv, ei_isin = Some isin,
     ei_assetClass = Some a, ei_category = None, ei_sector = (if a = Stock then Some ''Banks'' else None),
     ei_fundHouse = None, ei_name = None, ph_tier = Large, ph_health = health, ph_findings = fs, ph_pillars = None,
     ph_lensNatures = []\<rparr>"

definition sample_portfolio :: "phs_holding list" where
  "sample_portfolio =
    [sample_holding ''AAA'' ''INE001A01011'' Stock 600 (Some 80) [\<lparr>hf_kind = Medium, hf_flagKey = None, hf_title = None, hf_read = None\<rparr>],
     sample_holding ''AAB'' ''INE001A07012'' Bond 100 None [],
     sample_holding ''BBB'' ''INE002B01014'' Stock 300 (Some 60) []]"

definition sample_health :: "(phs_error, phs_result) result" where
  "sample_health = computePhs f64 (\<lambda>s. of_nat (length s)) sample_portfolio"

lemma sample_health_runs:
  "case sample_health of Inl e \<Rightarrow> False
   | Inr r \<Rightarrow> pr_health r = Some 69 \<and> length (pr_entityLedger r) = 2 \<and> cd_points (gr_c1 (cr_gross (pr_construction r))) > 0"
  by code_simp

lemma portfolio_health_witness:
  "\<exists>r. sample_health = Inr r \<and> pr_health r = Some 69 \<and> pr_band r = Some (bandOf 69) \<and> pr_coverage r \<le> 1"
proof -
  obtain r where r: "sample_health = Inr r" "pr_health r = Some 69"
    using sample_health_runs by (auto split: sum.splits)
  have ok: "\<forall>h \<in> set sample_portfolio. holding_ok h" by code_simp
  have n: "length sample_portfolio \<le> 1000000" by (simp add: sample_portfolio_def)
  show ?thesis
    using portfolio_health[OF ok n r(1)[unfolded sample_health_def]] r by (intro exI[of _ r]) simp
qed

lemma construction_score_witness: "\<exists>r. sample_health = Inr r \<and> cr_net (pr_construction r) \<le> 100"
proof -
  obtain r where r: "sample_health = Inr r" using sample_health_runs by (auto split: sum.splits)
  show ?thesis using construction_score[OF r[unfolded sample_health_def]] r by (auto intro!: exI[of _ r])
qed

subsection \<open>The entity ledger\<close>

definition group_total :: "(string \<times> 'a entity_input_scheme list) list \<Rightarrow> num" where
  "group_total m = sum_list (map (\<lambda>(k, hs). sum_list (map ei_marketValue hs)) m)"

lemma group_total_upsert: "group_total (upsert k (\<lambda>g. nullish g [] @ [h]) m) = group_total m + ei_marketValue h"
  by (induction m) (auto simp: group_total_def)

lemma by_entity_facts:
  "distinct (map fst (by_entity hs)) \<and>
   set (map fst (by_entity hs)) = {k. \<exists>h \<in> set hs. entityKeyOf h = Some k} \<and>
   group_total (by_entity hs) = sum_list (map ei_marketValue (filter (\<lambda>h. entityKeyOf h \<noteq> None) hs))"
proof (induction hs rule: rev_induct)
  case (snoc h hs)
  show ?case
  proof (cases "entityKeyOf h")
    case None
    then show ?thesis using snoc by (auto simp: by_entity_def)
  next
    case (Some k)
    have "by_entity (hs @ [h]) = upsert k (\<lambda>g. nullish g [] @ [h]) (by_entity hs)"
      using Some by (simp add: by_entity_def)
    moreover have "set (map fst (by_entity hs)) = {k. \<exists>h \<in> set hs. entityKeyOf h = Some k}"
      "distinct (map fst (by_entity hs))" using snoc by simp_all
    moreover have "{k'. \<exists>x \<in> set (hs @ [h]). entityKeyOf x = Some k'} = insert k {k. \<exists>h \<in> set hs. entityKeyOf h = Some k}"
      using Some by auto
    ultimately show ?thesis using snoc Some by (auto simp: upsert_keys group_total_upsert simp del: set_map)
  qed
qed (simp add: by_entity_def group_total_def)

lemma rsum_exact: "rsum (\<lambda>x. x) f xs = sum_list (map f xs)"
  by (induction xs rule: rev_induct) (simp_all add: rsum_def)

lemma weights_of_groups:
  "0 < tv \<Longrightarrow> sum_list (map ee_weight (map (entity_entry_of (\<lambda>x. x) coll tv) m)) = group_total m / tv"
  by (induction m) (auto simp: group_total_def entity_entry_of_def share_def rsum_exact add_divide_distrib)

text \<open>C40. The entity ledger neither loses nor counts twice: it has one entry for each entity
  key that occurs among the holdings, and in exact arithmetic the weights of its entries add up to
  the market value of the holdings that have a key, as a share of the portfolio.\<close>

theorem entity_ledger_conserves:
  assumes "0 < tv"
  shows "distinct (map ee_entityKey (buildEntityLedger (\<lambda>x. x) coll hs tv)) \<and>
    set (map ee_entityKey (buildEntityLedger (\<lambda>x. x) coll hs tv)) = {k. \<exists>h \<in> set hs. entityKeyOf h = Some k} \<and>
    sum_list (map ee_weight (buildEntityLedger (\<lambda>x. x) coll hs tv)) * tv =
      sum_list (map ei_marketValue (filter (\<lambda>h. entityKeyOf h \<noteq> None) hs))"
proof -
  let ?es = "map (entity_entry_of (\<lambda>x. x) coll tv) (by_entity hs)"
  let ?led = "buildEntityLedger (\<lambda>x. x) coll hs tv"
  have m: "mset ?led = mset ?es" by (simp add: buildEntityLedger_def)
  have keys: "map ee_entityKey ?es = map fst (by_entity hs)"
    by (simp add: entity_entry_of_def case_prod_beta comp_def)
  have km: "mset (map ee_entityKey ?led) = mset (map fst (by_entity hs))"
    using m keys by (metis mset_map)
  have "sum_list (map ee_weight ?led) = sum_list (map ee_weight ?es)"
    using m by (metis mset_map sum_mset_sum_list)
  also have "\<dots> = group_total (by_entity hs) / tv"
    using assms by (rule weights_of_groups)
  finally have "sum_list (map ee_weight ?led) * tv = group_total (by_entity hs)" using assms by simp
  then show ?thesis using by_entity_facts[of hs] km by (metis mset_eq_imp_distinct_iff mset_eq_setD)
qed

lemma entity_ledger_conserves_witness:
  "sum_list (map ee_weight (buildEntityLedger (\<lambda>x. x) (\<lambda>s. of_nat (length s)) sample_portfolio 1000)) * 1000 = 1000"
proof -
  have "sum_list (map ei_marketValue (filter (\<lambda>h. entityKeyOf h \<noteq> None) sample_portfolio)) = 1000" by code_simp
  then show ?thesis using entity_ledger_conserves[of 1000 "\<lambda>s. of_nat (length s)" sample_portfolio] by simp
qed

end
