(* ===== verification/JobTypes.thy ===== *)
theory JobTypes
  imports Prelude
begin

text \<open>
  The job catalogue, \<open>src/jobs/types.ts\<close> and \<open>src/jobs/dispatcher.ts\<close>: the declared job
  types with their wire names, and the tables every one of them has an entry in (retry policy, restart
  policy, cancellation support, handler).  The TypeScript type \<open>Record<JobType, _>\<close> makes the tables
  total; here they are functions of the datatype.  A handler is named by the function it is.  Indexing
  one of the object literals by a string outside the declared names gives \<open>undefined\<close>, except for the
  names every object inherits (\<open>constructor\<close>, \<open>toString\<close>, ...), which give a function; a row with
  such a type is outside the model and excluded from the theorem about undeclared types.
\<close>

datatype job_type =
    DEALS_BACKFILL
  | EVENTS_BACKFILL
  | INSIDER_TRADES_BACKFILL
  | NEWS_BACKFILL
  | PRICE_BACKFILL
  | INDEX_PRICES_BACKFILL
  | INSTRUMENT_HISTORY_BACKFILL
  | EOD_PRICES_DAILY
  | INDEX_PRICES_DAILY
  | AMFI_NAV_DAILY
  | ETF_NAV_DAILY
  | REIT_DAILY
  | ETF_PRICES_DAILY
  | GOVT_SECURITIES_DAILY
  | CORPORATE_BONDS_DAILY
  | MF_ANALYTICS_DAILY
  | INSTRUMENT_CORPORATE_ACTIONS
  | DEALS_DAILY_INGEST
  | EVENTS_WEEKLY_INGEST
  | EVENTS_DAILY_REFRESH
  | SHAREHOLDING_QUARTERLY
  | SHAREHOLDING_SMART_REFRESH
  | SHAREHOLDING_BACKFILL
  | INSIDER_TRADES_DAILY
  | DAILY_NEWS_INGEST
  | NSE_ANNOUNCEMENTS_INGEST
  | GOOGLE_NEWS_INGEST
  | NEWS_CONTENT_EXTRACTION
  | PEER_METRICS_COMPUTE_ALL
  | RESULTS_SCAN
  | QUARTER_BRIEF
  | LEGACY_BACKFILL
  | PG_RESCORE
  | PG_CASCADE_RESCORE
  | FILL_CASCADE_RESCORE
  | PRICES_REFETCH
  | ALERTS_EVAL_DAILY
  | ALERTS_DELIVER_DAILY
  | REMINDERS_EVAL_DAILY
  | REMINDERS_DELIVER_DAILY
  | BROKER_POLL_SYNC
  | RETENTION_PRUNE
  | BEHAVIOR_ROLLUP_RECONCILE
  | BASE_RATES_WARM
  | CHAT_TITLE_GENERATE
  | CHAT_PROFILE_DISTILL
  | FILING_RECOMPUTE
  | FILING_ROLLING_DAILY
  | FILING_BACKFILL
  | JOB_HEALTH_CHECK

primrec JobTypes :: "job_type \<Rightarrow> string" where
  \<comment> \<open>the value stored in the row's \<open>type\<close> column\<close>
  "JobTypes DEALS_BACKFILL = ''deals_backfill''"
| "JobTypes EVENTS_BACKFILL = ''events_backfill''"
| "JobTypes INSIDER_TRADES_BACKFILL = ''insider_trades_backfill''"
| "JobTypes NEWS_BACKFILL = ''news_backfill''"
| "JobTypes PRICE_BACKFILL = ''price_backfill''"
| "JobTypes INDEX_PRICES_BACKFILL = ''index_prices_backfill''"
| "JobTypes INSTRUMENT_HISTORY_BACKFILL = ''instrument_history_backfill''"
| "JobTypes EOD_PRICES_DAILY = ''eod_prices_daily''"
| "JobTypes INDEX_PRICES_DAILY = ''index_prices_daily''"
| "JobTypes AMFI_NAV_DAILY = ''amfi_nav_daily''"
| "JobTypes ETF_NAV_DAILY = ''etf_nav_daily''"
| "JobTypes REIT_DAILY = ''reit_daily''"
| "JobTypes ETF_PRICES_DAILY = ''etf_prices_daily''"
| "JobTypes GOVT_SECURITIES_DAILY = ''govt_securities_daily''"
| "JobTypes CORPORATE_BONDS_DAILY = ''corporate_bonds_daily''"
| "JobTypes MF_ANALYTICS_DAILY = ''mf_analytics_daily''"
| "JobTypes INSTRUMENT_CORPORATE_ACTIONS = ''instrument_corporate_actions''"
| "JobTypes DEALS_DAILY_INGEST = ''deals_daily_ingest''"
| "JobTypes EVENTS_WEEKLY_INGEST = ''events_weekly_ingest''"
| "JobTypes EVENTS_DAILY_REFRESH = ''events_daily_refresh''"
| "JobTypes SHAREHOLDING_QUARTERLY = ''shareholding_quarterly''"
| "JobTypes SHAREHOLDING_SMART_REFRESH = ''shareholding_smart_refresh''"
| "JobTypes SHAREHOLDING_BACKFILL = ''shareholding_backfill''"
| "JobTypes INSIDER_TRADES_DAILY = ''insider_trades_daily''"
| "JobTypes DAILY_NEWS_INGEST = ''daily_news_ingest''"
| "JobTypes NSE_ANNOUNCEMENTS_INGEST = ''nse_announcements_ingest''"
| "JobTypes GOOGLE_NEWS_INGEST = ''google_news_ingest''"
| "JobTypes NEWS_CONTENT_EXTRACTION = ''news_content_extraction''"
| "JobTypes PEER_METRICS_COMPUTE_ALL = ''peer_metrics_compute_all''"
| "JobTypes RESULTS_SCAN = ''results_scan''"
| "JobTypes QUARTER_BRIEF = ''quarter_brief''"
| "JobTypes LEGACY_BACKFILL = ''legacy_backfill''"
| "JobTypes PG_RESCORE = ''pg_rescore''"
| "JobTypes PG_CASCADE_RESCORE = ''pg_cascade_rescore''"
| "JobTypes FILL_CASCADE_RESCORE = ''fill_cascade_rescore''"
| "JobTypes PRICES_REFETCH = ''prices_refetch''"
| "JobTypes ALERTS_EVAL_DAILY = ''alerts_eval_daily''"
| "JobTypes ALERTS_DELIVER_DAILY = ''alerts_deliver_daily''"
| "JobTypes REMINDERS_EVAL_DAILY = ''reminders_eval_daily''"
| "JobTypes REMINDERS_DELIVER_DAILY = ''reminders_deliver_daily''"
| "JobTypes BROKER_POLL_SYNC = ''broker_poll_sync''"
| "JobTypes RETENTION_PRUNE = ''retention_prune''"
| "JobTypes BEHAVIOR_ROLLUP_RECONCILE = ''behavior_rollup_reconcile''"
| "JobTypes BASE_RATES_WARM = ''base_rates_warm''"
| "JobTypes CHAT_TITLE_GENERATE = ''chat_title_generate''"
| "JobTypes CHAT_PROFILE_DISTILL = ''chat_profile_distill''"
| "JobTypes FILING_RECOMPUTE = ''filing_recompute''"
| "JobTypes FILING_ROLLING_DAILY = ''filing_rolling_daily''"
| "JobTypes FILING_BACKFILL = ''filing_backfill''"
| "JobTypes JOB_HEALTH_CHECK = ''job_health_check''"

definition all_job_types :: "job_type list" where
  "all_job_types =
    [DEALS_BACKFILL, EVENTS_BACKFILL, INSIDER_TRADES_BACKFILL, NEWS_BACKFILL,
     PRICE_BACKFILL, INDEX_PRICES_BACKFILL, INSTRUMENT_HISTORY_BACKFILL, EOD_PRICES_DAILY,
     INDEX_PRICES_DAILY, AMFI_NAV_DAILY, ETF_NAV_DAILY, REIT_DAILY,
     ETF_PRICES_DAILY, GOVT_SECURITIES_DAILY, CORPORATE_BONDS_DAILY, MF_ANALYTICS_DAILY,
     INSTRUMENT_CORPORATE_ACTIONS, DEALS_DAILY_INGEST, EVENTS_WEEKLY_INGEST, EVENTS_DAILY_REFRESH,
     SHAREHOLDING_QUARTERLY, SHAREHOLDING_SMART_REFRESH, SHAREHOLDING_BACKFILL, INSIDER_TRADES_DAILY,
     DAILY_NEWS_INGEST, NSE_ANNOUNCEMENTS_INGEST, GOOGLE_NEWS_INGEST, NEWS_CONTENT_EXTRACTION,
     PEER_METRICS_COMPUTE_ALL, RESULTS_SCAN, QUARTER_BRIEF, LEGACY_BACKFILL,
     PG_RESCORE, PG_CASCADE_RESCORE, FILL_CASCADE_RESCORE, PRICES_REFETCH,
     ALERTS_EVAL_DAILY, ALERTS_DELIVER_DAILY, REMINDERS_EVAL_DAILY, REMINDERS_DELIVER_DAILY,
     BROKER_POLL_SYNC, RETENTION_PRUNE, BEHAVIOR_ROLLUP_RECONCILE, BASE_RATES_WARM,
     CHAT_TITLE_GENERATE, CHAT_PROFILE_DISTILL, FILING_RECOMPUTE, FILING_ROLLING_DAILY,
     FILING_BACKFILL, JOB_HEALTH_CHECK]"

definition job_type_of :: "string \<Rightarrow> job_type option" where
  \<comment> \<open>looking a row's \<open>type\<close> up among the keys of one of the tables\<close>
  "job_type_of s = find (\<lambda>t. JobTypes t = s) all_job_types"

datatype restart_policy = Requeue | Fail

datatype cancellation_support = Checkpointed | Signal_only | Preflight_only | No_support

datatype job_status = PENDING | RUNNING | SUCCEEDED | FAILED | CANCELLED | ABANDONED

primrec status_name :: "job_status \<Rightarrow> string" where
  "status_name PENDING = ''pending''"
| "status_name RUNNING = ''running''"
| "status_name SUCCEEDED = ''succeeded''"
| "status_name FAILED = ''failed''"
| "status_name CANCELLED = ''cancelled''"
| "status_name ABANDONED = ''abandoned''"

primrec RETRY_POLICIES :: "job_type \<Rightarrow> int" where
  \<comment> \<open>\<open>maxAttempts\<close>\<close>
  "RETRY_POLICIES DEALS_BACKFILL = 1"
| "RETRY_POLICIES EVENTS_BACKFILL = 1"
| "RETRY_POLICIES INSIDER_TRADES_BACKFILL = 1"
| "RETRY_POLICIES NEWS_BACKFILL = 1"
| "RETRY_POLICIES PRICE_BACKFILL = 1"
| "RETRY_POLICIES INDEX_PRICES_BACKFILL = 1"
| "RETRY_POLICIES INSTRUMENT_HISTORY_BACKFILL = 2"
| "RETRY_POLICIES EOD_PRICES_DAILY = 2"
| "RETRY_POLICIES INDEX_PRICES_DAILY = 2"
| "RETRY_POLICIES AMFI_NAV_DAILY = 2"
| "RETRY_POLICIES ETF_NAV_DAILY = 2"
| "RETRY_POLICIES REIT_DAILY = 2"
| "RETRY_POLICIES ETF_PRICES_DAILY = 2"
| "RETRY_POLICIES GOVT_SECURITIES_DAILY = 2"
| "RETRY_POLICIES CORPORATE_BONDS_DAILY = 2"
| "RETRY_POLICIES MF_ANALYTICS_DAILY = 2"
| "RETRY_POLICIES INSTRUMENT_CORPORATE_ACTIONS = 2"
| "RETRY_POLICIES DEALS_DAILY_INGEST = 2"
| "RETRY_POLICIES EVENTS_WEEKLY_INGEST = 2"
| "RETRY_POLICIES EVENTS_DAILY_REFRESH = 2"
| "RETRY_POLICIES SHAREHOLDING_QUARTERLY = 2"
| "RETRY_POLICIES SHAREHOLDING_SMART_REFRESH = 2"
| "RETRY_POLICIES SHAREHOLDING_BACKFILL = 1"
| "RETRY_POLICIES INSIDER_TRADES_DAILY = 2"
| "RETRY_POLICIES DAILY_NEWS_INGEST = 2"
| "RETRY_POLICIES NSE_ANNOUNCEMENTS_INGEST = 2"
| "RETRY_POLICIES GOOGLE_NEWS_INGEST = 2"
| "RETRY_POLICIES NEWS_CONTENT_EXTRACTION = 2"
| "RETRY_POLICIES PEER_METRICS_COMPUTE_ALL = 1"
| "RETRY_POLICIES RESULTS_SCAN = 3"
| "RETRY_POLICIES QUARTER_BRIEF = 1"
| "RETRY_POLICIES LEGACY_BACKFILL = 3"
| "RETRY_POLICIES PG_RESCORE = 2"
| "RETRY_POLICIES PG_CASCADE_RESCORE = 2"
| "RETRY_POLICIES FILL_CASCADE_RESCORE = 2"
| "RETRY_POLICIES PRICES_REFETCH = 2"
| "RETRY_POLICIES ALERTS_EVAL_DAILY = 2"
| "RETRY_POLICIES ALERTS_DELIVER_DAILY = 2"
| "RETRY_POLICIES REMINDERS_EVAL_DAILY = 2"
| "RETRY_POLICIES REMINDERS_DELIVER_DAILY = 2"
| "RETRY_POLICIES BROKER_POLL_SYNC = 1"
| "RETRY_POLICIES RETENTION_PRUNE = 1"
| "RETRY_POLICIES BEHAVIOR_ROLLUP_RECONCILE = 1"
| "RETRY_POLICIES BASE_RATES_WARM = 1"
| "RETRY_POLICIES CHAT_TITLE_GENERATE = 1"
| "RETRY_POLICIES CHAT_PROFILE_DISTILL = 1"
| "RETRY_POLICIES FILING_RECOMPUTE = 2"
| "RETRY_POLICIES FILING_ROLLING_DAILY = 2"
| "RETRY_POLICIES FILING_BACKFILL = 2"
| "RETRY_POLICIES JOB_HEALTH_CHECK = 2"

primrec RESTART_POLICIES :: "job_type \<Rightarrow> restart_policy" where
  \<comment> \<open>what an interrupted run becomes\<close>
  "RESTART_POLICIES DEALS_BACKFILL = Fail"
| "RESTART_POLICIES EVENTS_BACKFILL = Fail"
| "RESTART_POLICIES INSIDER_TRADES_BACKFILL = Fail"
| "RESTART_POLICIES NEWS_BACKFILL = Fail"
| "RESTART_POLICIES PRICE_BACKFILL = Fail"
| "RESTART_POLICIES INDEX_PRICES_BACKFILL = Fail"
| "RESTART_POLICIES INSTRUMENT_HISTORY_BACKFILL = Requeue"
| "RESTART_POLICIES EOD_PRICES_DAILY = Requeue"
| "RESTART_POLICIES INDEX_PRICES_DAILY = Requeue"
| "RESTART_POLICIES AMFI_NAV_DAILY = Requeue"
| "RESTART_POLICIES ETF_NAV_DAILY = Requeue"
| "RESTART_POLICIES REIT_DAILY = Requeue"
| "RESTART_POLICIES ETF_PRICES_DAILY = Requeue"
| "RESTART_POLICIES GOVT_SECURITIES_DAILY = Requeue"
| "RESTART_POLICIES CORPORATE_BONDS_DAILY = Requeue"
| "RESTART_POLICIES MF_ANALYTICS_DAILY = Requeue"
| "RESTART_POLICIES INSTRUMENT_CORPORATE_ACTIONS = Requeue"
| "RESTART_POLICIES DEALS_DAILY_INGEST = Requeue"
| "RESTART_POLICIES EVENTS_WEEKLY_INGEST = Requeue"
| "RESTART_POLICIES EVENTS_DAILY_REFRESH = Requeue"
| "RESTART_POLICIES SHAREHOLDING_QUARTERLY = Requeue"
| "RESTART_POLICIES SHAREHOLDING_SMART_REFRESH = Requeue"
| "RESTART_POLICIES SHAREHOLDING_BACKFILL = Fail"
| "RESTART_POLICIES INSIDER_TRADES_DAILY = Requeue"
| "RESTART_POLICIES DAILY_NEWS_INGEST = Requeue"
| "RESTART_POLICIES NSE_ANNOUNCEMENTS_INGEST = Requeue"
| "RESTART_POLICIES GOOGLE_NEWS_INGEST = Requeue"
| "RESTART_POLICIES NEWS_CONTENT_EXTRACTION = Requeue"
| "RESTART_POLICIES PEER_METRICS_COMPUTE_ALL = Requeue"
| "RESTART_POLICIES RESULTS_SCAN = Requeue"
| "RESTART_POLICIES QUARTER_BRIEF = Requeue"
| "RESTART_POLICIES LEGACY_BACKFILL = Fail"
| "RESTART_POLICIES PG_RESCORE = Requeue"
| "RESTART_POLICIES PG_CASCADE_RESCORE = Requeue"
| "RESTART_POLICIES FILL_CASCADE_RESCORE = Requeue"
| "RESTART_POLICIES PRICES_REFETCH = Requeue"
| "RESTART_POLICIES ALERTS_EVAL_DAILY = Requeue"
| "RESTART_POLICIES ALERTS_DELIVER_DAILY = Requeue"
| "RESTART_POLICIES REMINDERS_EVAL_DAILY = Requeue"
| "RESTART_POLICIES REMINDERS_DELIVER_DAILY = Requeue"
| "RESTART_POLICIES BROKER_POLL_SYNC = Fail"
| "RESTART_POLICIES RETENTION_PRUNE = Fail"
| "RESTART_POLICIES BEHAVIOR_ROLLUP_RECONCILE = Requeue"
| "RESTART_POLICIES BASE_RATES_WARM = Requeue"
| "RESTART_POLICIES CHAT_TITLE_GENERATE = Requeue"
| "RESTART_POLICIES CHAT_PROFILE_DISTILL = Requeue"
| "RESTART_POLICIES FILING_RECOMPUTE = Requeue"
| "RESTART_POLICIES FILING_ROLLING_DAILY = Requeue"
| "RESTART_POLICIES FILING_BACKFILL = Requeue"
| "RESTART_POLICIES JOB_HEALTH_CHECK = Requeue"

primrec CANCELLATION_SUPPORT :: "job_type \<Rightarrow> cancellation_support" where
  \<comment> \<open>how a running job takes a cancel\<close>
  "CANCELLATION_SUPPORT DEALS_BACKFILL = No_support"
| "CANCELLATION_SUPPORT EVENTS_BACKFILL = Checkpointed"
| "CANCELLATION_SUPPORT INSIDER_TRADES_BACKFILL = Checkpointed"
| "CANCELLATION_SUPPORT NEWS_BACKFILL = Checkpointed"
| "CANCELLATION_SUPPORT PRICE_BACKFILL = Checkpointed"
| "CANCELLATION_SUPPORT INDEX_PRICES_BACKFILL = Checkpointed"
| "CANCELLATION_SUPPORT INSTRUMENT_HISTORY_BACKFILL = Signal_only"
| "CANCELLATION_SUPPORT EOD_PRICES_DAILY = No_support"
| "CANCELLATION_SUPPORT INDEX_PRICES_DAILY = No_support"
| "CANCELLATION_SUPPORT AMFI_NAV_DAILY = No_support"
| "CANCELLATION_SUPPORT ETF_NAV_DAILY = No_support"
| "CANCELLATION_SUPPORT REIT_DAILY = No_support"
| "CANCELLATION_SUPPORT ETF_PRICES_DAILY = No_support"
| "CANCELLATION_SUPPORT GOVT_SECURITIES_DAILY = No_support"
| "CANCELLATION_SUPPORT CORPORATE_BONDS_DAILY = No_support"
| "CANCELLATION_SUPPORT MF_ANALYTICS_DAILY = No_support"
| "CANCELLATION_SUPPORT INSTRUMENT_CORPORATE_ACTIONS = No_support"
| "CANCELLATION_SUPPORT DEALS_DAILY_INGEST = No_support"
| "CANCELLATION_SUPPORT EVENTS_WEEKLY_INGEST = No_support"
| "CANCELLATION_SUPPORT EVENTS_DAILY_REFRESH = No_support"
| "CANCELLATION_SUPPORT SHAREHOLDING_QUARTERLY = Checkpointed"
| "CANCELLATION_SUPPORT SHAREHOLDING_SMART_REFRESH = Checkpointed"
| "CANCELLATION_SUPPORT SHAREHOLDING_BACKFILL = Checkpointed"
| "CANCELLATION_SUPPORT INSIDER_TRADES_DAILY = No_support"
| "CANCELLATION_SUPPORT DAILY_NEWS_INGEST = Checkpointed"
| "CANCELLATION_SUPPORT NSE_ANNOUNCEMENTS_INGEST = Checkpointed"
| "CANCELLATION_SUPPORT GOOGLE_NEWS_INGEST = Checkpointed"
| "CANCELLATION_SUPPORT NEWS_CONTENT_EXTRACTION = Checkpointed"
| "CANCELLATION_SUPPORT PEER_METRICS_COMPUTE_ALL = Checkpointed"
| "CANCELLATION_SUPPORT RESULTS_SCAN = Signal_only"
| "CANCELLATION_SUPPORT QUARTER_BRIEF = No_support"
| "CANCELLATION_SUPPORT LEGACY_BACKFILL = Checkpointed"
| "CANCELLATION_SUPPORT PG_RESCORE = Checkpointed"
| "CANCELLATION_SUPPORT PG_CASCADE_RESCORE = Checkpointed"
| "CANCELLATION_SUPPORT FILL_CASCADE_RESCORE = Checkpointed"
| "CANCELLATION_SUPPORT PRICES_REFETCH = Preflight_only"
| "CANCELLATION_SUPPORT ALERTS_EVAL_DAILY = No_support"
| "CANCELLATION_SUPPORT ALERTS_DELIVER_DAILY = No_support"
| "CANCELLATION_SUPPORT REMINDERS_EVAL_DAILY = No_support"
| "CANCELLATION_SUPPORT REMINDERS_DELIVER_DAILY = No_support"
| "CANCELLATION_SUPPORT BROKER_POLL_SYNC = No_support"
| "CANCELLATION_SUPPORT RETENTION_PRUNE = No_support"
| "CANCELLATION_SUPPORT BEHAVIOR_ROLLUP_RECONCILE = No_support"
| "CANCELLATION_SUPPORT BASE_RATES_WARM = No_support"
| "CANCELLATION_SUPPORT CHAT_TITLE_GENERATE = No_support"
| "CANCELLATION_SUPPORT CHAT_PROFILE_DISTILL = No_support"
| "CANCELLATION_SUPPORT FILING_RECOMPUTE = No_support"
| "CANCELLATION_SUPPORT FILING_ROLLING_DAILY = No_support"
| "CANCELLATION_SUPPORT FILING_BACKFILL = No_support"
| "CANCELLATION_SUPPORT JOB_HEALTH_CHECK = No_support"

primrec HANDLERS :: "job_type \<Rightarrow> string" where
  \<comment> \<open>the handler function registered\<close>
  "HANDLERS DEALS_BACKFILL = ''handleDealsBackfill''"
| "HANDLERS EVENTS_BACKFILL = ''handleEventsBackfill''"
| "HANDLERS INSIDER_TRADES_BACKFILL = ''handleInsiderTradesBackfill''"
| "HANDLERS NEWS_BACKFILL = ''handleNewsBackfill''"
| "HANDLERS PRICE_BACKFILL = ''handlePriceBackfill''"
| "HANDLERS INDEX_PRICES_BACKFILL = ''handleIndexBackfill''"
| "HANDLERS INSTRUMENT_HISTORY_BACKFILL = ''handleInstrumentHistoryBackfill''"
| "HANDLERS EOD_PRICES_DAILY = ''handleEodPricesDaily''"
| "HANDLERS INDEX_PRICES_DAILY = ''handleIndexPricesDaily''"
| "HANDLERS AMFI_NAV_DAILY = ''handleAmfiNavDaily''"
| "HANDLERS ETF_NAV_DAILY = ''handleEtfNavDaily''"
| "HANDLERS REIT_DAILY = ''handleReitDaily''"
| "HANDLERS ETF_PRICES_DAILY = ''handleEtfPricesDaily''"
| "HANDLERS GOVT_SECURITIES_DAILY = ''handleGovtSecuritiesDaily''"
| "HANDLERS CORPORATE_BONDS_DAILY = ''handleCorporateBondsDaily''"
| "HANDLERS MF_ANALYTICS_DAILY = ''handleMfAnalyticsDaily''"
| "HANDLERS INSTRUMENT_CORPORATE_ACTIONS = ''handleInstrumentCorporateActions''"
| "HANDLERS DEALS_DAILY_INGEST = ''handleDealsDailyIngest''"
| "HANDLERS EVENTS_WEEKLY_INGEST = ''handleEventsWeeklyIngest''"
| "HANDLERS EVENTS_DAILY_REFRESH = ''handleEventsDailyRefresh''"
| "HANDLERS SHAREHOLDING_QUARTERLY = ''handleShareholdingQuarterly''"
| "HANDLERS SHAREHOLDING_SMART_REFRESH = ''handleShareholdingSmartRefresh''"
| "HANDLERS SHAREHOLDING_BACKFILL = ''handleShareholdingBackfill''"
| "HANDLERS INSIDER_TRADES_DAILY = ''handleInsiderTradesDaily''"
| "HANDLERS DAILY_NEWS_INGEST = ''handleDailyNewsIngest''"
| "HANDLERS NSE_ANNOUNCEMENTS_INGEST = ''handleNseAnnouncementsIngest''"
| "HANDLERS GOOGLE_NEWS_INGEST = ''handleGoogleNewsIngest''"
| "HANDLERS NEWS_CONTENT_EXTRACTION = ''handleNewsContentExtraction''"
| "HANDLERS PEER_METRICS_COMPUTE_ALL = ''handlePeerMetricsComputeAll''"
| "HANDLERS RESULTS_SCAN = ''handleResultsScan''"
| "HANDLERS QUARTER_BRIEF = ''handleQuarterBrief''"
| "HANDLERS LEGACY_BACKFILL = ''handleLegacyBackfill''"
| "HANDLERS PG_RESCORE = ''handlePgRescore''"
| "HANDLERS PG_CASCADE_RESCORE = ''handlePgCascadeRescore''"
| "HANDLERS FILL_CASCADE_RESCORE = ''handleFillCascadeRescore''"
| "HANDLERS PRICES_REFETCH = ''handlePricesRefetch''"
| "HANDLERS ALERTS_EVAL_DAILY = ''handleAlertsEvalDaily''"
| "HANDLERS ALERTS_DELIVER_DAILY = ''handleAlertsDeliverDaily''"
| "HANDLERS REMINDERS_EVAL_DAILY = ''handleRemindersEvalDaily''"
| "HANDLERS REMINDERS_DELIVER_DAILY = ''handleRemindersDeliverDaily''"
| "HANDLERS BROKER_POLL_SYNC = ''handleBrokerPollSync''"
| "HANDLERS RETENTION_PRUNE = ''handleRetentionPrune''"
| "HANDLERS BEHAVIOR_ROLLUP_RECONCILE = ''handleBehaviorRollupReconcile''"
| "HANDLERS BASE_RATES_WARM = ''handleBaseRatesWarm''"
| "HANDLERS CHAT_TITLE_GENERATE = ''handleChatTitleGenerate''"
| "HANDLERS CHAT_PROFILE_DISTILL = ''handleChatProfileDistill''"
| "HANDLERS FILING_RECOMPUTE = ''handleFilingRecompute''"
| "HANDLERS FILING_ROLLING_DAILY = ''handleFilingRollingDaily''"
| "HANDLERS FILING_BACKFILL = ''handleFilingBackfill''"
| "HANDLERS JOB_HEALTH_CHECK = ''handleJobHealthCheck''"

definition inherited_keys :: "string list" where
  \<comment> \<open>the property names of \<open>Object.prototype\<close>\<close>
  "inherited_keys =
    [''constructor'', ''hasOwnProperty'', ''isPrototypeOf'', ''propertyIsEnumerable'', ''toLocaleString'',
     ''toString'', ''valueOf'', ''__proto__'', ''__defineGetter__'', ''__defineSetter__'',
     ''__lookupGetter__'', ''__lookupSetter__'']"

definition restartPolicyFor :: "string \<Rightarrow> restart_policy" where
  "restartPolicyFor s = nullish (map_option RESTART_POLICIES (job_type_of s)) Fail"

definition cancellationSupportFor :: "string \<Rightarrow> cancellation_support" where
  "cancellationSupportFor s = nullish (map_option CANCELLATION_SUPPORT (job_type_of s)) No_support"

definition getHandler :: "string \<Rightarrow> string option" where
  "getHandler s = map_option HANDLERS (job_type_of s)"

definition getRegisteredTypes :: "string list" where
  "getRegisteredTypes = map JobTypes all_job_types"

subsection \<open>The tables fit together\<close>

lemma all_job_types_complete: "t \<in> set all_job_types"
  by (cases t) (simp_all add: all_job_types_def)

lemma registered_distinct: "distinct getRegisteredTypes"
  by code_simp

lemma JobTypes_inj: "JobTypes t = JobTypes u \<Longrightarrow> t = u"
  using registered_distinct all_job_types_complete
  by (metis getRegisteredTypes_def distinct_map inj_onD)

lemma job_type_of_Some: "job_type_of s = Some t \<longleftrightarrow> JobTypes t = s"
proof
  assume "job_type_of s = Some t"
  then show "JobTypes t = s" unfolding job_type_of_def by (auto simp: find_Some_iff)
next
  assume t: "JobTypes t = s"
  then obtain u where u: "job_type_of s = Some u"
    unfolding job_type_of_def using all_job_types_complete[of t]
    by (cases "find (\<lambda>t. JobTypes t = s) all_job_types") (auto simp: find_None_iff)
  then have "JobTypes u = s" unfolding job_type_of_def by (auto simp: find_Some_iff)
  then show "job_type_of s = Some t" using t u JobTypes_inj[of t u] by simp
qed

text \<open>Every declared job type is found again from its wire name and has its own entry in
  each table (handler, restart policy, cancellation support); a type the catalogue does not declare
  has no handler, is never re-run and supports no cancellation.\<close>

theorem catalogue_roundtrip:
  "job_type_of (JobTypes t) = Some t \<and> getHandler (JobTypes t) = Some (HANDLERS t) \<and>
   restartPolicyFor (JobTypes t) = RESTART_POLICIES t \<and>
   cancellationSupportFor (JobTypes t) = CANCELLATION_SUPPORT t \<and>
   (s \<notin> set getRegisteredTypes \<and> s \<notin> set inherited_keys \<longrightarrow>
      getHandler s = None \<and> restartPolicyFor s = Fail \<and> cancellationSupportFor s = No_support)"
proof -
  have "job_type_of (JobTypes t) = Some t" by (simp add: job_type_of_Some)
  moreover have "job_type_of s = None" if "s \<notin> set getRegisteredTypes"
  proof (cases "job_type_of s")
    case (Some u)
    then have "s = JobTypes u" by (simp add: job_type_of_Some)
    then have "s \<in> set getRegisteredTypes"
      using all_job_types_complete[of u] by (simp add: getRegisteredTypes_def)
    then show ?thesis using that by simp
  qed
  ultimately show ?thesis
    by (simp add: getHandler_def restartPolicyFor_def cancellationSupportFor_def)
qed

lemma catalogue_roundtrip_witness:
  "restartPolicyFor ''retention_prune'' = Fail \<and> restartPolicyFor ''no_such_job'' = Fail"
proof -
  have "''no_such_job'' \<notin> set getRegisteredTypes \<and> ''no_such_job'' \<notin> set inherited_keys" by code_simp
  then show ?thesis
    using catalogue_roundtrip[of RETENTION_PRUNE "''no_such_job''"] by simp
qed

text \<open>A type that is never re-run after an interruption is not retried after an error
  either, with the one exception of the legacy backfill, and every type is attempted between one and
  three times.\<close>

theorem never_rerun_types:
  "(RESTART_POLICIES t = Fail \<longrightarrow> RETRY_POLICIES t = 1 \<or> t = LEGACY_BACKFILL) \<and>
   1 \<le> RETRY_POLICIES t \<and> RETRY_POLICIES t \<le> 3"
  by (cases t) simp_all

lemma never_rerun_types_witness: "RETRY_POLICIES RETENTION_PRUNE = 1"
  using never_rerun_types[of RETENTION_PRUNE] by simp

end
