(* ===== verification/Jobs.thy ===== *)
theory Jobs
  imports JobTypes Numbers "HOL-Library.Product_Lexorder"
begin

text \<open>
  The job queue as the database holds it: \<open>src/jobs/enqueue.ts\<close>, the row writes of
  \<open>src/jobs/context.ts\<close>, and the reaper \<open>src/jobs/reaper.ts\<close>.  The table \<open>background_jobs\<close> is a list
  of rows in insertion order, keyed by id; Prisma's \<open>updateMany\<close> is one atomic statement with the number
  of rows it matched.  Times are milliseconds, JSON columns are their text, and an error message is the
  template it is built from with the values put into it.
\<close>

subsection \<open>Rows\<close>

type_synonym json = string

definition RECLAIM_PREFIX :: string where "RECLAIM_PREFIX = ''reclaimed:''"
definition INTERRUPT_PREFIX :: string where "INTERRUPT_PREFIX = ''interrupted:''"

datatype message =
    No_handler string
  | Thrown string
  | Reaped_cancelled int int "string option"
  | Reaped_requeued int bool int "string option" int int
  | Reaped_exhausted int
  | Reaped_unsafe int int "string option"
  | Interrupted_requeued int "string option" int
  | Interrupted_failed bool bool int int "string option"

fun starts_interrupted :: "message \<Rightarrow> bool" where
  \<comment> \<open>\<open>errorMessage: { startsWith: INTERRUPT_PREFIX }\<close>\<close>
  "starts_interrupted (Thrown s) = (take (length INTERRUPT_PREFIX) s = INTERRUPT_PREFIX)"
| "starts_interrupted (Interrupted_requeued p n r) = True"
| "starts_interrupted (Interrupted_failed c e r p n) = True"
| "starts_interrupted m = False"

record job =
  j_type :: string
  j_status :: job_status
  j_priority :: int
  j_payload :: json
  j_result :: "json option"
  j_errorMessage :: "message option"
  j_errorStack :: "string option"
  j_progress :: int
  j_progressNote :: "string option"
  j_cancelRequested :: bool
  j_createdAt :: int
  j_startedAt :: "int option"
  j_finishedAt :: "int option"
  j_durationMs :: "int option"
  j_lastHeartbeatAt :: "int option"
  j_reclaimCount :: int
  j_triggeredBy :: string
  j_attempts :: int
  j_maxAttempts :: int

type_synonym jobs = "(string \<times> job) list"

definition updateMany :: "(string \<Rightarrow> job \<Rightarrow> bool) \<Rightarrow> (job \<Rightarrow> job) \<Rightarrow> jobs \<Rightarrow> jobs \<times> nat" where
  "updateMany P f jobs =
    (map (\<lambda>(i, j). (i, if P i j then f j else j)) jobs, length (filter (\<lambda>(i, j). P i j) jobs))"

definition update_row :: "string \<Rightarrow> (job \<Rightarrow> job) \<Rightarrow> jobs \<Rightarrow> jobs" where
  \<comment> \<open>\<open>update({ where: { id } })\<close> on an id that exists\<close>
  "update_row jid f jobs = fst (updateMany (\<lambda>i j. i = jid) f jobs)"

subsection \<open>Enqueue, cancel, progress\<close>

definition enqueueJob :: "int \<Rightarrow> string \<Rightarrow> job_type \<Rightarrow> json \<Rightarrow> string \<Rightarrow> int option \<Rightarrow> int option \<Rightarrow> jobs \<Rightarrow> jobs" where
  "enqueueJob now jid type payload triggeredBy priority maxAttempts jobs = jobs @
    [(jid, \<lparr>j_type = JobTypes type, j_status = PENDING, j_priority = nullish priority 100, j_payload = payload,
       j_result = None, j_errorMessage = None, j_errorStack = None, j_progress = 0, j_progressNote = None,
       j_cancelRequested = False, j_createdAt = now, j_startedAt = None, j_finishedAt = None,
       j_durationMs = None, j_lastHeartbeatAt = None, j_reclaimCount = 0, j_triggeredBy = triggeredBy,
       j_attempts = 0, j_maxAttempts = nullish maxAttempts (RETRY_POLICIES type)\<rparr>)]"

definition cancel_write :: "int \<Rightarrow> string \<Rightarrow> job_status \<Rightarrow> jobs \<Rightarrow> jobs" where
  \<comment> \<open>what \<open>requestCancel\<close> does after it has read the row's status\<close>
  "cancel_write now jid seen jobs =
    (if seen = PENDING then update_row jid (\<lambda>j. j\<lparr>j_status := CANCELLED, j_finishedAt := Some now\<rparr>) jobs
     else if seen = RUNNING then update_row jid (\<lambda>j. j\<lparr>j_cancelRequested := True\<rparr>) jobs
     else jobs)"

record progress_state =
  pg_lastWrite :: int
  pg_lastPercent :: int

definition fresh_progress :: progress_state where
  "fresh_progress = \<lparr>pg_lastWrite = 0, pg_lastPercent = - 1\<rparr>"

definition reportProgress :: "int \<Rightarrow> string \<Rightarrow> num \<Rightarrow> string option \<Rightarrow> progress_state \<times> jobs \<Rightarrow> progress_state \<times> jobs" where
  "reportProgress now jid percent note st = (case st of (pg, jobs) \<Rightarrow>
    (let clamped = max 0 (min 100 (js_round percent));
         significant = (clamped = 100 \<or> clamped - pg_lastPercent pg \<ge> 5 \<or> now - pg_lastWrite pg > 500)
     in if \<not> significant then (pg, jobs)
        else (\<lparr>pg_lastWrite = now, pg_lastPercent = clamped\<rparr>,
              update_row jid (\<lambda>j. j\<lparr>j_progress := clamped, j_progressNote := note\<rparr>) jobs)))"

subsection \<open>The reaper\<close>

definition JOB_HEARTBEAT_INTERVAL_MS :: int where "JOB_HEARTBEAT_INTERVAL_MS = 30000"
definition STALE_AFTER_MS :: int where "STALE_AFTER_MS = 10 * 60000"
definition BOOT_STALE_AFTER_MS :: int where "BOOT_STALE_AFTER_MS = 90000"
definition LEGACY_BOOT_STALE_AFTER_MS :: int where "LEGACY_BOOT_STALE_AFTER_MS = 30 * 60000"
definition MAX_RECLAIMS :: int where "MAX_RECLAIMS = 3"

datatype reap_mode = Timer | Boot

record reap_options =
  op_mode :: "reap_mode option"
  op_now :: "int option"
  op_staleAfterMs :: "int option"
  op_legacyStaleAfterMs :: "int option"
  op_policyFor :: "(string \<Rightarrow> restart_policy) option"
  op_maxReclaims :: "int option"

record reap_config =
  rc_mode :: reap_mode
  rc_now :: int
  rc_cutoff :: int
  rc_legacyCutoff :: int
  rc_policyFor :: "string \<Rightarrow> restart_policy"
  rc_maxReclaims :: int

definition reap_config_of :: "int \<Rightarrow> reap_options \<Rightarrow> reap_config" where
  "reap_config_of clock opts =
    (let mode = nullish (op_mode opts) Timer;
         now = nullish (op_now opts) clock;
         staleAfterMs = nullish (op_staleAfterMs opts) (if mode = Boot then BOOT_STALE_AFTER_MS else STALE_AFTER_MS);
         legacyStaleAfterMs = nullish (op_legacyStaleAfterMs opts) LEGACY_BOOT_STALE_AFTER_MS
     in \<lparr>rc_mode = mode, rc_now = now, rc_cutoff = now - staleAfterMs,
         rc_legacyCutoff = now - legacyStaleAfterMs,
         rc_policyFor = nullish (op_policyFor opts) restartPolicyFor,
         rc_maxReclaims = nullish (op_maxReclaims opts) MAX_RECLAIMS\<rparr>)"

definition before :: "int option \<Rightarrow> int \<Rightarrow> bool" where
  \<comment> \<open>\<open>{ lt: cutoff }\<close>, false of NULL\<close>
  "before t cutoff = (case t of None \<Rightarrow> False | Some x \<Rightarrow> x < cutoff)"

definition stale :: "reap_config \<Rightarrow> job \<Rightarrow> bool" where
  "stale c j \<longleftrightarrow> j_status j = RUNNING \<and>
    (before (j_lastHeartbeatAt j) (rc_cutoff c) \<or>
     rc_mode c = Boot \<and> j_lastHeartbeatAt j = None \<and> before (j_startedAt j) (rc_legacyCutoff c))"

definition started_key :: "string \<times> job \<Rightarrow> bool \<times> int" where
  \<comment> \<open>\<open>orderBy: { startedAt: "asc" }\<close>, NULL last\<close>
  "started_key r = (case j_startedAt (snd r) of None \<Rightarrow> (True, 0) | Some t \<Rightarrow> (False, t))"

definition reap_scan :: "reap_config \<Rightarrow> jobs \<Rightarrow> jobs" where
  "reap_scan c jobs = sort_key started_key (filter (\<lambda>r. stale c (snd r)) jobs)"

datatype reap_action = Requeued | Failed

record reap_outcome =
  ro_id :: string
  ro_type :: string
  ro_action :: reap_action
  ro_reason :: message
  ro_stalledMs :: int
  ro_lastHeartbeatAt :: "int option"
  ro_startedAt :: "int option"
  ro_progress :: int
  ro_progressNote :: "string option"
  ro_reclaimCount :: int
  ro_legacy :: bool

record reap_report =
  rp_mode :: reap_mode
  rp_scanned :: nat
  rp_requeued :: nat
  rp_failed :: nat
  rp_skippedRaced :: nat
  rp_outcomes :: "reap_outcome list"

definition empty_report :: "reap_mode \<Rightarrow> reap_report" where
  "empty_report mode = \<lparr>rp_mode = mode, rp_scanned = 0, rp_requeued = 0, rp_failed = 0,
     rp_skippedRaced = 0, rp_outcomes = []\<rparr>"

definition stalled_ms :: "reap_config \<Rightarrow> job \<Rightarrow> int" where
  "stalled_ms c j = max 0 (rc_now c - nullish (j_lastHeartbeatAt j) (nullish (j_startedAt j) (rc_now c)))"

definition reap_decision :: "reap_config \<Rightarrow> job \<Rightarrow> reap_action \<times> message" where
  "reap_decision c j =
    (let policy = rc_policyFor c (j_type j);
         exhausted = (rc_maxReclaims c \<le> j_reclaimCount j)
     in if j_cancelRequested j
        then (Failed, Reaped_cancelled (stalled_ms c j) (j_progress j) (j_progressNote j))
        else if policy = Requeue \<and> \<not> exhausted
        then (Requeued, Reaped_requeued (stalled_ms c j) (j_lastHeartbeatAt j = None) (j_progress j)
                (j_progressNote j) (j_reclaimCount j + 1) (rc_maxReclaims c))
        else if policy = Requeue \<and> exhausted
        then (Failed, Reaped_exhausted (j_reclaimCount j))
        else (Failed, Reaped_unsafe (stalled_ms c j) (j_progress j) (j_progressNote j)))"

definition requeue_row :: "message \<Rightarrow> job \<Rightarrow> job" where
  "requeue_row reason j = j\<lparr>j_status := PENDING, j_startedAt := None, j_finishedAt := None,
     j_durationMs := None, j_progress := 0, j_progressNote := None, j_lastHeartbeatAt := None,
     j_errorMessage := Some reason, j_errorStack := None, j_attempts := j_attempts j - 1,
     j_reclaimCount := j_reclaimCount j + 1\<rparr>"

definition abandon_row :: "int \<Rightarrow> message \<Rightarrow> job \<Rightarrow> job" where
  "abandon_row now reason j = j\<lparr>j_status := ABANDONED, j_finishedAt := Some now,
     j_errorMessage := Some reason, j_reclaimCount := j_reclaimCount j + 1\<rparr>"

definition reap_guard :: "reap_config \<Rightarrow> string \<times> job \<Rightarrow> string \<Rightarrow> job \<Rightarrow> bool" where
  "reap_guard c row i j \<longleftrightarrow> i = fst row \<and> j_status j = RUNNING \<and>
    (if j_lastHeartbeatAt (snd row) = None then j_lastHeartbeatAt j = None
     else before (j_lastHeartbeatAt j) (rc_cutoff c))"

definition reap_data :: "reap_config \<Rightarrow> job \<Rightarrow> job \<Rightarrow> job" where
  \<comment> \<open>the write, from what the scan read of the row\<close>
  "reap_data c seen j = (case reap_decision c seen of
     (Requeued, reason) \<Rightarrow> requeue_row reason j
   | (Failed, reason) \<Rightarrow> abandon_row (rc_now c) reason j)"

definition reap_row :: "reap_config \<Rightarrow> (string \<Rightarrow> bool) \<Rightarrow> jobs \<times> reap_report \<Rightarrow> string \<times> job \<Rightarrow> jobs \<times> reap_report" where
  \<comment> \<open>one round of the loop over the scanned rows; \<open>write_ok\<close> tells whose write does not throw\<close>
  "reap_row c write_ok st row = (case st of (jobs, report) \<Rightarrow>
    (if \<not> write_ok (fst row) then (jobs, report)
     else (case updateMany (reap_guard c row) (reap_data c (snd row)) jobs of (jobs', matched) \<Rightarrow>
       if matched = 0 then (jobs', report\<lparr>rp_skippedRaced := rp_skippedRaced report + 1\<rparr>)
       else (let (action, reason) = reap_decision c (snd row);
                 report' = (if action = Requeued then report\<lparr>rp_requeued := rp_requeued report + 1\<rparr>
                            else report\<lparr>rp_failed := rp_failed report + 1\<rparr>);
                 j = snd row
             in (jobs', report'\<lparr>rp_outcomes := rp_outcomes report' @
                  [\<lparr>ro_id = fst row, ro_type = j_type j, ro_action = action, ro_reason = reason,
                    ro_stalledMs = stalled_ms c j, ro_lastHeartbeatAt = j_lastHeartbeatAt j,
                    ro_startedAt = j_startedAt j, ro_progress = j_progress j,
                    ro_progressNote = j_progressNote j, ro_reclaimCount = j_reclaimCount j,
                    ro_legacy = (j_lastHeartbeatAt j = None)\<rparr>]\<rparr>)))))"

definition reapStalledJobs :: "int \<Rightarrow> reap_options \<Rightarrow> bool \<Rightarrow> (string \<Rightarrow> bool) \<Rightarrow> jobs \<Rightarrow> jobs \<times> reap_report" where
  "reapStalledJobs clock opts scan_ok write_ok jobs =
    (let c = reap_config_of clock opts; report = empty_report (rc_mode c)
     in if \<not> scan_ok then (jobs, report)
        else let candidates = reap_scan c jobs
             in foldl (reap_row c write_ok) (jobs, report\<lparr>rp_scanned := length candidates\<rparr>) candidates)"

subsection \<open>What a reaper pass does\<close>

lemma updateMany_keys [simp]: "map fst (fst (updateMany P f js)) = map fst js"
  by (induction js) (auto simp: updateMany_def)

lemma map_of_updateMany [simp]:
  "map_of (fst (updateMany P f js)) i = map_option (\<lambda>j. if P i j then f j else j) (map_of js i)"
  by (induction js) (auto simp: updateMany_def)

lemma updateMany_matched: "snd (updateMany P f js) = 0 \<longleftrightarrow> (\<forall>(i, j) \<in> set js. \<not> P i j)"
  by (auto simp: updateMany_def filter_empty_conv)

definition reaped :: "reap_config \<Rightarrow> (string \<Rightarrow> bool) \<Rightarrow> string set \<Rightarrow> jobs \<Rightarrow> jobs" where
  "reaped c write_ok D jobs =
    map (\<lambda>(i, j). (i, if i \<in> D \<and> stale c j \<and> write_ok i then reap_data c j j else j)) jobs"

lemma reaped_empty [simp]: "reaped c write_ok {} jobs = jobs"
  by (simp add: reaped_def map_idI)

lemma stale_guard: "stale c j \<Longrightarrow> reap_guard c (i, j) i j"
  by (auto simp: stale_def reap_guard_def before_def split: option.splits)

lemma reap_data_status: "j_status (reap_data c j k) \<noteq> RUNNING"
  by (simp add: reap_data_def requeue_row_def abandon_row_def split: prod.splits reap_action.splits)

lemma reap_row_reaped:
  assumes d: "distinct (map fst jobs)" and row: "(i, j) \<in> set jobs" "stale c j" "i \<notin> D"
  shows "fst (reap_row c write_ok (reaped c write_ok D jobs, report) (i, j)) = reaped c write_ok (insert i D) jobs"
    and "write_ok i \<Longrightarrow> snd (updateMany (reap_guard c (i, j)) (reap_data c j) (reaped c write_ok D jobs)) \<noteq> 0"
proof -
  have uniq: "(i, k) \<in> set jobs \<Longrightarrow> k = j" for k
    using d row(1) by (simp add: eq_key_imp_eq_value)
  have here: "(i, j) \<in> set (reaped c write_ok D jobs)"
    using row by (force simp: reaped_def)
  show "write_ok i \<Longrightarrow> snd (updateMany (reap_guard c (i, j)) (reap_data c j) (reaped c write_ok D jobs)) \<noteq> 0"
    using here stale_guard[OF row(2)] by (auto simp: updateMany_matched)
  have upd: "fst (updateMany (reap_guard c (i, j)) (reap_data c j) (reaped c write_ok D jobs)) =
      reaped c write_ok (insert i D) jobs" if "write_ok i"
    unfolding updateMany_def reaped_def fst_conv map_map
  proof (rule map_cong[OF refl])
    fix x assume x: "x \<in> set jobs"
    obtain a k where ak: "x = (a, k)" by (cases x)
    show "((\<lambda>(i', j'). (i', if reap_guard c (i, j) i' j' then reap_data c j j' else j')) \<circ>
        (\<lambda>(i, j). (i, if i \<in> D \<and> stale c j \<and> write_ok i then reap_data c j j else j))) x =
        (\<lambda>(i', j). (i', if i' \<in> insert i D \<and> stale c j \<and> write_ok i' then reap_data c j j else j)) x"
    proof (cases "a = i")
      case True
      then have "k = j" using uniq x ak by simp
      then show ?thesis using True ak that row stale_guard[OF row(2)] by simp
    next
      case False
      then show ?thesis using ak by (simp add: reap_guard_def)
    qed
  qed
  have "reaped c write_ok D jobs = reaped c write_ok (insert i D) jobs" if "\<not> write_ok i"
    using that by (auto simp: reaped_def)
  then show "fst (reap_row c write_ok (reaped c write_ok D jobs, report) (i, j)) = reaped c write_ok (insert i D) jobs"
    using upd by (auto simp: reap_row_def Let_def split: prod.splits)
qed

lemma reap_row_report:
  assumes "write_ok i \<Longrightarrow> snd (updateMany (reap_guard c (i, j)) (reap_data c j) jobs) \<noteq> 0"
    and "reap_row c write_ok (jobs, report) (i, j) = (jobs', report')"
  shows "rp_scanned report' = rp_scanned report \<and> rp_skippedRaced report' = rp_skippedRaced report \<and>
    rp_requeued report' + rp_failed report' = rp_requeued report + rp_failed report + (if write_ok i then 1 else 0) \<and>
    map ro_id (rp_outcomes report') = map ro_id (rp_outcomes report) @ (if write_ok i then [i] else [])"
  using assms by (auto simp: reap_row_def Let_def split: prod.splits if_splits)

lemma reap_fold:
  assumes "distinct (map fst jobs)" "set cs \<subseteq> set jobs" "\<forall>r \<in> set cs. stale c (snd r)"
    "distinct (map fst cs)" "fst ` set cs \<inter> D = {}"
    "foldl (reap_row c write_ok) (reaped c write_ok D jobs, report) cs = (jobs', report')"
  shows "jobs' = reaped c write_ok (D \<union> fst ` set cs) jobs \<and> rp_scanned report' = rp_scanned report \<and>
    rp_skippedRaced report' = rp_skippedRaced report \<and>
    rp_requeued report' + rp_failed report' = rp_requeued report + rp_failed report + length (filter (\<lambda>r. write_ok (fst r)) cs) \<and>
    map ro_id (rp_outcomes report') = map ro_id (rp_outcomes report) @ filter write_ok (map fst cs)"
  using assms(2-)
proof (induction cs arbitrary: D report)
  case (Cons r cs)
  obtain i j where r: "r = (i, j)" by (cases r)
  obtain jobs1 report1 where s: "reap_row c write_ok (reaped c write_ok D jobs, report) (i, j) = (jobs1, report1)"
    by fastforce
  have row: "(i, j) \<in> set jobs" "stale c j" "i \<notin> D" using Cons.prems r by auto
  have j1: "jobs1 = reaped c write_ok (insert i D) jobs"
    using reap_row_reaped(1)[OF assms(1) row, of write_ok report] s by simp
  note rep1 = reap_row_report[OF _ s, OF reap_row_reaped(2)[OF assms(1) row, of write_ok]]
  have "jobs' = reaped c write_ok (insert i D \<union> fst ` set cs) jobs \<and> rp_scanned report' = rp_scanned report1 \<and>
    rp_skippedRaced report' = rp_skippedRaced report1 \<and>
    rp_requeued report' + rp_failed report' = rp_requeued report1 + rp_failed report1 + length (filter (\<lambda>r. write_ok (fst r)) cs) \<and>
    map ro_id (rp_outcomes report') = map ro_id (rp_outcomes report1) @ filter write_ok (map fst cs)"
    by (rule Cons.IH) (use Cons.prems s j1 r in auto)
  then show ?case using rep1 r by (simp add: insert_commute Un_insert_left)
qed simp

text \<open>C30. A reaper pass with nothing in between: exactly the stale running rows whose write
  does not throw are changed, each by the decision for its own policy, cancel flag and reclaim
  count, every other row is untouched, no row counts as raced, the report counts and lists exactly
  the rows changed, and with no failing write nothing stale is left.\<close>

theorem reaper_pass:
  assumes d: "distinct (map fst jobs)" and c: "c = reap_config_of clock opts"
    and r: "reapStalledJobs clock opts True write_ok jobs = (jobs', report)"
  shows "jobs' = map (\<lambda>(i, j). (i, if stale c j \<and> write_ok i then reap_data c j j else j)) jobs \<and>
    rp_scanned report = length (filter (\<lambda>(i, j). stale c j) jobs) \<and> rp_skippedRaced report = 0 \<and>
    rp_requeued report + rp_failed report = length (filter (\<lambda>(i, j). stale c j \<and> write_ok i) jobs) \<and>
    mset (map ro_id (rp_outcomes report)) = mset (map fst (filter (\<lambda>(i, j). stale c j \<and> write_ok i) jobs)) \<and>
    ((\<forall>i. write_ok i) \<longrightarrow> reap_scan c jobs' = [])"
proof -
  let ?st = "filter (\<lambda>r. stale c (snd r)) jobs"
  let ?cs = "reap_scan c jobs"
  have cs: "mset ?cs = mset ?st" "set ?cs = set ?st" by (simp_all add: reap_scan_def)
  have dc: "distinct (map fst ?cs)"
  proof -
    have "mset (map fst ?cs) = mset (map fst ?st)" using cs(1) by (metis mset_map)
    moreover have "distinct (map fst ?st)" using d by (simp add: distinct_map_filter)
    ultimately show ?thesis by (metis mset_eq_imp_distinct_iff)
  qed
  have F: "foldl (reap_row c write_ok) (reaped c write_ok {} jobs, (empty_report (rc_mode c))\<lparr>rp_scanned := length ?cs\<rparr>) ?cs
      = (jobs', report)"
    using r c by (simp add: reapStalledJobs_def Let_def)
  have s: "set ?cs \<subseteq> set jobs" "\<forall>r \<in> set ?cs. stale c (snd r)" "fst ` set ?cs \<inter> {} = {}"
    unfolding cs(2) by auto
  note fold = reap_fold[OF d s(1,2) dc s(3) F]
  have m: "jobs' = reaped c write_ok (fst ` set ?cs) jobs"
    "rp_scanned report = length ?cs" "rp_skippedRaced report = 0"
    "rp_requeued report + rp_failed report = length (filter (\<lambda>r. write_ok (fst r)) ?cs)"
    "map ro_id (rp_outcomes report) = filter write_ok (map fst ?cs)"
    using fold by (simp_all add: empty_report_def)
  have j: "jobs' = map (\<lambda>(i, j). (i, if stale c j \<and> write_ok i then reap_data c j j else j)) jobs"
    unfolding m(1) reaped_def cs(2)
  proof (rule map_cong[OF refl])
    fix x assume "x \<in> set jobs"
    then have "fst x \<in> fst ` set ?st" if "stale c (snd x)"
      using that by simp
    then show "(\<lambda>(i, j). (i, if i \<in> fst ` set ?st \<and> stale c j \<and> write_ok i then reap_data c j j else j)) x =
        (\<lambda>(i, j). (i, if stale c j \<and> write_ok i then reap_data c j j else j)) x"
      by (cases x) auto
  qed
  have len: "length ?cs = length ?st" using cs(1) by (metis size_mset)
  have w: "length (filter (\<lambda>r. write_ok (fst r)) ?cs) = length (filter (\<lambda>r. write_ok (fst r)) ?st)"
    using cs(1) by (metis mset_filter size_mset)
  have f: "filter (\<lambda>r. write_ok (fst r)) ?st = filter (\<lambda>(i, j). stale c j \<and> write_ok i) jobs"
    unfolding filter_filter by (rule filter_cong) auto
  have o: "mset (filter write_ok (map fst ?cs)) = mset (map fst (filter (\<lambda>r. write_ok (fst r)) ?st))"
  proof -
    have "mset (filter write_ok (map fst ?cs)) = image_mset fst (filter_mset (\<lambda>r. write_ok (fst r)) (mset ?cs))"
      by (simp add: filter_map comp_def)
    then show ?thesis by (simp only: cs(1) mset_map mset_filter)
  qed
  have e: "reap_scan c jobs' = []" if "\<forall>i. write_ok i"
  proof -
    have "\<not> stale c (snd r)" if "r \<in> set jobs'" for r
      using that \<open>\<forall>i. write_ok i\<close> reap_data_status unfolding j by (fastforce simp: stale_def split: if_splits)
    then show ?thesis by (simp add: reap_scan_def filter_empty_conv)
  qed
  have st: "?st = filter (\<lambda>(i, j). stale c j) jobs" by (rule filter_cong) auto
  have "mset (map ro_id (rp_outcomes report)) = mset (map fst (filter (\<lambda>(i, j). stale c j \<and> write_ok i) jobs))"
    unfolding m(5) o f ..
  moreover have "rp_scanned report = length (filter (\<lambda>(i, j). stale c j) jobs)"
    using m(2) len st by (simp only:)
  moreover have "rp_requeued report + rp_failed report = length (filter (\<lambda>(i, j). stale c j \<and> write_ok i) jobs)"
    using m(4) w f by (simp only:)
  ultimately show ?thesis using j m(3) e by blast
qed


definition sample_job :: "string \<Rightarrow> job_status \<Rightarrow> int option \<Rightarrow> job" where
  "sample_job ty status beat = \<lparr>j_type = ty, j_status = status, j_priority = 100, j_payload = ''{}'',
     j_result = None, j_errorMessage = None, j_errorStack = None, j_progress = 38, j_progressNote = None,
     j_cancelRequested = False, j_createdAt = 0, j_startedAt = Some 0, j_finishedAt = None,
     j_durationMs = None, j_lastHeartbeatAt = beat, j_reclaimCount = 0, j_triggeredBy = ''cron'',
     j_attempts = 1, j_maxAttempts = 2\<rparr>"

definition default_options :: reap_options where
  "default_options = \<lparr>op_mode = None, op_now = None, op_staleAfterMs = None, op_legacyStaleAfterMs = None,
     op_policyFor = None, op_maxReclaims = None\<rparr>"

definition sample_table :: jobs where
  "sample_table = [(''a'', sample_job ''results_scan'' RUNNING (Some 0)),
     (''b'', sample_job ''retention_prune'' RUNNING (Some 100)),
     (''c'', sample_job ''results_scan'' RUNNING (Some 900000)),
     (''d'', sample_job ''results_scan'' RUNNING None)]"

lemma reaper_pass_witness:
  "map (\<lambda>(i, j). (i, j_status j, j_attempts j, j_reclaimCount j))
     (fst (reapStalledJobs 1000000 default_options True (\<lambda>i. True) sample_table)) =
   [(''a'', PENDING, 0, 1), (''b'', ABANDONED, 1, 1), (''c'', RUNNING, 1, 0), (''d'', RUNNING, 1, 0)]"
proof -
  obtain jobs' report where r: "reapStalledJobs 1000000 default_options True (\<lambda>i. True) sample_table = (jobs', report)"
    by fastforce
  have d: "distinct (map fst sample_table)" by code_simp
  have "map (\<lambda>(i, j). (i, j_status j, j_attempts j, j_reclaimCount j))
      (map (\<lambda>(i, j). (i, if stale (reap_config_of 1000000 default_options) j \<and> True
          then reap_data (reap_config_of 1000000 default_options) j j else j)) sample_table) =
    [(''a'', PENDING, 0, 1), (''b'', ABANDONED, 1, 1), (''c'', RUNNING, 1, 0), (''d'', RUNNING, 1, 0)]"
    by code_simp
  then show ?thesis using reaper_pass[OF d refl r] r by simp
qed

end
