(* ===== verification/JobWorker.thy ===== *)
theory JobWorker
  imports Jobs
begin

text \<open>
  The worker, \<open>src/jobs/worker.ts\<close>, together with everything else that writes the queue, as a system
  of interleaved steps.  Every step is one atomic database statement or one synchronous stretch of the
  worker between two awaits, so a read and the write that follows it are different steps and anything
  may happen between them: the main loop, the cancel polls, the heartbeat, the shutdown, cancel requests
  and reaper passes interleave freely.  There is one worker process, as deployed; it may crash at any
  point and a new one may start.  A handler's outcome is an argument of the step that reports it.

  Four idealisations: the clock never goes back, while \<open>Date.now()\<close> may; a crash also drops the statements
  that polls, cancels and reaper passes have already sent, while the database may still execute one; a poll's
  read happens while its handler runs, while one sent just before \<open>clearInterval\<close> may be executed a little
  later; and \<open>start()\<close> runs once per process, as \<open>server.ts\<close> calls it.
\<close>

subsection \<open>State\<close>

record run =
  r_id :: string
  r_attempts :: int
  r_maxAttempts :: int
  r_start :: int
  r_cancelledMidRun :: bool
  r_progress :: progress_state

datatype loop_pc =
    L_off
  | L_idle
  | L_found string
  | L_claimed string job
  | L_nohandler string
  | L_run run
  | L_late run json
  | L_heal run json
  | L_stopped

datatype poll_stage = Seen bool | Writing

record poll =
  pl_run :: nat
  pl_id :: string
  pl_stage :: poll_stage

datatype shut_pc = Sh_none | Sh_read string | Sh_write string job | Sh_end string

record sys =
  s_now :: int
  s_jobs :: jobs
  s_running :: bool
  s_shuttingDown :: bool
  s_currentJobId :: "string option"
  s_interruptedJobId :: "string option"
  s_loop :: loop_pc
  s_runNo :: nat
  s_polls :: "poll list"
  s_shut :: shut_pc
  s_cancels :: "(string \<times> job_status) list"
  s_reaps :: "(reap_config \<times> jobs) list"

record worker_config =
  resolveHandler :: "string \<Rightarrow> bool"
  policyFor :: "string \<Rightarrow> restart_policy"

definition default_config :: worker_config where
  "default_config = \<lparr>resolveHandler = (\<lambda>s. getHandler s \<noteq> None), policyFor = restartPolicyFor\<rparr>"

definition drop_nth :: "nat \<Rightarrow> 'a list \<Rightarrow> 'a list" where
  "drop_nth k xs = take k xs @ drop (Suc k) xs"

subsection \<open>The main loop\<close>

definition start_worker :: "sys \<Rightarrow> sys option" where
  \<comment> \<open>called once per process\<close>
  "start_worker s = (if s_loop s = L_off
     then Some (s\<lparr>s_running := True, s_shuttingDown := False, s_loop := L_idle\<rparr>) else None)"

definition stop_worker :: "sys \<Rightarrow> sys option" where
  "stop_worker s = Some (s\<lparr>s_running := False\<rparr>)"

definition loop_exit :: "sys \<Rightarrow> sys option" where
  "loop_exit s = (if s_loop s = L_idle \<and> \<not> s_running s then Some (s\<lparr>s_loop := L_stopped\<rparr>) else None)"

definition queue_key :: "job \<Rightarrow> int \<times> int" where
  "queue_key j = (j_priority j, j_createdAt j)"

definition next_pending :: "string \<Rightarrow> jobs \<Rightarrow> bool" where
  \<comment> \<open>\<open>findFirst\<close> may return this row: pending, and least in (priority, createdAt)\<close>
  "next_pending i jobs = (case map_of jobs i of None \<Rightarrow> False
     | Some j \<Rightarrow> j_status j = PENDING \<and> list_all (\<lambda>(i', j'). j_status j' = PENDING \<longrightarrow> queue_key j \<le> queue_key j') jobs)"

definition find_job :: "string \<Rightarrow> sys \<Rightarrow> sys option" where
  "find_job i s = (if s_loop s = L_idle \<and> s_running s \<and> next_pending i (s_jobs s)
     then Some (s\<lparr>s_loop := L_found i\<rparr>) else None)"

definition claim_row :: "int \<Rightarrow> job \<Rightarrow> job" where
  "claim_row now j = j\<lparr>j_status := RUNNING, j_startedAt := Some now, j_attempts := j_attempts j + 1,
     j_lastHeartbeatAt := Some now\<rparr>"

definition claim_job :: "sys \<Rightarrow> sys option" where
  "claim_job s = (case s_loop s of
     L_found i \<Rightarrow> (case map_of (s_jobs s) i of None \<Rightarrow> None
       | Some j \<Rightarrow> Some (s\<lparr>s_jobs := update_row i (claim_row (s_now s)) (s_jobs s),
                          s_loop := L_claimed i (claim_row (s_now s) j)\<rparr>))
   | _ \<Rightarrow> None)"

definition begin_run :: "worker_config \<Rightarrow> sys \<Rightarrow> sys option" where
  "begin_run cfg s = (case s_loop s of
     L_claimed i j \<Rightarrow> Some (s\<lparr>s_currentJobId := Some i, s_runNo := Suc (s_runNo s),
       s_loop := (if resolveHandler cfg (j_type j)
         then L_run \<lparr>r_id = i, r_attempts = j_attempts j, r_maxAttempts = j_maxAttempts j,
                r_start = s_now s, r_cancelledMidRun = False, r_progress = fresh_progress\<rparr>
         else L_nohandler i)\<rparr>)
   | _ \<Rightarrow> None)"

definition end_run :: "sys \<Rightarrow> sys" where
  \<comment> \<open>\<open>runJob\<close> returned, or the loop caught an error\<close>
  "end_run s = s\<lparr>s_loop := L_idle, s_currentJobId := None\<rparr>"

definition no_handler :: "sys \<Rightarrow> sys option" where
  "no_handler s = (case s_loop s of
     L_nohandler i \<Rightarrow> Some (end_run (s\<lparr>s_jobs := update_row i (\<lambda>j. j\<lparr>j_status := FAILED,
       j_finishedAt := Some (s_now s), j_errorMessage := Some (No_handler (j_type j))\<rparr>) (s_jobs s)\<rparr>))
   | _ \<Rightarrow> None)"

definition running_row :: "string \<Rightarrow> string \<Rightarrow> job \<Rightarrow> bool" where
  \<comment> \<open>\<open>where: { id, status: RUNNING }\<close>\<close>
  "running_row k i j \<longleftrightarrow> i = k \<and> j_status j = RUNNING"

definition succeed_row :: "int \<Rightarrow> int \<Rightarrow> json \<Rightarrow> job \<Rightarrow> job" where
  "succeed_row now start result j = j\<lparr>j_status := SUCCEEDED, j_finishedAt := Some now,
     j_durationMs := Some (now - start), j_result := Some result, j_progress := 100\<rparr>"

definition finish_run :: "json \<Rightarrow> sys \<Rightarrow> sys option" where
  \<comment> \<open>the handler returned\<close>
  "finish_run result s = (case s_loop s of
     L_run r \<Rightarrow>
      (if r_cancelledMidRun r then Some (end_run s)
       else (case updateMany (running_row (r_id r)) (succeed_row (s_now s) (r_start r) result) (s_jobs s) of
         (jobs', matched) \<Rightarrow>
           if matched > 0 then Some (end_run (s\<lparr>s_jobs := jobs'\<rparr>))
           else Some (s\<lparr>s_jobs := jobs', s_loop := L_late r result\<rparr>)))
   | _ \<Rightarrow> None)"

definition late_check :: "sys \<Rightarrow> sys option" where
  "late_check s = (case s_loop s of
     L_late r result \<Rightarrow> Some (if s_interruptedJobId s = Some (r_id r)
       then s\<lparr>s_loop := L_heal r result\<rparr> else end_run s)
   | _ \<Rightarrow> None)"

definition healable_row :: "string \<Rightarrow> string \<Rightarrow> job \<Rightarrow> bool" where
  "healable_row k i j \<longleftrightarrow> i = k \<and> j_status j = PENDING \<and>
     (case j_errorMessage j of None \<Rightarrow> False | Some m \<Rightarrow> starts_interrupted m)"

definition heal_row :: "int \<Rightarrow> int \<Rightarrow> json \<Rightarrow> job \<Rightarrow> job" where
  "heal_row now start result j = (succeed_row now start result j)\<lparr>j_errorMessage := None,
     j_attempts := j_attempts j + 1, j_reclaimCount := j_reclaimCount j - 1\<rparr>"

definition heal_run :: "sys \<Rightarrow> sys option" where
  "heal_run s = (case s_loop s of
     L_heal r result \<Rightarrow> Some (end_run (s\<lparr>s_jobs :=
       fst (updateMany (healable_row (r_id r)) (heal_row (s_now s) (r_start r) result) (s_jobs s))\<rparr>))
   | _ \<Rightarrow> None)"

definition error_row :: "int \<Rightarrow> run \<Rightarrow> bool \<Rightarrow> string \<Rightarrow> string option \<Rightarrow> job \<Rightarrow> job" where
  "error_row now r isCancellation errorMessage errorStack j =
    (let canRetry = (\<not> isCancellation \<and> r_attempts r < r_maxAttempts r)
     in j\<lparr>j_status := (if isCancellation then CANCELLED else if canRetry then PENDING else FAILED),
          j_finishedAt := (if canRetry \<and> \<not> isCancellation then None else Some now),
          j_durationMs := (if canRetry \<and> \<not> isCancellation then None else Some (now - r_start r)),
          j_errorMessage := Some (Thrown errorMessage), j_errorStack := errorStack\<rparr>)"

definition throw_run :: "bool \<Rightarrow> string \<Rightarrow> string option \<Rightarrow> sys \<Rightarrow> sys option" where
  \<comment> \<open>the handler, or a statement of the success branch, threw\<close>
  "throw_run isCancellation errorMessage errorStack s = (case s_loop s of
     L_run r \<Rightarrow> Some (end_run (if r_cancelledMidRun r then s else s\<lparr>s_jobs :=
       fst (updateMany (running_row (r_id r)) (error_row (s_now s) r isCancellation errorMessage errorStack) (s_jobs s))\<rparr>))
   | _ \<Rightarrow> None)"

definition loop_error :: "sys \<Rightarrow> sys option" where
  \<comment> \<open>a database call of the loop threw: the row is left as it is\<close>
  "loop_error s = (if s_loop s \<in> {L_off, L_idle, L_stopped} then None else Some (end_run s))"

definition report_progress :: "num \<Rightarrow> string option \<Rightarrow> sys \<Rightarrow> sys option" where
  "report_progress percent note s = (case s_loop s of
     L_run r \<Rightarrow> (case reportProgress (s_now s) (r_id r) percent note (r_progress r, s_jobs s) of
       (pg, jobs') \<Rightarrow> Some (s\<lparr>s_jobs := jobs', s_loop := L_run (r\<lparr>r_progress := pg\<rparr>)\<rparr>))
   | _ \<Rightarrow> None)"

subsection \<open>Heartbeat and cancel poll\<close>

definition heartbeat :: "sys \<Rightarrow> sys option" where
  "heartbeat s = (case s_currentJobId s of None \<Rightarrow> Some s
   | Some i \<Rightarrow> if s_shuttingDown s then Some s
      else Some (s\<lparr>s_jobs := fst (updateMany (running_row i) (\<lambda>j. j\<lparr>j_lastHeartbeatAt := Some (s_now s)\<rparr>) (s_jobs s))\<rparr>))"

definition poll_read :: "sys \<Rightarrow> sys option" where
  "poll_read s = (case s_loop s of
     L_run r \<Rightarrow> if r_cancelledMidRun r then Some s
       else Some (s\<lparr>s_polls := s_polls s @ [\<lparr>pl_run = s_runNo s, pl_id = r_id r,
         pl_stage = Seen (case map_of (s_jobs s) (r_id r) of None \<Rightarrow> False
           | Some j \<Rightarrow> j_cancelRequested j \<and> j_status j = RUNNING)\<rparr>]\<rparr>)
   | _ \<Rightarrow> None)"

definition mark_cancelled :: "nat \<Rightarrow> sys \<Rightarrow> sys" where
  \<comment> \<open>\<open>cancelledMidRun = true\<close>, in the closure of run number \<open>n\<close>\<close>
  "mark_cancelled n s = (case s_loop s of
     L_run r \<Rightarrow> if s_runNo s = n then s\<lparr>s_loop := L_run (r\<lparr>r_cancelledMidRun := True\<rparr>)\<rparr> else s
   | _ \<Rightarrow> s)"

definition poll_decide :: "nat \<Rightarrow> sys \<Rightarrow> sys option" where
  "poll_decide k s = (if k < length (s_polls s)
     then (let p = s_polls s ! k in
       case pl_stage p of
         Seen True \<Rightarrow> Some (mark_cancelled (pl_run p) (s\<lparr>s_polls := (s_polls s)[k := p\<lparr>pl_stage := Writing\<rparr>]\<rparr>))
       | Seen False \<Rightarrow> Some (s\<lparr>s_polls := drop_nth k (s_polls s)\<rparr>)
       | Writing \<Rightarrow> None)
     else None)"

definition poll_note :: string where
  \<comment> \<open>\<open>Cancelled - operation will finish its current step then stop\<close>, with a dash\<close>
  "poll_note = ''Cancelled - operation will finish its current step then stop''"

definition poll_write :: "nat \<Rightarrow> sys \<Rightarrow> sys option" where
  "poll_write k s = (if k < length (s_polls s) \<and> pl_stage (s_polls s ! k) = Writing
     then Some (s\<lparr>s_jobs := update_row (pl_id (s_polls s ! k)) (\<lambda>j. j\<lparr>j_status := CANCELLED,
            j_finishedAt := Some (s_now s), j_progressNote := Some poll_note\<rparr>) (s_jobs s),
          s_polls := drop_nth k (s_polls s)\<rparr>)
     else None)"

subsection \<open>Shutdown\<close>

definition shutdown_begin :: "sys \<Rightarrow> sys option" where
  "shutdown_begin s = (if s_shuttingDown s then Some s
     else Some (s\<lparr>s_shuttingDown := True, s_running := False,
       s_shut := (case s_currentJobId s of None \<Rightarrow> Sh_none | Some i \<Rightarrow> Sh_read i)\<rparr>))"

definition shutdown_read :: "sys \<Rightarrow> sys option" where
  "shutdown_read s = (case s_shut s of
     Sh_read i \<Rightarrow> Some (s\<lparr>s_shut := (case map_of (s_jobs s) i of None \<Rightarrow> Sh_end i | Some j \<Rightarrow> Sh_write i j)\<rparr>)
   | _ \<Rightarrow> None)"

definition interrupt_row :: "worker_config \<Rightarrow> int \<Rightarrow> job \<Rightarrow> job \<Rightarrow> job" where
  \<comment> \<open>the write of \<open>markInterrupted\<close>, from the row it read\<close>
  "interrupt_row cfg now seen j =
    (let exhausted = (MAX_RECLAIMS \<le> j_reclaimCount seen)
     in if policyFor cfg (j_type seen) = Requeue \<and> \<not> exhausted \<and> \<not> j_cancelRequested seen
        then requeue_row (Interrupted_requeued (j_progress seen) (j_progressNote seen) (j_reclaimCount seen + 1)) j
        else abandon_row now (Interrupted_failed (j_cancelRequested seen) exhausted (j_reclaimCount seen)
               (j_progress seen) (j_progressNote seen)) j)"

definition shutdown_write :: "worker_config \<Rightarrow> sys \<Rightarrow> sys option" where
  "shutdown_write cfg s = (case s_shut s of
     Sh_write i seen \<Rightarrow> Some (s\<lparr>s_jobs := fst (updateMany (running_row i) (interrupt_row cfg (s_now s) seen) (s_jobs s)),
       s_shut := Sh_end i\<rparr>)
   | _ \<Rightarrow> None)"

definition shutdown_fail :: "sys \<Rightarrow> sys option" where
  \<comment> \<open>the read or the write of \<open>markInterrupted\<close> threw\<close>
  "shutdown_fail s = (case s_shut s of
     Sh_read i \<Rightarrow> Some (s\<lparr>s_shut := Sh_end i\<rparr>)
   | Sh_write i seen \<Rightarrow> Some (s\<lparr>s_shut := Sh_end i\<rparr>)
   | _ \<Rightarrow> None)"

definition shutdown_end :: "sys \<Rightarrow> sys option" where
  "shutdown_end s = (case s_shut s of
     Sh_end i \<Rightarrow> Some (s\<lparr>s_interruptedJobId := Some i, s_shut := Sh_none\<rparr>)
   | _ \<Rightarrow> None)"

definition crash :: "sys \<Rightarrow> sys option" where
  \<comment> \<open>the process dies; the next one begins with nothing but the database\<close>
  "crash s = Some (s\<lparr>s_running := False, s_shuttingDown := False, s_currentJobId := None,
     s_interruptedJobId := None, s_loop := L_off, s_polls := [], s_shut := Sh_none, s_cancels := [], s_reaps := []\<rparr>)"

subsection \<open>The rest of the system\<close>

definition tick :: "int \<Rightarrow> sys \<Rightarrow> sys option" where
  "tick d s = (if 0 \<le> d then Some (s\<lparr>s_now := s_now s + d\<rparr>) else None)"

definition enqueue :: "string \<Rightarrow> job_type \<Rightarrow> json \<Rightarrow> string \<Rightarrow> int option \<Rightarrow> int option \<Rightarrow> sys \<Rightarrow> sys option" where
  \<comment> \<open>the database generates a fresh id\<close>
  "enqueue i type payload triggeredBy priority maxAttempts s =
    (if map_of (s_jobs s) i = None
     then Some (s\<lparr>s_jobs := enqueueJob (s_now s) i type payload triggeredBy priority maxAttempts (s_jobs s)\<rparr>)
     else None)"

definition cancel_read :: "string \<Rightarrow> sys \<Rightarrow> sys option" where
  \<comment> \<open>\<open>None\<close> also where the code throws \<open>Job not found\<close>\<close>
  "cancel_read i s = (case map_of (s_jobs s) i of None \<Rightarrow> None
     | Some j \<Rightarrow> Some (s\<lparr>s_cancels := s_cancels s @ [(i, j_status j)]\<rparr>))"

definition cancel_act :: "nat \<Rightarrow> sys \<Rightarrow> sys option" where
  "cancel_act k s = (if k < length (s_cancels s)
     then Some (s\<lparr>s_jobs := cancel_write (s_now s) (fst (s_cancels s ! k)) (snd (s_cancels s ! k)) (s_jobs s),
            s_cancels := drop_nth k (s_cancels s)\<rparr>)
     else None)"

definition reap_begin :: "worker_config \<Rightarrow> reap_mode \<Rightarrow> sys \<Rightarrow> sys option" where
  "reap_begin cfg mode s =
    (let c = reap_config_of (s_now s) \<lparr>op_mode = Some mode, op_now = None, op_staleAfterMs = None,
           op_legacyStaleAfterMs = None, op_policyFor = Some (policyFor cfg), op_maxReclaims = None\<rparr>
     in Some (s\<lparr>s_reaps := s_reaps s @ [(c, reap_scan c (s_jobs s))]\<rparr>))"

definition reap_next :: "nat \<Rightarrow> bool \<Rightarrow> sys \<Rightarrow> sys option" where
  \<comment> \<open>the next row of the \<open>k\<close>-th pass under way; \<open>ok\<close> tells whether its write throws\<close>
  "reap_next k ok s = (if k < length (s_reaps s)
     then (case s_reaps s ! k of
        (c, []) \<Rightarrow> Some (s\<lparr>s_reaps := drop_nth k (s_reaps s)\<rparr>)
      | (c, row # rows) \<Rightarrow> Some (s\<lparr>s_jobs := fst (reap_row c (\<lambda>i. ok) (s_jobs s, empty_report (rc_mode c)) row),
           s_reaps := (s_reaps s)[k := (c, rows)]\<rparr>))
     else None)"

datatype op =
    Start | Stop | Loop_exit | Find string | Claim | Begin_run | No_handler_write
  | Finish json | Late_check | Heal | Throw bool string "string option" | Loop_error
  | Progress num "string option" | Heartbeat | Poll_read | Poll_decide nat | Poll_write nat
  | Shutdown_begin | Shutdown_read | Shutdown_write | Shutdown_fail | Shutdown_end | Crash
  | Tick int | Enqueue string job_type json string "int option" "int option"
  | Cancel_read string | Cancel_act nat | Reap_begin reap_mode | Reap_next nat bool

fun exec :: "worker_config \<Rightarrow> op \<Rightarrow> sys \<Rightarrow> sys option" where
  \<comment> \<open>\<open>None\<close>: the step is not possible in this state\<close>
  "exec cfg Start s = start_worker s"
| "exec cfg Stop s = stop_worker s"
| "exec cfg Loop_exit s = loop_exit s"
| "exec cfg (Find i) s = find_job i s"
| "exec cfg Claim s = claim_job s"
| "exec cfg Begin_run s = begin_run cfg s"
| "exec cfg No_handler_write s = no_handler s"
| "exec cfg (Finish result) s = finish_run result s"
| "exec cfg Late_check s = late_check s"
| "exec cfg Heal s = heal_run s"
| "exec cfg (Throw c m st) s = throw_run c m st s"
| "exec cfg Loop_error s = loop_error s"
| "exec cfg (Progress p n) s = report_progress p n s"
| "exec cfg Heartbeat s = heartbeat s"
| "exec cfg Poll_read s = poll_read s"
| "exec cfg (Poll_decide k) s = poll_decide k s"
| "exec cfg (Poll_write k) s = poll_write k s"
| "exec cfg Shutdown_begin s = shutdown_begin s"
| "exec cfg Shutdown_read s = shutdown_read s"
| "exec cfg Shutdown_write s = shutdown_write cfg s"
| "exec cfg Shutdown_fail s = shutdown_fail s"
| "exec cfg Shutdown_end s = shutdown_end s"
| "exec cfg Crash s = crash s"
| "exec cfg (Tick d) s = tick d s"
| "exec cfg (Enqueue i ty p tr pr m) s = enqueue i ty p tr pr m s"
| "exec cfg (Cancel_read i) s = cancel_read i s"
| "exec cfg (Cancel_act k) s = cancel_act k s"
| "exec cfg (Reap_begin mode) s = reap_begin cfg mode s"
| "exec cfg (Reap_next k ok) s = reap_next k ok s"

fun run_ops :: "worker_config \<Rightarrow> op list \<Rightarrow> sys \<Rightarrow> sys option" where
  "run_ops cfg [] s = Some s"
| "run_ops cfg (op # ops) s = (case exec cfg op s of None \<Rightarrow> None | Some s' \<Rightarrow> run_ops cfg ops s')"

inductive sys_step :: "worker_config \<Rightarrow> sys \<Rightarrow> sys \<Rightarrow> bool" for cfg where
  "exec cfg op s = Some s' \<Longrightarrow> sys_step cfg s s'"

definition boot_state :: "int \<Rightarrow> jobs \<Rightarrow> sys" where
  "boot_state now jobs = \<lparr>s_now = now, s_jobs = jobs, s_running = False, s_shuttingDown = False,
     s_currentJobId = None, s_interruptedJobId = None, s_loop = L_off, s_runNo = 0, s_polls = [],
     s_shut = Sh_none, s_cancels = [], s_reaps = []\<rparr>"

declare map_of_eq_Some_iff [simp del]

subsection \<open>The run budget of a row\<close>

text \<open>
  \<open>budget\<close> bounds the claims a row can still see: the attempts it has left, and the interruptions that
  may still give an attempt back.
\<close>

definition attempt_limit :: "job \<Rightarrow> int" where
  "attempt_limit j = max 1 (j_maxAttempts j)"

definition budget :: "job \<Rightarrow> int" where
  "budget j = (attempt_limit j - j_attempts j) + (MAX_RECLAIMS - min (j_reclaimCount j) MAX_RECLAIMS)"

definition row_ok :: "job \<Rightarrow> bool" where
  "row_ok j \<longleftrightarrow> 0 \<le> j_attempts j \<and> j_attempts j \<le> attempt_limit j \<and>
     (j_status j = PENDING \<longrightarrow> j_attempts j < attempt_limit j) \<and> (j_status j = RUNNING \<longrightarrow> 1 \<le> j_attempts j)"

definition rows_ok :: "jobs \<Rightarrow> bool" where
  "rows_ok js \<longleftrightarrow> distinct (map fst js) \<and> (\<forall>i j. map_of js i = Some j \<longrightarrow> row_ok j)"

definition row_all :: "jobs \<Rightarrow> string \<Rightarrow> (job \<Rightarrow> bool) \<Rightarrow> bool" where
  \<comment> \<open>the row with this id, if there is one, has the property\<close>
  "row_all js i P \<longleftrightarrow> (\<forall>j. map_of js i = Some j \<longrightarrow> P j)"

definition row_has :: "jobs \<Rightarrow> string \<Rightarrow> (job \<Rightarrow> bool) \<Rightarrow> bool" where
  \<comment> \<open>there is such a row, with the property\<close>
  "row_has js i P \<longleftrightarrow> (\<exists>j. map_of js i = Some j \<and> P j)"

text \<open>What the loop knows of the row it is working on.\<close>

definition snap_ok :: "int \<Rightarrow> int \<Rightarrow> job \<Rightarrow> bool" where
  "snap_ok att mx j \<longleftrightarrow> j_maxAttempts j = mx \<and> (j_status j = RUNNING \<longrightarrow> j_attempts j = att)"

definition loop_row :: "loop_pc \<Rightarrow> jobs \<Rightarrow> bool" where
  "loop_row l js = (case l of
     L_found i \<Rightarrow> row_has js i (\<lambda>j. j_status j \<noteq> RUNNING \<and> j_attempts j < attempt_limit j)
   | L_claimed i r \<Rightarrow> row_has js i (snap_ok (j_attempts r) (j_maxAttempts r))
   | L_run r \<Rightarrow> row_has js (r_id r) (snap_ok (r_attempts r) (r_maxAttempts r))
   | _ \<Rightarrow> True)"

definition busy :: "loop_pc \<Rightarrow> bool" where
  "busy l = (case l of L_nohandler i \<Rightarrow> True | L_run r \<Rightarrow> True | L_late r x \<Rightarrow> True | L_heal r x \<Rightarrow> True | _ \<Rightarrow> False)"

definition shut_row :: "shut_pc \<Rightarrow> jobs \<Rightarrow> bool" where
  "shut_row p js = (case p of
     Sh_write i r \<Rightarrow> row_all js i (\<lambda>j. j_status j = RUNNING \<longrightarrow> j_reclaimCount j = j_reclaimCount r)
   | _ \<Rightarrow> True)"

definition shut_loop :: "sys \<Rightarrow> bool" where
  \<comment> \<open>while a shutdown is under way nothing is claimed\<close>
  "shut_loop s \<longleftrightarrow> (s_shut s \<noteq> Sh_none \<longrightarrow>
     \<not> s_running s \<and> (busy (s_loop s) \<or> s_loop s = L_idle \<or> s_loop s = L_stopped))"

definition reap_knows :: "int \<Rightarrow> jobs \<Rightarrow> reap_config \<times> jobs \<Rightarrow> bool" where
  \<comment> \<open>a row that still passes the guard of a scanned one has the reclaim count the scan read\<close>
  "reap_knows now js p \<longleftrightarrow> rc_maxReclaims (fst p) = MAX_RECLAIMS \<and> rc_cutoff (fst p) \<le> now \<and>
     (\<forall>row \<in> set (snd p). row_all js (fst row)
        (\<lambda>j. reap_guard (fst p) row (fst row) j \<longrightarrow> j_reclaimCount j = j_reclaimCount (snd row)))"

definition sys_ok :: "sys \<Rightarrow> bool" where
  "sys_ok s \<longleftrightarrow> rows_ok (s_jobs s) \<and> loop_row (s_loop s) (s_jobs s) \<and> shut_row (s_shut s) (s_jobs s) \<and>
     shut_loop s \<and> (s_currentJobId s \<noteq> None \<longrightarrow> busy (s_loop s)) \<and>
     (\<forall>p \<in> set (s_reaps s). reap_knows (s_now s) (s_jobs s) p)"

text \<open>
  How a database write may change rows, in the eyes of everyone else.  A quiet change makes nothing
  \<open>RUNNING\<close>, keeps the attempts and reclaims of a row that stays \<open>RUNNING\<close>, sets its heartbeat at most
  to the present and spends no budget; with the flag, it also keeps the attempts of the other rows.
\<close>

definition quiet_change :: "bool \<Rightarrow> int \<Rightarrow> job \<Rightarrow> job \<Rightarrow> bool" where
  "quiet_change b now j k \<longleftrightarrow> j_maxAttempts k = j_maxAttempts j \<and> budget k \<le> budget j \<and> row_ok k \<and>
     (j_status k = RUNNING \<longrightarrow> j_status j = RUNNING \<and> j_attempts k = j_attempts j \<and>
        j_reclaimCount k = j_reclaimCount j \<and>
        (j_lastHeartbeatAt k = j_lastHeartbeatAt j \<or> j_lastHeartbeatAt k = Some now)) \<and>
     (b \<longrightarrow> j_status j \<noteq> RUNNING \<longrightarrow> j_attempts k = j_attempts j)"

definition quiet :: "bool \<Rightarrow> int \<Rightarrow> jobs \<Rightarrow> jobs \<Rightarrow> bool" where
  "quiet b now js ks \<longleftrightarrow> map fst ks = map fst js \<and>
     (\<forall>i j. map_of js i = Some j \<longrightarrow> (\<exists>k. map_of ks i = Some k \<and> quiet_change b now j k))"

lemma quiet_change_refl [simp]: "row_ok j \<Longrightarrow> quiet_change b now j j"
  by (simp add: quiet_change_def)

lemma quiet_refl [simp]: "rows_ok js \<Longrightarrow> quiet b now js js"
  by (auto simp: quiet_def rows_ok_def)

lemma quiet_updateMany:
  assumes "rows_ok js" "\<And>i j. map_of js i = Some j \<Longrightarrow> P i j \<Longrightarrow> row_ok j \<Longrightarrow> quiet_change b now j (f j)"
  shows "quiet b now js (fst (updateMany P f js))"
  unfolding quiet_def
proof (intro conjI allI impI)
  fix i j assume j: "map_of js i = Some j"
  then have "row_ok j" using assms(1) by (simp add: rows_ok_def)
  then show "\<exists>k. map_of (fst (updateMany P f js)) i = Some k \<and> quiet_change b now j k"
    using j assms(2)[OF j] by simp
qed simp

lemma quiet_update_row:
  assumes "rows_ok js" "\<And>j. row_ok j \<Longrightarrow> quiet_change b now j (f j)"
  shows "quiet b now js (update_row i f js)"
  unfolding update_row_def by (rule quiet_updateMany) (use assms in auto)

lemma quiet_map_of:
  assumes q: "quiet b now js ks" and k: "map_of ks i = Some k"
  obtains j where "map_of js i = Some j" "quiet_change b now j k"
proof -
  have "i \<in> set (map fst ks)" using k by (metis domI dom_map_of_conv_image_fst set_map)
  moreover have "map fst ks = map fst js" using q by (simp add: quiet_def)
  ultimately have "i \<in> set (map fst js)" by metis
  then obtain j where j: "map_of js i = Some j" by (metis map_of_eq_None_iff not_None_eq set_map)
  then show ?thesis using q k that unfolding quiet_def by fastforce
qed

lemma quiet_rows_ok: assumes "rows_ok js" "quiet b now js ks" shows "rows_ok ks"
  unfolding rows_ok_def
proof (intro conjI allI impI)
  show "distinct (map fst ks)" using assms by (simp add: rows_ok_def quiet_def)
  fix i k assume "map_of ks i = Some k"
  with assms(2) obtain j where "quiet_change b now j k" by (rule quiet_map_of)
  then show "row_ok k" by (simp add: quiet_change_def)
qed

lemma quiet_row_all:
  assumes q: "quiet b now js ks" and P: "row_all js i P" and PQ: "\<And>j k. P j \<Longrightarrow> quiet_change b now j k \<Longrightarrow> Q k"
  shows "row_all ks i Q"
  unfolding row_all_def
proof (intro allI impI)
  fix k assume "map_of ks i = Some k"
  with q obtain j where "map_of js i = Some j" "quiet_change b now j k" by (rule quiet_map_of)
  then show "Q k" using P PQ by (simp add: row_all_def)
qed

lemma quiet_row_has:
  assumes "quiet b now js ks" "row_has js i P" "\<And>j k. P j \<Longrightarrow> quiet_change b now j k \<Longrightarrow> Q k"
  shows "row_has ks i Q"
  using assms unfolding row_has_def quiet_def by metis

lemma quiet_loop_row:
  assumes q: "quiet b now js ks" and l: "loop_row l js" "b \<or> (\<forall>i. l \<noteq> L_found i)"
  shows "loop_row l ks"
proof (cases l)
  case (L_found i)
  then have b: b and P: "row_has js i (\<lambda>j. j_status j \<noteq> RUNNING \<and> j_attempts j < attempt_limit j)"
    using l by (auto simp: loop_row_def)
  have "row_has ks i (\<lambda>j. j_status j \<noteq> RUNNING \<and> j_attempts j < attempt_limit j)"
    by (rule quiet_row_has[OF q P]) (use b in \<open>auto simp: quiet_change_def attempt_limit_def\<close>)
  then show ?thesis using L_found by (simp add: loop_row_def)
next
  case (L_claimed i r)
  then have P: "row_has js i (snap_ok (j_attempts r) (j_maxAttempts r))" using l by (simp add: loop_row_def)
  have "row_has ks i (snap_ok (j_attempts r) (j_maxAttempts r))"
    by (rule quiet_row_has[OF q P]) (simp add: quiet_change_def snap_ok_def)
  then show ?thesis using L_claimed by (simp add: loop_row_def)
next
  case (L_run r)
  then have P: "row_has js (r_id r) (snap_ok (r_attempts r) (r_maxAttempts r))" using l by (simp add: loop_row_def)
  have "row_has ks (r_id r) (snap_ok (r_attempts r) (r_maxAttempts r))"
    by (rule quiet_row_has[OF q P]) (simp add: quiet_change_def snap_ok_def)
  then show ?thesis using L_run by (simp add: loop_row_def)
qed (simp_all add: loop_row_def)

lemma quiet_shut_row: "quiet b now js ks \<Longrightarrow> shut_row p js \<Longrightarrow> shut_row p ks"
  by (cases p) (auto simp: shut_row_def quiet_change_def elim!: quiet_row_all)

lemma guard_beat: "rc_cutoff c \<le> now \<Longrightarrow> j_lastHeartbeatAt k = Some now \<Longrightarrow> \<not> reap_guard c row i k"
  by (auto simp: reap_guard_def before_def)

lemma quiet_reap_knows:
  assumes q: "quiet b now js ks" and r: "reap_knows now js p"
  shows "reap_knows now ks p"
proof -
  obtain c rows where p: "p = (c, rows)" by (cases p)
  have "row_all ks (fst row) (\<lambda>j. reap_guard c row (fst row) j \<longrightarrow> j_reclaimCount j = j_reclaimCount (snd row))"
    if "row \<in> set rows" for row
  proof (rule quiet_row_all[OF q, where P="\<lambda>j. reap_guard c row (fst row) j \<longrightarrow> j_reclaimCount j = j_reclaimCount (snd row)"])
    show "row_all js (fst row) (\<lambda>j. reap_guard c row (fst row) j \<longrightarrow> j_reclaimCount j = j_reclaimCount (snd row))"
      using r that p by (simp add: reap_knows_def)
    fix j k assume a: "reap_guard c row (fst row) j \<longrightarrow> j_reclaimCount j = j_reclaimCount (snd row)"
      and k: "quiet_change b now j k"
    have "rc_cutoff c \<le> now" using r p by (simp add: reap_knows_def)
    then show "reap_guard c row (fst row) k \<longrightarrow> j_reclaimCount k = j_reclaimCount (snd row)"
      using a k guard_beat[of c now k row "fst row"] by (auto simp: quiet_change_def reap_guard_def)
  qed
  then show ?thesis using r p by (simp add: reap_knows_def)
qed


text \<open>The row writes are quiet.\<close>

lemmas row_defs = quiet_change_def budget_def attempt_limit_def row_ok_def

lemma quiet_cancel: "row_ok j \<Longrightarrow> quiet_change b now j (j\<lparr>j_status := CANCELLED, j_finishedAt := f\<rparr>)"
  "row_ok j \<Longrightarrow> quiet_change b now j (j\<lparr>j_status := CANCELLED, j_finishedAt := f, j_progressNote := n\<rparr>)"
  "row_ok j \<Longrightarrow> quiet_change b now j (j\<lparr>j_status := FAILED, j_finishedAt := f, j_errorMessage := m\<rparr>)"
  "row_ok j \<Longrightarrow> quiet_change b now j (j\<lparr>j_cancelRequested := True\<rparr>)"
  "row_ok j \<Longrightarrow> quiet_change b now j (j\<lparr>j_progress := p, j_progressNote := n\<rparr>)"
  "row_ok j \<Longrightarrow> quiet_change b now j (j\<lparr>j_lastHeartbeatAt := Some now\<rparr>)"
  by (simp_all add: row_defs)

lemma quiet_succeed: "row_ok j \<Longrightarrow> quiet_change b now j (succeed_row t start result j)"
  by (simp add: row_defs succeed_row_def)

lemma quiet_abandon: "row_ok j \<Longrightarrow> quiet_change b now j (abandon_row t m j)"
  by (auto simp: row_defs abandon_row_def min_def)

lemma quiet_requeue:
  "row_ok j \<Longrightarrow> j_status j = RUNNING \<Longrightarrow> j_reclaimCount j < MAX_RECLAIMS \<Longrightarrow> quiet_change b now j (requeue_row m j)"
  by (auto simp: row_defs requeue_row_def min_def)

lemma quiet_heal:
  "row_ok j \<Longrightarrow> healable_row k i j \<Longrightarrow> quiet_change False now j (heal_row t start result j)"
  by (auto simp: row_defs heal_row_def succeed_row_def healable_row_def min_def)

lemma quiet_error:
  "row_ok j \<Longrightarrow> j_status j = RUNNING \<Longrightarrow> snap_ok (r_attempts r) (r_maxAttempts r) j \<Longrightarrow>
   quiet_change b now j (error_row t r c m st j)"
  by (auto simp: row_defs error_row_def snap_ok_def Let_def max_def)

lemma quiet_cancel_write: "rows_ok js \<Longrightarrow> quiet b now js (cancel_write t i st js)"
  by (auto simp: cancel_write_def intro!: quiet_update_row quiet_cancel)

lemma quiet_progress: "rows_ok js \<Longrightarrow> quiet b now js (snd (reportProgress t i pc n (pg, js)))"
  by (auto simp: reportProgress_def Let_def intro!: quiet_update_row quiet_cancel)

lemma quiet_interrupt:
  assumes ok: "rows_ok js" and s: "shut_row (Sh_write i seen) js"
  shows "quiet b now js (fst (updateMany (running_row i) (interrupt_row cfg t seen) js))"
proof (rule quiet_updateMany[OF ok])
  fix i' j assume j: "map_of js i' = Some j" "running_row i i' j" "row_ok j"
  then have "j_status j = RUNNING" "j_reclaimCount j = j_reclaimCount seen"
    using s by (auto simp: shut_row_def row_all_def running_row_def)
  then show "quiet_change b now j (interrupt_row cfg t seen j)"
    using j(3) by (auto simp: interrupt_row_def Let_def intro: quiet_requeue quiet_abandon)
qed

lemma reap_row_jobs:
  "fst (reap_row c (\<lambda>i. ok) (js, rep) row) =
    (if ok then fst (updateMany (reap_guard c row) (reap_data c (snd row)) js) else js)"
  by (auto simp: reap_row_def Let_def split: prod.splits)

lemma quiet_reap:
  assumes ok: "rows_ok js" and r: "reap_knows now js (c, row # rows)"
  shows "quiet b now js (fst (reap_row c (\<lambda>i. w) (js, rep) row))"
proof -
  have "quiet b now js (fst (updateMany (reap_guard c row) (reap_data c (snd row)) js))"
  proof (rule quiet_updateMany[OF ok])
    fix i j assume j: "map_of js i = Some j" "reap_guard c row i j" "row_ok j"
    then have "i = fst row" "j_status j = RUNNING" by (simp_all add: reap_guard_def)
    then have "j_reclaimCount j = j_reclaimCount (snd row)" "rc_maxReclaims c = MAX_RECLAIMS"
      using r j by (auto simp: reap_knows_def row_all_def)
    then show "quiet_change b now j (reap_data c (snd row) j)"
      using j(3) \<open>j_status j = RUNNING\<close>
      by (auto simp: reap_data_def reap_decision_def Let_def intro!: quiet_requeue quiet_abandon)
  qed
  then show ?thesis using ok by (simp add: reap_row_jobs)
qed

subsection \<open>Every step keeps the invariant and spends at most its claim\<close>

definition claimed :: "op \<Rightarrow> sys \<Rightarrow> string \<Rightarrow> int" where
  "claimed op s i = (if op = Claim \<and> s_loop s = L_found i then 1 else 0)"

definition spends :: "op \<Rightarrow> sys \<Rightarrow> sys \<Rightarrow> bool" where
  "spends op s s' \<longleftrightarrow> (\<forall>i j. map_of (s_jobs s) i = Some j \<longrightarrow>
     (\<exists>k. map_of (s_jobs s') i = Some k \<and> attempt_limit k = attempt_limit j \<and> budget k + claimed op s i \<le> budget j)) \<and>
     (\<forall>i k. map_of (s_jobs s) i = None \<longrightarrow> map_of (s_jobs s') i = Some k \<longrightarrow> budget k = attempt_limit k + MAX_RECLAIMS)"

lemma quiet_spends: "quiet b now (s_jobs s) (s_jobs s') \<Longrightarrow> op \<noteq> Claim \<Longrightarrow> spends op s s'"
proof -
  assume q: "quiet b now (s_jobs s) (s_jobs s')" and op: "op \<noteq> Claim"
  have "map_of (s_jobs s') i = None" if "map_of (s_jobs s) i = None" for i
    using q that by (cases "map_of (s_jobs s') i") (auto elim: quiet_map_of)
  moreover have "\<exists>k. map_of (s_jobs s') i = Some k \<and> attempt_limit k = attempt_limit j \<and> budget k \<le> budget j"
    if "map_of (s_jobs s) i = Some j" for i j
    using q that unfolding quiet_def by (fastforce simp: quiet_change_def attempt_limit_def)
  ultimately show "spends op s s'" using op by (simp add: spends_def claimed_def)
qed

lemma reap_knows_later: "reap_knows now js p \<Longrightarrow> now \<le> now' \<Longrightarrow> reap_knows now' js p"
  by (simp add: reap_knows_def)

lemma sys_frame:
  assumes "sys_ok s" "quiet b (s_now s) (s_jobs s) (s_jobs s')" "s_now s \<le> s_now s'"
    "loop_row (s_loop s') (s_jobs s')" "shut_row (s_shut s') (s_jobs s')" "shut_loop s'"
    "s_currentJobId s' \<noteq> None \<Longrightarrow> busy (s_loop s')" "set (s_reaps s') \<subseteq> set (s_reaps s)"
  shows "sys_ok s'"
  using assms quiet_rows_ok[OF _ assms(2)] quiet_reap_knows[OF assms(2)] reap_knows_later[OF _ assms(3)]
  unfolding sys_ok_def by blast

lemma sys_okD:
  assumes "sys_ok s"
  shows "rows_ok (s_jobs s)" "loop_row (s_loop s) (s_jobs s)" "shut_row (s_shut s) (s_jobs s)" "shut_loop s"
    "s_currentJobId s \<noteq> None \<Longrightarrow> busy (s_loop s)"
    "p \<in> set (s_reaps s) \<Longrightarrow> reap_knows (s_now s) (s_jobs s) p"
  using assms by (auto simp: sys_ok_def)

text \<open>A write that leaves the loop and the shutdown where they are.\<close>

lemma frame_write:
  assumes ok: "sys_ok s" and q: "quiet True (s_now s) (s_jobs s) (s_jobs s')" and op: "op \<noteq> Claim"
    and same: "s_now s' = s_now s" "s_loop s' = s_loop s" "s_shut s' = s_shut s" "s_running s' = s_running s"
      "s_currentJobId s' = s_currentJobId s" "s_reaps s' = s_reaps s"
  shows "sys_ok s' \<and> spends op s s'"
proof
  show "sys_ok s'"
    by (rule sys_frame[OF ok q])
      (use same sys_okD[OF ok] quiet_loop_row[OF q] quiet_shut_row[OF q] in \<open>auto simp: shut_loop_def\<close>)
  show "spends op s s'" by (rule quiet_spends[OF q op])
qed

text \<open>A write that ends the run.\<close>

lemma frame_end_run:
  assumes ok: "sys_ok s" and q: "quiet b (s_now s) (s_jobs s) ks" and s': "s' = end_run (s\<lparr>s_jobs := ks\<rparr>)"
    and op: "op \<noteq> Claim" and l: "s_loop s \<notin> {L_off, L_stopped}"
  shows "sys_ok s' \<and> spends op s s'"
proof
  show "sys_ok s'"
    by (rule sys_frame[OF ok, where b=b])
      (use q s' l sys_okD[OF ok] quiet_shut_row[OF q] in \<open>auto simp: shut_loop_def end_run_def loop_row_def\<close>)
  show "spends op s s'" using quiet_spends[of b "s_now s" s s' op] q s' op by (simp add: end_run_def)
qed

text \<open>A step that writes no row.\<close>

lemma frame_local:
  assumes ok: "sys_ok s" and j: "s_jobs s' = s_jobs s" "s_now s \<le> s_now s'" and op: "op \<noteq> Claim"
    and "loop_row (s_loop s') (s_jobs s)" "shut_row (s_shut s') (s_jobs s)" "shut_loop s'"
    "s_currentJobId s' \<noteq> None \<Longrightarrow> busy (s_loop s')" "set (s_reaps s') \<subseteq> set (s_reaps s)"
  shows "sys_ok s' \<and> spends op s s'"
proof
  have q: "quiet True (s_now s) (s_jobs s) (s_jobs s')" using sys_okD(1)[OF ok] j by simp
  show "sys_ok s'" by (rule sys_frame[OF ok q]) (use assms in auto)
  show "spends op s s'" by (rule quiet_spends[OF q op])
qed

lemma step_claim:
  assumes ok: "sys_ok s" and e: "claim_job s = Some s'"
  shows "sys_ok s' \<and> spends Claim s s'"
proof -
  obtain i j where l: "s_loop s = L_found i" and j: "map_of (s_jobs s) i = Some j"
    and s': "s' = s\<lparr>s_jobs := update_row i (claim_row (s_now s)) (s_jobs s), s_loop := L_claimed i (claim_row (s_now s) j)\<rparr>"
    using e by (auto simp: claim_job_def split: loop_pc.splits option.splits)
  note D = sys_okD[OF ok]
  have f: "j_status j \<noteq> RUNNING" "j_attempts j < attempt_limit j"
    using D(2) l j by (simp_all add: loop_row_def row_has_def)
  have cur: "s_currentJobId s = None" using D(5) l by (cases "s_currentJobId s") (auto simp: busy_def)
  have sh: "s_shut s = Sh_none" using D(4) l by (auto simp: shut_loop_def busy_def)
  have m: "map_of (s_jobs s') k = (if k = i then Some (claim_row (s_now s) j) else map_of (s_jobs s) k)" for k
    using j by (cases "map_of (s_jobs s) k") (auto simp: s' update_row_def)
  have rj: "row_ok (claim_row (s_now s) j)"
    using f D(1) j by (auto simp: row_ok_def claim_row_def attempt_limit_def rows_ok_def)
  have "rows_ok (s_jobs s')"
    using D(1) rj j by (auto simp: rows_ok_def m s' update_row_def)
  moreover have "loop_row (s_loop s') (s_jobs s')"
    by (simp add: s' loop_row_def row_has_def update_row_def j snap_ok_def)
  moreover have "reap_knows (s_now s) (s_jobs s') p" if "p \<in> set (s_reaps s)" for p
  proof -
    have "rc_cutoff (fst p) \<le> s_now s" using D(6)[OF that] by (simp add: reap_knows_def)
    then have "\<not> reap_guard (fst p) row k (claim_row (s_now s) j)" for row k
      by (rule guard_beat) (simp add: claim_row_def)
    then show ?thesis using D(6)[OF that] by (auto simp: reap_knows_def row_all_def m split: if_splits)
  qed
  ultimately have "sys_ok s'"
    using cur sh by (auto simp: sys_ok_def s' shut_row_def shut_loop_def)
  moreover have "spends Claim s s'"
    unfolding spends_def using j l
    by (auto simp: m claimed_def budget_def attempt_limit_def claim_row_def split: if_splits)
  ultimately show ?thesis ..
qed

lemma step_enqueue:
  assumes ok: "sys_ok s" and e: "enqueue i ty p tr pr mx s = Some s'"
  shows "sys_ok s' \<and> spends (Enqueue i ty p tr pr mx) s s'"
proof -
  have n: "map_of (s_jobs s) i = None"
    and s': "s' = s\<lparr>s_jobs := enqueueJob (s_now s) i ty p tr pr mx (s_jobs s)\<rparr>"
    using e by (auto simp: enqueue_def split: if_splits)
  obtain j where j: "enqueueJob (s_now s) i ty p tr pr mx (s_jobs s) = s_jobs s @ [(i, j)]"
    "j_status j = PENDING" "j_attempts j = 0" "j_reclaimCount j = 0" by (simp add: enqueueJob_def)
  note D = sys_okD[OF ok]
  have m: "map_of (s_jobs s @ [(i, j)]) k = (if k = i then Some j else map_of (s_jobs s) k)" for k
    using n by (cases "map_of (s_jobs s) k") (auto simp: map_add_def)
  have ra: "row_all (s_jobs s @ [(i, j)]) k P" if "row_all (s_jobs s) k P" "P j" for k P
    using that by (auto simp: row_all_def m split: if_splits)
  have "row_ok j" using j by (auto simp: row_ok_def attempt_limit_def)
  then have "rows_ok (s_jobs s @ [(i, j)])"
    using D(1) n by (auto simp: rows_ok_def m map_of_eq_None_iff split: if_splits)
  moreover have "reap_knows (s_now s) (s_jobs s @ [(i, j)]) q" if "q \<in> set (s_reaps s)" for q
  proof -
    have "\<not> reap_guard c row k j" for c row k using j by (simp add: reap_guard_def)
    then show ?thesis using D(6)[OF that] by (auto simp: reap_knows_def intro!: ra)
  qed
  moreover have "shut_row (s_shut s) (s_jobs s @ [(i, j)])"
    using D(3) j by (cases "s_shut s") (auto simp: shut_row_def intro!: ra)
  moreover have "loop_row (s_loop s) (s_jobs s @ [(i, j)])"
  proof -
    have "row_has (s_jobs s @ [(i, j)]) k P" if "row_has (s_jobs s) k P" for k P
      using that by (auto simp: row_has_def map_add_def)
    then show ?thesis using D(2) by (simp add: loop_row_def split: loop_pc.splits)
  qed
  moreover have "spends (Enqueue i ty p tr pr mx) s s'"
    using s' j n by (auto simp: spends_def claimed_def m budget_def MAX_RECLAIMS_def split: if_splits)
  ultimately show ?thesis using D s' j n by (auto simp: sys_ok_def shut_loop_def)
qed


lemma set_drop_nth: "set (drop_nth k xs) \<subseteq> set xs"
  by (auto simp: drop_nth_def dest: in_set_takeD in_set_dropD)

lemma step_finish:
  assumes ok: "sys_ok s" and e: "finish_run result s = Some s'"
  shows "sys_ok s' \<and> spends (Finish result) s s'"
proof -
  obtain r where l: "s_loop s = L_run r" using e by (auto simp: finish_run_def split: loop_pc.splits)
  note D = sys_okD[OF ok]
  let ?ks = "fst (updateMany (running_row (r_id r)) (succeed_row (s_now s) (r_start r) result) (s_jobs s))"
  have q: "quiet True (s_now s) (s_jobs s) ?ks"
    by (rule quiet_updateMany[OF D(1)]) (rule quiet_succeed)
  consider "s' = end_run (s\<lparr>s_jobs := s_jobs s\<rparr>)" | "s' = end_run (s\<lparr>s_jobs := ?ks\<rparr>)"
    | "s' = s\<lparr>s_jobs := ?ks, s_loop := L_late r result\<rparr>"
    using e l by (auto simp: finish_run_def split: if_splits prod.splits)
  then show ?thesis
  proof cases
    case 1
    from frame_end_run[OF ok quiet_refl[OF D(1)] this, of "Finish result"] show ?thesis using l by simp
  next
    case 2
    from frame_end_run[OF ok q this, of "Finish result"] show ?thesis using l by simp
  next
    case 3
    have "sys_ok s'"
      by (rule sys_frame[OF ok, where b=True])
        (use q 3 l D quiet_shut_row[OF q] in \<open>auto simp: shut_loop_def loop_row_def busy_def\<close>)
    then show ?thesis using quiet_spends[of True "s_now s" s s'] q 3 by simp
  qed
qed

lemma step_throw:
  assumes ok: "sys_ok s" and e: "throw_run c m st s = Some s'"
  shows "sys_ok s' \<and> spends (Throw c m st) s s'"
proof -
  obtain r where l: "s_loop s = L_run r" using e by (auto simp: throw_run_def split: loop_pc.splits)
  note D = sys_okD[OF ok]
  have q: "quiet True (s_now s) (s_jobs s)
      (fst (updateMany (running_row (r_id r)) (error_row (s_now s) r c m st) (s_jobs s)))"
  proof (rule quiet_updateMany[OF D(1)])
    fix i j assume "map_of (s_jobs s) i = Some j" "running_row (r_id r) i j" "row_ok j"
    then show "quiet_change True (s_now s) j (error_row (s_now s) r c m st j)"
      using D(2) l by (intro quiet_error) (auto simp: loop_row_def row_has_def running_row_def)
  qed
  show ?thesis
  proof (cases "r_cancelledMidRun r")
    case True
    then have "s' = end_run (s\<lparr>s_jobs := s_jobs s\<rparr>)" using e l by (simp add: throw_run_def)
    from frame_end_run[OF ok quiet_refl[OF D(1)] this, of "Throw c m st"] show ?thesis using l by simp
  next
    case False
    then have "s' = end_run (s\<lparr>s_jobs :=
        fst (updateMany (running_row (r_id r)) (error_row (s_now s) r c m st) (s_jobs s))\<rparr>)"
      using e l by (simp add: throw_run_def)
    from frame_end_run[OF ok q this, of "Throw c m st"] show ?thesis using l by simp
  qed
qed

lemma step_progress:
  assumes ok: "sys_ok s" and e: "report_progress pc n s = Some s'"
  shows "sys_ok s' \<and> spends (Progress pc n) s s'"
proof -
  obtain r where l: "s_loop s = L_run r" using e by (auto simp: report_progress_def split: loop_pc.splits)
  note D = sys_okD[OF ok]
  obtain pg ks where u: "reportProgress (s_now s) (r_id r) pc n (r_progress r, s_jobs s) = (pg, ks)"
    by fastforce
  have q: "quiet True (s_now s) (s_jobs s) ks"
    using quiet_progress[OF D(1), of True "s_now s" "s_now s" "r_id r" pc n "r_progress r"] u by simp
  have s': "s' = s\<lparr>s_jobs := ks, s_loop := L_run (r\<lparr>r_progress := pg\<rparr>)\<rparr>"
    using e l u by (simp add: report_progress_def)
  have "loop_row (L_run r) ks" using quiet_loop_row[OF q] D(2) l by simp
  then have "sys_ok s'"
    by (intro sys_frame[OF ok, where b=True])
      (use q s' l D quiet_shut_row[OF q] in \<open>auto simp: shut_loop_def loop_row_def busy_def\<close>)
  then show ?thesis using quiet_spends[of True "s_now s" s s'] q s' by simp
qed

lemma step_reap_begin:
  assumes ok: "sys_ok s" and e: "reap_begin cfg mode s = Some s'"
  shows "sys_ok s' \<and> spends (Reap_begin mode) s s'"
proof -
  note D = sys_okD[OF ok]
  obtain c where s': "s' = s\<lparr>s_reaps := s_reaps s @ [(c, reap_scan c (s_jobs s))]\<rparr>"
    and c: "rc_maxReclaims c = MAX_RECLAIMS" "rc_cutoff c \<le> s_now s"
    using e by (auto simp: reap_begin_def Let_def reap_config_of_def STALE_AFTER_MS_def BOOT_STALE_AFTER_MS_def)
  have "map_of (s_jobs s) (fst row) = Some (snd row)" if "row \<in> set (reap_scan c (s_jobs s))" for row
  proof -
    have "(fst row, snd row) \<in> set (s_jobs s)" using that by (simp add: reap_scan_def)
    then show ?thesis using D(1) by (simp add: rows_ok_def map_of_is_SomeI)
  qed
  then have "reap_knows (s_now s) (s_jobs s) (c, reap_scan c (s_jobs s))"
    using c by (auto simp: reap_knows_def row_all_def)
  then have "sys_ok s'" using ok s' by (auto simp: sys_ok_def shut_loop_def)
  then show ?thesis using quiet_spends[of True "s_now s" s s'] D(1) s' by simp
qed

lemma step_reap_next:
  assumes ok: "sys_ok s" and e: "reap_next k w s = Some s'"
  shows "sys_ok s' \<and> spends (Reap_next k w) s s'"
proof -
  note D = sys_okD[OF ok]
  obtain c rows where k: "k < length (s_reaps s)" "s_reaps s ! k = (c, rows)"
    using e by (auto simp: reap_next_def split: if_splits) (metis surj_pair)
  have mem: "(c, rows) \<in> set (s_reaps s)" using k by (metis nth_mem)
  show ?thesis
  proof (cases rows)
    case Nil
    then have s': "s' = s\<lparr>s_reaps := drop_nth k (s_reaps s)\<rparr>" using e k by (simp add: reap_next_def)
    have "set (s_reaps s') \<subseteq> set (s_reaps s)" using s' set_drop_nth by simp
    then show ?thesis by (intro frame_local[OF ok]) (use s' D in \<open>simp_all add: shut_loop_def\<close>)
  next
    case (Cons row rest)
    let ?ks = "fst (reap_row c (\<lambda>i. w) (s_jobs s, empty_report (rc_mode c)) row)"
    have s': "s' = s\<lparr>s_jobs := ?ks, s_reaps := (s_reaps s)[k := (c, rest)]\<rparr>"
      using e k Cons by (simp add: reap_next_def)
    have q: "quiet True (s_now s) (s_jobs s) ?ks"
      using quiet_reap[OF D(1)] D(6)[OF mem] Cons by blast
    have "reap_knows (s_now s) ?ks (c, row # rest)"
      using quiet_reap_knows[OF q] D(6)[OF mem] Cons by simp
    then have "reap_knows (s_now s) ?ks (c, rest)" by (simp add: reap_knows_def)
    then have "reap_knows (s_now s) ?ks p" if "p \<in> set ((s_reaps s)[k := (c, rest)])" for p
    proof -
      have "p = (c, rest) \<or> p \<in> set (s_reaps s)" using that set_update_subset_insert by fast
      then show ?thesis using \<open>reap_knows (s_now s) ?ks (c, rest)\<close> quiet_reap_knows[OF q] D(6) by blast
    qed
    then have "sys_ok s'"
      using D quiet_rows_ok[OF D(1) q] quiet_loop_row[OF q] quiet_shut_row[OF q]
      by (auto simp: sys_ok_def s' shut_loop_def)
    then show ?thesis using quiet_spends[of True "s_now s" s s'] q s' by simp
  qed
qed


lemma mark_cancelled_same:
  "s_jobs (mark_cancelled n s) = s_jobs s" "s_now (mark_cancelled n s) = s_now s"
  "s_shut (mark_cancelled n s) = s_shut s" "s_running (mark_cancelled n s) = s_running s"
  "s_currentJobId (mark_cancelled n s) = s_currentJobId s" "s_reaps (mark_cancelled n s) = s_reaps s"
  "busy (s_loop (mark_cancelled n s)) = busy (s_loop s)"
  "loop_row (s_loop (mark_cancelled n s)) js = loop_row (s_loop s) js"
  "s_loop (mark_cancelled n s) = L_idle \<longleftrightarrow> s_loop s = L_idle"
  "s_loop (mark_cancelled n s) = L_stopped \<longleftrightarrow> s_loop s = L_stopped"
  by (auto simp: mark_cancelled_def busy_def loop_row_def split: loop_pc.splits)

theorem step_ok:
  assumes ok: "sys_ok s" and e: "exec cfg op s = Some s'"
  shows "sys_ok s' \<and> spends op s s'"
proof (cases op)
  case Start
  then show ?thesis using e sys_okD[OF ok]
    by (intro frame_local[OF ok]) (auto simp: start_worker_def loop_row_def shut_loop_def busy_def split: if_splits)
next
  case Stop
  then show ?thesis using e sys_okD[OF ok]
    by (intro frame_local[OF ok]) (auto simp: stop_worker_def shut_loop_def)
next
  case Loop_exit
  then show ?thesis using e sys_okD[OF ok]
    by (intro frame_local[OF ok]) (auto simp: loop_exit_def loop_row_def shut_loop_def busy_def split: if_splits)
next
  case (Find i)
  then have s': "s' = s\<lparr>s_loop := L_found i\<rparr>" "s_loop s = L_idle" "s_running s" "next_pending i (s_jobs s)"
    using e by (auto simp: find_job_def split: if_splits)
  then have "loop_row (L_found i) (s_jobs s)"
    using sys_okD(1)[OF ok]
    by (auto simp: loop_row_def row_has_def next_pending_def rows_ok_def row_ok_def split: option.splits)
  then show ?thesis using Find s' sys_okD[OF ok]
    by (intro frame_local[OF ok]) (auto simp: shut_loop_def busy_def)
next
  case Claim
  then show ?thesis using step_claim[OF ok] e by simp
next
  case Begin_run
  then obtain i j where l: "s_loop s = L_claimed i j" using e by (auto simp: begin_run_def split: loop_pc.splits)
  then show ?thesis using e Begin_run sys_okD[OF ok]
    by (intro frame_local[OF ok]) (auto simp: begin_run_def loop_row_def shut_loop_def busy_def)
next
  case No_handler_write
  then obtain i where l: "s_loop s = L_nohandler i"
    and s': "s' = end_run (s\<lparr>s_jobs := update_row i (\<lambda>j. j\<lparr>j_status := FAILED,
       j_finishedAt := Some (s_now s), j_errorMessage := Some (No_handler (j_type j))\<rparr>) (s_jobs s)\<rparr>)"
    using e by (auto simp: no_handler_def split: loop_pc.splits)
  show ?thesis
    by (rule frame_end_run[OF ok quiet_update_row[OF sys_okD(1)[OF ok]] s'])
      (use l No_handler_write in \<open>auto intro: quiet_cancel\<close>)
next
  case (Finish result)
  then show ?thesis using step_finish[OF ok] e by simp
next
  case Late_check
  then obtain r x where l: "s_loop s = L_late r x" using e by (auto simp: late_check_def split: loop_pc.splits)
  then show ?thesis using e Late_check sys_okD[OF ok]
    by (cases "s_interruptedJobId s = Some (r_id r)"; intro frame_local[OF ok])
      (auto simp: late_check_def loop_row_def shut_loop_def busy_def end_run_def)
next
  case Heal
  then obtain r x where l: "s_loop s = L_heal r x"
    and s': "s' = end_run (s\<lparr>s_jobs :=
       fst (updateMany (healable_row (r_id r)) (heal_row (s_now s) (r_start r) x) (s_jobs s))\<rparr>)"
    using e by (auto simp: heal_run_def split: loop_pc.splits)
  show ?thesis
    by (rule frame_end_run[OF ok quiet_updateMany[OF sys_okD(1)[OF ok]] s', of False])
      (use l Heal in \<open>auto intro: quiet_heal\<close>)
next
  case (Throw c m st)
  then show ?thesis using step_throw[OF ok] e by simp
next
  case Loop_error
  then have "s' = end_run (s\<lparr>s_jobs := s_jobs s\<rparr>)" "s_loop s \<notin> {L_off, L_stopped}"
    using e by (auto simp: loop_error_def split: if_splits)
  then show ?thesis using frame_end_run[OF ok quiet_refl[OF sys_okD(1)[OF ok]]] Loop_error by blast
next
  case (Progress pc n)
  then show ?thesis using step_progress[OF ok] e by simp
next
  case Heartbeat
  show ?thesis
  proof (cases "s_currentJobId s = None \<or> s_shuttingDown s")
    case True
    then have "s' = s" using e Heartbeat by (auto simp: heartbeat_def split: option.splits)
    then show ?thesis using frame_local[OF ok, of s op] Heartbeat sys_okD[OF ok] by simp
  next
    case False
    then obtain i where i: "s_currentJobId s = Some i" by auto
    then have "Some s' = Some (s\<lparr>s_jobs := fst (updateMany (running_row i) (\<lambda>j. j\<lparr>j_lastHeartbeatAt := Some (s_now s)\<rparr>) (s_jobs s))\<rparr>)"
      using e[symmetric] Heartbeat False by (simp add: heartbeat_def)
    then have s': "s' = s\<lparr>s_jobs := fst (updateMany (running_row i) (\<lambda>j. j\<lparr>j_lastHeartbeatAt := Some (s_now s)\<rparr>) (s_jobs s))\<rparr>"
      by (rule option.inject[THEN iffD1])
    have "quiet True (s_now s) (s_jobs s)
        (fst (updateMany (running_row i) (\<lambda>j. j\<lparr>j_lastHeartbeatAt := Some (s_now s)\<rparr>) (s_jobs s)))"
      by (rule quiet_updateMany[OF sys_okD(1)[OF ok]]) (rule quiet_cancel)
    then have "quiet True (s_now s) (s_jobs s) (s_jobs s')" using s' by simp
    then show ?thesis by (rule frame_write[OF ok]) (use s' Heartbeat in simp_all)
  qed
next
  case Poll_read
  then show ?thesis using e sys_okD[OF ok]
    by (intro frame_local[OF ok]) (auto simp: poll_read_def shut_loop_def split: loop_pc.splits if_splits)
next
  case (Poll_decide k)
  then consider "s' = mark_cancelled (pl_run (s_polls s ! k)) (s\<lparr>s_polls := (s_polls s)[k := (s_polls s ! k)\<lparr>pl_stage := Writing\<rparr>]\<rparr>)"
    | "s' = s\<lparr>s_polls := drop_nth k (s_polls s)\<rparr>"
    using e by (auto simp: poll_decide_def Let_def split: if_splits poll_stage.splits bool.splits)
  then show ?thesis
  proof cases
    case 1
    show ?thesis unfolding 1
      by (rule frame_local[OF ok]) (use Poll_decide sys_okD[OF ok] in \<open>simp_all add: shut_loop_def mark_cancelled_same\<close>)
  next
    case 2
    then show ?thesis using Poll_decide sys_okD[OF ok] by (intro frame_local[OF ok]) (simp_all add: shut_loop_def)
  qed
next
  case (Poll_write k)
  then have s': "s' = s\<lparr>s_jobs := update_row (pl_id (s_polls s ! k)) (\<lambda>j. j\<lparr>j_status := CANCELLED,
            j_finishedAt := Some (s_now s), j_progressNote := Some poll_note\<rparr>) (s_jobs s),
          s_polls := drop_nth k (s_polls s)\<rparr>"
    using e by (simp add: poll_write_def split: if_splits)
  have "quiet True (s_now s) (s_jobs s) (s_jobs s')"
    using quiet_update_row[OF sys_okD(1)[OF ok] quiet_cancel(2)] s' by simp
  then show ?thesis by (rule frame_write[OF ok]) (use s' Poll_write in simp_all)
next
  case Shutdown_begin
  then show ?thesis using e sys_okD[OF ok]
    by (intro frame_local[OF ok]) (auto simp: shutdown_begin_def shut_row_def shut_loop_def split: if_splits option.splits)
next
  case Shutdown_read
  then show ?thesis using e sys_okD[OF ok]
    by (intro frame_local[OF ok])
      (auto simp: shutdown_read_def shut_row_def row_all_def shut_loop_def split: shut_pc.splits option.splits)
next
  case Shutdown_write
  then obtain i seen where p: "s_shut s = Sh_write i seen"
    and s': "s' = s\<lparr>s_jobs := fst (updateMany (running_row i) (interrupt_row cfg (s_now s) seen) (s_jobs s)), s_shut := Sh_end i\<rparr>"
    using e by (auto simp: shutdown_write_def split: shut_pc.splits)
  note D = sys_okD[OF ok]
  have q: "quiet True (s_now s) (s_jobs s) (s_jobs s')"
    using quiet_interrupt[OF D(1)] D(3) p s' by simp
  have "sys_ok s'"
    by (rule sys_frame[OF ok q]) (use s' p D quiet_loop_row[OF q] in \<open>auto simp: shut_row_def shut_loop_def\<close>)
  then show ?thesis using quiet_spends[OF q] Shutdown_write by simp
next
  case Shutdown_fail
  then show ?thesis using e sys_okD[OF ok]
    by (intro frame_local[OF ok]) (auto simp: shutdown_fail_def shut_row_def shut_loop_def split: shut_pc.splits)
next
  case Shutdown_end
  then show ?thesis using e sys_okD[OF ok]
    by (intro frame_local[OF ok]) (auto simp: shutdown_end_def shut_row_def shut_loop_def split: shut_pc.splits)
next
  case Crash
  then show ?thesis using e sys_okD[OF ok]
    by (intro frame_local[OF ok]) (auto simp: crash_def shut_row_def loop_row_def shut_loop_def)
next
  case (Tick d)
  then show ?thesis using e sys_okD[OF ok]
    by (intro frame_local[OF ok]) (auto simp: tick_def shut_loop_def split: if_splits)
next
  case (Enqueue i ty p tr pr mx)
  then show ?thesis using step_enqueue[OF ok] e by simp
next
  case (Cancel_read i)
  then show ?thesis using e sys_okD[OF ok]
    by (intro frame_local[OF ok]) (auto simp: cancel_read_def shut_loop_def split: option.splits)
next
  case (Cancel_act k)
  then have s': "s' = s\<lparr>s_jobs := cancel_write (s_now s) (fst (s_cancels s ! k)) (snd (s_cancels s ! k)) (s_jobs s),
            s_cancels := drop_nth k (s_cancels s)\<rparr>"
    using e by (simp add: cancel_act_def split: if_splits)
  have "quiet True (s_now s) (s_jobs s) (s_jobs s')"
    using quiet_cancel_write[OF sys_okD(1)[OF ok]] s' by simp
  then show ?thesis by (rule frame_write[OF ok]) (use s' Cancel_act in simp_all)
next
  case (Reap_begin mode)
  then show ?thesis using step_reap_begin[OF ok] e by simp
next
  case (Reap_next k w)
  then show ?thesis using step_reap_next[OF ok] e by simp
qed


subsection \<open>Reachable states\<close>

lemma boot_ok: "rows_ok jobs \<Longrightarrow> sys_ok (boot_state now jobs)"
  by (auto simp: sys_ok_def boot_state_def loop_row_def shut_row_def shut_loop_def)

inductive_cases sys_stepE: "sys_step cfg s s'"

lemma sys_ok_step: "sys_step cfg s s' \<Longrightarrow> sys_ok s \<Longrightarrow> sys_ok s'"
  by (auto elim!: sys_stepE dest: step_ok)

lemma sys_ok_reachable: "(sys_step cfg)\<^sup>*\<^sup>* s s' \<Longrightarrow> sys_ok s \<Longrightarrow> sys_ok s'"
  by (induction rule: rtranclp_induct) (auto intro: sys_ok_step)

lemma run_ops_reachable: "run_ops cfg ops s = Some s' \<Longrightarrow> (sys_step cfg)\<^sup>*\<^sup>* s s'"
  by (induction ops arbitrary: s)
    (auto split: option.splits intro: converse_rtranclp_into_rtranclp sys_step.intros)

fun claims :: "worker_config \<Rightarrow> string \<Rightarrow> op list \<Rightarrow> sys \<Rightarrow> int" where
  \<comment> \<open>how often the run claims the row\<close>
  "claims cfg i [] s = 0"
| "claims cfg i (op # ops) s = claimed op s i + (case exec cfg op s of None \<Rightarrow> 0 | Some s' \<Rightarrow> claims cfg i ops s')"

lemma budget_nonneg: "row_ok j \<Longrightarrow> 0 \<le> budget j"
  by (simp add: budget_def row_ok_def)

lemma claimed_row: "sys_ok s \<Longrightarrow> map_of (s_jobs s) i = None \<Longrightarrow> claimed op s i = 0"
  using sys_okD(2)[of s] by (auto simp: claimed_def loop_row_def row_has_def)

lemma claims_budget:
  assumes "sys_ok s" "run_ops cfg ops s = Some s'" "map_of (s_jobs s') i = Some k"
  shows "claims cfg i ops s + budget k \<le>
    (case map_of (s_jobs s) i of None \<Rightarrow> attempt_limit k + MAX_RECLAIMS | Some j \<Rightarrow> budget j) \<and>
    (\<forall>j. map_of (s_jobs s) i = Some j \<longrightarrow> attempt_limit j = attempt_limit k)"
  using assms
proof (induction ops arbitrary: s)
  case (Cons op ops)
  then obtain s1 where s1: "exec cfg op s = Some s1" "run_ops cfg ops s1 = Some s'" by (auto split: option.splits)
  have ok: "sys_ok s1" "spends op s s1" using step_ok[OF Cons.prems(1) s1(1)] by auto
  note ih = Cons.IH[OF ok(1) s1(2) Cons.prems(3)]
  have c: "claims cfg i (op # ops) s = claimed op s i + claims cfg i ops s1" using s1(1) by simp
  show ?case
  proof (cases "map_of (s_jobs s) i")
    case None
    then have z: "claimed op s i = 0" using claimed_row Cons.prems(1) by blast
    have "claims cfg i ops s1 + budget k \<le> attempt_limit k + MAX_RECLAIMS"
    proof (cases "map_of (s_jobs s1) i")
      case (Some j)
      then have "budget j = attempt_limit j + MAX_RECLAIMS" using ok(2) None by (simp add: spends_def)
      then show ?thesis using ih Some by simp
    qed (use ih in simp)
    then show ?thesis using None c z by simp
  next
    case (Some j)
    then obtain j1 where "map_of (s_jobs s1) i = Some j1" "attempt_limit j1 = attempt_limit j"
      "budget j1 + claimed op s i \<le> budget j" using ok(2) unfolding spends_def by blast
    then show ?thesis using ih Some c by simp
  qed
qed (simp split: option.splits)

text \<open>C25. No job runs for ever: in every interleaving of the worker loop, cancel polls,
  heartbeats, shutdowns, crashes, restarts, cancel requests and reaper passes that starts from an
  empty queue, a job is claimed at most as often as its attempt limit plus the three reclaims,
  however often its worker dies and whatever its handler does.\<close>

theorem job_runs_bounded:
  assumes run: "run_ops cfg ops (boot_state now []) = Some s" and k: "map_of (s_jobs s) i = Some k"
  shows "claims cfg i ops (boot_state now []) \<le> max 1 (j_maxAttempts k) + MAX_RECLAIMS"
proof -
  have ok: "sys_ok (boot_state now [])" by (rule boot_ok) (simp add: rows_ok_def)
  then have "sys_ok s" using run run_ops_reachable sys_ok_reachable by blast
  then have "0 \<le> budget k" using sys_okD(1)[of s] k budget_nonneg by (auto simp: rows_ok_def)
  then show ?thesis
    using claims_budget[OF ok run k] by (simp add: boot_state_def attempt_limit_def)
qed

definition lost_worker_ops :: "op list" where
  \<comment> \<open>a scan whose worker dies while running it, and is reaped at the next boot\<close>
  "lost_worker_ops = [Start, Find ''a'', Claim, Begin_run, Tick 100000, Crash, Reap_begin Boot, Reap_next 0 True]"

definition four_deaths :: "op list" where
  "four_deaths = Enqueue ''a'' RESULTS_SCAN ''{}'' ''cron'' None None #
     lost_worker_ops @ lost_worker_ops @ lost_worker_ops @ lost_worker_ops"

lemma four_deaths_end: "map_option (\<lambda>s. map (\<lambda>(i, j). (i, j_status j, j_attempts j, j_reclaimCount j, j_maxAttempts j)) (s_jobs s))
    (run_ops default_config four_deaths (boot_state 0 [])) = Some [(''a'', ABANDONED, 1, 4, 3)]"
  by code_simp

lemma job_runs_bounded_witness: "claims default_config ''a'' four_deaths (boot_state 0 []) \<le> 6"
proof -
  obtain s where s: "run_ops default_config four_deaths (boot_state 0 []) = Some s"
    "map (\<lambda>(i, j). (i, j_status j, j_attempts j, j_reclaimCount j, j_maxAttempts j)) (s_jobs s) = [(''a'', ABANDONED, 1, 4, 3)]"
    using four_deaths_end by auto
  then obtain j where "s_jobs s = [(''a'', j)]" "j_maxAttempts j = 3" by auto
  then show ?thesis using job_runs_bounded[OF s(1), of "''a''" j] by (simp add: MAX_RECLAIMS_def)
qed

text \<open>C26. In every reachable state of the queue the attempts of a row are between 0 and its
  limit, a running row has at least one (so giving an attempt back never goes below zero) and a
  pending row still has one left, although requeue, heal and retry write rows they read earlier.\<close>

theorem attempts_in_range:
  assumes "(sys_step cfg)\<^sup>*\<^sup>* (boot_state now []) s" and "map_of (s_jobs s) i = Some j"
  shows "0 \<le> j_attempts j \<and> j_attempts j \<le> max 1 (j_maxAttempts j) \<and>
    (j_status j = RUNNING \<longrightarrow> 1 \<le> j_attempts j) \<and> (j_status j = PENDING \<longrightarrow> j_attempts j < max 1 (j_maxAttempts j))"
proof -
  have "sys_ok (boot_state now [])" by (rule boot_ok) (simp add: rows_ok_def)
  then have "row_ok j" using sys_ok_reachable[OF assms(1)] assms(2) by (auto simp: sys_ok_def rows_ok_def)
  then show ?thesis by (simp add: row_ok_def attempt_limit_def)
qed

lemma attempts_in_range_witness:
 "\<exists>(s :: sys) j. map_of (s_jobs s) ''a'' = Some j \<and> j_reclaimCount j = 4 \<and> 0 \<le> j_attempts j"
proof -
  obtain s where s: "run_ops default_config four_deaths (boot_state 0 []) = Some s"
    "map (\<lambda>(i, j). (i, j_status j, j_attempts j, j_reclaimCount j, j_maxAttempts j)) (s_jobs s) = [(''a'', ABANDONED, 1, 4, 3)]"
    using four_deaths_end by auto
  then obtain j where j: "s_jobs s = [(''a'', j)]" "j_reclaimCount j = 4" by auto
  then have "0 \<le> j_attempts j" using attempts_in_range[OF run_ops_reachable[OF s(1)], of "''a''" j] by simp
  moreover have "map_of (s_jobs s) ''a'' = Some j" using j(1) by simp
  ultimately show ?thesis using j(2) by blast
qed

subsection \<open>Finished rows, and the interleavings that disturb them\<close>

definition terminal :: "job_status \<Rightarrow> bool" where
  "terminal st \<longleftrightarrow> st \<in> {SUCCEEDED, FAILED, CANCELLED, ABANDONED}"

definition kept :: "jobs \<Rightarrow> jobs \<Rightarrow> string \<Rightarrow> bool" where
  \<comment> \<open>a finished row keeps its status\<close>
  "kept js ks i \<longleftrightarrow> (\<forall>j. map_of js i = Some j \<longrightarrow> terminal (j_status j) \<longrightarrow>
     (\<exists>k. map_of ks i = Some k \<and> j_status k = j_status j))"

lemma kept_refl [simp]: "kept js js i"
  by (simp add: kept_def)

lemma kept_updateMany:
  "(\<And>j. map_of js i = Some j \<Longrightarrow> P i j \<Longrightarrow> terminal (j_status j) \<Longrightarrow> j_status (f j) = j_status j) \<Longrightarrow>
   kept js (fst (updateMany P f js)) i"
  by (auto simp: kept_def)

lemma kept_guarded: "(\<And>j. P i j \<Longrightarrow> \<not> terminal (j_status j)) \<Longrightarrow> kept js (fst (updateMany P f js)) i"
  by (rule kept_updateMany) blast

lemma kept_running: "kept js (fst (updateMany (running_row k) f js)) i"
  by (rule kept_guarded) (simp add: running_row_def terminal_def)

lemma kept_other: "k \<noteq> i \<Longrightarrow> kept js (update_row k f js) i"
  unfolding update_row_def by (rule kept_updateMany) simp

definition may_disturb :: "op \<Rightarrow> sys \<Rightarrow> string \<Rightarrow> bool" where
  \<comment> \<open>the four statements that write a row without looking at its status\<close>
  "may_disturb op s i \<longleftrightarrow> op = Claim \<and> s_loop s = L_found i \<or> op = No_handler_write \<and> s_loop s = L_nohandler i \<or>
     (\<exists>n. op = Poll_write n \<and> pl_id (s_polls s ! n) = i) \<or> (\<exists>n. op = Cancel_act n \<and> s_cancels s ! n = (i, PENDING))"

text \<open>C27. A finished row (succeeded, failed, cancelled, abandoned) keeps its status under
  every step of the system but the four statements that write by id alone: a claim of a row found
  earlier, the no-handler write, a poll's cancel write and a cancel decided on a pending status;
  every guarded write leaves it alone.\<close>

theorem finished_rows_stay:
  assumes e: "exec cfg op s = Some s'" and j: "map_of (s_jobs s) i = Some j" "terminal (j_status j)"
    and d: "\<not> may_disturb op s i"
  shows "\<exists>k. map_of (s_jobs s') i = Some k \<and> j_status k = j_status j"
proof -
  have "kept (s_jobs s) (s_jobs s') i"
  proof (cases op)
    case Claim
    then show ?thesis using e d
      by (auto simp: claim_job_def may_disturb_def intro: kept_other split: loop_pc.splits option.splits)
  next
    case No_handler_write
    then show ?thesis using e d
      by (auto simp: no_handler_def may_disturb_def end_run_def intro: kept_other split: loop_pc.splits)
  next
    case (Finish result)
    then obtain r where l: "s_loop s = L_run r" using e by (auto simp: finish_run_def split: loop_pc.splits)
    obtain ks n where u: "updateMany (running_row (r_id r)) (succeed_row (s_now s) (r_start r) result) (s_jobs s) = (ks, n)"
      by fastforce
    have "kept (s_jobs s) ks i" using kept_running[of "s_jobs s" "r_id r"] u by (metis fst_conv)
    then show ?thesis using e Finish l u by (auto simp: finish_run_def end_run_def split: if_splits)
  next
    case Heal
    then show ?thesis using e
      by (auto simp: heal_run_def end_run_def healable_row_def terminal_def intro!: kept_guarded split: loop_pc.splits)
  next
    case (Throw c m st)
    then show ?thesis using e kept_running
      by (auto simp: throw_run_def end_run_def split: loop_pc.splits if_splits)
  next
    case (Progress pc n)
    have "kept js (snd (reportProgress t k pc n (pg, js))) i" for t k pg js
      by (auto simp: reportProgress_def Let_def update_row_def intro!: kept_updateMany)
    note same = this
    obtain r where l: "s_loop s = L_run r" using e Progress by (auto simp: report_progress_def split: loop_pc.splits)
    obtain pg ks where u: "reportProgress (s_now s) (r_id r) pc n (r_progress r, s_jobs s) = (pg, ks)"
      by fastforce
    have "kept (s_jobs s) ks i" using same[of "s_jobs s" "s_now s" "r_id r" "r_progress r"] u by simp
    then show ?thesis using e Progress l u by (auto simp: report_progress_def)
  next
    case Heartbeat
    then show ?thesis using e kept_running by (auto simp: heartbeat_def split: option.splits if_splits)
  next
    case (Poll_write n)
    then show ?thesis using e d by (auto simp: poll_write_def may_disturb_def intro: kept_other split: if_splits)
  next
    case Shutdown_write
    then show ?thesis using e kept_running by (auto simp: shutdown_write_def split: shut_pc.splits)
  next
    case (Enqueue k ty p tr pr mx)
    then show ?thesis using e
      by (auto simp: enqueue_def enqueueJob_def kept_def map_add_def split: if_splits option.splits)
  next
    case (Cancel_act n)
    obtain k st where c: "s_cancels s ! n = (k, st)" by fastforce
    have "kept (s_jobs s) (cancel_write (s_now s) k st (s_jobs s)) i"
    proof (cases "st = PENDING")
      case True
      then have "k \<noteq> i" using d Cancel_act c by (auto simp: may_disturb_def)
      then show ?thesis using True by (simp add: cancel_write_def kept_other)
    next
      case False
      then show ?thesis by (auto simp: cancel_write_def update_row_def intro!: kept_updateMany)
    qed
    then show ?thesis using e Cancel_act c by (auto simp: cancel_act_def split: if_splits)
  next
    case (Reap_next n w)
    have "kept js (fst (reap_row c (\<lambda>i. w) (js, rep) row)) i" for js c rep row
      by (auto simp: reap_row_jobs reap_guard_def terminal_def intro!: kept_guarded)
    then show ?thesis using e Reap_next
      by (auto simp: reap_next_def split: if_splits prod.splits list.splits)
  qed (use e in \<open>auto simp: start_worker_def stop_worker_def loop_exit_def find_job_def begin_run_def
      late_check_def end_run_def loop_error_def poll_read_def poll_decide_def mark_cancelled_same Let_def
      shutdown_begin_def shutdown_read_def shutdown_fail_def shutdown_end_def crash_def tick_def
      cancel_read_def reap_begin_def
      split: if_splits loop_pc.splits option.splits poll_stage.splits bool.splits shut_pc.splits\<close>)
  then show ?thesis using j by (simp add: kept_def)
qed


definition one_scan :: sys where
  "one_scan = the (run_ops default_config
     [Enqueue ''a'' RESULTS_SCAN ''{}'' ''cron'' None None, Tick 5, Start, Find ''a'', Claim, Begin_run, Finish ''{}'']
     (boot_state 0 []))"

definition status_of :: "string \<Rightarrow> sys option \<Rightarrow> job_status option" where
  "status_of i s = map_option j_status (Option.bind s (\<lambda>s. map_of (s_jobs s) i))"

lemma finished_rows_stay_witness:
  "status_of ''a'' (exec default_config (Reap_next 0 True)
     (the (exec default_config (Reap_begin Boot) one_scan))) = Some SUCCEEDED"
proof -
  let ?s = "the (exec default_config (Reap_begin Boot) one_scan)"
  obtain j where j: "map_of (s_jobs ?s) ''a'' = Some j" "j_status j = SUCCEEDED"
  proof -
    have "status_of ''a'' (Some ?s) = Some SUCCEEDED" by code_simp
    then show ?thesis using that by (auto simp: status_of_def)
  qed
  obtain s' where s': "exec default_config (Reap_next 0 True) ?s = Some s'"
  proof -
    have "exec default_config (Reap_next 0 True) ?s \<noteq> None" by code_simp
    then show ?thesis using that by auto
  qed
  have "\<not> may_disturb (Reap_next 0 True) ?s ''a''" by (simp add: may_disturb_def)
  then show ?thesis
    using finished_rows_stay[OF s' j(1)] s' j(2) by (auto simp: terminal_def status_of_def)
qed

text \<open>
  The unguarded writes do lose information in some interleavings: a cancel that lands between the
  \<open>findFirst\<close> and the \<open>update\<close> of a claim is overwritten, and a poll that read \<open>RUNNING\<close> just before the
  handler returned turns a finished job into a cancelled one.
\<close>

definition outcome :: "op list \<Rightarrow> (job_status \<times> bool \<times> json option) list option" where
  \<comment> \<open>status, cancel flag and result of every row after the steps, from an empty queue\<close>
  "outcome ops = map_option (\<lambda>s. map (\<lambda>(i, j). (j_status j, j_cancelRequested j, j_result j)) (s_jobs s))
     (run_ops default_config ops (boot_state 0 []))"

text \<open>What the writes by id alone can lose, as runs of the system: a job cancelled
  between find and claim is claimed and runs without a cancel flag; a job that finished while its
  cancel poll was in flight keeps its result but ends as cancelled; a shutdown between find and
  claim protects nothing although the job is then started.\<close>

theorem unguarded_writes_race:
  "outcome [Enqueue ''a'' RESULTS_SCAN ''{}'' ''cron'' None None, Start, Find ''a'', Cancel_read ''a'', Cancel_act 0] =
     Some [(CANCELLED, False, None)] \<and>
   outcome [Enqueue ''a'' RESULTS_SCAN ''{}'' ''cron'' None None, Start, Find ''a'', Cancel_read ''a'', Cancel_act 0,
     Claim] = Some [(RUNNING, False, None)] \<and>
   outcome [Enqueue ''a'' RESULTS_SCAN ''{}'' ''cron'' None None, Start, Find ''a'', Claim, Begin_run,
     Cancel_read ''a'', Cancel_act 0, Poll_read, Finish ''{}'', Poll_decide 0, Poll_write 0] =
     Some [(CANCELLED, True, Some ''{}'')] \<and>
   map_option (\<lambda>s. (s_shut s, s_currentJobId s)) (run_ops default_config
     [Enqueue ''a'' RESULTS_SCAN ''{}'' ''cron'' None None, Start, Find ''a'', Shutdown_begin, Claim, Begin_run]
     (boot_state 0 [])) = Some (Sh_none, Some ''a'')"
  by code_simp

text \<open>
  A shutdown in the middle of a run gives the attempt back, and a handler that still finishes takes both
  back: the row ends as if the shutdown had not happened.
\<close>

definition interrupt_ops :: "op list" where
  "interrupt_ops = [Shutdown_begin, Shutdown_read, Shutdown_write, Shutdown_end]"

lemma interrupted_jobs:
  assumes l: "s_loop s = L_run r" "\<not> r_cancelledMidRun r" "s_currentJobId s = Some (r_id r)" "\<not> s_shuttingDown s"
    and j: "map_of (s_jobs s) (r_id r) = Some j" "j_status j = RUNNING" "j_reclaimCount j < MAX_RECLAIMS"
      "\<not> j_cancelRequested j" "policyFor cfg (j_type j) = Requeue"
  shows "\<exists>m s1. starts_interrupted m \<and> run_ops cfg interrupt_ops s = Some s1 \<and>
    map_of (s_jobs s1) (r_id r) = Some (requeue_row m j) \<and>
    s_jobs s1 = fst (updateMany (running_row (r_id r)) (requeue_row m) (s_jobs s)) \<and>
    s_loop s1 = L_run r \<and> s_interruptedJobId s1 = Some (r_id r) \<and> s_now s1 = s_now s"
proof -
  let ?m = "Interrupted_requeued (j_progress j) (j_progressNote j) (j_reclaimCount j + 1)"
  have i: "interrupt_row cfg t j = requeue_row ?m" for t
    using j by (intro ext) (simp add: interrupt_row_def)
  have "run_ops cfg interrupt_ops s = Some (s\<lparr>s_shuttingDown := True, s_running := False, s_shut := Sh_none,
      s_jobs := fst (updateMany (running_row (r_id r)) (requeue_row ?m) (s_jobs s)), s_interruptedJobId := Some (r_id r)\<rparr>)"
    using l j by (simp add: interrupt_ops_def shutdown_begin_def shutdown_read_def shutdown_write_def shutdown_end_def i)
  then show ?thesis using l j by (intro exI[of _ ?m]) (simp add: running_row_def)
qed

text \<open>C28. A shutdown during the run of a requeueable job puts the row back to pending with
  its attempt given back and one reclaim counted; if the handler still completes, the heal ends the
  row as succeeded with its result, no error message and both counters as they were before the
  shutdown.\<close>

theorem shutdown_requeues_or_heals:
  assumes l: "s_loop s = L_run r" "\<not> r_cancelledMidRun r" "s_currentJobId s = Some (r_id r)" "\<not> s_shuttingDown s"
    and j: "map_of (s_jobs s) (r_id r) = Some j" "j_status j = RUNNING" "j_reclaimCount j < MAX_RECLAIMS"
      "\<not> j_cancelRequested j" "policyFor cfg (j_type j) = Requeue"
  shows "\<exists>s1 k1 s2 k2.
    run_ops cfg interrupt_ops s = Some s1 \<and> map_of (s_jobs s1) (r_id r) = Some k1 \<and> j_status k1 = PENDING \<and>
      j_attempts k1 = j_attempts j - 1 \<and> j_reclaimCount k1 = j_reclaimCount j + 1 \<and>
    run_ops cfg [Finish result, Late_check, Heal] s1 = Some s2 \<and> map_of (s_jobs s2) (r_id r) = Some k2 \<and>
      j_status k2 = SUCCEEDED \<and> j_result k2 = Some result \<and> j_errorMessage k2 = None \<and>
      j_attempts k2 = j_attempts j \<and> j_reclaimCount k2 = j_reclaimCount j"
proof -
  obtain m s1 where m: "starts_interrupted m" and s1: "run_ops cfg interrupt_ops s = Some s1"
    "map_of (s_jobs s1) (r_id r) = Some (requeue_row m j)"
    "s_jobs s1 = fst (updateMany (running_row (r_id r)) (requeue_row m) (s_jobs s))"
    "s_loop s1 = L_run r" "s_interruptedJobId s1 = Some (r_id r)"
    using interrupted_jobs[OF l j] by blast
  let ?k1 = "requeue_row m j"
  have n0: "snd (updateMany (running_row (r_id r)) f (s_jobs s1)) = 0" for f
    unfolding s1(3) updateMany_matched by (auto simp: updateMany_def running_row_def requeue_row_def split: if_splits)
  have idle: "fst (updateMany (running_row (r_id r)) f (s_jobs s1)) = s_jobs s1" for f
    using n0[of f] unfolding updateMany_matched by (auto simp: updateMany_def intro!: map_idI)
  have fin: "finish_run result s1 = Some (s1\<lparr>s_loop := L_late r result\<rparr>)"
  proof -
    obtain ks n where u: "updateMany (running_row (r_id r)) (succeed_row (s_now s1) (r_start r) result) (s_jobs s1) = (ks, n)"
      by fastforce
    have "ks = s_jobs s1" "n = 0"
      using idle[of "succeed_row (s_now s1) (r_start r) result"] n0[of "succeed_row (s_now s1) (r_start r) result"]
      unfolding u by simp_all
    then show ?thesis using s1(4) l(2) u by (simp add: finish_run_def)
  qed
  have heal: "healable_row (r_id r) (r_id r) ?k1"
    using m by (simp add: healable_row_def requeue_row_def)
  let ?s2 = "end_run (s1\<lparr>s_jobs := fst (updateMany (healable_row (r_id r)) (heal_row (s_now s1) (r_start r) result) (s_jobs s1))\<rparr>)"
  have s2: "run_ops cfg [Finish result, Late_check, Heal] s1 = Some ?s2"
    using fin s1(5) by (simp add: late_check_def heal_run_def end_run_def)
  have k2: "map_of (s_jobs ?s2) (r_id r) = Some (heal_row (s_now s1) (r_start r) result ?k1)"
    using s1(2) heal by (simp add: end_run_def)
  show ?thesis
    by (rule exI[of _ s1], rule exI[of _ ?k1], rule exI[of _ ?s2],
        rule exI[of _ "heal_row (s_now s1) (r_start r) result ?k1"])
      (use s1 s2 k2 in \<open>simp add: requeue_row_def heal_row_def succeed_row_def\<close>)
qed


definition busy_scan :: sys where
  "busy_scan = the (run_ops default_config
     [Enqueue ''a'' RESULTS_SCAN ''{}'' ''cron'' None None, Tick 5, Start, Find ''a'', Claim, Begin_run] (boot_state 0 []))"

lemma busy_scan_facts:
  "case s_loop busy_scan of L_run r \<Rightarrow> \<not> r_cancelledMidRun r \<and> s_currentJobId busy_scan = Some (r_id r) \<and> r_id r = ''a''
     | _ \<Rightarrow> False"
  "\<not> s_shuttingDown busy_scan"
  "case map_of (s_jobs busy_scan) ''a'' of None \<Rightarrow> False | Some j \<Rightarrow> j_status j = RUNNING \<and>
     j_reclaimCount j < MAX_RECLAIMS \<and> \<not> j_cancelRequested j \<and> policyFor default_config (j_type j) = Requeue \<and> j_attempts j = 1"
  by code_simp+

lemma shutdown_requeues_or_heals_witness:
  "\<exists>s1 s2. run_ops default_config interrupt_ops busy_scan = Some s1 \<and> status_of ''a'' (Some s1) = Some PENDING \<and>
     run_ops default_config [Finish ''{}'', Late_check, Heal] s1 = Some s2 \<and> status_of ''a'' (Some s2) = Some SUCCEEDED"
proof -
  obtain r where l: "s_loop busy_scan = L_run r" "\<not> r_cancelledMidRun r" "s_currentJobId busy_scan = Some (r_id r)" "r_id r = ''a''"
    using busy_scan_facts(1) by (auto split: loop_pc.splits)
  obtain j where j: "map_of (s_jobs busy_scan) (r_id r) = Some j" "j_status j = RUNNING" "j_reclaimCount j < MAX_RECLAIMS"
      "\<not> j_cancelRequested j" "policyFor default_config (j_type j) = Requeue"
    using busy_scan_facts(3) l(4) by (auto split: option.splits)
  show ?thesis
    using shutdown_requeues_or_heals[OF l(1-3) busy_scan_facts(2) j, of "''{}''"] l(4)
    by (auto simp: status_of_def)
qed

end
