(* ===== verification/Cron.thy ===== *)
theory Cron
  imports Text Calendar
begin

text \<open>
  The cron expressions of the scheduler, \<open>src/lib/cron-expr.ts\<close>: the parser of the five fields, the
  matching of an instant, the guard against ambiguous day fields and the expected firings of a window,
  from which job health is computed.  \<open>assertUtcProcess\<close> only reads the host's time zone and is left out.
\<close>

record cron_fields =
  cr_minute :: "int set"
  cr_hour :: "int set"
  cr_dom :: "int set"
  cr_month :: "int set"
  cr_dow :: "int set"
  cr_domUnrestricted :: bool
  cr_dowUnrestricted :: bool

datatype cron_error =
    Empty_element string string
  | Bad_step string string string
  | Bad_range string string string
  | Unsupported_value string string string
  | Out_of_range string string int int
  | Field_count nat string
  | Both_days_restricted string string

fun steps_from :: "int \<Rightarrow> nat \<Rightarrow> int \<Rightarrow> int list" where
  \<comment> \<open>\<open>for (v = start; v <= end; v += step)\<close>, with one value for each unit of fuel\<close>
  "steps_from v 0 step = []"
| "steps_from v (Suc n) step = v # steps_from (v + step) n step"

definition step_values :: "int \<Rightarrow> int \<Rightarrow> int \<Rightarrow> int list" where
  "step_values start end step = (if end < start then [] else steps_from start (nat ((end - start) div step) + 1) step)"

definition parse_step :: "string \<Rightarrow> string \<Rightarrow> string option \<Rightarrow> (cron_error, int) result" where
  "parse_step label raw stepRaw = (case stepRaw of None \<Rightarrow> Inr 1
   | Some s \<Rightarrow> (case jsInteger s of None \<Rightarrow> Inl (Bad_step s label raw)
     | Some n \<Rightarrow> if n < 1 then Inl (Bad_step s label raw) else Inr n))"

definition parse_span :: "string \<Rightarrow> string \<Rightarrow> int \<Rightarrow> int \<Rightarrow> string \<Rightarrow> (cron_error, int \<times> int) result" where
  \<comment> \<open>start and end of an element; of more than two parts around a hyphen only the first two are read\<close>
  "parse_span label raw lo hi spec =
    (if spec = ''*'' then Inr (lo, hi)
     else if CHR ''-'' \<in> set spec
     then (case split_on CHR ''-'' spec of
         a # b # _ \<Rightarrow> (case (jsInteger a, jsInteger b) of
             (Some m, Some n) \<Rightarrow> Inr (m, n) | _ \<Rightarrow> Inl (Bad_range spec label raw))
       | _ \<Rightarrow> Inl (Bad_range spec label raw))
     else (case jsInteger spec of None \<Rightarrow> Inl (Unsupported_value label spec raw) | Some n \<Rightarrow> Inr (n, n)))"

definition parse_element :: "string \<Rightarrow> string \<Rightarrow> int \<Rightarrow> int \<Rightarrow> string \<Rightarrow> (cron_error, int list) result" where
  "parse_element label raw lo hi part =
    (let piece = trim part
     in if piece = [] then Inl (Empty_element label raw)
        else (let pieces = split_on CHR ''/'' piece; spec = hd pieces; stepRaw = (if 2 \<le> length pieces then Some (pieces ! 1) else None)
              in bindR (parse_step label raw stepRaw) (\<lambda>step.
                 bindR (parse_span label raw lo hi spec) (\<lambda>(start, end).
                 if start < lo \<or> hi < end \<or> end < start then Inl (Out_of_range label raw start end)
                 else Inr (step_values start end step)))))"

fun parse_elements :: "string \<Rightarrow> string \<Rightarrow> int \<Rightarrow> int \<Rightarrow> int set \<Rightarrow> string list \<Rightarrow> (cron_error, int set) result" where
  "parse_elements label raw lo hi out [] = Inr out"
| "parse_elements label raw lo hi out (part # parts) =
    bindR (parse_element label raw lo hi part) (\<lambda>vs. parse_elements label raw lo hi (out \<union> set vs) parts)"

definition parseField :: "string \<Rightarrow> int \<Rightarrow> int \<Rightarrow> string \<Rightarrow> (cron_error, int set \<times> bool) result" where
  "parseField raw lo hi label =
    bindR (parse_elements label raw lo hi {} (split_on CHR '','' raw)) (\<lambda>out. Inr (out, trim raw = ''*''))"

definition parseCron :: "string \<Rightarrow> (cron_error, cron_fields) result" where
  "parseCron expr = (case words (trim expr) of
     [m, h, dm, mon, dw] \<Rightarrow>
       bindR (parseField m 0 59 ''minute'') (\<lambda>(fm, _).
       bindR (parseField h 0 23 ''hour'') (\<lambda>(fh, _).
       bindR (parseField dm 1 31 ''day-of-month'') (\<lambda>(fd, fdAny).
       bindR (parseField mon 1 12 ''month'') (\<lambda>(fmo, _).
       bindR (parseField dw 0 7 ''day-of-week'') (\<lambda>(fdw, fdwAny).
         Inr \<lparr>cr_minute = fm, cr_hour = fh, cr_dom = fd, cr_month = fmo,
              cr_dow = (if 7 \<in> fdw then insert 0 fdw else fdw),
              cr_domUnrestricted = fdAny, cr_dowUnrestricted = fdwAny\<rparr>)))))
   | parts \<Rightarrow> Inl (Field_count (length parts) expr))"

definition matchesCron :: "cron_fields \<Rightarrow> instant \<Rightarrow> bool" where
  "matchesCron f t =
    (if utcMinutes t \<notin> cr_minute f then False
     else if utcHours t \<notin> cr_hour f then False
     else if utcMonth t + 1 \<notin> cr_month f then False
     else (let domHit = (utcDate t \<in> cr_dom f); dowHit = (utcDay t \<in> cr_dow f)
           in if cr_domUnrestricted f \<and> cr_dowUnrestricted f then True
              else if cr_domUnrestricted f then dowHit
              else if cr_dowUnrestricted f then domHit
              else domHit \<or> dowHit))"

definition assertUnambiguousDayFields :: "string \<Rightarrow> string \<Rightarrow> (cron_error, unit) result" where
  "assertUnambiguousDayFields expr label = bindR (parseCron expr) (\<lambda>f.
     if \<not> cr_domUnrestricted f \<and> \<not> cr_dowUnrestricted f then Inl (Both_days_restricted label expr) else Inr ())"

function firings_loop :: "cron_fields \<Rightarrow> (instant \<Rightarrow> bool) \<Rightarrow> instant \<Rightarrow> instant \<Rightarrow> instant list" where
  "firings_loop f gate t to =
    (if to \<le> t then []
     else if matchesCron f t \<and> gate t then t # firings_loop f gate (t + MINUTE_MS) to
     else firings_loop f gate (t + MINUTE_MS) to)"
  by auto
termination by (relation "measure (\<lambda>(_, _, t, to). nat (to - t))") (auto simp: MINUTE_MS_def)

declare firings_loop.simps [simp del]

definition expectedFirings :: "string \<Rightarrow> instant \<Rightarrow> instant \<Rightarrow> (instant \<Rightarrow> bool) option \<Rightarrow> (cron_error, instant list) result" where
  "expectedFirings expr from to gate = bindR (parseCron expr) (\<lambda>f.
     Inr (firings_loop f (case gate of None \<Rightarrow> \<lambda>_. True | Some g \<Rightarrow> g)
       (- ((- from) div MINUTE_MS) * MINUTE_MS) to))"

subsection \<open>Fields stay in their range\<close>

lemma set_steps_from: "set (steps_from v n step) = (\<lambda>k. v + int k * step) ` {..<n}"
proof (induction n arbitrary: v)
  case (Suc n)
  have "{..<Suc n} = insert 0 (Suc ` {..<n})" by (rule lessThan_Suc_eq_insert_0)
  then show ?case by (simp add: Suc.IH image_image algebra_simps)
qed simp

lemma set_step_values:
  assumes "1 \<le> step" "start \<le> end"
  shows "set (step_values start end step) = {v. start \<le> v \<and> v \<le> end \<and> step dvd v - start}"
proof (rule set_eqI, rule iffI)
  fix v
  assume "v \<in> set (step_values start end step)"
  then have "v \<in> (\<lambda>k. start + int k * step) ` {..<nat ((end - start) div step) + 1}"
    using assms(2) by (simp add: step_values_def set_steps_from del: steps_from.simps)
  then obtain k where k: "v = start + int k * step" "k < nat ((end - start) div step) + 1" by blast
  have "0 \<le> (end - start) div step" using assms by (simp add: pos_imp_zdiv_nonneg_iff)
  then have "int k \<le> (end - start) div step" using k(2) by linarith
  then have "int k * step \<le> (end - start) div step * step" using assms by (intro mult_right_mono) simp_all
  also have "\<dots> \<le> end - start" using assms pos_mod_sign[of step "end - start"] div_mult_mod_eq[of "end - start" step] by linarith
  finally show "v \<in> {v. start \<le> v \<and> v \<le> end \<and> step dvd v - start}" using k(1) assms by simp
next
  fix v
  assume v: "v \<in> {v. start \<le> v \<and> v \<le> end \<and> step dvd v - start}"
  define k where "k = nat ((v - start) div step)"
  have "int k * step = v - start" using v assms by (simp add: k_def pos_imp_zdiv_nonneg_iff)
  moreover have "(v - start) div step \<le> (end - start) div step" using v assms by (intro zdiv_mono1) simp_all
  then have "k < nat ((end - start) div step) + 1" using assms by (simp add: k_def nat_mono less_Suc_eq_le)
  ultimately have "v \<in> (\<lambda>k. start + int k * step) ` {..<nat ((end - start) div step) + 1}"
    by (intro image_eqI[of _ _ k]) simp_all
  then show "v \<in> set (step_values start end step)"
    using assms(2) by (simp add: step_values_def set_steps_from del: steps_from.simps)
qed

lemma parse_step_pos: "parse_step label raw s = Inr n \<Longrightarrow> 1 \<le> n"
  by (auto simp: parse_step_def split: option.splits if_splits)

lemma parse_element_range:
  assumes "parse_element label raw lo hi part = Inr vs"
  shows "set vs \<noteq> {} \<and> set vs \<subseteq> {lo..hi}"
proof -
  obtain n a b raw' s where v0: "parse_step label raw' s = Inr n" and v1: "lo \<le> a" "b \<le> hi" "a \<le> b" "vs = step_values a b n"
    using assms unfolding parse_element_def
    by (simp add: Let_def bindR_Inr_iff split: if_splits) (metis not_less)+
  note v = parse_step_pos[OF v0] v1
  then have "a \<in> set vs" by (simp add: set_step_values)
  then show ?thesis using v by (auto simp: set_step_values)
qed

lemma parse_elements_range:
  "parse_elements label raw lo hi out parts = Inr s \<Longrightarrow> out \<subseteq> {lo..hi} \<Longrightarrow>
    s \<subseteq> {lo..hi} \<and> out \<subseteq> s \<and> (parts \<noteq> [] \<longrightarrow> s \<noteq> {})"
proof (induction parts arbitrary: out)
  case (Cons part parts)
  obtain vs where vs: "parse_element label raw lo hi part = Inr vs" "parse_elements label raw lo hi (out \<union> set vs) parts = Inr s"
    using Cons.prems(1) by (auto simp: bindR_Inr_iff)
  then show ?case using Cons.IH[OF vs(2)] Cons.prems(2) parse_element_range[OF vs(1)] by auto
qed simp

lemma split_on_nonempty [simp]: "split_on c s \<noteq> []"
  by (induction s) (auto split: list.splits)

lemma split_on_none: "c \<notin> set s \<Longrightarrow> split_on c s = [s]"
  by (induction s) auto

lemma trim_set: "set s \<subseteq> set (trim s) \<union> {c. ws_char c}"
proof -
  have "set xs \<subseteq> set (dropWhile ws_char xs) \<union> {c. ws_char c}" for xs
    using takeWhile_dropWhile_id[of ws_char xs] set_takeWhileD[of _ ws_char xs] by (metis (mono_tags) Un_iff mem_Collect_eq set_append subsetI)
  from this[of s] this[of "rev (dropWhile ws_char s)"] show ?thesis unfolding trim_def by auto
qed

lemma parseField_range:
  assumes "parseField raw lo hi label = Inr (s, any)" "lo \<le> hi"
  shows "s \<noteq> {} \<and> s \<subseteq> {lo..hi} \<and> (any \<longrightarrow> s = {lo..hi})"
proof -
  have p: "parse_elements label raw lo hi {} (split_on CHR '','' raw) = Inr s" "any = (trim raw = ''*'')"
    using assms(1) by (auto simp: parseField_def bindR_Inr_iff)
  have "s = {lo..hi}" if "trim raw = ''*''"
  proof -
    have "set raw \<subseteq> {CHR ''*''} \<union> {c. ws_char c}" using trim_set[of raw] that by simp
    then have "CHR '','' \<notin> set raw" by (auto simp: ws_char_def)
    then have "parse_elements label raw lo hi {} [raw] = Inr s" using p(1) by (simp add: split_on_none)
    then have "s = set (step_values lo hi 1)"
      using that assms(2) by (auto simp: parse_element_def parse_step_def parse_span_def split_on_none)
    then show ?thesis using assms(2) by (auto simp: set_step_values)
  qed
  then show ?thesis using parse_elements_range[OF p(1)] p(2) by simp
qed

lemma parseCron_fields:
  assumes "parseCron expr = Inr f"
  shows "\<exists>m h dm mon dw dow. parseField m 0 59 ''minute'' = Inr (cr_minute f, trim m = ''*'') \<and>
    parseField h 0 23 ''hour'' = Inr (cr_hour f, trim h = ''*'') \<and>
    parseField dm 1 31 ''day-of-month'' = Inr (cr_dom f, cr_domUnrestricted f) \<and>
    parseField mon 1 12 ''month'' = Inr (cr_month f, trim mon = ''*'') \<and>
    parseField dw 0 7 ''day-of-week'' = Inr (dow, cr_dowUnrestricted f) \<and>
    cr_dow f = (if 7 \<in> dow then insert 0 dow else dow)"
  using assms unfolding parseCron_def
  by (auto simp: bindR_Inr_iff parseField_def split: list.splits) blast+

definition fields_ok :: "cron_fields \<Rightarrow> bool" where
  "fields_ok f \<longleftrightarrow> cr_minute f \<noteq> {} \<and> cr_minute f \<subseteq> {0..59} \<and> cr_hour f \<noteq> {} \<and> cr_hour f \<subseteq> {0..23} \<and>
    cr_dom f \<noteq> {} \<and> cr_dom f \<subseteq> {1..31} \<and> cr_month f \<noteq> {} \<and> cr_month f \<subseteq> {1..12} \<and>
    cr_dow f \<noteq> {} \<and> cr_dow f \<subseteq> {0..7} \<and> (7 \<in> cr_dow f \<longrightarrow> 0 \<in> cr_dow f) \<and>
    (cr_domUnrestricted f \<longrightarrow> cr_dom f = {1..31}) \<and> (cr_dowUnrestricted f \<longrightarrow> cr_dow f = {0..7})"

lemma cron_typed:
  assumes "parseCron expr = Inr f"
  shows "fields_ok f"
proof -
  obtain m h dm mon dw dow where p: "parseField m 0 59 ''minute'' = Inr (cr_minute f, trim m = ''*'')"
    "parseField h 0 23 ''hour'' = Inr (cr_hour f, trim h = ''*'')"
    "parseField dm 1 31 ''day-of-month'' = Inr (cr_dom f, cr_domUnrestricted f)"
    "parseField mon 1 12 ''month'' = Inr (cr_month f, trim mon = ''*'')"
    "parseField dw 0 7 ''day-of-week'' = Inr (dow, cr_dowUnrestricted f)"
    "cr_dow f = (if 7 \<in> dow then insert 0 dow else dow)"
    using parseCron_fields[OF assms] by blast
  show ?thesis
    using parseField_range[OF p(1)] parseField_range[OF p(2)] parseField_range[OF p(3)] parseField_range[OF p(4)]
      parseField_range[OF p(5)] p(6) unfolding fields_ok_def by auto
qed

subsection \<open>Matching and firings\<close>

lemma unambiguous_is_conjunction:
  assumes "parseCron expr = Inr f" "assertUnambiguousDayFields expr label = Inr ()"
  shows "matchesCron f t \<longleftrightarrow> utcMinutes t \<in> cr_minute f \<and> utcHours t \<in> cr_hour f \<and> utcDate t \<in> cr_dom f \<and>
    utcMonth t + 1 \<in> cr_month f \<and> utcDay t \<in> cr_dow f"
proof -
  have any: "cr_domUnrestricted f \<or> cr_dowUnrestricted f" using assms by (simp add: assertUnambiguousDayFields_def split: if_splits)
  have "utcDate t \<in> {1..31}" "utcDay t \<in> {0..7}" using utc_ranges[of t] by simp_all
  then show ?thesis using any cron_typed[OF assms(1)] unfolding fields_ok_def by (cases "cr_domUnrestricted f"; cases "cr_dowUnrestricted f") (simp_all add: matchesCron_def Let_def)
qed

lemma set_firings_loop:
  "t0 mod MINUTE_MS = 0 \<Longrightarrow>
    sorted_wrt (<) (firings_loop f g t0 to) \<and>
    set (firings_loop f g t0 to) = {t. t0 \<le> t \<and> t < to \<and> t mod MINUTE_MS = 0 \<and> matchesCron f t \<and> g t}"
proof (induction f g t0 to rule: firings_loop.induct)
  case (1 f g t to)
  show ?case
  proof (cases "to \<le> t")
    case True
    then have "firings_loop f g t to = []" by (subst firings_loop.simps) simp
    then show ?thesis using True by auto
  next
    case False
    let ?rest = "firings_loop f g (t + MINUTE_MS) to"
    have al: "(t + MINUTE_MS) mod MINUTE_MS = 0" using 1(3) by simp
    have ih: "sorted_wrt (<) ?rest \<and> set ?rest = {u. t + MINUTE_MS \<le> u \<and> u < to \<and> u mod MINUTE_MS = 0 \<and> matchesCron f u \<and> g u}"
    proof (cases "matchesCron f t \<and> g t")
      case True
      show ?thesis by (rule 1(1)[OF False True al])
    next
      case no: False
      show ?thesis by (rule 1(2)[OF False no al])
    qed
    have gap: "u = t \<or> t + MINUTE_MS \<le> u" if "t \<le> u" "u mod MINUTE_MS = 0" for u
    proof -
      have d: "MINUTE_MS dvd u - t" using that(2) 1(3) by (intro dvd_diff mod_0_imp_dvd)
      show ?thesis
      proof (cases "u = t")
        case False
        then have "MINUTE_MS \<le> u - t" using d that(1) by (intro zdvd_imp_le) simp_all
        then show ?thesis by simp
      qed simp
    qed
    have split: "{u. t \<le> u \<and> u < to \<and> u mod MINUTE_MS = 0 \<and> matchesCron f u \<and> g u} =
        (if matchesCron f t \<and> g t then {t} else {}) \<union>
        {u. t + MINUTE_MS \<le> u \<and> u < to \<and> u mod MINUTE_MS = 0 \<and> matchesCron f u \<and> g u}"
    proof (rule set_eqI)
      fix u
      have "0 < MINUTE_MS" by (simp add: MINUTE_MS_def)
      then show "u \<in> {u. t \<le> u \<and> u < to \<and> u mod MINUTE_MS = 0 \<and> matchesCron f u \<and> g u} \<longleftrightarrow>
          u \<in> (if matchesCron f t \<and> g t then {t} else {}) \<union>
            {u. t + MINUTE_MS \<le> u \<and> u < to \<and> u mod MINUTE_MS = 0 \<and> matchesCron f u \<and> g u}"
        using gap[of u] False 1(3) by auto
    qed
    show ?thesis
    proof (cases "matchesCron f t \<and> g t")
      case True
      then have "firings_loop f g t to = t # ?rest" using False by (subst firings_loop.simps) simp
      then show ?thesis using ih True unfolding split by (auto simp: MINUTE_MS_def)
    next
      case no: False
      then have "firings_loop f g t to = ?rest" using False by (subst firings_loop.simps) auto
      then show ?thesis using ih no unfolding split by auto
    qed
  qed
qed

lemma firings_minutes:
  assumes "expectedFirings expr from to gate = Inr ts"
  shows "sorted_wrt (<) ts \<and> (\<exists>f. parseCron expr = Inr f \<and>
    set ts = {t. from \<le> t \<and> t < to \<and> t mod 60000 = 0 \<and> matchesCron f t \<and> (case gate of None \<Rightarrow> True | Some g \<Rightarrow> g t)})"
proof -
  define t0 where "t0 = - ((- from) div MINUTE_MS) * MINUTE_MS"
  have al: "t0 mod MINUTE_MS = 0" by (simp add: t0_def)
  have "t0 \<le> t \<longleftrightarrow> from \<le> t" if "t mod MINUTE_MS = 0" for t
  proof -
    have "MINUTE_MS dvd t" using that by (rule mod_0_imp_dvd)
    then obtain k where k: "t = k * MINUTE_MS" by (metis dvdE mult.commute)
    define m where "m = - from"
    define q where "q = m div 60000"
    have q: "q * 60000 \<le> m" "m < (q + 1) * 60000"
      unfolding q_def using div_mult_mod_eq[of m 60000] pos_mod_bound[of 60000 m] by (linarith, simp add: algebra_simps)
    have "t0 = - q * 60000" "t = k * 60000" by (simp_all only: k t0_def q_def m_def MINUTE_MS_def)
    note eqs = this q m_def
    show ?thesis
    proof
      assume "t0 \<le> t"
      then show "from \<le> t" using eqs by linarith
    next
      assume "from \<le> t"
      then have "- k * 60000 < (q + 1) * 60000" using eqs by linarith
      then have "- k < q + 1" by (rule mult_right_less_imp_less) simp
      then show "t0 \<le> t" using eqs by linarith
    qed
  qed
  then show ?thesis
    using assms set_firings_loop[OF al] unfolding expectedFirings_def t0_def[symmetric]
    by (auto simp: bindR_Inr_iff MINUTE_MS_def split: option.splits)
qed

text \<open>C31. The expected firings of an unambiguous cron expression over a window are strictly
  ascending and are exactly the whole minutes from the start (inclusive) to the end (exclusive)
  whose minute, hour, day, month and weekday in UTC are in the five parsed fields and that pass the
  gate: none is skipped by rounding the start up to a minute, none is reported twice.\<close>

theorem firings_exact:
  assumes "expectedFirings expr from to gate = Inr ts" "assertUnambiguousDayFields expr label = Inr ()"
  shows "sorted_wrt (<) ts \<and> (\<exists>f. parseCron expr = Inr f \<and>
    set ts = {t. from \<le> t \<and> t < to \<and> t mod 60000 = 0 \<and> utcMinutes t \<in> cr_minute f \<and> utcHours t \<in> cr_hour f \<and>
      utcDate t \<in> cr_dom f \<and> utcMonth t + 1 \<in> cr_month f \<and> utcDay t \<in> cr_dow f \<and>
      (case gate of None \<Rightarrow> True | Some g \<Rightarrow> g t)})"
proof -
  obtain f where f: "sorted_wrt (<) ts" "parseCron expr = Inr f"
    "set ts = {t. from \<le> t \<and> t < to \<and> t mod 60000 = 0 \<and> matchesCron f t \<and> (case gate of None \<Rightarrow> True | Some g \<Rightarrow> g t)}"
    using firings_minutes[OF assms(1)] by blast
  then show ?thesis using unambiguous_is_conjunction[OF f(2) assms(2)] by simp
qed

subsection \<open>A weekly schedule fires\<close>

lemma utc_of_parts:
  fixes k :: int
  assumes "0 \<le> h" "h \<le> 23" "0 \<le> m" "m \<le> 59"
  defines "t \<equiv> k * 86400000 + h * 3600000 + m * 60000"
  shows "day_of t = k \<and> utcHours t = h \<and> utcMinutes t = m \<and> t mod 60000 = 0"
proof -
  define r where "r = h * 3600000 + m * 60000"
  have r: "0 \<le> r" "r < 86400000" "0 \<le> m * 60000" "m * 60000 < 3600000" using assms(1-4) by (auto simp: r_def)
  have t: "t = r + k * 86400000" by (simp add: t_def r_def)
  have d: "day_of t = k" "t mod 86400000 = r" using r by (simp_all add: t day_of_def DAY_MS_def)
  have "r = m * 60000 + h * 3600000" "t = m * 60000 + (h + k * 24) * 3600000" by (simp_all add: t r_def)
  moreover have "(m * 60000 + h * 3600000) div 3600000 = h" using r(3,4) by simp
  moreover have "(m * 60000 + (h + k * 24) * 3600000) mod 3600000 = m * 60000"
    by (rule trans[OF mod_mult_self1 mod_pos_pos_trivial]) (rule r(3,4))+
  ultimately have "r div 3600000 = h" "t mod 3600000 = m * 60000" by metis+
  moreover have "t mod 60000 = 0" by (simp add: t_def)
  ultimately show ?thesis using d by (simp add: utcHours_def utcMinutes_def DAY_MS_def MINUTE_MS_def)
qed

lemma weekday_ahead:
  assumes "0 \<le> d" "d \<le> 6" "0 \<le> off" "off < 86400000"
  shows "\<exists>k :: int. (k + 4) mod 7 = d \<and> from \<le> k * 86400000 + off \<and> k * 86400000 + off < from + 604800000"
proof -
  define a where "a = from div 86400000"
  define k where "k = a + (d - a - 4) mod 7"
  have a: "a * 86400000 \<le> from" "from < a * 86400000 + 86400000" unfolding a_def by linarith+
  have k: "a \<le> k" "k \<le> a + 6" unfolding k_def using pos_mod_bound[of 7 "d - a - 4"] by simp_all
  define q where "q = (d - a - 4) div 7"
  have e1: "k + 4 = d + (- q) * 7" unfolding k_def q_def using mult_div_mod_eq[of 7 "d - a - 4"] by linarith
  then have e: "k + 4 = d + (- q) * 7" "k + 7 + 4 = d + (1 - q) * 7" by (simp_all add: algebra_simps)
  have "(d + i * 7) mod 7 = d" for i using trans[OF mod_mult_self1 mod_pos_pos_trivial] assms(1,2) by simp
  then have m: "(k + 4) mod 7 = d" "(k + 7 + 4) mod 7 = d" unfolding e by blast+
  show ?thesis
  proof (cases "from \<le> k * 86400000 + off")
    case True
    have "k * 86400000 + off < from + 604800000" using k a assms(4) by linarith
    then show ?thesis using True m(1) by blast
  next
    case False
    have "(k + 7) * 86400000 = k * 86400000 + 604800000" by simp
    moreover have "a * 86400000 \<le> k * 86400000" using k(1) by simp
    ultimately have "from \<le> (k + 7) * 86400000 + off" "(k + 7) * 86400000 + off < from + 604800000"
      using False a assms(3) by simp_all
    then show ?thesis using m(2) by blast
  qed
qed

text \<open>C32. Every schedule that the parser accepts without restriction on the day of the month
  and on the month fires at least once in every window of seven days, whenever the window starts.\<close>

theorem weekly_schedule_fires:
  assumes "parseCron expr = Inr f" "cr_domUnrestricted f" "cr_month f = {1..12}"
  shows "\<exists>t ts. expectedFirings expr from (from + 604800000) None = Inr ts \<and> t \<in> set ts"
proof -
  have ok: "fields_ok f" by (rule cron_typed[OF assms(1)])
  obtain h m where hm: "h \<in> cr_hour f" "m \<in> cr_minute f" "0 \<le> h" "h \<le> 23" "0 \<le> m" "m \<le> 59"
    using ok unfolding fields_ok_def by fastforce
  obtain d0 where d0: "d0 \<in> cr_dow f" "0 \<le> d0" "d0 \<le> 7" using ok unfolding fields_ok_def by fastforce
  define d where "d = (if d0 = 7 then 0 else d0)"
  have d: "d \<in> cr_dow f" "0 \<le> d" "d \<le> 6" using d0 ok unfolding fields_ok_def d_def by auto
  have "0 \<le> h * 3600000 + m * 60000" "h * 3600000 + m * 60000 < 86400000" using hm by linarith+
  from weekday_ahead[OF d(2,3) this] obtain k where k: "(k + 4) mod 7 = d"
    "from \<le> k * 86400000 + (h * 3600000 + m * 60000)" "k * 86400000 + (h * 3600000 + m * 60000) < from + 604800000" by blast
  define t where "t = k * 86400000 + h * 3600000 + m * 60000"
  have p: "day_of t = k" "utcHours t = h" "utcMinutes t = m" "t mod 60000 = 0"
    using utc_of_parts[OF hm(3-6), of k] unfolding t_def by simp_all
  have "utcDay t \<in> cr_dow f" using d(1) k(1) p(1) by (simp add: utcDay_def)
  then have match: "matchesCron f t" using hm p utc_ranges(1,2)[of t] assms(2,3) by (simp add: matchesCron_def Let_def)
  obtain ts where ts: "expectedFirings expr from (from + 604800000) None = Inr ts"
    using assms(1) by (simp add: expectedFirings_def)
  have "t \<in> set ts" using firings_minutes[OF ts] match assms(1) k(2,3) p(4) by (auto simp: t_def add.assoc)
  then show ?thesis using ts by blast
qed

subsection \<open>Printing and reading back\<close>

definition show_num :: "int \<Rightarrow> string" where
  "show_num n = (if n < 10 then [char_of (nat (48 + n))] else [char_of (nat (48 + n div 10)), char_of (nat (48 + n mod 10))])"

fun join_on :: "char \<Rightarrow> string list \<Rightarrow> string" where
  "join_on c [] = []"
| "join_on c [w] = w"
| "join_on c (w # v # ws) = w @ c # join_on c (v # ws)"

definition print_field :: "bool \<Rightarrow> int set \<Rightarrow> string" where
  "print_field any s = (if any then ''*'' else join_on CHR '','' (map show_num (sorted_list_of_set s)))"

definition print_cron :: "cron_fields \<Rightarrow> string" where
  "print_cron f = join_on CHR '' ''
    [print_field False (cr_minute f), print_field False (cr_hour f), print_field (cr_domUnrestricted f) (cr_dom f),
     print_field False (cr_month f), print_field (cr_dowUnrestricted f) (cr_dow f)]"

definition num_word :: "int \<Rightarrow> bool" where
  "num_word n \<longleftrightarrow> jsInteger (show_num n) = Some n \<and> show_num n \<noteq> [] \<and> list_all digit_char (show_num n)"

lemma num_words: "list_all num_word [0..59]"
  by code_simp

lemma num_word_range: "0 \<le> n \<Longrightarrow> n \<le> 59 \<Longrightarrow> num_word n"
  using num_words by (simp add: list_all_iff)

definition plain :: "string \<Rightarrow> bool" where
  "plain w \<longleftrightarrow> w \<noteq> [] \<and> list_all (\<lambda>c. \<not> ws_char c) w"

lemma digit_not_special:
  "digit_char c \<Longrightarrow> \<not> ws_char c \<and> c \<noteq> CHR '','' \<and> c \<noteq> CHR ''/'' \<and> c \<noteq> CHR ''-'' \<and> c \<noteq> CHR ''*''"
  by (auto simp: digit_char_def ws_char_def)

lemma dropWhile_plain: "plain w \<Longrightarrow> dropWhile ws_char (w @ r) = w @ r"
  by (cases w) (simp_all add: plain_def)

lemma plain_rev: "plain w \<Longrightarrow> plain (rev w)"
  by (simp add: plain_def)

lemma trim_between: "plain w \<Longrightarrow> plain v \<Longrightarrow> trim (w @ r @ v) = w @ r @ v"
  using dropWhile_plain[of w "r @ v"] dropWhile_plain[OF plain_rev, of v "rev (w @ r)"] by (simp add: trim_def)

lemma trim_plain: "plain w \<Longrightarrow> trim w = w"
  using dropWhile_plain[of w "[]"] dropWhile_plain[OF plain_rev, of w "[]"] by (simp add: trim_def)

lemma split_on_join:
  "list_all (\<lambda>w. c \<notin> set w) ws \<Longrightarrow> ws \<noteq> [] \<Longrightarrow> split_on c (join_on c ws) = ws"
proof (induction c ws rule: join_on.induct)
  case (3 c w v ws)
  have "split_on c (u @ c # r) = u # split_on c r" if "c \<notin> set u" for u r
    using that by (induction u) auto
  then show ?case using 3 by simp
qed (simp_all add: split_on_none)

lemma words_join:
  "list_all plain ws \<Longrightarrow> ws \<noteq> [] \<Longrightarrow> words (join_on CHR '' '' ws) = ws"
proof (induction "CHR '' ''" ws rule: join_on.induct)
  case (2 w)
  then have "takeWhile (\<lambda>c. \<not> ws_char c) w = w" "dropWhile (\<lambda>c. \<not> ws_char c) w = []"
    by (simp_all add: plain_def list_all_iff)
  then show ?case by (subst words.simps) simp
next
  case (3 w v ws)
  let ?r = "join_on CHR '' '' (v # ws)"
  have sp: "ws_char CHR '' ''" by (simp add: ws_char_def)
  have all: "\<forall>c\<in>set w. \<not> ws_char c" using 3(2) by (simp add: plain_def list_all_iff)
  have "takeWhile (\<lambda>c. \<not> ws_char c) (w @ CHR '' '' # ?r) = w" "dropWhile (\<lambda>c. \<not> ws_char c) (w @ CHR '' '' # ?r) = CHR '' '' # ?r"
    using all sp by (simp_all add: takeWhile_append2 dropWhile_append2)
  moreover have "dropWhile ws_char ?r = ?r"
    using 3(2) dropWhile_plain[of v] dropWhile_plain[of v "[]"] by (cases ws) simp_all
  ultimately have "words (w @ CHR '' '' # ?r) = w # words ?r" using sp by (subst words.simps) (simp add: Let_def)
  then show ?case using 3 by simp
qed simp

lemma join_plain:
  "list_all plain ws \<Longrightarrow> ws \<noteq> [] \<Longrightarrow> \<not> ws_char c \<Longrightarrow> plain (join_on c ws)"
  by (induction c ws rule: join_on.induct) (simp_all add: plain_def)

lemma num_plain: "num_word n \<Longrightarrow> plain (show_num n)"
  by (auto simp: num_word_def plain_def list_all_iff dest: digit_not_special)

lemma parse_element_num:
  assumes "num_word n" "lo \<le> n" "n \<le> hi"
  shows "parse_element label raw lo hi (show_num n) = Inr [n]"
proof -
  have d: "\<forall>c\<in>set (show_num n). digit_char c" using assms(1) by (simp add: num_word_def list_all_iff)
  have "CHR ''/'' \<notin> set (show_num n)" "CHR ''-'' \<notin> set (show_num n)" "show_num n \<noteq> ''*''"
    using d by (auto dest!: bspec digit_not_special)
  then show ?thesis
    using assms trim_plain[OF num_plain[OF assms(1)]]
    by (simp add: parse_element_def split_on_none parse_step_def parse_span_def num_word_def step_values_def Let_def)
qed

lemma parse_elements_nums:
  "list_all (\<lambda>n. num_word n \<and> lo \<le> n \<and> n \<le> hi) ns \<Longrightarrow>
    parse_elements label raw lo hi out (map show_num ns) = Inr (out \<union> set ns)"
  by (induction ns arbitrary: out) (simp_all add: parse_element_num)

lemma print_field_plain:
  assumes "s \<noteq> {}" "s \<subseteq> {0..59}"
  shows "plain (print_field any s)"
proof (cases any)
  case False
  have fin: "finite s" using assms(2) by (rule finite_subset) simp
  have "list_all plain (map show_num (sorted_list_of_set s))"
    using fin assms(2) by (auto simp: list_all_iff intro!: num_plain num_word_range)
  then have "plain (join_on CHR '','' (map show_num (sorted_list_of_set s)))"
    using fin assms(1) by (intro join_plain) (simp_all add: ws_char_def)
  then show ?thesis using False by (simp add: print_field_def)
qed (simp add: print_field_def plain_def ws_char_def)

lemma parse_star: "lo \<le> hi \<Longrightarrow> parseField ''*'' lo hi label = Inr ({lo..hi}, True)"
proof -
  assume le: "lo \<le> hi"
  have t: "trim ''*'' = ''*''" by (rule trim_plain) (simp add: plain_def ws_char_def)
  have "set (step_values lo hi 1) = {lo..hi}" using le by (auto simp: set_step_values)
  then show ?thesis using le t by (simp add: parseField_def parse_element_def parse_step_def parse_span_def Let_def)
qed

lemma parse_print_field:
  assumes "s \<noteq> {}" "s \<subseteq> {lo..hi}" "0 \<le> lo" "hi \<le> 59" "any \<longrightarrow> s = {lo..hi}"
  shows "parseField (print_field any s) lo hi label = Inr (s, any)"
proof (cases any)
  case True
  then show ?thesis using assms parse_star[of lo hi label] by (auto simp: print_field_def)
next
  case False
  let ?ns = "sorted_list_of_set s" and ?p = "print_field any s"
  have fin: "finite s" using assms(2) by (rule finite_subset) simp
  have nums: "\<forall>n\<in>set ?ns. num_word n \<and> lo \<le> n \<and> n \<le> hi" using fin assms by (auto intro!: num_word_range)
  have dig: "\<forall>w\<in>set (map show_num ?ns). \<forall>c\<in>set w. digit_char c"
    using nums by (auto simp: num_word_def list_all_iff)
  have ne: "map show_num ?ns \<noteq> []" using fin assms(1) by simp
  have "list_all (\<lambda>w. CHR '','' \<notin> set w) (map show_num ?ns)"
    using dig unfolding list_all_iff by (auto dest!: bspec digit_not_special)
  then have sp: "split_on CHR '','' ?p = map show_num ?ns" using ne False by (simp add: print_field_def split_on_join)
  have el: "parse_elements label ?p lo hi {} (map show_num ?ns) = Inr s"
    using nums fin by (subst parse_elements_nums) (simp_all add: list_all_iff)
  have "plain ?p" using assms by (intro print_field_plain) auto
  moreover have "?p \<noteq> ''*''"
  proof
    assume star: "?p = ''*''"
    then have "map show_num ?ns = [''*'']" using sp by simp
    then show False using dig digit_not_special[of "CHR ''*''"] by auto
  qed
  ultimately show ?thesis using sp el False by (simp add: parseField_def trim_plain)
qed

text \<open>C33. Printing and parsing cron fields are inverse: for all well-formed fields (non-empty
  sets in range, a full set where unrestricted), the expression that lists each field's values or a
  star parses back to exactly these fields.\<close>

theorem cron_roundtrip:
  assumes "fields_ok f"
  shows "parseCron (print_cron f) = Inr f"
proof -
  let ?ws = "[print_field False (cr_minute f), print_field False (cr_hour f), print_field (cr_domUnrestricted f) (cr_dom f),
     print_field False (cr_month f), print_field (cr_dowUnrestricted f) (cr_dow f)]"
  have pl: "plain (print_field any s)" if "s \<noteq> {}" "s \<subseteq> {lo..hi}" "0 \<le> lo" "hi \<le> 59" for any s and lo hi :: int
    using that by (intro print_field_plain) auto
  have all: "list_all plain ?ws" using assms unfolding fields_ok_def by (simp add: pl[of _ 0 59] pl[of _ 0 23] pl[of _ 1 31] pl[of _ 1 12] pl[of _ 0 7])
  have "trim (print_cron f) = print_cron f"
    using all trim_between[of "?ws ! 0" "?ws ! 4" "'' '' @ ?ws ! 1 @ '' '' @ ?ws ! 2 @ '' '' @ ?ws ! 3 @ '' ''"]
    unfolding print_cron_def by simp
  then have "words (trim (print_cron f)) = ?ws" using all words_join[of ?ws] by (simp add: print_cron_def)
  moreover have "parseField (print_field False (cr_minute f)) 0 59 ''minute'' = Inr (cr_minute f, False)"
    "parseField (print_field False (cr_hour f)) 0 23 ''hour'' = Inr (cr_hour f, False)"
    "parseField (print_field (cr_domUnrestricted f) (cr_dom f)) 1 31 ''day-of-month'' = Inr (cr_dom f, cr_domUnrestricted f)"
    "parseField (print_field False (cr_month f)) 1 12 ''month'' = Inr (cr_month f, False)"
    "parseField (print_field (cr_dowUnrestricted f) (cr_dow f)) 0 7 ''day-of-week'' = Inr (cr_dow f, cr_dowUnrestricted f)"
    using assms unfolding fields_ok_def by (simp_all add: parse_print_field)
  moreover have "(if 7 \<in> cr_dow f then insert 0 (cr_dow f) else cr_dow f) = cr_dow f"
    using assms by (auto simp: fields_ok_def)
  ultimately show ?thesis by (simp add: parseCron_def)
qed

lemma cron_roundtrip_witness:
  "parseCron (print_cron \<lparr>cr_minute = {0, 30}, cr_hour = {4}, cr_dom = {1..31}, cr_month = {1..12}, cr_dow = {1..5},
      cr_domUnrestricted = True, cr_dowUnrestricted = False\<rparr>) =
    Inr \<lparr>cr_minute = {0, 30}, cr_hour = {4}, cr_dom = {1..31}, cr_month = {1..12}, cr_dow = {1..5},
      cr_domUnrestricted = True, cr_dowUnrestricted = False\<rparr>"
  by (rule cron_roundtrip) (auto simp: fields_ok_def)

text \<open>Every expression the parser accepts gives well-formed fields: five non-empty sets
  in the ranges of minute, hour, day of the month, month and weekday, with Sunday as 0 whenever it
  is there as 7, and full day sets where the day fields are marked unrestricted.\<close>

theorem cron_fields_typed:
  assumes "parseCron expr = Inr f"
  shows "fields_ok f"
  by (rule cron_typed[OF assms])

definition weekday_cron :: string where
  "weekday_cron = ''1-2 0 * * 1-5''"

lemma weekday_cron_parses:
  "parseCron weekday_cron = Inr \<lparr>cr_minute = {1, 2}, cr_hour = {0}, cr_dom = {1..31}, cr_month = {1..12}, cr_dow = {1..5},
      cr_domUnrestricted = True, cr_dowUnrestricted = False\<rparr>"
  by code_simp

lemma cron_fields_typed_witness:
  "fields_ok \<lparr>cr_minute = {1, 2}, cr_hour = {0}, cr_dom = {1..31}, cr_month = {1..12}, cr_dow = {1..5},
      cr_domUnrestricted = True, cr_dowUnrestricted = False\<rparr>"
  by (rule cron_fields_typed[OF weekday_cron_parses])

lemma weekday_cron_unambiguous: "assertUnambiguousDayFields weekday_cron ''nightly'' = Inr ()"
  by code_simp

lemma weekday_cron_firings: "expectedFirings weekday_cron 1 180000 None = Inr [60000, 120000]"
  by code_simp

lemma firings_exact_witness:
  "\<exists>f. parseCron weekday_cron = Inr f \<and> {60000, 120000} = {t. 1 \<le> t \<and> t < 180000 \<and> t mod 60000 = 0 \<and>
    utcMinutes t \<in> cr_minute f \<and> utcHours t \<in> cr_hour f \<and> utcDate t \<in> cr_dom f \<and> utcMonth t + 1 \<in> cr_month f \<and>
    utcDay t \<in> cr_dow f}"
  using firings_exact[OF weekday_cron_firings weekday_cron_unambiguous] by simp

lemma weekly_schedule_fires_witness:
  "\<exists>t ts. expectedFirings weekday_cron 1 (1 + 604800000) None = Inr ts \<and> t \<in> set ts"
  by (rule weekly_schedule_fires[OF weekday_cron_parses]) (simp, auto)

end
