(* ===== verification/Spec2Isabelle.thy ===== *)
theory Spec2Isabelle
  imports Numbers Text Calendar Lenses LabelMap Metrics Banking Dispatch MetricScoring Pillars
    Composite Market PriceRange OwnershipFlow Guardrail GuardrailGate GuardrailStore
    OwnershipPrimary FilingRules FilingPass OwnershipV2 Fifo Nav Xirr PhsEntity PhsEngine
    JobTypes Jobs JobWorker Cron
begin

text \<open>
  This development models the scoring, portfolio and job core of the Vytal backend, a TypeScript
  server that scores listed companies, keeps portfolios and runs its ingestion and scoring work as
  queued jobs.  Paths below are relative to \<open>src/src\<close>.

  \<^bold>\<open>The program.\<close>  A scoring pass computes metrics per company, scores each metric with three
  lenses against bars, peers and own history (\<open>scoring/lenses\<close>, \<open>scoring/metric-scoring\<close>), assembles the
  Foundation and Momentum pillars from metric scores (\<open>scoring/pillars\<close>), the Market pillar from daily
  closes (\<open>scoring/market\<close>, \<open>scoring/price\<close>) and the Ownership pillar from quarterly shareholding filings
  (\<open>scoring/ownership\<close>), screens the members with the guardrail's signatures before the peers are
  compared (\<open>scoring/guardrail\<close>), and combines the four pillars into a composite with a label band
  (\<open>scoring/composite\<close>, \<open>scoring/v2\<close>).  A portfolio is a ledger replayed into FIFO lots
  (\<open>portfolio/fifo-engine.ts\<close>) and rated from the composites of its holdings (\<open>portfolio/phs\<close>).  When a
  filing lands, a pass evaluates the 22 finding rules that read filings only and keeps one row per stock, rule
  and period, each marked as newly standing, continuing or resolved (\<open>scoring/findings\<close>, \<open>filing\<close>).  All heavy
  work runs as rows of one job table, claimed by a polling worker that can be shut down or die, and
  recovered by a reaper (\<open>jobs\<close>).

  \<^bold>\<open>Theories.\<close>
  \<^item> \<open>Prelude\<close>, \<open>Numbers\<close>, \<open>Calendar\<close>, \<open>Text\<close>: shared lists, results and simulations; JavaScript's numbers; its
    UTC dates; its string functions.  They model the language, not the program.
  \<^item> \<open>Metrics\<close>, \<open>Banking\<close> (\<open>scoring/metrics\<close>: line items to metric values), \<open>Dispatch\<close>
    (\<open>metric-scoring/live-dispatch.ts\<close>: which function computes which key).
  \<^item> \<open>Guardrail\<close> (\<open>scoring/guardrail/signatures\<close>), \<open>GuardrailGate\<close> (outcomes, reviews, gate, behaviour filter
    and the scorer's predicates), \<open>GuardrailStore\<close> (its tables).
  \<^item> \<open>Lenses\<close> (\<open>scoring/lenses\<close>), \<open>LabelMap\<close> (\<open>bars-loader/label-map.ts\<close>, \<open>unit-guard.ts\<close>), \<open>MetricScoring\<close>
    (\<open>scoring/metric-scoring\<close>), \<open>Pillars\<close> (\<open>scoring/pillars\<close>), \<open>Composite\<close> (\<open>scoring/composite\<close>,
    \<open>scoring/v2/spec.ts\<close>).
  \<^item> \<open>Market\<close> (\<open>scoring/market\<close>), \<open>PriceRange\<close> (\<open>scoring/price/range.ts\<close> and the price probe of
    \<open>composite/score-pass.ts\<close>).
  \<^item> \<open>OwnershipFlow\<close>, \<open>OwnershipPrimary\<close>: the first Ownership score; \<open>OwnershipV2\<close>: the pillar that the
    composite uses (\<open>scoring/ownership\<close>).
  \<^item> \<open>FilingRules\<close> (the filing rules and \<open>runFilingRules\<close> of \<open>scoring/findings\<close>), \<open>FilingPass\<close> (\<open>filing\<close>: periods,
    registry, the pass, its table, the backfill and the readers).
  \<^item> \<open>Nav\<close> (\<open>portfolio/nav\<close>: daily value and time-weighted return), \<open>Xirr\<close> (\<open>portfolio/xirr.ts\<close>), \<open>Cron\<close>
    (\<open>lib/cron-expr.ts\<close>: the schedules that job health is checked against).
  \<^item> \<open>Fifo\<close> (\<open>portfolio/fifo-engine.ts\<close>), \<open>PhsEntity\<close> and \<open>PhsEngine\<close> (\<open>portfolio/phs\<close>).
  \<^item> \<open>JobTypes\<close> (\<open>jobs/types.ts\<close>, \<open>jobs/dispatcher.ts\<close>), \<open>Jobs\<close> (\<open>enqueue.ts\<close>, \<open>context.ts\<close>, \<open>reaper.ts\<close>) and
    \<open>JobWorker\<close> (\<open>worker.ts\<close>, and the system of all writers of the table).

  \<^bold>\<open>Conventions.\<close>  Records follow the interfaces of the code and functions keep their names; \<open>null\<close> and
  \<open>undefined\<close> are \<open>None\<close>, a thrown error is the left of a sum, a \<open>Map\<close> is an association list in insertion
  order.  Numbers are rationals; every arithmetic operation of the code goes through a rounding \<open>R\<close>, so
  that \<open>f64\<close> gives binary64 (round to nearest even with unbounded exponent: no infinities, no
  subnormals, no \<open>NaN\<close>) and the identity gives exact arithmetic.  Both interpret the locale \<open>rounding\<close>, and
  client lemmas are proved once inside it.  \<open>Prisma.Decimal\<close>, \<open>Math.log\<close>, \<open>Math.pow\<close> and \<open>localeCompare\<close> are
  parameters.
  Loops are structural recursions or folds over the list the code iterates; the cap loop of the pillar
  weights has the code's own bound of one round per metric, which is proved to suffice; Newton's method and the bisection of the
  money-weighted return have the code's 100 and 200 rounds, and the 200 are proved to be enough for the
  bracket, which never grows past 2e7; the minutes of a cron window are a recursion that ends with the window.
  Texts of notes
  and reasons become constructors with the numbers they mention, or are left out where a theory says so.

  \<^bold>\<open>What the lemmas show.\<close>  Scores, subtotals, composites and portfolio ratings stay in range in machine
  arithmetic; they are monotone where the program promises it; weights are exact in exact arithmetic; label
  bands partition the scale and displayed numbers agree with them; exclusions do not interfere; entry order
  does not matter where the code sorts.  The FIFO register refines the plain position (a \<open>simulation\<close>,
  interpreted in \<open>Fifo\<close>), the daily value walk is the evaluation of each day on its own, and the
  time-weighted return does not see deposits.  Cron expressions parse to well-formed fields and back, and the
  expected firings are exactly the matching minutes.  Live metric values are well-typed against the registry
  and the unit guard, rolling forms agree with the annual ones at the end of a fiscal year, and two theorems show
  where the metrics go wrong (a \<open>NaN\<close> growth rate and a bank history that looks ahead).  The guardrail's directives are traced to the
  signatures that produced them and today move no score; its writes keep the keys of their tables and are idempotent.
  For the jobs, \<open>sys_step\<close> interleaves every database statement of the worker with
  cancels, reaper passes, crashes and restarts; its invariant bounds attempts, runs and reclaims, finished
  rows stay finished under every guarded write, and three runs exhibit what the unguarded writes lose.
  A negative filing finding and its constructive mirror exclude each other; the registry agrees with what the
  rules emit; the filing pass is idempotent where period ends are dates, and a theorem shows that a rolling
  window is not; a backfill of some stocks leaves the rows of the others alone, and the readers return the
  latest row of each rule.

  \<^bold>\<open>Not modelled.\<close>  Database reads and writes outside the job table, HTTP handlers, fetching and parsing of
  exchange files, prompts and texts for the language model, brokers, mail, and maintenance scripts: they
  are input and output around the modelled core.  The findings that read scores and their
  history (families B, C, D, F, G, I, S, T) compare stored snapshots and are left out, and so are the read
  services, which project stored rows for the client.
\<close>

end
